(* ===== verification/Prelude.thy ===== *)
theory Prelude
  imports
    Main
    "HOL-Library.Char_ord"
    "HOL-Library.List_Lexorder"
    "HOL-Library.Sublist"
    "HOL-Library.Multiset"
begin

section \<open>Prelude: strings, first matches, sorting contracts\<close>

text \<open>
  What the component theories share: the reading of the C++ string types as HOL strings,
  the standard library's string searches, the first-match search of
  \<^verbatim>\<open>std::ranges::find_if\<close>, \<^verbatim>\<open>std::ranges::unique_copy\<close>, the padding of
  \<^verbatim>\<open>fmt\<close> fields and decimal printing, and the contract of \<^verbatim>\<open>std::ranges::sort\<close>
  as a locale.  A \<^verbatim>\<open>std::string\<close> or \<^verbatim>\<open>std::string_view\<close> is a \<open>string\<close>, a list of bytes;
  its order is the lexicographic order of unsigned bytes, which is what
  \<open>List_Lexorder\<close> and \<open>Char_ord\<close> give.
\<close>

named_theorems str_simps \<open>evaluation rules of the string searches\<close>

subsection \<open>Characters\<close>

abbreviation newline_char :: char where "newline_char \<equiv> CHR 0x0A"
abbreviation tab_char :: char where "tab_char \<equiv> CHR 0x09"
abbreviation return_char :: char where "return_char \<equiv> CHR 0x0D"
abbreviation space_char :: char where "space_char \<equiv> CHR 0x20"

text \<open>A backslash cannot be written inside a string literal, and a single quote not next to its
  ends, so they are spliced in by name.\<close>

abbreviation backslash :: string where "backslash \<equiv> [CHR 0x5C]"
abbreviation squote :: string where "squote \<equiv> [CHR 0x27]"

subsection \<open>Searching in strings\<close>

definition starts_with :: "string \<Rightarrow> string \<Rightarrow> bool" where
  "starts_with s p \<longleftrightarrow> prefix p s"

definition ends_with :: "string \<Rightarrow> string \<Rightarrow> bool" where
  "ends_with s p \<longleftrightarrow> suffix p s"

text \<open>\<^verbatim>\<open>std::string::find\<close>: the least position where the needle starts, \<open>None\<close> for npos.\<close>

fun find_sub :: "string \<Rightarrow> string \<Rightarrow> nat option" where
  "find_sub needle [] = (if needle = [] then Some 0 else None)"
| "find_sub needle (c # cs) =
     (if prefix needle (c # cs) then Some 0 else map_option Suc (find_sub needle cs))"

text \<open>\<^verbatim>\<open>find_first_not_of\<close> and \<^verbatim>\<open>find_last_not_of\<close> for a set of characters.\<close>

fun find_first_not_of :: "string \<Rightarrow> string \<Rightarrow> nat option" where
  "find_first_not_of set_of [] = None"
| "find_first_not_of set_of (c # cs) =
     (if c \<in> set set_of then map_option Suc (find_first_not_of set_of cs) else Some 0)"

fun find_last_not_of :: "string \<Rightarrow> string \<Rightarrow> nat option" where
  "find_last_not_of set_of [] = None"
| "find_last_not_of set_of (c # cs) =
     (case find_last_not_of set_of cs of
        Some i \<Rightarrow> Some (Suc i)
      | None \<Rightarrow> (if c \<in> set set_of then None else Some 0))"

text \<open>\<^verbatim>\<open>find_last_of\<close> for one character.\<close>

fun find_last_of :: "char \<Rightarrow> string \<Rightarrow> nat option" where
  "find_last_of d [] = None"
| "find_last_of d (c # cs) =
     (case find_last_of d cs of
        Some i \<Rightarrow> Some (Suc i)
      | None \<Rightarrow> (if c = d then Some 0 else None))"

lemma starts_with_simps [simp, str_simps]:
  "starts_with s []"
  "\<not> starts_with [] (p # ps)"
  "starts_with (c # cs) (p # ps) \<longleftrightarrow> p = c \<and> starts_with cs ps"
  by (simp_all add: starts_with_def)

lemma starts_with_append [simp]: "starts_with (p @ s) p"
  by (simp add: starts_with_def)

lemma starts_with_iff: "starts_with s p \<longleftrightarrow> (\<exists>r. s = p @ r)"
  by (auto simp: starts_with_def prefix_def)

lemma find_sub_Some_iff:
  "find_sub needle s = Some i \<longleftrightarrow>
     i \<le> length s \<and> prefix needle (drop i s) \<and> (\<forall>j<i. \<not> prefix needle (drop j s))"
proof (induction s arbitrary: i)
  case Nil
  show ?case by (auto simp: prefix_Nil)
next
  case (Cons c cs)
  show ?case
  proof (cases i)
    case 0
    then show ?thesis by (auto split: option.splits)
  next
    case (Suc k)
    have "(\<forall>j<Suc k. \<not> prefix needle (drop j (c # cs))) \<longleftrightarrow>
        \<not> prefix needle (c # cs) \<and> (\<forall>j<k. \<not> prefix needle (drop j cs))"
      by (metis drop0 drop_Suc_Cons less_Suc_eq_0_disj)
    with Suc Cons.IH [of k] show ?thesis by auto
  qed
qed

lemma find_sub_None_iff: "find_sub needle s = None \<longleftrightarrow> \<not> sublist needle s"
  by (induction s) (auto simp: sublist_Cons_right)

lemma find_sub_Nil [simp]: "find_sub [] s = Some 0"
  by (cases s) auto

lemma find_last_not_of_None: "find_last_not_of ws s = None \<longleftrightarrow> set s \<subseteq> set ws"
  by (induction s) (auto split: option.splits if_splits)

lemma find_first_not_of_None: "find_first_not_of ws s = None \<longleftrightarrow> set s \<subseteq> set ws"
  by (induction s) auto

subsection \<open>Replacing fields of a format string\<close>

text \<open>
  A \<^verbatim>\<open>fmt\<close> field \<^verbatim>\<open>{:<n}\<close> (and \<^verbatim>\<open>{:n}\<close> for strings) pads with spaces on the right, up to
  \<open>n\<close> characters; longer values are printed whole.
\<close>

definition pad_right :: "nat \<Rightarrow> string \<Rightarrow> string" where
  "pad_right n s = s @ replicate (n - length s) space_char"

text \<open>Decimal printing of integers, as \<^verbatim>\<open>std::to_string\<close> and \<^verbatim>\<open>fmt\<close> do it.\<close>

definition digit_char :: "nat \<Rightarrow> char" where
  "digit_char d = ''0123456789'' ! d"

fun show_nat :: "nat \<Rightarrow> string" where
  "show_nat n = (if n < 10 then [digit_char n] else show_nat (n div 10) @ [digit_char (n mod 10)])"

declare show_nat.simps [simp del]

definition show_int :: "int \<Rightarrow> string" where
  "show_int i = (if i < 0 then CHR ''-'' # show_nat (nat (- i)) else show_nat (nat i))"

lemma show_nat_digit: "n < 10 \<Longrightarrow> show_nat n = [digit_char n]"
  by (simp add: show_nat.simps)

lemma of_char_digit: "d < 10 \<Longrightarrow> (of_char (digit_char d) :: nat) = 48 + d"
  by (auto simp: digit_char_def numeral_eq_Suc less_Suc_eq)

lemma show_nat_chars: "c \<in> set (show_nat n) \<Longrightarrow> 48 \<le> (of_char c :: nat) \<and> of_char c < (58 :: nat)"
proof (induction n rule: show_nat.induct)
  case (1 n)
  show ?case
  proof (cases "n < 10")
    case True
    with "1.prems" show ?thesis by (simp add: show_nat_digit of_char_digit)
  next
    case False
    then have "show_nat n = show_nat (n div 10) @ [digit_char (n mod 10)]"
      by (subst show_nat.simps) simp
    with "1.prems" False "1.IH" show ?thesis by (auto simp: of_char_digit)
  qed
qed

lemma show_nat_not_Nil [simp]: "show_nat n \<noteq> []"
  by (subst show_nat.simps) simp

lemma show_int_eq_0_iff: "show_int i = ''0'' \<longleftrightarrow> i = 0"
proof
  assume h: "show_int i = ''0''"
  have two: "\<not> n < 10 \<Longrightarrow> length (show_nat n) \<ge> 2" for n
    by (subst show_nat.simps) (simp add: Suc_le_eq)
  have "\<not> i < 0" using h by (auto simp: show_int_def)
  then have eq: "show_nat (nat i) = ''0''" using h by (simp add: show_int_def)
  then have small: "nat i < 10" using two [of "nat i"] by fastforce
  with eq have "digit_char (nat i) = CHR ''0''" by (simp add: show_nat_digit)
  then have "(of_char (digit_char (nat i)) :: nat) = of_char (CHR ''0'')" by simp
  with small \<open>\<not> i < 0\<close> show "i = 0" by (simp add: of_char_digit)
next
  assume "i = 0"
  then show "show_int i = ''0''" by (simp add: show_int_def show_nat_digit digit_char_def)
qed

subsection \<open>First match and adjacent duplicates\<close>

text \<open>\<^verbatim>\<open>std::ranges::find_if\<close> as the position of the first match, \<open>None\<close> for \<^verbatim>\<open>end()\<close>.\<close>

fun find_index :: "('a \<Rightarrow> bool) \<Rightarrow> 'a list \<Rightarrow> nat option" where
  "find_index P [] = None"
| "find_index P (x # xs) = (if P x then Some 0 else map_option Suc (find_index P xs))"

lemma find_index_None_iff: "find_index P xs = None \<longleftrightarrow> (\<forall>x\<in>set xs. \<not> P x)"
  by (induction xs) auto

lemma find_index_Some_iff:
  "find_index P xs = Some i \<longleftrightarrow> i < length xs \<and> P (xs ! i) \<and> (\<forall>j<i. \<not> P (xs ! j))"
proof (induction xs arbitrary: i)
  case Nil
  show ?case by simp
next
  case (Cons x xs)
  show ?case
  proof (cases i)
    case 0
    then show ?thesis by (auto split: option.splits)
  next
    case (Suc k)
    have "(\<forall>j<Suc k. \<not> P ((x # xs) ! j)) \<longleftrightarrow> \<not> P x \<and> (\<forall>j<k. \<not> P (xs ! j))"
      by (metis less_Suc_eq_0_disj nth_Cons_0 nth_Cons_Suc)
    with Suc Cons.IH [of k] show ?thesis by auto
  qed
qed

lemma find_index_SomeD: "find_index P xs = Some i \<Longrightarrow> i < length xs \<and> P (xs ! i)"
  by (simp add: find_index_Some_iff)

text \<open>
  \<^verbatim>\<open>std::ranges::unique_copy\<close> with a projection: an element is copied unless its key equals
  the key of the element copied last.
\<close>

fun unique_copy :: "('a \<Rightarrow> 'k) \<Rightarrow> 'a list \<Rightarrow> 'a list" where
  "unique_copy key [] = []"
| "unique_copy key [x] = [x]"
| "unique_copy key (x # y # zs) =
     (if key x = key y then unique_copy key (x # zs) else x # unique_copy key (y # zs))"

lemma set_unique_copy: "set (unique_copy key xs) \<subseteq> set xs"
  by (induction key xs rule: unique_copy.induct) auto

lemma keys_unique_copy: "key ` set (unique_copy key xs) = key ` set xs"
  by (induction key xs rule: unique_copy.induct) (auto split: if_splits)

lemma unique_copy_Nil_iff [simp]: "unique_copy key xs = [] \<longleftrightarrow> xs = []"
  by (induction key xs rule: unique_copy.induct) auto

lemma subseq_unique_copy: "subseq (unique_copy key xs) xs"
proof (induction key xs rule: unique_copy.induct)
  case (3 key x y zs)
  have "subseq (x # zs) (x # y # zs)" by auto
  with 3 show ?case by (auto intro: subseq_order.trans)
qed auto

lemma sorted_wrt_subseq: "subseq xs ys \<Longrightarrow> sorted_wrt R ys \<Longrightarrow> sorted_wrt R xs"
proof (induction rule: list_emb.induct)
  case (list_emb_Cons2 x y xs ys)
  then show ?case by (auto dest: list_emb_set)
qed auto

lemma hd_unique_copy: "xs \<noteq> [] \<Longrightarrow> hd (unique_copy key xs) = hd xs"
  by (induction key xs rule: unique_copy.induct) auto

text \<open>On a sequence sorted by the key, what is copied has strictly increasing keys.\<close>

lemma unique_copy_strict:
  fixes key :: "'a \<Rightarrow> 'k::linorder"
  shows "sorted (map key xs) \<Longrightarrow> sorted_wrt (<) (map key (unique_copy key xs))"
proof (induction key xs rule: unique_copy.induct)
  case (3 key x y zs)
  show ?case
  proof (cases "key x = key y")
    case True
    with 3 show ?thesis by auto
  next
    case False
    with "3.prems" have "key x < key y" by auto
    moreover have "\<forall>z\<in>set (unique_copy key (y # zs)). key y \<le> key z"
      using "3.prems" set_unique_copy [of key "y # zs"] by auto
    ultimately have "\<forall>z\<in>set (unique_copy key (y # zs)). key x < key z" by auto
    with False 3 show ?thesis by auto
  qed
qed auto

text \<open>
  More generally, when equal keys are contiguous, what is copied has distinct keys.
\<close>

lemma unique_copy_distinct:
  assumes "sorted_wrt R xs"
    and "\<And>a b c. a \<in> set xs \<Longrightarrow> b \<in> set xs \<Longrightarrow> c \<in> set xs \<Longrightarrow>
      R a b \<Longrightarrow> R b c \<Longrightarrow> key a = key c \<Longrightarrow> key b = key a"
  shows "distinct (map key (unique_copy key xs))"
  using assms
proof (induction key xs rule: unique_copy.induct)
  case (3 key x y zs)
  show ?case
  proof (cases "key x = key y")
    case True
    have "distinct (map key (unique_copy key (x # zs)))"
      by (rule "3.IH"(1) [OF True]) (use "3.prems" in \<open>auto\<close>)
    with True show ?thesis by simp
  next
    case False
    have rest: "distinct (map key (unique_copy key (y # zs)))"
      by (rule "3.IH"(2) [OF False]) (use "3.prems" in \<open>auto\<close>)
    have "key x \<noteq> key z" if "z \<in> set (y # zs)" for z
    proof
      assume eq: "key x = key z"
      with False that have "z \<in> set zs" by auto
      with "3.prems"(1) have "R x y" "R y z" by auto
      with "3.prems"(2) [of x y z] \<open>z \<in> set zs\<close> eq False show False by auto
    qed
    with rest False set_unique_copy [of key "y # zs"] show ?thesis by auto
  qed
qed auto

text \<open>Within a group of equal keys the first element is the one copied.\<close>

lemma unique_copy_first:
  fixes key :: "'a \<Rightarrow> 'k::linorder"
  assumes "sorted_wrt (\<lambda>a b. key a \<le> key b \<and> (key a = key b \<longrightarrow> Q a b)) xs" "\<And>a. Q a a"
    and "p \<in> set (unique_copy key xs)" "q \<in> set xs" "key p = key q"
  shows "Q p q"
  using assms(1,3-5)
proof (induction key xs arbitrary: p q rule: unique_copy.induct)
  case (3 key x y zs)
  show ?case
  proof (cases "key x = key y")
    case True
    have srt: "sorted_wrt (\<lambda>a b. key a \<le> key b \<and> (key a = key b \<longrightarrow> Q a b)) (x # zs)"
      using "3.prems"(1) by simp
    have p: "p \<in> set (unique_copy key (x # zs))" using "3.prems"(2) True by simp
    show ?thesis
    proof (cases "q = y")
      case True
      have "sorted (map key (x # zs))"
        using srt unfolding sorted_map by (rule sorted_wrt_mono_rel [rotated]) simp
      then have "sorted_wrt (<) (map key (unique_copy key (x # zs)))" by (rule unique_copy_strict)
      then have "distinct (map key (unique_copy key (x # zs)))"
        using strict_sorted_iff by blast
      then have inj: "inj_on key (set (unique_copy key (x # zs)))" by (simp add: distinct_map)
      have "x \<in> set (unique_copy key (x # zs))"
        using hd_unique_copy [of "x # zs" key] by (metis hd_in_set list.sel(1) list.simps(3) unique_copy_Nil_iff)
      then have "p = x"
        using inj_onD [OF inj, of p x] p \<open>key p = key q\<close> \<open>key x = key y\<close> \<open>q = y\<close> by simp
      with "3.prems"(1) \<open>q = y\<close> \<open>key x = key y\<close> show ?thesis by simp
    next
      case False
      with "3.prems"(3) have "q \<in> set (x # zs)" by auto
      from "3.IH"(1) [OF True srt p this \<open>key p = key q\<close>] show ?thesis .
    qed
  next
    case False
    with "3.prems"(1) have lt: "key x < key y" by auto
    have srt: "sorted_wrt (\<lambda>a b. key a \<le> key b \<and> (key a = key b \<longrightarrow> Q a b)) (y # zs)"
      using "3.prems"(1) by simp
    have above: "key x < key z" if "z \<in> set (y # zs)" for z
      using srt lt that by auto
    consider "p = x" | "p \<in> set (unique_copy key (y # zs))" using "3.prems"(2) False by auto
    then show ?thesis
    proof cases
      case 1
      with above "3.prems"(3,4) have "q = x" by force
      with 1 assms(2) show ?thesis by simp
    next
      case 2
      then have "p \<in> set (y # zs)" using set_unique_copy [of key "y # zs"] by auto
      with above have "key x < key p" by blast
      with "3.prems"(3,4) have "q \<in> set (y # zs)" by auto
      from "3.IH"(2) [OF False srt 2 this \<open>key p = key q\<close>] show ?thesis .
    qed
  qed
qed (use assms(2) in auto)

text \<open>Ordering within the groups of equal keys refines an ordering by the keys.\<close>

lemma sorted_wrt_refine:
  assumes "sorted_wrt R xs" "\<And>k. sorted_wrt Q (filter (\<lambda>x. key x = k) xs)"
  shows "sorted_wrt (\<lambda>a b. R a b \<and> (key a = key b \<longrightarrow> Q a b)) xs"
  using assms
proof (induction xs)
  case (Cons x xs)
  have "sorted_wrt Q (filter (\<lambda>x. key x = k) xs)" for k
    using Cons.prems(2) [of k] by (auto split: if_splits)
  moreover have "Q x b" if "b \<in> set xs" "key x = key b" for b
    using Cons.prems(2) [of "key x"] that by auto
  ultimately show ?case using Cons by auto
qed simp

subsection \<open>The contract of std::ranges::sort\<close>

text \<open>
  The code sorts with \<^verbatim>\<open>std::ranges::sort(r, comp, proj)\<close>.  The standard promises a permutation
  in which no later key precedes an earlier one; it leaves the order of equal keys open.  The
  models take the sorting function as an argument, and their lemmas are proved in the locale
  \<open>sort_contract\<close> for every function that keeps this promise.
\<close>

definition strict_weak :: "('k \<Rightarrow> 'k \<Rightarrow> bool) \<Rightarrow> bool" where
  "strict_weak lt \<longleftrightarrow>
     (\<forall>a. \<not> lt a a) \<and> (\<forall>a b c. lt a b \<longrightarrow> lt b c \<longrightarrow> lt a c) \<and>
     (\<forall>a b c. lt a c \<longrightarrow> lt a b \<or> lt b c)"

lemma strict_weak_less [simp, intro]: "strict_weak ((<) :: 'k::linorder \<Rightarrow> 'k \<Rightarrow> bool)"
  by (auto simp: strict_weak_def)

lemma strict_weak_greater [simp, intro]: "strict_weak (\<lambda>a b :: 'k::linorder. b < a)"
  by (auto simp: strict_weak_def)

type_synonym 'e sorter = "(string \<Rightarrow> string \<Rightarrow> bool) \<Rightarrow> ('e \<Rightarrow> string) \<Rightarrow> 'e list \<Rightarrow> 'e list"

locale sort_contract =
  fixes srt :: "'e sorter"
  assumes mset_srt: "mset (srt lt key xs) = mset xs"
    and ordered_srt: "strict_weak lt \<Longrightarrow> sorted_wrt (\<lambda>a b. \<not> lt (key b) (key a)) (srt lt key xs)"
begin

lemma set_srt [simp]: "set (srt lt key xs) = set xs"
  by (metis mset_srt set_mset_mset)

lemma length_srt [simp]: "length (srt lt key xs) = length xs"
  by (metis mset_srt size_mset)

lemma sorted_srt: "sorted (map key (srt (<) key xs))"
  using ordered_srt [of "(<)" key xs] by (simp add: sorted_map not_less)

lemma sorted_srt_desc: "sorted_wrt (\<lambda>a b. key b \<le> key a) (srt (\<lambda>a b. b < a) key xs)"
  using ordered_srt [of "\<lambda>a b. b < a" key xs] by (simp add: not_less)

end

text \<open>
  A sort that also keeps the order of equal keys.  libstdc++ sorts up to sixteen elements by
  insertion, which is stable; that insertion sort is the instance below.
\<close>

definition same_key :: "(string \<Rightarrow> string \<Rightarrow> bool) \<Rightarrow> ('e \<Rightarrow> string) \<Rightarrow> string \<Rightarrow> 'e \<Rightarrow> bool" where
  "same_key lt key k x \<longleftrightarrow> \<not> lt (key x) k \<and> \<not> lt k (key x)"

locale stable_sort_contract = sort_contract +
  assumes stable_srt: "strict_weak lt \<Longrightarrow>
    filter (same_key lt key k) (srt lt key xs) = filter (same_key lt key k) xs"

context stable_sort_contract
begin

text \<open>Sorting by one key and then by another orders lexicographically.\<close>

lemma srt_twice:
  "sorted_wrt (\<lambda>a b. k2 a \<le> k2 b \<and> (k2 a = k2 b \<longrightarrow> k1 a \<le> k1 b)) (srt (<) k2 (srt (<) k1 xs))"
proof (rule sorted_wrt_refine)
  show "sorted_wrt (\<lambda>a b. k2 a \<le> k2 b) (srt (<) k2 (srt (<) k1 xs))"
    using sorted_srt [of k2] by (simp add: sorted_map)
  have same: "same_key (<) k2 k = (\<lambda>p. k2 p = k)" for k
    by (rule ext) (auto simp: same_key_def not_less intro: antisym)
  show "sorted_wrt (\<lambda>a b. k1 a \<le> k1 b) (filter (\<lambda>x. k2 x = k) (srt (<) k2 (srt (<) k1 xs)))" for k
    using stable_srt [OF strict_weak_less, of k2 k "srt (<) k1 xs"] sorted_srt [of k1 xs]
    by (simp add: same sorted_map sorted_wrt_filter)
qed

end

fun insert_after :: "(string \<Rightarrow> string \<Rightarrow> bool) \<Rightarrow> ('e \<Rightarrow> string) \<Rightarrow> 'e \<Rightarrow> 'e list \<Rightarrow> 'e list" where
  "insert_after lt key x [] = [x]"
| "insert_after lt key x (y # ys) =
     (if lt (key x) (key y) then x # y # ys else y # insert_after lt key x ys)"

definition insertion_sort :: "'e sorter" where
  "insertion_sort lt key xs = fold (insert_after lt key) xs []"

lemma mset_insert_after: "mset (insert_after lt key x ys) = add_mset x (mset ys)"
  by (induction ys) auto

lemma set_insert_after: "set (insert_after lt key x ys) = insert x (set ys)"
  by (induction ys) auto

lemma mset_fold_insert_after:
  "mset (fold (insert_after lt key) xs ys) = mset xs + mset ys"
  by (induction xs arbitrary: ys) (auto simp: mset_insert_after)

lemma ordered_insert_after:
  assumes "strict_weak lt" "sorted_wrt (\<lambda>a b. \<not> lt (key b) (key a)) ys"
  shows "sorted_wrt (\<lambda>a b. \<not> lt (key b) (key a)) (insert_after lt key x ys)"
  using assms(2)
proof (induction ys)
  case Nil
  show ?case by simp
next
  case (Cons y ys)
  have "\<And>z. z \<in> set ys \<Longrightarrow> lt (key x) (key y) \<Longrightarrow> \<not> lt (key z) (key x)"
    using assms(1) Cons.prems unfolding strict_weak_def by (metis list.set_intros(2) sorted_wrt.simps(2))
  moreover have "lt (key x) (key y) \<Longrightarrow> \<not> lt (key y) (key x)"
    using assms(1) unfolding strict_weak_def by metis
  ultimately show ?case using Cons by (auto simp: set_insert_after)
qed

lemma ordered_fold_insert_after:
  assumes "strict_weak lt"
  shows "sorted_wrt (\<lambda>a b. \<not> lt (key b) (key a)) ys \<Longrightarrow>
    sorted_wrt (\<lambda>a b. \<not> lt (key b) (key a)) (fold (insert_after lt key) xs ys)"
  by (induction xs arbitrary: ys) (simp_all add: ordered_insert_after [OF assms])

lemma stable_insert_after:
  assumes "strict_weak lt" "sorted_wrt (\<lambda>a b. \<not> lt (key b) (key a)) ys"
  shows "filter (same_key lt key k) (insert_after lt key x ys) = filter (same_key lt key k) ys @ filter (same_key lt key k) [x]"
  using assms(2)
proof (induction ys)
  case Nil
  show ?case by simp
next
  case (Cons y ys)
  have "lt (key x) (key y) \<Longrightarrow> same_key lt key k x \<Longrightarrow> z \<in> set (y # ys) \<Longrightarrow> \<not> same_key lt key k z" for z
    using assms(1) Cons.prems unfolding strict_weak_def same_key_def
    by (metis set_ConsD sorted_wrt.simps(2))
  then have "lt (key x) (key y) \<Longrightarrow> same_key lt key k x \<Longrightarrow> filter (same_key lt key k) (y # ys) = []"
    by (auto simp: filter_empty_conv)
  with Cons show ?case by auto
qed

lemma stable_fold_insert_after:
  assumes "strict_weak lt"
  shows "sorted_wrt (\<lambda>a b. \<not> lt (key b) (key a)) ys \<Longrightarrow>
    filter (same_key lt key k) (fold (insert_after lt key) xs ys) = filter (same_key lt key k) ys @ filter (same_key lt key k) xs"
proof (induction xs arbitrary: ys)
  case Nil
  show ?case by simp
next
  case (Cons x xs)
  show ?case
    using Cons.IH [OF ordered_insert_after [OF assms(1) Cons.prems]]
      stable_insert_after [OF assms(1) Cons.prems] by simp
qed

interpretation insertion: stable_sort_contract insertion_sort
  by unfold_locales
    (simp_all add: insertion_sort_def mset_fold_insert_after ordered_fold_insert_after
      stable_fold_insert_after)

subsection \<open>Lower case\<close>

text \<open>\<^verbatim>\<open>std::tolower\<close> of the C locale on one byte.\<close>

definition to_lower :: "char \<Rightarrow> char" where
  "to_lower c =
     (let n = (of_char c :: nat) in if 65 \<le> n \<and> n \<le> 90 then char_of (n + 32) else c)"

lemma to_lower_eq_newline [simp]: "to_lower c = newline_char \<longleftrightarrow> c = newline_char"
proof
  assume h: "to_lower c = newline_char"
  show "c = newline_char"
  proof (cases "65 \<le> (of_char c :: nat) \<and> (of_char c :: nat) \<le> 90")
    case True
    with h have "char_of ((of_char c :: nat) + 32) = newline_char" by (simp add: to_lower_def)
    then have "(of_char (char_of ((of_char c :: nat) + 32) :: char) :: nat) = of_char newline_char"
      by simp
    then have "((of_char c :: nat) + 32) mod 256 = 10" by (simp only: of_char_of) simp
    with True show ?thesis by simp
  next
    case False
    with h show ?thesis by (simp only: to_lower_def Let_def if_False)
  qed
qed (simp add: to_lower_def)

lemma newline_eq_to_lower [simp]: "newline_char = to_lower c \<longleftrightarrow> c = newline_char"
  using to_lower_eq_newline [of c] by argo

end
