(* ===== verification/String_Utils.thy ===== *)
theory String_Utils
  imports Prelude
begin

section \<open>String utilities (gucc/src/string_utils.cpp, gucc/include/gucc/string_utils.hpp)\<close>

text \<open>
  Splitting a text at a delimiter, joining it again, and trimming.  \<open>views_split\<close> is
  \<^verbatim>\<open>std::ranges::views::split\<close> with one character: an empty text has no piece at all, a
  delimiter at the end gives an empty last piece.  \<open>make_split_view\<close> drops the empty pieces.
  \<open>rewrite_lines\<close> is the loop with the \<^verbatim>\<open>first_line\<close> flag by which the mkinitcpio, GRUB and rEFInd
  rewriters put transformed lines together again.  The lemmas give the round trips between the
  two directions.
\<close>

subsection \<open>Splitting\<close>

fun split_pieces :: "char \<Rightarrow> string \<Rightarrow> string list" where
  "split_pieces d [] = [[]]"
| "split_pieces d (c # cs) =
     (if c = d then [] # split_pieces d cs
      else (case split_pieces d cs of
              [] \<Rightarrow> [[c]]
            | p # ps \<Rightarrow> (c # p) # ps))"

definition views_split :: "char \<Rightarrow> string \<Rightarrow> string list" where
  "views_split d s = (if s = [] then [] else split_pieces d s)"

definition make_split_view :: "string \<Rightarrow> char \<Rightarrow> string list" where
  "make_split_view str delim = filter (\<lambda>rng. rng \<noteq> '''') (views_split delim str)"

definition make_multiline :: "string \<Rightarrow> bool \<Rightarrow> char \<Rightarrow> string list" where
  "make_multiline str reverse delim =
     (let lines = make_split_view str delim in if reverse then rev lines else lines)"

definition make_multiline_view :: "string \<Rightarrow> bool \<Rightarrow> char \<Rightarrow> string list" where
  "make_multiline_view str reverse delim =
     (let lines = make_split_view str delim in if reverse then rev lines else lines)"

subsection \<open>Joining\<close>

text \<open>The overload of \<^verbatim>\<open>make_multiline\<close> on a vector: the delimiter follows every line, and
  \<^verbatim>\<open>reverse\<close> reverses the characters of the result.\<close>

fun append_lines :: "string \<Rightarrow> string list \<Rightarrow> string \<Rightarrow> string" where
  "append_lines res [] delim = res"
| "append_lines res (line # lines) delim = append_lines (res @ line @ delim) lines delim"

definition make_multiline_text :: "string list \<Rightarrow> bool \<Rightarrow> string \<Rightarrow> string" where
  "make_multiline_text multiline reverse delim =
     (let res = append_lines '''' multiline delim in if reverse then rev res else res)"

text \<open>The index loop of \<^verbatim>\<open>join\<close>: the delimiter follows every line but the last.\<close>

fun join_from :: "string \<Rightarrow> string list \<Rightarrow> char \<Rightarrow> string" where
  "join_from result_str [] delim = result_str"
| "join_from result_str (line # lines) delim =
     join_from (result_str @ line @ (if lines = [] then '''' else [delim])) lines delim"

definition join :: "string list \<Rightarrow> char \<Rightarrow> string" where
  "join lines delim = join_from '''' lines delim"

definition contains :: "string \<Rightarrow> string \<Rightarrow> bool" where
  "contains str needle \<longleftrightarrow> find_sub needle str \<noteq> None"

text \<open>Element access of a view; dereferencing the end is undefined, here \<open>None\<close>.\<close>

definition index_viewable_range :: "'a list \<Rightarrow> nat \<Rightarrow> 'a option" where
  "index_viewable_range rng n = (if n < length rng then Some (rng ! n) else None)"

definition size_viewable_range :: "'a list \<Rightarrow> nat" where
  "size_viewable_range rng = length rng"

definition trim_set :: string where
  "trim_set = [space_char, tab_char, newline_char, return_char]"

definition trim :: "string \<Rightarrow> string" where
  "trim str =
     (case find_first_not_of trim_set str of
        None \<Rightarrow> ''''
      | Some first \<Rightarrow>
          (case find_last_not_of trim_set str of
             None \<Rightarrow> ''''
           | Some last_pos \<Rightarrow> take (last_pos - first + 1) (drop first str)))"

subsection \<open>Rewriting a text line by line\<close>

fun rewrite_loop :: "(string \<Rightarrow> string) \<Rightarrow> string list \<Rightarrow> bool \<Rightarrow> string \<Rightarrow> string" where
  "rewrite_loop f [] first_line result = result"
| "rewrite_loop f (line # lines) first_line result =
     rewrite_loop f lines False
       ((if first_line then result else result @ [newline_char]) @ f line)"

definition rewrite_lines :: "(string \<Rightarrow> string) \<Rightarrow> string \<Rightarrow> string" where
  "rewrite_lines f content = rewrite_loop f (views_split newline_char content) True ''''"

subsection \<open>Lemmas on splitting and joining\<close>

lemma join_from_eq: "join_from acc ls d = acc @ join ls d"
proof (induction ls arbitrary: acc)
  case Nil
  show ?case by (simp add: join_def)
next
  case (Cons l ls)
  let ?sep = "if ls = [] then [] else [d]"
  have "join (l # ls) d = join_from (l @ ?sep) ls d" by (simp add: join_def)
  also have "\<dots> = (l @ ?sep) @ join ls d" by (rule Cons.IH)
  finally have tail: "join (l # ls) d = (l @ ?sep) @ join ls d" .
  have "join_from acc (l # ls) d = (acc @ l @ ?sep) @ join ls d"
    using Cons.IH [of "acc @ l @ ?sep"] by simp
  with tail show ?case by simp
qed

lemma join_Nil [simp]: "join [] d = []"
  by (simp add: join_def)

lemma join_Cons: "join (l # ls) d = (if ls = [] then l else l @ d # join ls d)"
proof -
  have "join (l # ls) d = join_from (l @ (if ls = [] then [] else [d])) ls d"
    by (simp add: join_def)
  also have "\<dots> = (l @ (if ls = [] then [] else [d])) @ join ls d"
    by (rule join_from_eq)
  finally show ?thesis by simp
qed

lemma join_simps [simp]:
  "join [l] d = l"
  "join (l # k # ls) d = l @ d # join (k # ls) d"
  by (simp_all add: join_Cons)

lemma join_append:
  "ls \<noteq> [] \<Longrightarrow> ks \<noteq> [] \<Longrightarrow> join (ls @ ks) d = join ls d @ d # join ks d"
  by (induction ls) (simp_all add: join_Cons)

lemma split_pieces_not_Nil [simp]: "split_pieces d s \<noteq> []"
  by (induction s) (auto split: list.splits)

lemma split_pieces_Cons:
  "c \<noteq> d \<Longrightarrow> split_pieces d (c # cs) = (c # hd (split_pieces d cs)) # tl (split_pieces d cs)"
  by (cases "split_pieces d cs") auto

lemma split_pieces_no_delim: "p \<in> set (split_pieces d s) \<Longrightarrow> d \<notin> set p"
proof (induction s arbitrary: p)
  case (Cons c cs)
  then show ?case
    by (cases "split_pieces d cs") (auto split: if_splits)
qed simp

lemma join_split_pieces: "join (split_pieces d s) d = s"
proof (induction s)
  case (Cons c cs)
  then show ?case
    by (cases "split_pieces d cs") (auto simp: join_Cons)
qed simp

lemma split_pieces_delim_free: "d \<notin> set s \<Longrightarrow> split_pieces d s = [s]"
  by (induction s) auto

lemma split_pieces_append_delim:
  "split_pieces d (s @ d # t) = split_pieces d s @ split_pieces d t"
proof (induction s)
  case (Cons c cs)
  then show ?case by (cases "split_pieces d cs") auto
qed simp

lemma split_pieces_join:
  assumes "ls \<noteq> []" "\<forall>l\<in>set ls. d \<notin> set l"
  shows "split_pieces d (join ls d) = ls"
  using assms
proof (induction ls)
  case (Cons l ls)
  then show ?case
    by (cases "ls = []")
      (auto simp: split_pieces_delim_free split_pieces_append_delim join_Cons)
qed simp

lemma join_views_split: "join (views_split d s) d = s"
  by (simp add: views_split_def join_split_pieces)

lemma join_eq_Nil_iff: "join ls d = [] \<longleftrightarrow> ls = [] \<or> ls = [[]]"
  by (cases ls) (auto simp: join_Cons)

lemma views_split_join:
  assumes "\<forall>l\<in>set ls. d \<notin> set l" "ls \<noteq> [[]]"
  shows "views_split d (join ls d) = ls"
  using assms by (auto simp: views_split_def join_eq_Nil_iff split_pieces_join)

lemma views_split_no_delim: "p \<in> set (views_split d s) \<Longrightarrow> d \<notin> set p"
  by (auto simp: views_split_def split_pieces_no_delim split: if_splits)

lemma make_split_view_eq: "make_split_view s d = filter (\<lambda>p. p \<noteq> []) (split_pieces d s)"
  by (simp add: make_split_view_def views_split_def)

lemma make_split_view_mem:
  "p \<in> set (make_split_view s d) \<Longrightarrow> p \<noteq> [] \<and> d \<notin> set p"
  by (auto simp: make_split_view_eq split_pieces_no_delim)

lemma make_split_view_append_delim:
  "make_split_view (s @ d # t) d = make_split_view s d @ make_split_view t d"
  by (simp add: make_split_view_eq split_pieces_append_delim)

lemma make_split_view_Nil [simp]: "make_split_view [] d = []"
  by (simp add: make_split_view_eq)

lemma make_split_view_delim_free:
  "d \<notin> set s \<Longrightarrow> make_split_view s d = (if s = [] then [] else [s])"
  by (simp add: make_split_view_eq split_pieces_delim_free)

lemma make_split_view_join:
  assumes "\<forall>l\<in>set ls. d \<notin> set l"
  shows "make_split_view (join ls d) d = filter (\<lambda>p. p \<noteq> []) ls"
  using assms by (cases "ls = []") (auto simp: make_split_view_eq split_pieces_join)

lemma append_lines_eq: "append_lines acc ls d = acc @ concat (map (\<lambda>l. l @ d) ls)"
  by (induction ls arbitrary: acc) auto

lemma make_multiline_text_eq:
  "make_multiline_text ls False d = concat (map (\<lambda>l. l @ d) ls)"
  by (simp add: make_multiline_text_def append_lines_eq)

lemma make_split_view_concat_lines:
  assumes "\<forall>l\<in>set ls. d \<notin> set l"
  shows "make_split_view (concat (map (\<lambda>l. l @ [d]) ls)) d = filter (\<lambda>p. p \<noteq> []) ls"
  using assms
  by (induction ls) (auto simp: make_split_view_append_delim make_split_view_delim_free)

lemma concat_lines_join: "concat (map (\<lambda>l. l @ [d]) ls) = join (ls @ [[]]) d"
  by (induction ls) (simp_all add: join_Cons)

lemma rewrite_loop_eq:
  "rewrite_loop f ls first acc =
     (if ls = [] then acc
      else acc @ (if first then [] else [newline_char]) @ join (map f ls) newline_char)"
proof (induction ls arbitrary: first acc)
  case (Cons l ls)
  then show ?case by (simp add: join_Cons)
qed simp

lemma rewrite_lines_eq:
  "rewrite_lines f s = join (map f (views_split newline_char s)) newline_char"
  by (simp add: rewrite_lines_def rewrite_loop_eq)

lemma rewrite_lines_id:
  "(\<And>l. l \<in> set (views_split newline_char s) \<Longrightarrow> f l = l) \<Longrightarrow> rewrite_lines f s = s"
  by (simp add: rewrite_lines_eq map_idI join_views_split)

lemma views_split_rewrite_lines:
  assumes "\<And>l. newline_char \<notin> set l \<Longrightarrow> newline_char \<notin> set (f l)" "\<And>l. l \<noteq> [] \<Longrightarrow> f l \<noteq> []"
  shows "views_split newline_char (rewrite_lines f s) = map f (views_split newline_char s)"
proof -
  let ?ls = "views_split newline_char s"
  have nl: "\<forall>l\<in>set (map f ?ls). newline_char \<notin> set l"
    using assms(1) by (auto dest: views_split_no_delim)
  have "?ls \<noteq> [[]]"
    by (cases s) (auto simp: views_split_def dest: arg_cong [where f = length] split: list.splits if_splits)
  then have "map f ?ls \<noteq> [[]]" using assms(2) by (cases ?ls) auto
  then show ?thesis unfolding rewrite_lines_eq by (rule views_split_join [OF nl])
qed

lemma rewrite_lines_idem:
  assumes "\<And>l. newline_char \<notin> set l \<Longrightarrow> newline_char \<notin> set (f l)" "\<And>l. l \<noteq> [] \<Longrightarrow> f l \<noteq> []"
    and "\<And>l. f (f l) = f l"
  shows "rewrite_lines f (rewrite_lines f s) = rewrite_lines f s"
proof -
  have "rewrite_lines f (rewrite_lines f s) =
      join (map f (map f (views_split newline_char s))) newline_char"
    using rewrite_lines_eq [of f "rewrite_lines f s"] views_split_rewrite_lines [of f s, OF assms(1,2)]
    by simp
  also have "map f (map f (views_split newline_char s)) = map f (views_split newline_char s)"
    by (simp add: assms(3))
  finally show ?thesis by (simp only: rewrite_lines_eq)
qed

lemma contains_iff_sublist: "contains s n \<longleftrightarrow> sublist n s"
  by (simp add: contains_def find_sub_None_iff)

subsection \<open>Lemmas on trimming\<close>

lemma find_first_not_of_Some:
  "find_first_not_of ws s = Some i \<longleftrightarrow>
     i < length s \<and> s ! i \<notin> set ws \<and> set (take i s) \<subseteq> set ws"
proof (induction s arbitrary: i)
  case (Cons c cs)
  then show ?case by (cases i) auto
qed simp

lemma find_last_not_of_Some:
  "find_last_not_of ws s = Some i \<longleftrightarrow>
     i < length s \<and> s ! i \<notin> set ws \<and> set (drop (Suc i) s) \<subseteq> set ws"
proof (induction s arbitrary: i)
  case (Cons c cs)
  show ?case
  proof (cases i)
    case 0
    then show ?thesis
      using find_last_not_of_None [of ws cs] by (auto split: option.splits)
  next
    case (Suc k)
    then show ?thesis
      using Cons.IH [of k] find_last_not_of_None [of ws cs]
      by (auto split: option.splits)
  qed
qed simp

lemma trim_blank: "set s \<subseteq> set trim_set \<Longrightarrow> trim s = []"
  by (simp add: trim_def find_first_not_of_None [THEN iffD2])

lemma trim_nonblank:
  assumes "\<not> set s \<subseteq> set trim_set"
  obtains a b where "s = a @ trim s @ b" "set a \<subseteq> set trim_set" "set b \<subseteq> set trim_set"
    "trim s \<noteq> []" "hd (trim s) \<notin> set trim_set" "last (trim s) \<notin> set trim_set"
proof -
  from assms obtain i where i: "find_first_not_of trim_set s = Some i"
    using find_first_not_of_None [of trim_set s] by (cases "find_first_not_of trim_set s") auto
  from assms obtain j where j: "find_last_not_of trim_set s = Some j"
    using find_last_not_of_None [of trim_set s] by (cases "find_last_not_of trim_set s") auto
  note i' = i [unfolded find_first_not_of_Some] and j' = j [unfolded find_last_not_of_Some]
  have "i \<le> j"
  proof (rule ccontr)
    assume "\<not> i \<le> j"
    then have "s ! i \<in> set (drop (Suc j) s)" using i' by (auto simp: in_set_conv_nth intro!: exI [of _ "i - Suc j"])
    with i' j' show False by auto
  qed
  have t: "trim s = take (j - i + 1) (drop i s)"
    by (simp add: trim_def i j)
  have len: "length (trim s) = j - i + 1" using t j' \<open>i \<le> j\<close> by (simp add: min_def) arith
  have "s = take i s @ drop i s" by simp
  also have "drop i s = trim s @ drop (j - i + 1) (drop i s)"
    unfolding t by (simp only: append_take_drop_id)
  also have "drop (j - i + 1) (drop i s) = drop (Suc j) s" using \<open>i \<le> j\<close> by simp
  finally have split: "s = take i s @ trim s @ drop (Suc j) s" .
  have ne: "trim s \<noteq> []" using len by auto
  have "hd (trim s) = s ! i" using i' \<open>i \<le> j\<close> by (simp add: t hd_drop_conv_nth)
  moreover have "last (trim s) = s ! j"
    using j' \<open>i \<le> j\<close> len ne by (simp add: last_conv_nth t)
  ultimately show thesis using that [OF split] i' j' ne by simp
qed

text \<open>A string with no blank at either end is its own trimming; the decomposition is unique.\<close>

lemma trim_exact:
  assumes "t \<noteq> []" "hd t \<notin> set trim_set" "last t \<notin> set trim_set"
    and "set a \<subseteq> set trim_set" "set b \<subseteq> set trim_set"
  shows "trim (a @ t @ b) = t"
proof -
  have f: "find_first_not_of trim_set (a @ t @ b) = Some (length a)"
    using assms by (auto simp: find_first_not_of_Some nth_append hd_conv_nth)
  have "length a + length t - 1 = length a + (length t - 1)" and "length t - 1 < length t"
    using assms(1) by (simp_all add: Suc_le_eq)
  then have "(a @ t @ b) ! (length a + length t - 1) = last t"
    using assms(1) by (simp only: nth_append_length_plus) (simp add: nth_append last_conv_nth)
  moreover have "length a + length t - 1 < length (a @ t @ b)"
    using assms(1) by (cases t) auto
  ultimately have "find_last_not_of trim_set (a @ t @ b) = Some (length a + length t - 1)"
    using assms by (simp add: find_last_not_of_Some)
  with f assms(1) show ?thesis by (simp add: trim_def)
qed

end
