(* ===== verification/World.thy ===== *)
theory World
  imports String_Utils "HOL-Library.State_Monad"
begin

section \<open>The host and the effects on it (gucc/src/io_utils.cpp, gucc/src/file_utils.cpp)\<close>

text \<open>
  The installer works on the machine it runs on: it starts shell commands, reads and writes
  files, creates directories.  A \<open>host\<close> holds what the installer itself reads and writes (the
  files, by path) and the rest of the machine, of an arbitrary type \<open>'m\<close>.  What foreign programs
  and the kernel do to a host is not code of this repository: it is the parameter
  \<open>sysenv\<close>, one function per kind of request.  A \<open>world\<close> adds the trace of the requests made and
  whether the process is still running; an uncaught exception in a \<^verbatim>\<open>noexcept\<close> function
  (\<^verbatim>\<open>std::terminate\<close>) and a dereferenced end iterator stop it, and a stopped process has no further
  effect.  The answers the user will give are a list in the world; a process that asks for one more than there are is
  \<open>Waiting\<close>.  Operations are values of the library's state monad over worlds.
  Logging (\<^verbatim>\<open>spdlog\<close>) has no effect on a world and is left out.
\<close>

subsection \<open>Hosts, requests, worlds\<close>

datatype run_status = Running | Terminated | Exited int | Waiting

text \<open>
  The person in front of the screen answers with an entry of a menu, a text, the marks of a check list, or the OK button; or
  goes back.  An \<open>Asked\<close> event has the text of the screen, its entries and the answer.
\<close>

datatype answer = Pick nat | Enter string | Tick "bool list" | Agree | Back

datatype event =
    System string
  | Popen string
  | WriteFile string string
  | CreateDirs string
  | SetPerms string
  | CopyFile string string
  | Rename string string
  | RemovePath string
  | HttpGet string
  | CreateDir string
  | Mount string string string
  | Umount string
  | Follow "string list"
  | Shown string
  | Asked string "string list" answer

record 'm host =
  files :: "string \<Rightarrow> string option"
  machine :: 'm

text \<open>
  \<open>system_call\<close> is \<^verbatim>\<open>system(3)\<close> (the status it returns, the host afterwards); \<open>popen_call\<close> is
  \<^verbatim>\<open>popen(3)\<close> read to the end (\<open>None\<close> when the pipe cannot be opened); \<open>can_open_out\<close> says whether a
  \<^verbatim>\<open>std::ofstream\<close> on a path opens; \<open>dir_exists\<close> whether a path names something that is no regular
  file; the \<open>*_call\<close> functions are the \<^verbatim>\<open>std::filesystem\<close> operations, returning whether they
  reported no error; \<open>http_get\<close> is \<^verbatim>\<open>cpr::Get\<close> with its timeout: the status code as a 32 bit integer and the text of the
  response; \<open>dir_entries\<close> are the file names of a directory in the order they are iterated; \<open>mount_call\<close> and \<open>umount_call\<close> are \<^verbatim>\<open>mount(2)\<close> (device, mount point, type) and \<^verbatim>\<open>umount(2)\<close>; \<open>follow_call\<close> is the
  vendored subprocess library run to the end under the log screen: whether the process could be started and joined (its
  exit status is not asked for); \<open>http_success\<close> and \<open>http_redirect\<close> are the library's classification of status codes.
\<close>

record 'm sysenv =
  ndevenv :: bool
  system_call :: "string \<Rightarrow> 'm host \<Rightarrow> int \<times> 'm host"
  popen_call :: "string \<Rightarrow> 'm host \<Rightarrow> string option \<times> 'm host"
  can_open_out :: "string \<Rightarrow> 'm host \<Rightarrow> bool"
  dir_exists :: "string \<Rightarrow> 'm host \<Rightarrow> bool"
  mkdirs_call :: "string \<Rightarrow> 'm host \<Rightarrow> bool \<times> 'm host"
  perms_call :: "string \<Rightarrow> 'm host \<Rightarrow> bool \<times> 'm host"
  copy_call :: "string \<Rightarrow> string \<Rightarrow> 'm host \<Rightarrow> bool \<times> 'm host"
  rename_call :: "string \<Rightarrow> string \<Rightarrow> 'm host \<Rightarrow> bool \<times> 'm host"
  dir_entries :: "string \<Rightarrow> 'm host \<Rightarrow> string list"
  mkdir_call :: "string \<Rightarrow> 'm host \<Rightarrow> bool \<times> 'm host"
  remove_call :: "string \<Rightarrow> 'm host \<Rightarrow> bool \<times> 'm host"
  mount_call :: "string \<Rightarrow> string \<Rightarrow> string \<Rightarrow> 'm host \<Rightarrow> int \<times> 'm host"
  umount_call :: "string \<Rightarrow> 'm host \<Rightarrow> int \<times> 'm host"
  follow_call :: "string list \<Rightarrow> 'm host \<Rightarrow> bool \<times> 'm host"
  http_get :: "string \<Rightarrow> 'm host \<Rightarrow> (int \<times> string) \<times> 'm host"
  http_success :: "int \<Rightarrow> bool"
  http_redirect :: "int \<Rightarrow> bool"

record 'm world =
  host :: "'m host"
  trace :: "event list"
  status :: run_status
  user_answers :: "answer list"

type_synonym ('m, 'a) io = "('m world, 'a) state"

abbreviation ret :: "'a \<Rightarrow> ('s, 'a) state" where "ret \<equiv> State_Monad.return"

definition perform :: "event \<Rightarrow> 'a \<Rightarrow> ('m host \<Rightarrow> 'a \<times> 'm host) \<Rightarrow> ('m, 'a) io" where
  "perform ev dflt act = State (\<lambda>w.
     if status w = Running
     then (case act (host w) of (r, h) \<Rightarrow> (r, w\<lparr>host := h, trace := trace w @ [ev]\<rparr>))
     else (dflt, w))"

definition inspect :: "'a \<Rightarrow> ('m host \<Rightarrow> 'a) \<Rightarrow> ('m, 'a) io" where
  "inspect dflt f = State (\<lambda>w. (if status w = Running then f (host w) else dflt, w))"

definition halt :: "run_status \<Rightarrow> ('m, unit) io" where
  "halt st = State (\<lambda>w. ((), if status w = Running then w\<lparr>status := st\<rparr> else w))"

text \<open>A call that ends the process and returns nothing, in a context that wants a value.\<close>

definition terminate :: "'a \<Rightarrow> ('m, 'a) io" where
  "terminate dflt = do { halt Terminated; ret dflt }"

subsection \<open>Running commands\<close>

definition run_system :: "'m sysenv \<Rightarrow> string \<Rightarrow> ('m, int) io" where
  "run_system env command = perform (System command) (- 1) (system_call env command)"

definition run_popen :: "'m sysenv \<Rightarrow> string \<Rightarrow> ('m, string option) io" where
  "run_popen env command = perform (Popen command) None (popen_call env command)"

definition drop_final_newline :: "string \<Rightarrow> string" where
  "drop_final_newline result = (if ends_with result [newline_char] then butlast result else result)"

definition exec :: "'m sysenv \<Rightarrow> string \<Rightarrow> bool \<Rightarrow> ('m, string) io" where
  "exec env command interactive =
     (if interactive then do { ret_code \<leftarrow> run_system env command; ret (show_int ret_code) }
      else do {
        pipe \<leftarrow> run_popen env command;
        ret (case pipe of None \<Rightarrow> ''-1'' | Some output \<Rightarrow> drop_final_newline output)
      })"

definition exec_checked :: "'m sysenv \<Rightarrow> string \<Rightarrow> ('m, bool) io" where
  "exec_checked env command = do { out \<leftarrow> exec env command True; ret (out = ''0'') }"

definition chroot_checked_cmd :: "string \<Rightarrow> string \<Rightarrow> string" where
  "chroot_checked_cmd command mountpoint =
     ''arch-chroot '' @ mountpoint @ '' '' @ command @ '' 2>>/tmp/cachyos-install.log 1>/dev/null''"

definition arch_chroot :: "'m sysenv \<Rightarrow> string \<Rightarrow> string \<Rightarrow> bool \<Rightarrow> ('m, unit) io" where
  "arch_chroot env command mountpoint interactive =
     (let cmd_formatted =
        ''arch-chroot '' @ mountpoint @ '' '' @ command @ '' 2>>/tmp/cachyos-install.log 2>&1''
      in if ndevenv env then do { out \<leftarrow> exec env cmd_formatted interactive; ret () } else ret ())"

definition arch_chroot_checked :: "'m sysenv \<Rightarrow> string \<Rightarrow> string \<Rightarrow> ('m, bool) io" where
  "arch_chroot_checked env command mountpoint =
     (if ndevenv env then exec_checked env (chroot_checked_cmd command mountpoint) else ret True)"

subsection \<open>Files\<close>

definition path_exists :: "'m sysenv \<Rightarrow> string \<Rightarrow> ('m, bool) io" where
  "path_exists env path = inspect False (\<lambda>h. files h path \<noteq> None \<or> dir_exists env path h)"

text \<open>A file that cannot be opened reads as the empty text.\<close>

definition read_whole_file :: "string \<Rightarrow> ('m, string) io" where
  "read_whole_file filepath =
     inspect '''' (\<lambda>h. case files h filepath of None \<Rightarrow> '''' | Some buf \<Rightarrow> buf)"

definition store_file :: "string \<Rightarrow> string \<Rightarrow> 'm host \<Rightarrow> 'm host" where
  "store_file path content h = h\<lparr>files := (files h)(path \<mapsto> content)\<rparr>"

definition create_file_for_overwrite :: "'m sysenv \<Rightarrow> string \<Rightarrow> string \<Rightarrow> ('m, bool) io" where
  "create_file_for_overwrite env filepath data = do {
     opened \<leftarrow> inspect False (can_open_out env filepath);
     if \<not> opened then ret False
     else perform (WriteFile filepath data) True (\<lambda>h. (True, store_file filepath data h))
   }"

definition write_to_file :: "'m sysenv \<Rightarrow> string \<Rightarrow> string \<Rightarrow> ('m, bool) io" where
  "write_to_file env data filepath = do {
     opened \<leftarrow> inspect False (can_open_out env filepath);
     if \<not> opened then ret False
     else perform (WriteFile filepath data) True (\<lambda>h. (True, store_file filepath data h))
   }"

definition create_directories :: "'m sysenv \<Rightarrow> string \<Rightarrow> ('m, bool) io" where
  "create_directories env path = perform (CreateDirs path) False (mkdirs_call env path)"

definition set_permissions :: "'m sysenv \<Rightarrow> string \<Rightarrow> ('m, bool) io" where
  "set_permissions env path = perform (SetPerms path) False (perms_call env path)"

definition copy_file :: "'m sysenv \<Rightarrow> string \<Rightarrow> string \<Rightarrow> ('m, bool) io" where
  "copy_file env source dest = perform (CopyFile source dest) False (copy_call env source dest)"

definition rename_file :: "'m sysenv \<Rightarrow> string \<Rightarrow> string \<Rightarrow> ('m, bool) io" where
  "rename_file env source dest = perform (Rename source dest) False (rename_call env source dest)"

definition create_directory :: "'m sysenv \<Rightarrow> string \<Rightarrow> ('m, bool) io" where
  "create_directory env path = perform (CreateDir path) False (mkdir_call env path)"

definition remove_path :: "'m sysenv \<Rightarrow> string \<Rightarrow> ('m, bool) io" where
  "remove_path env path = perform (RemovePath path) False (remove_call env path)"

definition sys_mount :: "'m sysenv \<Rightarrow> string \<Rightarrow> string \<Rightarrow> string \<Rightarrow> ('m, int) io" where
  "sys_mount env device path fstype = perform (Mount device path fstype) (- 1) (mount_call env device path fstype)"

definition sys_umount :: "'m sysenv \<Rightarrow> string \<Rightarrow> ('m, int) io" where
  "sys_umount env path = perform (Umount path) (- 1) (umount_call env path)"

definition http_request :: "'m sysenv \<Rightarrow> string \<Rightarrow> ('m, int \<times> string) io" where
  "http_request env url = perform (HttpGet url) (0, '''') (http_get env url)"

text \<open>A question to the user, which uses up an answer.\<close>

definition ask :: "string \<Rightarrow> string list \<Rightarrow> ('m, answer) io" where
  "ask content entries = State (\<lambda>w.
     if status w \<noteq> Running then (Back, w)
     else case user_answers w of
       [] \<Rightarrow> (Back, w\<lparr>status := Waiting\<rparr>)
     | a # later \<Rightarrow> (a, w\<lparr>user_answers := later, trace := trace w @ [Asked content entries a]\<rparr>))"

subsection \<open>Evaluation of the effects\<close>

named_theorems io_defs \<open>definitions of the effects\<close>

lemmas io_prims [io_defs] =
  perform_def inspect_def halt_def terminate_def run_system_def run_popen_def exec_def
  path_exists_def read_whole_file_def create_file_for_overwrite_def write_to_file_def
  create_directories_def set_permissions_def copy_file_def rename_file_def http_request_def
  create_directory_def remove_path_def sys_mount_def sys_umount_def

lemma run_exec_checked:
  "status w = Running \<Longrightarrow> system_call env c (host w) = (rc, h) \<Longrightarrow>
   run_state (exec_checked env c) w =
     (rc = 0, w\<lparr>host := h, trace := trace w @ [System c]\<rparr>)"
  by (simp add: exec_checked_def io_prims show_int_eq_0_iff)

lemma run_exec_checked_stopped:
  "status w \<noteq> Running \<Longrightarrow> run_state (exec_checked env c) w = (False, w)"
  by (simp add: exec_checked_def io_prims show_int_eq_0_iff)

lemma run_exec:
  "status w = Running \<Longrightarrow> popen_call env c (host w) = (out, h) \<Longrightarrow>
   run_state (exec env c False) w =
     ((case out of None \<Rightarrow> ''-1'' | Some s \<Rightarrow> drop_final_newline s),
      w\<lparr>host := h, trace := trace w @ [Popen c]\<rparr>)"
  by (simp add: io_prims)

lemma run_read_whole_file:
  "status w = Running \<Longrightarrow>
   run_state (read_whole_file p) w =
     ((case files (host w) p of None \<Rightarrow> '''' | Some s \<Rightarrow> s), w)"
  by (simp add: io_prims)

lemma run_create_file:
  "status w = Running \<Longrightarrow>
   run_state (create_file_for_overwrite env p d) w =
     (if can_open_out env p (host w)
      then (True, w\<lparr>host := store_file p d (host w), trace := trace w @ [WriteFile p d]\<rparr>)
      else (False, w))"
  by (simp add: io_prims)

lemma run_ask:
  "status w = Running \<Longrightarrow> user_answers w = a # later \<Longrightarrow>
   run_state (ask content entries) w = (a, w\<lparr>user_answers := later, trace := trace w @ [Asked content entries a]\<rparr>)"
  by (simp add: ask_def)

lemma run_ask_alone:
  "status w = Running \<Longrightarrow> user_answers w = [] \<Longrightarrow> run_state (ask content entries) w = (Back, w\<lparr>status := Waiting\<rparr>)"
  by (simp add: ask_def)

lemma files_store_file [simp]:
  "files (store_file p d h) = (files h)(p \<mapsto> d)" "machine (store_file p d h) = machine h"
  by (simp_all add: store_file_def)

subsection \<open>A sample host\<close>

text \<open>
  A concrete environment on which every request succeeds, commands print nothing, and no path
  names a directory; the lemmas that apply a property at a concrete input use it.
\<close>

definition quiet_env :: "unit sysenv" where
  "quiet_env =
     \<lparr>ndevenv = True,
      system_call = (\<lambda>c h. (0, h)),
      popen_call = (\<lambda>c h. (Some '''', h)),
      can_open_out = (\<lambda>p h. True),
      dir_exists = (\<lambda>p h. False),
      mkdirs_call = (\<lambda>p h. (True, h)),
      perms_call = (\<lambda>p h. (True, h)),
      copy_call = (\<lambda>a b h. (True, h)),
      rename_call = (\<lambda>a b h. (True, h)),
      dir_entries = (\<lambda>p h. []),
      mkdir_call = (\<lambda>p h. (True, h)),
      remove_call = (\<lambda>p h. (True, h)),
      mount_call = (\<lambda>d p t h. (0, h)),
      umount_call = (\<lambda>p h. (0, h)),
      follow_call = (\<lambda>args h. (True, h)),
      http_get = (\<lambda>u h. ((200, ''''), h)),
      http_success = (\<lambda>code. 200 \<le> code \<and> code < 300),
      http_redirect = (\<lambda>code. 300 \<le> code \<and> code < 400)\<rparr>"

definition world_of :: "(string \<times> string) list \<Rightarrow> unit world" where
  "world_of fs = \<lparr>host = \<lparr>files = map_of fs, machine = ()\<rparr>, trace = [], status = Running, user_answers = []\<rparr>"

lemma world_of_simps [simp]:
  "status (world_of fs) = Running" "trace (world_of fs) = []" "files (host (world_of fs)) = map_of fs"
  by (simp_all add: world_of_def)

end
