(* ===== verification/Plan.thy ===== *)
theory Plan
  imports World
begin

section \<open>Plans: sequences of checked steps\<close>

text \<open>
  Most operations of \<^verbatim>\<open>gucc\<close> share one contract: make a fixed list of requests in order, return
  false at the first one that fails, true when all have succeeded.  A \<open>plan\<close> is such a list,
  \<open>run_plan\<close> the monadic loop, \<open>exec_steps\<close> the abstract outcome on hosts.  The locale
  \<open>planned_op\<close> states the contract of an operation that is a plan; the component theories
  interpret it on their operations, with the operation's plan written out.
\<close>

subsection \<open>Steps and their outcome\<close>

datatype step =
    Run string
  | Write string string
  | MakeDirs string
  | Perms string
  | Try string
  | Shell string

text \<open>
  \<open>Try\<close> and \<open>Shell\<close> are commands whose outcome the code ignores: run through \<^verbatim>\<open>system\<close>, or read through a
  pipe.
\<close>

fun step_event :: "step \<Rightarrow> event" where
  "step_event (Run c) = System c"
| "step_event (Write p d) = WriteFile p d"
| "step_event (MakeDirs p) = CreateDirs p"
| "step_event (Perms p) = SetPerms p"
| "step_event (Try c) = System c"
| "step_event (Shell c) = Popen c"

fun step_action :: "'m sysenv \<Rightarrow> step \<Rightarrow> ('m, bool) io" where
  "step_action env (Run c) = exec_checked env c"
| "step_action env (Write p d) = create_file_for_overwrite env p d"
| "step_action env (MakeDirs p) = create_directories env p"
| "step_action env (Perms p) = set_permissions env p"
| "step_action env (Try c) = do { out \<leftarrow> exec env c True; ret True }"
| "step_action env (Shell c) = do { out \<leftarrow> exec env c False; ret True }"

text \<open>The same on hosts: whether the step succeeds, the requests made, the host afterwards.\<close>

fun step_outcome :: "'m sysenv \<Rightarrow> step \<Rightarrow> 'm host \<Rightarrow> bool \<times> event list \<times> 'm host" where
  "step_outcome env (Run c) h = (case system_call env c h of (rc, h') \<Rightarrow> (rc = 0, [System c], h'))"
| "step_outcome env (Write p d) h =
     (if can_open_out env p h then (True, [WriteFile p d], store_file p d h) else (False, [], h))"
| "step_outcome env (MakeDirs p) h = (case mkdirs_call env p h of (ok, h') \<Rightarrow> (ok, [CreateDirs p], h'))"
| "step_outcome env (Perms p) h = (case perms_call env p h of (ok, h') \<Rightarrow> (ok, [SetPerms p], h'))"
| "step_outcome env (Try c) h = (case system_call env c h of (rc, h') \<Rightarrow> (True, [System c], h'))"
| "step_outcome env (Shell c) h = (case popen_call env c h of (out, h') \<Rightarrow> (True, [Popen c], h'))"

fun run_plan :: "'m sysenv \<Rightarrow> step list \<Rightarrow> ('m, bool) io" where
  "run_plan env [] = ret True"
| "run_plan env (s # ss) = do { ok \<leftarrow> step_action env s; if ok then run_plan env ss else ret False }"

fun exec_steps :: "'m sysenv \<Rightarrow> step list \<Rightarrow> 'm host \<Rightarrow> bool \<times> event list \<times> 'm host" where
  "exec_steps env [] h = (True, [], h)"
| "exec_steps env (s # ss) h =
     (case step_outcome env s h of (ok, evs, h') \<Rightarrow>
        if ok then (case exec_steps env ss h' of (ok', evs', h'') \<Rightarrow> (ok', evs @ evs', h''))
        else (False, evs, h'))"

lemma step_action_outcome:
  "status w = Running \<Longrightarrow>
   run_state (step_action env s) w =
     (case step_outcome env s (host w) of (ok, evs, h) \<Rightarrow>
        (ok, w\<lparr>host := h, trace := trace w @ evs\<rparr>))"
  by (cases s)
    (simp_all add: exec_checked_def io_prims show_int_eq_0_iff split: prod.splits)

lemma run_plan_outcome:
  "status w = Running \<Longrightarrow>
   run_state (run_plan env ss) w =
     (case exec_steps env ss (host w) of (ok, evs, h) \<Rightarrow>
        (ok, w\<lparr>host := h, trace := trace w @ evs\<rparr>))"
proof (induction ss arbitrary: w)
  case Nil
  show ?case by simp
next
  case (Cons s ss)
  obtain ok evs h where so: "step_outcome env s (host w) = (ok, evs, h)"
    by (cases "step_outcome env s (host w)") auto
  let ?w = "w\<lparr>host := h, trace := trace w @ evs\<rparr>"
  have step: "run_state (step_action env s) w = (ok, ?w)"
    using step_action_outcome [OF Cons.prems] so by simp
  show ?case
  proof (cases ok)
    case True
    have "run_state (run_plan env ss) ?w =
        (case exec_steps env ss h of (ok', evs', h') \<Rightarrow>
           (ok', ?w\<lparr>host := h', trace := trace ?w @ evs'\<rparr>))"
      using Cons.IH [of ?w] Cons.prems by simp
    with step so True show ?thesis by (simp split: prod.splits)
  next
    case False
    with step so show ?thesis by simp
  qed
qed

lemma step_outcome_event:
  "step_outcome env s h = (ok, evs, h') \<Longrightarrow> evs = [step_event s] \<or> (\<not> ok \<and> evs = [])"
  by (cases s) (auto split: prod.splits if_splits)

lemma exec_steps_events:
  "exec_steps env ss h = (ok, evs, h') \<Longrightarrow>
   prefix evs (map step_event ss) \<and> (ok \<longrightarrow> evs = map step_event ss)"
proof (induction ss arbitrary: h ok evs h')
  case Nil
  then show ?case by simp
next
  case (Cons s ss)
  obtain ok1 evs1 h1 where so: "step_outcome env s h = (ok1, evs1, h1)"
    by (cases "step_outcome env s h") auto
  show ?case
  proof (cases ok1)
    case True
    obtain ok2 evs2 h2 where rest: "exec_steps env ss h1 = (ok2, evs2, h2)"
      by (cases "exec_steps env ss h1") auto
    have "evs1 = [step_event s]" using step_outcome_event [OF so] True by simp
    with Cons.prems so True rest Cons.IH [OF rest] show ?thesis by auto
  next
    case False
    with Cons.prems so step_outcome_event [OF so] show ?thesis by auto
  qed
qed

lemma exec_steps_append:
  "exec_steps env (ss @ ts) h =
     (case exec_steps env ss h of (ok, evs, h') \<Rightarrow>
        if ok then (case exec_steps env ts h' of (ok', evs', h'') \<Rightarrow> (ok', evs @ evs', h''))
        else (False, evs, h'))"
  by (induction ss arbitrary: h) (auto split: prod.splits)

text \<open>
  A plan fails at one definite step: the steps before it have all succeeded, and nothing after it
  has been requested.
\<close>

lemma exec_steps_fail:
  "exec_steps env ss h = (False, evs, h') \<Longrightarrow>
   \<exists>as s bs evs1 h1 evs2. ss = as @ s # bs \<and> exec_steps env as h = (True, evs1, h1) \<and>
     step_outcome env s h1 = (False, evs2, h') \<and> evs = evs1 @ evs2"
proof (induction ss arbitrary: h evs)
  case Nil
  then show ?case by simp
next
  case (Cons s ss)
  obtain ok1 evs1 h1 where so: "step_outcome env s h = (ok1, evs1, h1)"
    by (cases "step_outcome env s h") auto
  show ?case
  proof (cases ok1)
    case True
    obtain ok2 evs2 h2 where rest: "exec_steps env ss h1 = (ok2, evs2, h2)"
      by (cases "exec_steps env ss h1") auto
    with Cons.prems so True have r: "exec_steps env ss h1 = (False, evs2, h')" and e: "evs = evs1 @ evs2"
      by auto
    from Cons.IH [OF r] obtain as t bs e1 k1 e2 where
      "ss = as @ t # bs" "exec_steps env as h1 = (True, e1, k1)"
      "step_outcome env t k1 = (False, e2, h')" "evs2 = e1 @ e2" by blast
    with so True e show ?thesis
      by (intro exI [of _ "s # as"] exI [of _ t] exI [of _ bs] exI [of _ "evs1 @ e1"]
          exI [of _ k1] exI [of _ e2]) simp
  next
    case False
    with Cons.prems so show ?thesis
      by (intro exI [of _ "[]"] exI [of _ s] exI [of _ ss] exI [of _ "[]"] exI [of _ h]
          exI [of _ evs]) simp
  qed
qed

text \<open>
  Where a plan fails: the step with the number \<open>k\<close> fails on the host that the \<open>k\<close> steps before it, which have all succeeded, leave.  When the steps
  are commands, the failing one is the last that was requested.
\<close>

definition failed_at :: "'m sysenv \<Rightarrow> step list \<Rightarrow> 'm host \<Rightarrow> nat \<Rightarrow> bool" where
  "failed_at env ss h k \<longleftrightarrow> k < length ss \<and> fst (exec_steps env (take k ss) h) \<and>
     \<not> fst (step_outcome env (ss ! k) (snd (snd (exec_steps env (take k ss) h))))"

lemma exec_commands_fail:
  assumes "exec_steps env (map Run cmds) h = (False, evs, h')"
  shows "\<exists>k. failed_at env (map Run cmds) h k \<and> evs = map System (take (Suc k) cmds)"
proof -
  obtain before s after evs1 h1 evs2 where cut: "map Run cmds = before @ s # after" "exec_steps env before h = (True, evs1, h1)"
      "step_outcome env s h1 = (False, evs2, h')" "evs = evs1 @ evs2"
    using exec_steps_fail [OF assms] by blast
  let ?k = "length before"
  have k: "take ?k (map Run cmds) = before" "map Run cmds ! ?k = s" "?k < length cmds"
    using cut(1) map_eq_append_conv [of Run cmds before "s # after"] by auto
  then have s: "s = Run (cmds ! ?k)" by (metis nth_map)
  have "evs1 = map step_event before" using exec_steps_events [OF cut(2)] by simp
  then have "evs1 = map System (take ?k cmds)" using k(1) by (metis comp_apply list.map_comp map_cong step_event.simps(1) take_map)
  moreover have "evs2 = [System (cmds ! ?k)]" using cut(3) unfolding s by (simp split: prod.splits)
  ultimately show ?thesis using cut k
    by (intro exI [of _ ?k]) (simp add: failed_at_def take_Suc_conv_app_nth)
qed

lemma quiet_commands: "fst (exec_steps quiet_env (map Run cmds) h)"
proof (induction cmds arbitrary: h)
  case (Cons c cmds)
  have "system_call quiet_env c h = (0, h)" by (simp add: quiet_env_def)
  with Cons [of h] show ?case by (cases "exec_steps quiet_env (map Run cmds) h") simp
qed simp

text \<open>Composition: an operation that runs one plan and then, if it went well, another.\<close>

lemma run_plan_append:
  "run_plan env (ss @ ts) = do { ok \<leftarrow> run_plan env ss; if ok then run_plan env ts else ret False }"
proof (induction ss)
  case (Cons s ss)
  have "run_plan env ((s # ss) @ ts) =
      do { ok \<leftarrow> step_action env s;
           if ok then do { ok \<leftarrow> run_plan env ss; if ok then run_plan env ts else ret False }
           else ret False }"
    using Cons.IH by (simp cong: if_cong)
  also have "\<dots> = do { ok \<leftarrow> run_plan env (s # ss); if ok then run_plan env ts else ret False }"
    by (rule state_ext) (auto split: prod.splits)
  finally show ?case .
qed simp

lemma run_plan_success:
  "status w = Running \<Longrightarrow> run_state (run_plan env ss) w = (True, w') \<Longrightarrow>
   status w' = Running \<and> trace w' = trace w @ map step_event ss"
  using exec_steps_events [of env ss "host w" True] by (auto simp: run_plan_outcome split: prod.splits)

lemma run_plan_status:
  "status w = Running \<Longrightarrow> run_state (run_plan env ss) w = (ok, w') \<Longrightarrow> status w' = Running"
  by (auto simp: run_plan_outcome split: prod.splits)

text \<open>The early return: if the whole succeeds, so do both halves.\<close>

lemma checked_bind_success:
  "run_state (State_Monad.bind m (\<lambda>ok. if \<not> ok then ret False else k)) w = (True, w') \<longleftrightarrow>
   (\<exists>w1. run_state m w = (True, w1) \<and> run_state k w1 = (True, w'))"
  by (cases "run_state m w") auto

lemma run_plan_single: "run_plan env [s] = step_action env s"
  by (rule state_ext) (auto split: prod.splits)

lemma checked_bind_assoc:
  "State_Monad.bind (State_Monad.bind m (\<lambda>ok. if ok then k else ret False)) f =
   State_Monad.bind m (\<lambda>ok. if ok then State_Monad.bind k f else f False)"
  by (rule state_ext) (auto split: prod.splits)

subsection \<open>Recognising plans\<close>

text \<open>
  The rules by which the simplifier turns an operation into its plan: elementary requests are
  one-step plans, the early return of a failing request is concatenation.  They are used with
  \<^theory_text>\<open>cong: if_cong\<close> and without the unfolding rules of \<open>run_plan\<close>.
\<close>

named_theorems plan_simps \<open>rewriting an operation to the plan it runs\<close>

definition chroot_steps :: "'m sysenv \<Rightarrow> string \<Rightarrow> string \<Rightarrow> step list" where
  "chroot_steps env command root =
     (if ndevenv env then [Run (chroot_checked_cmd command root)] else [])"

lemma exec_checked_plan [plan_simps]: "exec_checked env c = run_plan env [Run c]"
  by (simp only: run_plan_single step_action.simps)

lemma create_file_plan [plan_simps]: "create_file_for_overwrite env p d = run_plan env [Write p d]"
  by (simp only: run_plan_single step_action.simps)

lemma arch_chroot_checked_plan [plan_simps]:
  "arch_chroot_checked env c r = run_plan env (chroot_steps env c r)"
  by (simp add: arch_chroot_checked_def chroot_steps_def exec_checked_plan del: run_plan.simps)
    (simp add: exec_checked_plan)

lemma create_directories_plan [plan_simps]: "create_directories env p = run_plan env [MakeDirs p]"
  by (simp only: run_plan_single step_action.simps)

lemma set_permissions_plan [plan_simps]: "set_permissions env p = run_plan env [Perms p]"
  by (simp only: run_plan_single step_action.simps)

lemma ignored_plan [plan_simps]:
  "State_Monad.bind (exec env c True) (\<lambda>out. run_plan env q) = run_plan env (Try c # q)"
  "State_Monad.bind (exec env c False) (\<lambda>out. run_plan env q) = run_plan env (Shell c # q)"
  "State_Monad.bind (exec env c True) (\<lambda>out. ret True) = run_plan env [Try c]"
  "State_Monad.bind (exec env c False) (\<lambda>out. ret True) = run_plan env [Shell c]"
  by (rule state_ext, simp split: prod.splits)+

text \<open>
  Commands that only a build with NDEVENV runs: checked, and through \<^verbatim>\<open>arch_chroot\<close> with the outcome ignored.
\<close>

definition dev_checked :: "'m sysenv \<Rightarrow> string \<Rightarrow> ('m, bool) io" where
  "dev_checked env command = (if ndevenv env then exec_checked env command else ret True)"

definition dev_steps :: "'m sysenv \<Rightarrow> string \<Rightarrow> step list" where
  "dev_steps env command = (if ndevenv env then [Run command] else [])"

lemma dev_checked_plan [plan_simps]: "dev_checked env c = run_plan env (dev_steps env c)"
  by (simp add: dev_checked_def dev_steps_def exec_checked_plan del: run_plan.simps)
    (simp add: exec_checked_plan)

definition chroot_shell_steps :: "'m sysenv \<Rightarrow> string \<Rightarrow> string \<Rightarrow> bool \<Rightarrow> step list" where
  "chroot_shell_steps env command root interactive =
     (if \<not> ndevenv env then []
      else (let c = ''arch-chroot '' @ root @ '' '' @ command @ '' 2>>/tmp/cachyos-install.log 2>&1''
            in if interactive then [Try c] else [Shell c]))"

lemma arch_chroot_plan [plan_simps]:
  "State_Monad.bind (arch_chroot env c r i) (\<lambda>u. run_plan env q) = run_plan env (chroot_shell_steps env c r i @ q)"
  by (cases i; rule state_ext)
    (simp_all add: arch_chroot_def chroot_shell_steps_def Let_def split: prod.splits)

text \<open>
  The loop that returns false at the first element whose body fails; when the bodies are plans it is their
  concatenation.
\<close>

fun all_checked :: "('a \<Rightarrow> ('m, bool) io) \<Rightarrow> 'a list \<Rightarrow> ('m, bool) io" where
  "all_checked f [] = ret True"
| "all_checked f (x # xs) = do { ok \<leftarrow> f x; if \<not> ok then ret False else all_checked f xs }"

lemma plan_then [plan_simps]:
  "State_Monad.bind (run_plan env p) (\<lambda>ok. if \<not> ok then ret False else run_plan env q) = run_plan env (p @ q)"
  "State_Monad.bind (run_plan env p) (\<lambda>ok. if ok then run_plan env q else ret False) = run_plan env (p @ q)"
  "State_Monad.bind (run_plan env p) (\<lambda>ok. if \<not> ok then ret False else ret True) = run_plan env p"
  "State_Monad.bind (run_plan env p) (\<lambda>ok. if ok then ret True else ret False) = run_plan env p"
  by (rule state_ext, simp add: run_plan_append split: prod.splits)+

lemma all_checked_plan:
  "(\<And>x. x \<in> set xs \<Longrightarrow> f x = run_plan env (g x)) \<Longrightarrow>
   all_checked f xs = run_plan env (concat (map g xs))"
proof (induction xs)
  case (Cons x xs)
  then have "f x = run_plan env (g x)" "all_checked f xs = run_plan env (concat (map g xs))" by simp_all
  then show ?case by (simp add: plan_then cong: if_cong del: run_plan.simps)
qed simp

subsection \<open>The contract\<close>

locale planned_op =
  fixes env :: "'m sysenv" and operation :: "('m, bool) io" and plan :: "step list"
  assumes refines: "operation = run_plan env plan"
begin

lemma outcome:
  "status w = Running \<Longrightarrow>
   run_state operation w =
     (case exec_steps env plan (host w) of (ok, evs, h) \<Rightarrow>
        (ok, w\<lparr>host := h, trace := trace w @ evs\<rparr>))"
  by (simp add: refines run_plan_outcome)

lemma keeps_running:
  "status w = Running \<Longrightarrow> run_state operation w = (ok, w') \<Longrightarrow> status w' = Running"
  using outcome [of w] by (auto split: prod.splits)

lemma requests:
  "status w = Running \<Longrightarrow> run_state operation w = (ok, w') \<Longrightarrow>
   \<exists>evs. trace w' = trace w @ evs \<and> prefix evs (map step_event plan) \<and>
     (ok \<longrightarrow> evs = map step_event plan)"
  using outcome [of w] by (auto split: prod.splits dest: exec_steps_events)

lemma success_requests:
  "status w = Running \<Longrightarrow> run_state operation w = (True, w') \<Longrightarrow>
   trace w' = trace w @ map step_event plan"
  using requests by blast

text \<open>A plan of commands: all of them have run and succeeded, or one has failed and is the last that was requested.\<close>

lemma commands_outcome:
  assumes "status w = Running" "run_state operation w = (ok, w')" "plan = map Run cmds"
  shows "status w' = Running \<and> (ok \<longleftrightarrow> fst (exec_steps env (map Run cmds) (host w))) \<and>
    (ok \<longrightarrow> trace w' = trace w @ map System cmds) \<and>
    (\<not> ok \<longrightarrow> (\<exists>k. failed_at env (map Run cmds) (host w) k \<and> trace w' = trace w @ map System (take (Suc k) cmds)))"
proof -
  obtain evs h where ex: "exec_steps env (map Run cmds) (host w) = (ok, evs, h)"
    and w': "w' = w\<lparr>host := h, trace := trace w @ evs\<rparr>"
    using outcome [OF assms(1)] assms(2,3) by (auto split: prod.splits)
  have "ok \<Longrightarrow> evs = map System cmds" using exec_steps_events [OF ex] by (simp add: o_def)
  moreover have "\<not> ok \<Longrightarrow> \<exists>k. failed_at env (map Run cmds) (host w) k \<and> evs = map System (take (Suc k) cmds)"
    using exec_commands_fail [of env cmds "host w" evs h] ex by simp
  ultimately show ?thesis using ex w' assms(1) by auto
qed

text \<open>Failure is the failure of one step, after which nothing more is requested.\<close>

lemma failure_stops:
  "status w = Running \<Longrightarrow> run_state operation w = (False, w') \<Longrightarrow>
   \<exists>as s bs evs1 h1 evs2. plan = as @ s # bs \<and>
     exec_steps env as (host w) = (True, evs1, h1) \<and>
     step_outcome env s h1 = (False, evs2, host w') \<and> trace w' = trace w @ evs1 @ evs2"
proof -
  assume run: "status w = Running" and res: "run_state operation w = (False, w')"
  obtain evs h where ex: "exec_steps env plan (host w) = (False, evs, h)"
    and w': "w' = w\<lparr>host := h, trace := trace w @ evs\<rparr>"
    using outcome [OF run] res by (auto split: prod.splits)
  from exec_steps_fail [OF ex] w' show ?thesis by fastforce
qed

end

end
