(* ===== verification/Partitioning.thy ===== *)
theory Partitioning
  imports Plan
begin

section \<open>Partition schemes and sfdisk (gucc/src/partitioning.cpp)\<close>

text \<open>
  The partition record that the whole program passes around
  (\<^verbatim>\<open>gucc/include/gucc/partition.hpp\<close>) and the partitioner: the sfdisk script of a scheme, the
  default scheme, and the operation that erases a disk and applies a script.
\<close>

record fs_partition =
  fstype :: string
  mountpoint :: string
  uuid_str :: string
  device :: string
  part_size :: string
  mount_opts :: string
  subvolume :: "string option"
  luks_mapper_name :: "string option"
  luks_uuid :: "string option"
  luks_passphrase :: "string option"

text \<open>The default member initialisers: empty strings and empty optionals.\<close>

definition empty_partition :: fs_partition where
  "empty_partition =
     \<lparr>fstype = '''', mountpoint = '''', uuid_str = '''', device = '''', part_size = '''',
      mount_opts = '''', subvolume = None, luks_mapper_name = None, luks_uuid = None,
      luks_passphrase = None\<rparr>"

subsection \<open>The script\<close>

definition convert_fsname :: "string \<Rightarrow> string" where
  "convert_fsname fsname =
     (if fsname = ''fat16'' \<or> fsname = ''fat32'' then ''vfat''
      else if fsname = ''linuxswap'' then ''swap''
      else fsname)"

definition get_part_type_alias :: "string \<Rightarrow> string" where
  "get_part_type_alias fsname =
     (if fsname = ''vfat'' then ''U'' else if fsname = ''swap'' then ''S'' else ''L'')"

text \<open>The partitions that get a line, in the order of the script.\<close>

definition sfdisk_partitions :: "fs_partition sorter \<Rightarrow> fs_partition list \<Rightarrow> fs_partition list" where
  "sfdisk_partitions srt partitions =
     (let by_mountpoint = srt (<) mountpoint partitions;
          by_device = srt (<) device by_mountpoint;
          by_size = srt (\<lambda>a b. b < a) part_size by_device
      in unique_copy device by_size)"

definition sfdisk_line :: "fs_partition \<Rightarrow> string" where
  "sfdisk_line part =
     (let fsname = convert_fsname (fstype part);
          fs_alias = get_part_type_alias fsname
      in ''type='' @ fs_alias
         @ (if part_size part \<noteq> '''' then '',size='' @ part_size part else '''')
         @ (if fsname = ''vfat'' then '',bootable'' else '''')
         @ [newline_char])"

fun append_sfdisk_lines :: "string \<Rightarrow> fs_partition list \<Rightarrow> string" where
  "append_sfdisk_lines sfdisk_commands [] = sfdisk_commands"
| "append_sfdisk_lines sfdisk_commands (part # parts) =
     append_sfdisk_lines (sfdisk_commands @ sfdisk_line part) parts"

definition gen_sfdisk_command :: "fs_partition sorter \<Rightarrow> fs_partition list \<Rightarrow> bool \<Rightarrow> string" where
  "gen_sfdisk_command srt partitions is_efi =
     (let header = (if \<not> is_efi then ''label: dos\<newline>'' else ''label: gpt\<newline>'')
      in append_sfdisk_lines header (sfdisk_partitions srt partitions))"

definition sfdisk_cmd :: "string \<Rightarrow> string \<Rightarrow> string" where
  "sfdisk_cmd commands dev =
     ''echo -e '' @ squote @ commands @ squote @ '' | sfdisk -w always '' @ squote @ dev @ squote
     @ '' &>>/tmp/cachyos-install.log &>/dev/null''"

definition run_sfdisk_part :: "'m sysenv \<Rightarrow> string \<Rightarrow> string \<Rightarrow> ('m, bool) io" where
  "run_sfdisk_part env commands dev = do {
     ok \<leftarrow> exec_checked env (sfdisk_cmd commands dev);
     if \<not> ok then ret False else ret True
   }"

definition dd_cmd :: "string \<Rightarrow> string" where
  "dd_cmd dev = ''dd if=/dev/zero of='' @ squote @ dev @ squote
     @ '' bs=512 count=1 2>>/tmp/cachyos-install.log &>/dev/null''"

definition wipe_cmd :: "string \<Rightarrow> string" where
  "wipe_cmd dev = ''wipefs -af '' @ squote @ dev @ squote
     @ '' 2>>/tmp/cachyos-install.log &>/dev/null''"

definition sgdisk_cmd :: "string \<Rightarrow> string" where
  "sgdisk_cmd dev = ''sgdisk -Zo '' @ squote @ dev @ squote
     @ '' 2>>/tmp/cachyos-install.log &>/dev/null''"

definition erase_disk :: "'m sysenv \<Rightarrow> string \<Rightarrow> ('m, bool) io" where
  "erase_disk env dev = do {
     dd_ok \<leftarrow> exec_checked env (dd_cmd dev);
     if \<not> dd_ok then ret False
     else do {
       wipe_ok \<leftarrow> exec_checked env (wipe_cmd dev);
       if \<not> wipe_ok then ret False
       else do {
         sgdisk_ok \<leftarrow> exec_checked env (sgdisk_cmd dev);
         if \<not> sgdisk_ok then ret False else ret True
       }
     }
   }"

definition generate_default_partition_schema :: "string \<Rightarrow> string \<Rightarrow> bool \<Rightarrow> fs_partition list" where
  "generate_default_partition_schema dev boot_mountpoint is_efi =
     (let root_partition = empty_partition
            \<lparr>fstype := ''btrfs'', mountpoint := ''/'', device := dev @ ''1''\<rparr>
      in if is_efi then
           (let efi_partition = empty_partition
                  \<lparr>fstype := ''vfat'', mountpoint := boot_mountpoint,
                   device := device root_partition, part_size := ''2GiB''\<rparr>
            in [efi_partition, root_partition\<lparr>device := dev @ ''2''\<rparr>])
         else [root_partition])"

definition make_clean_partschema ::
  "'m sysenv \<Rightarrow> fs_partition sorter \<Rightarrow> string \<Rightarrow> fs_partition list \<Rightarrow> bool \<Rightarrow> ('m, bool) io" where
  "make_clean_partschema env srt dev partitions is_efi = do {
     erased \<leftarrow> erase_disk env dev;
     if \<not> erased then ret False
     else do {
       applied \<leftarrow> run_sfdisk_part env (gen_sfdisk_command srt partitions is_efi) dev;
       if \<not> applied then ret False else ret True
     }
   }"

subsection \<open>Lemmas on the script\<close>

lemma append_sfdisk_lines_eq:
  "append_sfdisk_lines acc ps = acc @ concat (map sfdisk_line ps)"
  by (induction ps arbitrary: acc) auto

lemma gen_sfdisk_command_eq:
  "gen_sfdisk_command srt ps efi =
     (if efi then ''label: gpt\<newline>'' else ''label: dos\<newline>'')
     @ concat (map sfdisk_line (sfdisk_partitions srt ps))"
  by (simp add: gen_sfdisk_command_def append_sfdisk_lines_eq)

text \<open>What holds of the selected partitions for every sorting function that keeps its contract.\<close>

locale partition_sorting = sort_contract srt for srt :: "fs_partition sorter"
begin

lemma sfdisk_set: "set (sfdisk_partitions srt ps) \<subseteq> set ps"
  using set_unique_copy by (fastforce simp: sfdisk_partitions_def Let_def)

lemma sfdisk_devices: "device ` set (sfdisk_partitions srt ps) = device ` set ps"
  by (simp add: sfdisk_partitions_def Let_def keys_unique_copy)

lemma sfdisk_sizes:
  "sorted_wrt (\<lambda>a b. part_size b \<le> part_size a) (sfdisk_partitions srt ps)"
  unfolding sfdisk_partitions_def Let_def
  by (rule sorted_wrt_subseq [OF subseq_unique_copy]) (rule sorted_srt_desc)

text \<open>A partition without a size takes what is left, so it must not come before a sized one.\<close>

lemma sfdisk_open_ended_last:
  "sfdisk_partitions srt ps = as @ p # bs \<Longrightarrow> part_size p = [] \<Longrightarrow> \<forall>q\<in>set bs. part_size q = []"
  using sfdisk_sizes [of ps] by (auto simp: sorted_wrt_append)

end

locale stable_partition_sorting =
  partition_sorting srt + stable_sort_contract srt for srt :: "fs_partition sorter"
begin

lemma sfdisk_distinct_devices:
  assumes "\<And>p q. p \<in> set ps \<Longrightarrow> q \<in> set ps \<Longrightarrow> device p = device q \<Longrightarrow> part_size p = part_size q"
  shows "distinct (map device (sfdisk_partitions srt ps))"
proof -
  let ?dev = "srt (<) device (srt (<) mountpoint ps)"
  let ?siz = "srt (\<lambda>a b. b < a) part_size ?dev"
  have same: "same_key (\<lambda>a b. b < a) part_size k = (\<lambda>p. part_size p = k)" for k
    by (rule ext) (auto simp: same_key_def not_less intro: antisym)
  have "sorted_wrt (\<lambda>a b. device a \<le> device b) (filter (\<lambda>p. part_size p = k) ?siz)" for k
    using stable_srt [OF strict_weak_greater, of part_size k ?dev] sorted_srt [of device "srt (<) mountpoint ps"]
    by (simp add: same sorted_map sorted_wrt_filter)
  with sorted_srt_desc [of part_size ?dev]
  have "sorted_wrt (\<lambda>a b. part_size b \<le> part_size a \<and>
      (part_size a = part_size b \<longrightarrow> device a \<le> device b)) ?siz"
    by (rule sorted_wrt_refine)
  then have "distinct (map device (unique_copy device ?siz))"
  proof (rule unique_copy_distinct)
    fix a b c
    assume mem: "a \<in> set ?siz" "b \<in> set ?siz" "c \<in> set ?siz"
      and ab: "part_size b \<le> part_size a \<and> (part_size a = part_size b \<longrightarrow> device a \<le> device b)"
      and bc: "part_size c \<le> part_size b \<and> (part_size b = part_size c \<longrightarrow> device b \<le> device c)"
      and ac: "device a = device c"
    from mem ac assms [of a c] have "part_size a = part_size c" by simp
    with ab bc have "part_size b = part_size a" by (metis antisym)
    with ab bc ac \<open>part_size a = part_size c\<close> show "device b = device a" by (simp add: antisym)
  qed
  then show ?thesis by (simp add: sfdisk_partitions_def Let_def)
qed

end

interpretation sfdisk: stable_partition_sorting insertion_sort
  by unfold_locales

subsection \<open>The disk operations are plans\<close>

definition erase_disk_plan :: "string \<Rightarrow> step list" where
  "erase_disk_plan dev = [Run (dd_cmd dev), Run (wipe_cmd dev), Run (sgdisk_cmd dev)]"

definition make_clean_partschema_plan ::
  "fs_partition sorter \<Rightarrow> string \<Rightarrow> fs_partition list \<Rightarrow> bool \<Rightarrow> step list" where
  "make_clean_partschema_plan srt dev ps efi =
     erase_disk_plan dev @ [Run (sfdisk_cmd (gen_sfdisk_command srt ps efi) dev)]"

lemma erase_disk_eq_plan: "erase_disk env dev = run_plan env (erase_disk_plan dev)"
  by (rule state_ext) (simp add: erase_disk_def erase_disk_plan_def split: prod.splits)

lemma make_clean_partschema_eq_plan:
  "make_clean_partschema env srt dev ps efi = run_plan env (make_clean_partschema_plan srt dev ps efi)"
  by (rule state_ext)
    (simp add: make_clean_partschema_def make_clean_partschema_plan_def run_plan_append
      erase_disk_eq_plan run_sfdisk_part_def split: prod.splits)

interpretation erase: planned_op env "erase_disk env dev" "erase_disk_plan dev" for env dev
  by unfold_locales (rule erase_disk_eq_plan)

interpretation clean: planned_op env "make_clean_partschema env srt dev ps efi"
    "make_clean_partschema_plan srt dev ps efi" for env srt dev ps efi
  by unfold_locales (rule make_clean_partschema_eq_plan)

subsection \<open>Properties\<close>

lemma mset_pair_sorted:
  assumes "mset xs = {#a, b#}" "sorted_wrt R xs" "\<not> R b a"
  shows "xs = [a, b]"
proof -
  from assms(1) have "length xs = 2" by (metis size_mset size_add_mset size_empty numeral_2_eq_2)
  then obtain x y where xs: "xs = [x, y]"
    by (auto simp: numeral_2_eq_2 length_Suc_conv)
  with assms(1) have "x = a \<and> y = b \<or> x = b \<and> y = a" by (auto simp: add_eq_conv_ex)
  with assms xs show ?thesis by auto
qed

lemma default_schema_sorted:
  assumes "sort_contract srt"
  shows "sfdisk_partitions srt (generate_default_partition_schema dev boot True) =
    generate_default_partition_schema dev boot True"
proof -
  let ?a = "empty_partition\<lparr>fstype := ''vfat'', mountpoint := boot, device := dev @ ''1'',
      part_size := ''2GiB''\<rparr>"
  let ?b = "empty_partition\<lparr>fstype := ''btrfs'', mountpoint := ''/'', device := dev @ ''2''\<rparr>"
  let ?siz = "srt (\<lambda>a b. b < a) part_size (srt (<) device (srt (<) mountpoint [?a, ?b]))"
  have parts: "generate_default_partition_schema dev boot True = [?a, ?b]"
    by (simp add: generate_default_partition_schema_def)
  have "?siz = [?a, ?b]"
  proof (rule mset_pair_sorted)
    show "mset ?siz = {#?a, ?b#}" by (simp add: sort_contract.mset_srt [OF assms])
    show "sorted_wrt (\<lambda>a b. part_size b \<le> part_size a) ?siz"
      by (rule sort_contract.sorted_srt_desc [OF assms])
  qed (simp add: empty_partition_def)
  then show ?thesis by (simp add: parts sfdisk_partitions_def Let_def)
qed

text \<open>C2. Whatever conforming sort the standard library brings, the script that
  \<^verbatim>\<open>gen_sfdisk_command\<close> builds is the label line followed by one line for each of a selection of the
  given partitions; every device of the scheme is in the selection, and no partition with a
  size follows one without, so that an open-ended partition cannot take the space of a sized one.\<close>

theorem gen_sfdisk_command_script:
  assumes "sort_contract srt"
  shows "\<exists>parts.
    gen_sfdisk_command srt ps efi =
      (if efi then ''label: gpt\<newline>'' else ''label: dos\<newline>'') @ concat (map sfdisk_line parts) \<and>
    set parts \<subseteq> set ps \<and> device ` set parts = device ` set ps \<and>
    (\<forall>as p bs. parts = as @ p # bs \<longrightarrow> part_size p = [] \<longrightarrow> (\<forall>q\<in>set bs. part_size q = []))"
proof -
  have loc: "partition_sorting srt" using assms by (simp add: partition_sorting_def)
  show ?thesis
  proof (intro exI conjI)
    show "gen_sfdisk_command srt ps efi =
        (if efi then ''label: gpt\<newline>'' else ''label: dos\<newline>'')
        @ concat (map sfdisk_line (sfdisk_partitions srt ps))"
      by (rule gen_sfdisk_command_eq)
    show "\<forall>as p bs. sfdisk_partitions srt ps = as @ p # bs \<longrightarrow> part_size p = [] \<longrightarrow>
        (\<forall>q\<in>set bs. part_size q = [])"
      using partition_sorting.sfdisk_open_ended_last [OF loc] by blast
  qed (rule partition_sorting.sfdisk_set [OF loc] partition_sorting.sfdisk_devices [OF loc])+
qed

definition sample_scheme :: "fs_partition list" where
  "sample_scheme =
     [empty_partition\<lparr>fstype := ''btrfs'', mountpoint := ''/'', device := ''/dev/sda2''\<rparr>,
      empty_partition\<lparr>fstype := ''fat32'', mountpoint := ''/boot'', device := ''/dev/sda1'', part_size := ''2GiB''\<rparr>,
      empty_partition\<lparr>fstype := ''btrfs'', mountpoint := ''/home'', device := ''/dev/sda2''\<rparr>]"

theorem gen_sfdisk_command_script_witness:
  "\<exists>parts.
    gen_sfdisk_command insertion_sort sample_scheme True =
      (if True then ''label: gpt\<newline>'' else ''label: dos\<newline>'') @ concat (map sfdisk_line parts) \<and>
    set parts \<subseteq> set sample_scheme \<and> device ` set parts = device ` set sample_scheme \<and>
    (\<forall>as p bs. parts = as @ p # bs \<longrightarrow> part_size p = [] \<longrightarrow> (\<forall>q\<in>set bs. part_size q = []))"
  by (rule gen_sfdisk_command_script [OF insertion.sort_contract_axioms])

text \<open>The default UEFI scheme gives the same script under every conforming sort: a bootable
  ESP of 2 GiB, then a Linux partition on the rest of the disk.\<close>

theorem default_efi_script:
  assumes "sort_contract srt"
  shows "gen_sfdisk_command srt (generate_default_partition_schema dev boot True) True =
    ''label: gpt\<newline>type=U,size=2GiB,bootable\<newline>type=L\<newline>''"
  using assms
  by (simp add: gen_sfdisk_command_eq default_schema_sorted)
    (simp add: generate_default_partition_schema_def sfdisk_line_def convert_fsname_def
      get_part_type_alias_def empty_partition_def)

theorem default_efi_script_witness:
  "gen_sfdisk_command insertion_sort (generate_default_partition_schema ''/dev/sda'' ''/boot'' True) True =
    ''label: gpt\<newline>type=U,size=2GiB,bootable\<newline>type=L\<newline>''"
  by (rule default_efi_script [OF insertion.sort_contract_axioms])

text \<open>When partitions on the same device agree on the size (subvolumes of one
  partition do), the script has exactly one line per device, under every stable sort.\<close>

theorem sfdisk_one_line_per_device:
  assumes "stable_sort_contract srt"
    and "\<And>p q. p \<in> set ps \<Longrightarrow> q \<in> set ps \<Longrightarrow> device p = device q \<Longrightarrow> part_size p = part_size q"
  shows "\<exists>parts. gen_sfdisk_command srt ps efi =
      (if efi then ''label: gpt\<newline>'' else ''label: dos\<newline>'') @ concat (map sfdisk_line parts) \<and>
    distinct (map device parts) \<and> length parts = card (device ` set ps)"
proof -
  have loc: "stable_partition_sorting srt"
    using assms(1)
    by (simp add: stable_partition_sorting_def partition_sorting_def stable_sort_contract_def)
  then have loc': "partition_sorting srt" by (simp add: stable_partition_sorting_def)
  let ?parts = "sfdisk_partitions srt ps"
  have d: "distinct (map device ?parts)"
    by (rule stable_partition_sorting.sfdisk_distinct_devices [OF loc]) (rule assms(2))
  have "card (device ` set ?parts) = length ?parts"
    using distinct_card [OF d] by simp
  with d partition_sorting.sfdisk_devices [OF loc', of ps] show ?thesis
    by (intro exI [of _ ?parts]) (simp add: gen_sfdisk_command_eq)
qed

lemma sample_scheme_agrees:
  "p \<in> set sample_scheme \<Longrightarrow> q \<in> set sample_scheme \<Longrightarrow> device p = device q \<Longrightarrow>
   part_size p = part_size q"
  by (auto simp: sample_scheme_def empty_partition_def)

theorem sfdisk_one_line_per_device_witness:
  "\<exists>parts. gen_sfdisk_command insertion_sort sample_scheme True =
      (if True then ''label: gpt\<newline>'' else ''label: dos\<newline>'') @ concat (map sfdisk_line parts) \<and>
    distinct (map device parts) \<and> length parts = card (device ` set sample_scheme)"
  by (rule sfdisk_one_line_per_device [OF insertion.stable_sort_contract_axioms])
    (rule sample_scheme_agrees)

text \<open>
  Without that agreement the duplicate filter, which compares neighbours after the sort by size,
  lets a device through twice.
\<close>

lemma sfdisk_duplicate_device:
  "map device (sfdisk_partitions insertion_sort
     [empty_partition\<lparr>device := ''A'', part_size := ''9''\<rparr>,
      empty_partition\<lparr>device := ''A'', part_size := ''1''\<rparr>,
      empty_partition\<lparr>device := ''B'', part_size := ''5''\<rparr>]) = [''A'', ''B'', ''A'']"
  by code_simp

text \<open>C3. \<^verbatim>\<open>make_clean_partschema\<close> applies the script only to an erased disk.  Its commands are dd, wipefs, sgdisk and sfdisk, in this order;
  it reports success exactly when all four succeed, and then has made exactly these four requests.  When it reports failure, one of
  the commands has failed after the ones before it had succeeded, and it is the last request that was made; so sfdisk is started
  only when the three erasing commands have succeeded.\<close>

theorem clean_partschema_order:
  assumes "status w = Running"
    and "run_state (make_clean_partschema env srt dev ps efi) w = (ok, w')"
    and "cmds = [dd_cmd dev, wipe_cmd dev, sgdisk_cmd dev, sfdisk_cmd (gen_sfdisk_command srt ps efi) dev]"
  shows "status w' = Running \<and> (ok \<longleftrightarrow> fst (exec_steps env (map Run cmds) (host w))) \<and>
    (ok \<longrightarrow> trace w' = trace w @ map System cmds) \<and>
    (\<not> ok \<longrightarrow> (\<exists>k. failed_at env (map Run cmds) (host w) k \<and> trace w' = trace w @ map System (take (Suc k) cmds)))"
  by (rule clean.commands_outcome [OF assms(1,2)])
    (simp add: make_clean_partschema_plan_def erase_disk_plan_def assms(3))

theorem clean_partschema_order_witness:
  "trace (snd (run_state (make_clean_partschema quiet_env insertion_sort ''/dev/sda'' sample_scheme True) (world_of []))) =
    map System [dd_cmd ''/dev/sda'', wipe_cmd ''/dev/sda'', sgdisk_cmd ''/dev/sda'',
      sfdisk_cmd (gen_sfdisk_command insertion_sort sample_scheme True) ''/dev/sda'']"
proof -
  let ?run = "run_state (make_clean_partschema quiet_env insertion_sort ''/dev/sda'' sample_scheme True) (world_of [])"
  obtain ok w' where run: "?run = (ok, w')" by force
  note order = clean_partschema_order [OF world_of_simps(1) run refl]
  from order quiet_commands have "trace w' = trace (world_of []) @ map System [dd_cmd ''/dev/sda'', wipe_cmd ''/dev/sda'', sgdisk_cmd ''/dev/sda'',
      sfdisk_cmd (gen_sfdisk_command insertion_sort sample_scheme True) ''/dev/sda'']" by blast
  then show ?thesis unfolding run by simp
qed

end
