(* ===== verification/Mtab.thy ===== *)
theory Mtab
  imports Plan
begin

section \<open>The mount table (gucc/src/mtab.cpp, gucc/src/umount_partitions.cpp)\<close>

text \<open>
  Reading the mount table line by line, selecting the entries below a mount point, and unmounting
  them.  A line of blanks alone makes the code dereference the end of its view: parsing is then
  undefined, \<open>None\<close> here, and stops the process in the operations that call it.
\<close>

record mtab_entry =
  mt_device :: string
  mt_mountpoint :: string

subsection \<open>Parsing\<close>

definition parse_mtab_line :: "string \<Rightarrow> string \<Rightarrow> mtab_entry list option" where
  "parse_mtab_line root_mountpoint line =
     (if line = '''' \<or> starts_with line ''#'' then Some []
      else
        (let line_split = make_split_view line (CHR '' '') in
         case index_viewable_range line_split 0 of
           None \<Rightarrow> None
         | Some dev \<Rightarrow>
             if 3 \<le> size_viewable_range line_split \<and> \<not> starts_with dev ''#'' then
               (case index_viewable_range line_split 1 of
                  None \<Rightarrow> None
                | Some mnt \<Rightarrow>
                    if starts_with mnt root_mountpoint
                    then Some [\<lparr>mt_device = dev, mt_mountpoint = mnt\<rparr>] else Some [])
             else Some []))"

fun parse_mtab_lines :: "string \<Rightarrow> string list \<Rightarrow> mtab_entry list \<Rightarrow> mtab_entry list option" where
  "parse_mtab_lines root_mountpoint [] entries = Some entries"
| "parse_mtab_lines root_mountpoint (line # lines) entries =
     (case parse_mtab_line root_mountpoint line of
        None \<Rightarrow> None
      | Some new \<Rightarrow> parse_mtab_lines root_mountpoint lines (entries @ new))"

definition parse_mtab_content :: "string \<Rightarrow> string \<Rightarrow> mtab_entry list option" where
  "parse_mtab_content mtab_content root_mountpoint =
     parse_mtab_lines root_mountpoint (make_split_view mtab_content newline_char) []"

subsection \<open>Reading the file\<close>

text \<open>
  The loop \<^verbatim>\<open>while (file) { getline; push_back }\<close>: the read that meets the end of the file is
  pushed too, an empty line, also when the last line had no newline of its own.
\<close>

fun getline_loop :: "string \<Rightarrow> string \<Rightarrow> string list" where
  "getline_loop line [] = (if line = '''' then [''''] else [line, ''''])"
| "getline_loop line (c # cs) =
     (if c = newline_char then line # getline_loop '''' cs else getline_loop (line @ [c]) cs)"

definition read_mtab :: "string \<Rightarrow> ('m, string option) io" where
  "read_mtab mtab_path = inspect None (\<lambda>h.
     case files h mtab_path of
       None \<Rightarrow> None
     | Some content \<Rightarrow> Some (join (getline_loop '''' content) newline_char))"

definition parse_mtab :: "string \<Rightarrow> string \<Rightarrow> ('m, mtab_entry list option) io" where
  "parse_mtab root_mountpoint mtab_path =
     (if root_mountpoint = '''' \<or> mtab_path = '''' then ret None
      else do {
        file_content \<leftarrow> read_mtab mtab_path;
        case file_content of
          None \<Rightarrow> ret None
        | Some content \<Rightarrow>
            if content = '''' then ret None
            else (case parse_mtab_content content root_mountpoint of
                    None \<Rightarrow> terminate None
                  | Some entries \<Rightarrow> ret (Some entries))
      })"

subsection \<open>Unmounting\<close>

definition umount_cmd :: "string \<Rightarrow> string" where
  "umount_cmd mnt = ''umount -v '' @ mnt @ '' &>>/tmp/cachyos-install.log''"

definition zpool_export_cmd :: "string \<Rightarrow> string" where
  "zpool_export_cmd zfs_poolname = ''zpool export '' @ zfs_poolname @ '' &>>/tmp/cachyos-install.log''"

fun umount_entries :: "'m sysenv \<Rightarrow> mtab_entry list \<Rightarrow> ('m, bool) io" where
  "umount_entries env [] = ret True"
| "umount_entries env (mtab_entry # entries) = do {
     ok \<leftarrow> exec_checked env (umount_cmd (mt_mountpoint mtab_entry));
     if \<not> ok then ret False else umount_entries env entries
   }"

fun export_zpools :: "'m sysenv \<Rightarrow> string list \<Rightarrow> ('m, bool) io" where
  "export_zpools env [] = ret True"
| "export_zpools env (zfs_poolname # zfs_poolnames) = do {
     ok \<leftarrow> exec_checked env (zpool_export_cmd zfs_poolname);
     if \<not> ok then ret False else export_zpools env zfs_poolnames
   }"

definition umount_partitions ::
  "'m sysenv \<Rightarrow> mtab_entry sorter \<Rightarrow> string \<Rightarrow> string list \<Rightarrow> ('m, bool) io" where
  "umount_partitions env srt root_mountpoint zfs_poolnames = do {
     mtab_entries \<leftarrow> parse_mtab root_mountpoint ''/etc/mtab'';
     case mtab_entries of
       None \<Rightarrow> ret False
     | Some entries \<Rightarrow> do {
         ok \<leftarrow> umount_entries env (srt (<) mt_mountpoint entries);
         if \<not> ok then ret False else export_zpools env zfs_poolnames
       }
   }"

subsection \<open>Lemmas on parsing\<close>

text \<open>The entries a list of lines yields, and when the parse is defined.\<close>

fun collect_some :: "('a \<Rightarrow> 'b list option) \<Rightarrow> 'a list \<Rightarrow> 'b list option" where
  "collect_some f [] = Some []"
| "collect_some f (x # xs) =
     (case f x of None \<Rightarrow> None | Some ys \<Rightarrow> map_option (append ys) (collect_some f xs))"

lemma map_option_append_assoc:
  "map_option (\<lambda>x. a @ b @ x) opt = map_option (append (a @ b)) opt"
  "map_option (append []) opt = opt"
  by (cases opt; simp)+

lemma parse_mtab_lines_eq:
  "parse_mtab_lines root ls acc = map_option (append acc) (collect_some (parse_mtab_line root) ls)"
  by (induction ls arbitrary: acc) (auto simp: option.map_comp comp_def map_option_append_assoc split: option.splits)

lemma parse_mtab_content_eq:
  "parse_mtab_content c root = collect_some (parse_mtab_line root) (make_split_view c newline_char)"
  by (simp add: parse_mtab_content_def parse_mtab_lines_eq map_option_append_assoc)

lemma collect_some_append:
  "collect_some f (xs @ ys) =
     (case collect_some f xs of None \<Rightarrow> None | Some a \<Rightarrow> map_option (append a) (collect_some f ys))"
  by (induction xs) (auto simp: option.map_comp comp_def map_option_append_assoc split: option.splits)

lemma collect_some_concat:
  "(\<And>x. x \<in> set xs \<Longrightarrow> f x = Some (g x)) \<Longrightarrow> collect_some f xs = Some (concat (map g xs))"
  by (induction xs) auto

lemma parse_mtab_line_root:
  "parse_mtab_line root l = Some es \<Longrightarrow> e \<in> set es \<Longrightarrow> starts_with (mt_mountpoint e) root"
  by (auto simp: parse_mtab_line_def Let_def split: if_splits option.splits)

lemma parse_mtab_content_root:
  "parse_mtab_content c root = Some es \<Longrightarrow> e \<in> set es \<Longrightarrow> starts_with (mt_mountpoint e) root"
proof -
  have "collect_some (parse_mtab_line root) ls = Some es \<Longrightarrow> e \<in> set es \<Longrightarrow>
      starts_with (mt_mountpoint e) root" for ls
    by (induction ls arbitrary: es)
      (auto split: option.splits dest: parse_mtab_line_root)
  then show "parse_mtab_content c root = Some es \<Longrightarrow> e \<in> set es \<Longrightarrow>
      starts_with (mt_mountpoint e) root"
    by (simp add: parse_mtab_content_eq)
qed

text \<open>A line with two plain leading fields and more text behind them.\<close>

lemma make_split_view_field:
  "d \<notin> set f \<Longrightarrow> f \<noteq> [] \<Longrightarrow>
   make_split_view (f @ replicate k d @ d # t) d = f # make_split_view t d"
proof -
  assume f: "d \<notin> set f" "f \<noteq> []"
  have blanks: "make_split_view (replicate k d @ u) d = make_split_view u d" for u
    by (induction k) (simp_all add: make_split_view_eq)
  have "f @ replicate k d @ d # t = f @ d # (replicate k d @ t)"
    by (simp add: replicate_app_Cons_same)
  with f show ?thesis
    by (simp only: make_split_view_append_delim blanks) (simp add: make_split_view_delim_free)
qed

lemma make_split_view_nonempty:
  "c \<in> set s \<Longrightarrow> c \<noteq> d \<Longrightarrow> make_split_view s d \<noteq> []"
proof (rule ccontr)
  assume c: "c \<in> set s" "c \<noteq> d" and "\<not> make_split_view s d \<noteq> []"
  then have all: "\<forall>p\<in>set (split_pieces d s). p = []"
    by (auto simp: make_split_view_eq filter_empty_conv)
  have "set (join ps d) \<subseteq> {d} \<union> \<Union> (set ` set ps)" for ps
    by (induction ps) (auto simp: join_Cons)
  from this [of "split_pieces d s"] have "set s \<subseteq> {d} \<union> \<Union> (set ` set (split_pieces d s))"
    by (simp add: join_split_pieces)
  with all have "set s \<subseteq> {d}" by fastforce
  with c show False by auto
qed

lemma parse_mtab_line_fields:
  assumes "f \<noteq> []" "hd f \<noteq> CHR ''#''" "CHR '' '' \<notin> set f" "m \<noteq> []" "CHR '' '' \<notin> set m"
    and "c \<in> set t" "c \<noteq> CHR '' ''"
  shows "parse_mtab_line root
      (f @ replicate j (CHR '' '') @ CHR '' '' # m @ replicate k (CHR '' '') @ CHR '' '' # t) =
    Some (if starts_with m root then [\<lparr>mt_device = f, mt_mountpoint = m\<rparr>] else [])"
proof -
  let ?l = "f @ replicate j (CHR '' '') @ CHR '' '' # m @ replicate k (CHR '' '') @ CHR '' '' # t"
  have fields: "make_split_view ?l (CHR '' '') = f # m # make_split_view t (CHR '' '')"
    using assms make_split_view_field [of "CHR '' ''" f j] make_split_view_field [of "CHR '' ''" m k t]
    by simp
  have ne: "make_split_view t (CHR '' '') \<noteq> []" by (rule make_split_view_nonempty [OF assms(6,7)])
  have nohash: "\<not> starts_with f ''#''" using assms(1,2) by (cases f) auto
  then have "\<not> starts_with ?l ''#''" using assms(1) by (cases f) auto
  with fields ne nohash assms(1) show ?thesis
    unfolding parse_mtab_line_def Let_def fields
    by (auto simp: index_viewable_range_def size_viewable_range_def Suc_le_eq)
qed

subsection \<open>Lemmas on reading\<close>

lemma getline_loop_not_Nil [simp]: "getline_loop l s \<noteq> []"
  by (induction l s rule: getline_loop.induct) auto

lemma join_getline_loop:
  "join (getline_loop l s) newline_char =
     (if l @ s = [] then [] else if s \<noteq> [] \<and> last s = newline_char then l @ s
      else l @ s @ [newline_char])"
proof (induction l s rule: getline_loop.induct)
  case (2 l c cs)
  with 2 show ?case by (auto simp: join_Cons)
qed (simp add: join_Cons)

lemma run_read_mtab:
  "status w = Running \<Longrightarrow> files (host w) p = Some c \<Longrightarrow>
   run_state (read_mtab p) w =
     (Some (if c = [] then [] else if last c = newline_char then c else c @ [newline_char]), w)"
  by (simp add: read_mtab_def inspect_def join_getline_loop)

subsection \<open>Unmounting is a plan\<close>

definition umount_plan :: "mtab_entry list \<Rightarrow> string list \<Rightarrow> step list" where
  "umount_plan entries pools =
     map (\<lambda>e. Run (umount_cmd (mt_mountpoint e))) entries @
     map (\<lambda>z. Run (zpool_export_cmd z)) pools"

definition umount_and_export :: "'m sysenv \<Rightarrow> mtab_entry list \<Rightarrow> string list \<Rightarrow> ('m, bool) io" where
  "umount_and_export env entries pools = do {
     ok \<leftarrow> umount_entries env entries;
     if \<not> ok then ret False else export_zpools env pools
   }"

lemma umount_entries_plan:
  "umount_entries env es = run_plan env (map (\<lambda>e. Run (umount_cmd (mt_mountpoint e))) es)"
  by (induction es) (simp, rule state_ext, auto split: prod.splits)

lemma export_zpools_plan:
  "export_zpools env zs = run_plan env (map (\<lambda>z. Run (zpool_export_cmd z)) zs)"
  by (induction zs) (simp, rule state_ext, auto split: prod.splits)

interpretation umount: planned_op env "umount_and_export env entries pools" "umount_plan entries pools"
  for env entries pools
proof unfold_locales
  show "umount_and_export env entries pools = run_plan env (umount_plan entries pools)"
    by (rule state_ext)
      (simp add: umount_and_export_def umount_plan_def run_plan_append umount_entries_plan
        export_zpools_plan split: prod.splits)
qed

lemma run_parse_mtab:
  assumes "status w = Running" "files (host w) mtab = Some content" "content \<noteq> []" "last content = newline_char"
    and "parse_mtab_content content root = Some entries" "root \<noteq> []" "mtab \<noteq> []"
  shows "run_state (parse_mtab root mtab) w = (Some entries, w)"
  using assms by (simp add: parse_mtab_def run_read_mtab)

lemma run_umount_partitions:
  assumes "status w = Running" "files (host w) ''/etc/mtab'' = Some content"
    and "content \<noteq> []" "last content = newline_char"
    and "parse_mtab_content content root = Some entries" "root \<noteq> []"
  shows "run_state (umount_partitions env srt root pools) w =
    run_state (umount_and_export env (srt (<) mt_mountpoint entries) pools) w"
  using run_parse_mtab [OF assms(1-5) assms(6)]
  by (simp add: umount_partitions_def umount_and_export_def)

text \<open>Every selected mount point starts with the root mount point, so the root comes first.\<close>

lemma prefix_less_eq_string: "(s :: string) \<le> s @ t"
  by (induction s) auto

lemma sorted_root_first:
  assumes "sort_contract srt" "\<And>e. e \<in> set es \<Longrightarrow> starts_with (mt_mountpoint e) root"
    and "e0 \<in> set es" "mt_mountpoint e0 = root"
  shows "\<exists>e rest. srt (<) mt_mountpoint es = e # rest \<and> mt_mountpoint e = root"
proof -
  let ?s = "srt (<) mt_mountpoint es"
  have set: "set ?s = set es" by (rule sort_contract.set_srt [OF assms(1)])
  then obtain e rest where s: "?s = e # rest" using assms(3) by (cases ?s) auto
  have "e \<in> set es" using s set by auto
  then obtain t where t: "mt_mountpoint e = root @ t" using assms(2) by (auto simp: starts_with_iff)
  have "e0 = e \<or> e0 \<in> set rest" using assms(3) s set by auto
  then have "mt_mountpoint e \<le> mt_mountpoint e0"
    using sort_contract.sorted_srt [OF assms(1), of mt_mountpoint es] s by auto
  with assms(4) have "mt_mountpoint e \<le> root" by simp
  with t prefix_less_eq_string [of root t] have "mt_mountpoint e = root" by (simp add: antisym)
  with s show ?thesis by blast
qed

subsection \<open>Properties\<close>

text \<open>C15. When the mount table can be read, is not empty, ends with a line end and every line of it parses, and the root mount point is not
  empty, unmounting asks for exactly the mounts whose mount points begin with the root mount point, in ascending order of their mount points, and then
  for the export of the pools in the given order.  It reports success exactly when all of these requests succeed, and then has made exactly them; when it reports failure, one of them has
  failed after the ones before it had succeeded, and it is the last request that was made.\<close>

theorem umount_requests:
  assumes "status w = Running" "files (host w) ''/etc/mtab'' = Some content"
    and "content \<noteq> []" "last content = newline_char"
    and "parse_mtab_content content root = Some entries" "root \<noteq> []" "sort_contract srt"
    and "run_state (umount_partitions env srt root pools) w = (ok, w')"
  shows "\<exists>sorted_entries cmds. mset sorted_entries = mset entries \<and>
    sorted (map mt_mountpoint sorted_entries) \<and>
    (\<forall>e\<in>set sorted_entries. starts_with (mt_mountpoint e) root) \<and>
    cmds = map (\<lambda>e. umount_cmd (mt_mountpoint e)) sorted_entries @ map zpool_export_cmd pools \<and>
    (ok \<longleftrightarrow> fst (exec_steps env (map Run cmds) (host w))) \<and>
    (ok \<longrightarrow> trace w' = trace w @ map System cmds) \<and>
    (\<not> ok \<longrightarrow> (\<exists>k. failed_at env (map Run cmds) (host w) k \<and> trace w' = trace w @ map System (take (Suc k) cmds)))"
proof -
  let ?es = "srt (<) mt_mountpoint entries"
  let ?cmds = "map (\<lambda>e. umount_cmd (mt_mountpoint e)) ?es @ map zpool_export_cmd pools"
  have run: "run_state (umount_and_export env ?es pools) w = (ok, w')"
    using run_umount_partitions [OF assms(1-6)] assms(8) by simp
  have "umount_plan ?es pools = map Run ?cmds" by (simp add: umount_plan_def)
  note outcome = umount.commands_outcome [OF assms(1) run this]
  have roots: "\<forall>e\<in>set ?es. starts_with (mt_mountpoint e) root"
    using parse_mtab_content_root [OF assms(5)] sort_contract.set_srt [OF assms(7)] by simp
  show ?thesis
    by (rule exI [of _ ?es], rule exI [of _ ?cmds], intro conjI sort_contract.mset_srt sort_contract.sorted_srt assms(7) roots refl)
      (use outcome in blast)+
qed

definition sample_mtab :: string where
  "sample_mtab = ''proc /proc proc rw 0 0\<newline>/dev/sda2 /mnt btrfs rw 0 0\<newline>/dev/sda1 /mnt/boot vfat rw 0 0\<newline>''"

definition sample_entries :: "mtab_entry list" where
  "sample_entries =
     [\<lparr>mt_device = ''/dev/sda2'', mt_mountpoint = ''/mnt''\<rparr>,
      \<lparr>mt_device = ''/dev/sda1'', mt_mountpoint = ''/mnt/boot''\<rparr>]"

lemma sample_mtab_facts:
  "sample_mtab \<noteq> []" "last sample_mtab = newline_char" "''/mnt'' \<noteq> []"
  "parse_mtab_content sample_mtab ''/mnt'' = Some sample_entries"
  by code_simp+

theorem umount_requests_witness:
  "\<exists>sorted_entries. mset sorted_entries = mset sample_entries \<and> sorted (map mt_mountpoint sorted_entries) \<and>
    trace (snd (run_state (umount_partitions quiet_env insertion_sort ''/mnt'' [''zroot''])
      (world_of [(''/etc/mtab'', sample_mtab)]))) =
      map System (map (\<lambda>e. umount_cmd (mt_mountpoint e)) sorted_entries @ [zpool_export_cmd ''zroot''])"
proof -
  have f: "files (host (world_of [(''/etc/mtab'', sample_mtab)])) ''/etc/mtab'' = Some sample_mtab"
    by simp
  show ?thesis
    using umount_requests [OF world_of_simps(1) f sample_mtab_facts(1,2,4,3)
        insertion.sort_contract_axioms surjective_pairing, of "[''zroot'']" quiet_env]
    unfolding world_of_simps append_Nil list.map using quiet_commands by blast
qed

text \<open>C22. The ascending order unmounts a parent before what is mounted below it.  On a
  system that refuses to unmount a busy directory, that is, one below which the mount table still
  shows a mount, the operation fails at its first request as soon as the target has a second mount: nothing is
  unmounted and no pool is exported.\<close>

theorem umount_parent_first_fails:
  assumes "status w = Running" "files (host w) ''/etc/mtab'' = Some content"
    and "content \<noteq> []" "last content = newline_char"
    and "parse_mtab_content content root = Some entries" "root \<noteq> []" "sort_contract srt"
    and "e0 \<in> set entries" "mt_mountpoint e0 = root"
    and "e1 \<in> set entries" "starts_with (mt_mountpoint e1) (root @ ''/'')"
    and busy: "\<And>m h content es e. files h ''/etc/mtab'' = Some content \<Longrightarrow>
      parse_mtab_content content m = Some es \<Longrightarrow> e \<in> set es \<Longrightarrow>
      starts_with (mt_mountpoint e) (m @ ''/'') \<Longrightarrow> fst (system_call env (umount_cmd m) h) \<noteq> 0"
  shows "fst (run_state (umount_partitions env srt root pools) w) = False \<and>
    trace (snd (run_state (umount_partitions env srt root pools) w)) = trace w @ [System (umount_cmd root)]"
proof -
  obtain e rest where s: "srt (<) mt_mountpoint entries = e # rest" and e: "mt_mountpoint e = root"
    using sorted_root_first [OF assms(7) parse_mtab_content_root [OF assms(5)] assms(8,9)] by blast
  obtain rc h where sc: "system_call env (umount_cmd root) (host w) = (rc, h)"
    by (cases "system_call env (umount_cmd root) (host w)") auto
  have "rc \<noteq> 0" using busy [OF assms(2,5,10,11)] sc by simp
  then have ex: "exec_steps env (umount_plan (e # rest) pools) (host w) = (False, [System (umount_cmd root)], h)"
    using sc e by (simp add: umount_plan_def)
  show ?thesis
    using run_umount_partitions [OF assms(1-6), of env srt pools]
      umount.outcome [OF assms(1), of env "e # rest" pools] ex s by simp
qed


definition busy_env :: "unit sysenv" where
  "busy_env = quiet_env\<lparr>system_call := (\<lambda>c h.
     (if \<exists>m content es e. c = umount_cmd m \<and> files h ''/etc/mtab'' = Some content \<and>
          parse_mtab_content content m = Some es \<and> e \<in> set es \<and>
          starts_with (mt_mountpoint e) (m @ ''/'')
      then 32 else 0, h))\<rparr>"

theorem umount_parent_first_fails_witness:
  "fst (run_state (umount_partitions busy_env insertion_sort ''/mnt'' [''zroot''])
      (world_of [(''/etc/mtab'', sample_mtab)])) = False"
proof -
  have f: "files (host (world_of [(''/etc/mtab'', sample_mtab)])) ''/etc/mtab'' = Some sample_mtab"
    by simp
  let ?e0 = "\<lparr>mt_device = ''/dev/sda2'', mt_mountpoint = ''/mnt''\<rparr>"
  let ?e1 = "\<lparr>mt_device = ''/dev/sda1'', mt_mountpoint = ''/mnt/boot''\<rparr>"
  have mem: "?e0 \<in> set sample_entries" "?e1 \<in> set sample_entries"
    by (simp_all add: sample_entries_def)
  have names: "mt_mountpoint ?e0 = ''/mnt''" "starts_with (mt_mountpoint ?e1) (''/mnt'' @ ''/'')"
    by simp_all
  have busy: "fst (system_call busy_env (umount_cmd m) h) \<noteq> 0"
    if "files h ''/etc/mtab'' = Some content" "parse_mtab_content content m = Some es" "e \<in> set es"
      "starts_with (mt_mountpoint e) (m @ ''/'')" for m h content es e
    using that by (auto simp: busy_env_def)
  show ?thesis
    by (rule umount_parent_first_fails [OF world_of_simps(1) f sample_mtab_facts(1,2,4,3)
          insertion.sort_contract_axioms mem(1) names(1) mem(2) names(2) busy, THEN conjunct1])
qed

end
