(* ===== verification/Fstab.thy ===== *)
theory Fstab
  imports Partitioning Mtab
begin

section \<open>The file system table (gucc/src/fstab.cpp)\<close>

text \<open>
  Generating \<^verbatim>\<open>/etc/fstab\<close> from a partition scheme, writing it, and the alternative that lets
  \<^verbatim>\<open>genfstab\<close> do it and edits the result.  The main lemma is a round trip with the reader of the mount
  table: parsing the generated table gives back the device and mount point of every partition that has an entry.
  The field widths of \<^verbatim>\<open>fmt\<close> count characters; they agree with bytes on ASCII text.
\<close>

subsection \<open>Entries\<close>

definition FSTAB_HEADER :: string where
  "FSTAB_HEADER = ''# Static information about the filesystems.\<newline># See fstab(5) for details.\<newline>\<newline># <file system> <dir> <type> <options> <dump> <pass>\<newline>''"

definition convert_fsname_fstab :: "string \<Rightarrow> string" where
  "convert_fsname_fstab fsname =
     (if fsname = ''fat16'' \<or> fsname = ''fat32'' then ''vfat''
      else if fsname = ''linuxswap'' then ''swap''
      else fsname)"

definition get_check_number :: "string \<Rightarrow> string \<Rightarrow> nat" where
  "get_check_number mnt fs_type =
     (if mnt = ''/'' \<and> fs_type \<noteq> ''btrfs'' then 1
      else if mnt \<noteq> ''swap'' \<and> fs_type \<noteq> ''btrfs'' then 2
      else 0)"

definition get_mount_options :: "string \<Rightarrow> string \<Rightarrow> string \<Rightarrow> string" where
  "get_mount_options opts btrfs_subvolume fs_type =
     (if fs_type = ''btrfs'' \<and> btrfs_subvolume \<noteq> ''''
      then ''subvol='' @ btrfs_subvolume @ '','' @ opts else opts)"

definition string_tolower :: "string \<Rightarrow> string" where
  "string_tolower s = map to_lower s"

definition get_converted_fs :: "string \<Rightarrow> string" where
  "get_converted_fs fs_type = convert_fsname_fstab (string_tolower fs_type)"

definition fstab_device :: "fs_partition \<Rightarrow> string" where
  "fstab_device part =
     (case luks_mapper_name part of
        Some mapper_name \<Rightarrow> ''/dev/mapper/'' @ mapper_name
      | None \<Rightarrow> (if uuid_str part \<noteq> '''' then ''UUID='' @ uuid_str part else device part))"

definition gen_fstab_entry :: "fs_partition \<Rightarrow> string option" where
  "gen_fstab_entry part =
     (let fs_type = get_converted_fs (fstype part);
          mnt = mountpoint part
      in if fs_type = ''swap'' then None
         else
           (let check_num = get_check_number mnt fs_type;
                mount_options =
                  get_mount_options (mount_opts part)
                    (case subvolume part of None \<Rightarrow> '''' | Some s \<Rightarrow> s) fs_type
            in Some (''# '' @ device part @ [newline_char]
                 @ pad_right 41 (fstab_device part) @ '' '' @ pad_right 14 mnt @ '' ''
                 @ pad_right 7 fs_type @ '' '' @ pad_right 10 mount_options @ '' 0 ''
                 @ show_nat check_num @ [newline_char, newline_char])))"

fun append_fstab_entries :: "string \<Rightarrow> fs_partition list \<Rightarrow> string" where
  "append_fstab_entries fstab_content [] = fstab_content"
| "append_fstab_entries fstab_content (part # partitions) =
     (if fstype part = ''zfs'' then append_fstab_entries fstab_content partitions
      else (case gen_fstab_entry part of
              None \<Rightarrow> append_fstab_entries fstab_content partitions
            | Some fstab_entry \<Rightarrow> append_fstab_entries (fstab_content @ fstab_entry) partitions))"

definition generate_fstab_content :: "fs_partition list \<Rightarrow> string" where
  "generate_fstab_content partitions = append_fstab_entries FSTAB_HEADER partitions"

definition generate_fstab :: "'m sysenv \<Rightarrow> fs_partition list \<Rightarrow> string \<Rightarrow> ('m, bool) io" where
  "generate_fstab env partitions root_mountpoint = do {
     ok \<leftarrow> create_file_for_overwrite env (root_mountpoint @ ''/etc/fstab'')
             (generate_fstab_content partitions);
     if \<not> ok then ret False else ret True
   }"

subsection \<open>Generation by genfstab\<close>

definition zfs_query_cmd :: "string \<Rightarrow> string" where
  "zfs_query_cmd msource =
     ''zfs list -H -o mountpoint,name | grep '' @ squote @ ''^/'' @ squote @ '' | awk '' @ squote
     @ ''{print $2}'' @ squote @ '' | grep -q '' @ squote @ ''^'' @ msource @ ''$'' @ squote"

definition comment_source_cmd :: "string \<Rightarrow> string \<Rightarrow> string" where
  "comment_source_cmd msource fstab_filepath =
     ''sed -e '' @ squote @ backslash @ ''|^'' @ msource @ ''[[:space:]]| s/^#*/#/'' @ squote
     @ '' -i '' @ fstab_filepath"

fun comment_zfs_sources :: "'m sysenv \<Rightarrow> string \<Rightarrow> string list \<Rightarrow> ('m, unit) io" where
  "comment_zfs_sources env fstab_filepath [] = ret ()"
| "comment_zfs_sources env fstab_filepath (msource # msource_list) = do {
     mounted_by_zfs \<leftarrow> exec_checked env (zfs_query_cmd msource);
     if mounted_by_zfs
     then do {
       out \<leftarrow> exec env (comment_source_cmd msource fstab_filepath) False;
       comment_zfs_sources env fstab_filepath msource_list
     }
     else comment_zfs_sources env fstab_filepath msource_list
   }"

definition run_genfstab_on_mount :: "'m sysenv \<Rightarrow> string \<Rightarrow> ('m, bool) io" where
  "run_genfstab_on_mount env root_mountpoint =
     (let fstab_filepath = root_mountpoint @ ''/etc/fstab'';
          fstab_cmd = ''genfstab -U -p '' @ root_mountpoint @ '' > '' @ fstab_filepath;
          swap_file = root_mountpoint @ ''/swapfile'';
          query_zfs_cmd = ''cat '' @ fstab_filepath @ '' | grep '' @ squote @ ''^[a-z,A-Z]'' @ squote
            @ '' | awk '' @ squote @ ''{print $1}'' @ squote
      in do {
        ok \<leftarrow> exec_checked env fstab_cmd;
        if \<not> ok then ret False
        else do {
          fstab_content \<leftarrow> read_whole_file fstab_filepath;
          has_swap \<leftarrow> inspect False (\<lambda>h. files h swap_file \<noteq> None);
          swap_edit \<leftarrow> (if has_swap
             then exec env (''sed -i \"s/'' @ backslash @ backslash @ root_mountpoint @ ''//\" ''
                    @ fstab_filepath) False
             else ret '''');
          subvol_edit \<leftarrow> exec env (''sed -i '' @ squote @ ''s/subvolid=.*,subvol='' @ backslash
             @ ''/.*,//g'' @ squote @ '' '' @ fstab_filepath) False;
          query_out \<leftarrow> exec env query_zfs_cmd False;
          comment_zfs_sources env fstab_filepath (make_multiline query_out False newline_char);
          ret True
        }
      })"

subsection \<open>Lemmas\<close>

text \<open>Which partitions have an entry, and the lines of the table.\<close>

definition in_fstab :: "fs_partition \<Rightarrow> bool" where
  "in_fstab p \<longleftrightarrow> fstype p \<noteq> ''zfs'' \<and> get_converted_fs (fstype p) \<noteq> ''swap''"

definition fstab_rest :: "fs_partition \<Rightarrow> string" where
  "fstab_rest p =
     (let fs_type = get_converted_fs (fstype p) in
      pad_right 7 fs_type @ '' ''
      @ pad_right 10 (get_mount_options (mount_opts p) (case subvolume p of None \<Rightarrow> '''' | Some s \<Rightarrow> s) fs_type)
      @ '' 0 '' @ show_nat (get_check_number (mountpoint p) fs_type))"

definition fstab_lines :: "fs_partition \<Rightarrow> string list" where
  "fstab_lines p =
     [''# '' @ device p,
      fstab_device p @ replicate (41 - length (fstab_device p)) (CHR '' '') @ CHR '' '' #
        mountpoint p @ replicate (14 - length (mountpoint p)) (CHR '' '') @ CHR '' '' # fstab_rest p,
      '''']"

definition header_lines :: "string list" where
  "header_lines =
     [''# Static information about the filesystems.'', ''# See fstab(5) for details.'', '''',
      ''# <file system> <dir> <type> <options> <dump> <pass>'']"

lemma header_eq: "FSTAB_HEADER = concat (map (\<lambda>l. l @ [newline_char]) header_lines)"
  by (simp add: FSTAB_HEADER_def header_lines_def)

lemma gen_fstab_entry_eq:
  "gen_fstab_entry p =
     (if get_converted_fs (fstype p) = ''swap'' then None
      else Some (concat (map (\<lambda>l. l @ [newline_char]) (fstab_lines p))))"
  by (simp add: gen_fstab_entry_def fstab_lines_def fstab_rest_def pad_right_def Let_def)

lemma append_fstab_entries_eq:
  "append_fstab_entries acc ps =
     acc @ concat (map (\<lambda>l. l @ [newline_char]) (concat (map fstab_lines (filter in_fstab ps))))"
  by (induction ps arbitrary: acc) (simp_all add: gen_fstab_entry_eq in_fstab_def)

lemma generate_fstab_content_eq:
  "generate_fstab_content ps =
     concat (map (\<lambda>l. l @ [newline_char]) (header_lines @ concat (map fstab_lines (filter in_fstab ps))))"
  by (simp add: generate_fstab_content_def append_fstab_entries_eq header_eq)

text \<open>
  Partitions whose fields can be told apart in the table: the device that the entry names and the mount point are
  words, the device does not start a comment, and the other fields do not end the line.
\<close>

definition fstab_clean :: "fs_partition \<Rightarrow> bool" where
  "fstab_clean p \<longleftrightarrow>
     fstab_device p \<noteq> '''' \<and> hd (fstab_device p) \<noteq> CHR ''#'' \<and> mountpoint p \<noteq> '''' \<and>
     (\<forall>f\<in>{fstab_device p, mountpoint p}. CHR '' '' \<notin> set f \<and> newline_char \<notin> set f) \<and>
     (\<forall>f\<in>{device p, fstype p, mount_opts p, (case subvolume p of None \<Rightarrow> '''' | Some s \<Rightarrow> s)}.
        newline_char \<notin> set f)"

lemma fstab_device_clean:
  "fstab_clean p \<Longrightarrow> fstab_device p \<noteq> '''' \<and> hd (fstab_device p) \<noteq> CHR ''#'' \<and>
     CHR '' '' \<notin> set (fstab_device p) \<and> newline_char \<notin> set (fstab_device p)"
  by (simp add: fstab_clean_def)

lemma newline_not_in_show_nat [simp]: "newline_char \<notin> set (show_nat n)"
  using show_nat_chars [of newline_char n] by auto

lemma show_nat_no_blank [simp]: "CHR '' '' \<notin> set (show_nat n)"
  using show_nat_chars [of "CHR '' ''" n] by auto

lemma newline_not_in_lower: "newline_char \<notin> set s \<Longrightarrow> newline_char \<notin> set (get_converted_fs s)"
proof -
  assume "newline_char \<notin> set s"
  then have "newline_char \<notin> set (string_tolower s)"
    by (auto simp: string_tolower_def to_lower_eq_newline [THEN iffD2])
  then show ?thesis by (simp add: get_converted_fs_def convert_fsname_fstab_def)
qed

lemma fstab_rest_clean: "fstab_clean p \<Longrightarrow> newline_char \<notin> set (fstab_rest p)"
  by (auto simp: fstab_clean_def fstab_rest_def Let_def pad_right_def get_mount_options_def
      newline_not_in_lower split: option.splits)

lemma fstab_lines_clean:
  assumes "fstab_clean p"
  shows "\<forall>l\<in>set (fstab_lines p). newline_char \<notin> set l"
  using fstab_rest_clean [OF assms] fstab_device_clean [OF assms] assms
  by (auto simp: fstab_lines_def fstab_clean_def)

lemma parse_fstab_lines:
  assumes "fstab_clean p"
  shows "collect_some (parse_mtab_line root) (filter (\<lambda>l. l \<noteq> '''') (fstab_lines p)) =
    Some (if starts_with (mountpoint p) root
          then [\<lparr>mt_device = fstab_device p, mt_mountpoint = mountpoint p\<rparr>] else [])"
proof -
  have "CHR ''0'' \<in> set (fstab_rest p)" by (simp add: fstab_rest_def Let_def)
  then have "parse_mtab_line root (fstab_lines p ! 1) =
      Some (if starts_with (mountpoint p) root
            then [\<lparr>mt_device = fstab_device p, mt_mountpoint = mountpoint p\<rparr>] else [])"
    using fstab_device_clean [OF assms] assms
    by (simp only: fstab_lines_def nth_Cons_0 nth_Cons_Suc One_nat_def)
      (rule parse_mtab_line_fields, auto simp: fstab_clean_def)
  moreover have "parse_mtab_line root (fstab_lines p ! 0) = Some []"
    by (simp add: fstab_lines_def parse_mtab_line_def)
  moreover have "filter (\<lambda>l. l \<noteq> '''') (fstab_lines p) = [fstab_lines p ! 0, fstab_lines p ! 1]"
    using fstab_device_clean [OF assms] by (simp add: fstab_lines_def)
  ultimately show ?thesis by simp
qed

lemma collect_fstab_lines:
  "\<forall>p\<in>set ps. fstab_clean p \<Longrightarrow>
   collect_some (parse_mtab_line root) (filter (\<lambda>l. l \<noteq> '''') (concat (map fstab_lines ps))) =
     Some [\<lparr>mt_device = fstab_device p, mt_mountpoint = mountpoint p\<rparr>. p \<leftarrow> ps, starts_with (mountpoint p) root]"
proof (induction ps)
  case (Cons p ps)
  then show ?case
    by (simp add: collect_some_append parse_fstab_lines)
qed simp

subsection \<open>Properties\<close>

text \<open>C1. Round trip: the parser of the mount table, applied to the generated file system table, gives back
  the device and the mount point of exactly the partitions that are neither swap nor zfs and whose mount point starts with
  the given root, in the order of the scheme.  The hypotheses concern only the partitions that have an entry: the device that the
  entry names (the mapper, else the UUID, else the device itself) and the mount point are nonempty and hold no blank
  and no line end, that device does not start with a number sign, and the device, file system, mount options and
  subvolume hold no line end.  Swap and zfs partitions are arbitrary.\<close>

theorem fstab_round_trip:
  assumes "\<forall>p\<in>set ps. in_fstab p \<longrightarrow> fstab_clean p"
  shows "parse_mtab_content (generate_fstab_content ps) root =
    Some [\<lparr>mt_device = fstab_device p, mt_mountpoint = mountpoint p\<rparr>.
      p \<leftarrow> filter in_fstab ps, starts_with (mountpoint p) root]"
proof -
  let ?ls = "header_lines @ concat (map fstab_lines (filter in_fstab ps))"
  have entries: "\<forall>p\<in>set (filter in_fstab ps). fstab_clean p" using assms by simp
  then have clean: "\<forall>l\<in>set ?ls. newline_char \<notin> set l"
    using fstab_lines_clean by (fastforce simp: header_lines_def)
  have "collect_some (parse_mtab_line root) (filter (\<lambda>l. l \<noteq> '''') header_lines) = Some []"
    by (simp add: header_lines_def parse_mtab_line_def)
  with collect_fstab_lines [OF entries] show ?thesis
    by (simp add: parse_mtab_content_eq generate_fstab_content_eq make_split_view_concat_lines [OF clean]
        collect_some_append del: map_append concat_append)
qed

definition sample_fstab_scheme :: "fs_partition list" where
  "sample_fstab_scheme =
     [empty_partition\<lparr>fstype := ''btrfs'', mountpoint := ''/'', device := ''/dev/sda2'',
        uuid_str := ''6bdb3301'', mount_opts := ''defaults,noatime'', subvolume := Some ''/@''\<rparr>,
      empty_partition\<lparr>fstype := ''FAT32'', mountpoint := ''/boot'', device := ''/dev/sda1''\<rparr>,
      empty_partition\<lparr>fstype := ''linuxswap'', device := ''/dev/sda3'', mountpoint := ''''\<rparr>]"

theorem fstab_round_trip_witness:
  "parse_mtab_content (generate_fstab_content sample_fstab_scheme) ''/'' =
    Some [\<lparr>mt_device = fstab_device p, mt_mountpoint = mountpoint p\<rparr>.
      p \<leftarrow> filter in_fstab sample_fstab_scheme, starts_with (mountpoint p) ''/'']"
  by (rule fstab_round_trip)
    (simp add: sample_fstab_scheme_def fstab_clean_def fstab_device_def in_fstab_def empty_partition_def
      get_converted_fs_def convert_fsname_fstab_def string_tolower_def to_lower_def)

lemma sample_fstab_entries:
  "[(fstab_device p, mountpoint p). p \<leftarrow> filter in_fstab sample_fstab_scheme] =
     [(''UUID=6bdb3301'', ''/''), (''/dev/sda1'', ''/boot'')]"
  by code_simp

interpretation fstab: planned_op env "generate_fstab env ps root"
    "[Write (root @ ''/etc/fstab'') (generate_fstab_content ps)]" for env ps root
  by unfold_locales (rule state_ext, simp add: generate_fstab_def split: prod.splits)

end
