(* ===== verification/Crypttab.thy ===== *)
theory Crypttab
  imports Partitioning
begin

section \<open>The table of encrypted devices (gucc/src/crypttab.cpp)\<close>

text \<open>
  Generating \<^verbatim>\<open>/etc/crypttab\<close>.  The scheme is sorted by mount point and then by device, and one
  partition per device is kept.  Which one it is matters, because the password column of the entry
  depends on the mount point; the lemmas show that under a stable sort it is the
  partition with the least mount point.
\<close>

definition CRYPTTAB_HEADER :: string where
  "CRYPTTAB_HEADER = ''# Configuration for encrypted block devices\<newline># See crypttab(5) for details.\<newline>\<newline># NOTE: Do not list your root (/) partition here, it must be set up\<newline>#       beforehand by the initramfs (/etc/mkinitcpio.conf).\<newline>\<newline># <name>       <device>                                     <password>              <options>\<newline>''"

definition gen_crypttab_entry :: "fs_partition \<Rightarrow> string \<Rightarrow> bool \<Rightarrow> bool \<Rightarrow> string option" where
  "gen_crypttab_entry part crypttab_opts is_root_encrypted is_boot_encrypted =
     (case (luks_mapper_name part, luks_uuid part) of
        (Some mapper_name, Some uuid) \<Rightarrow>
          if mapper_name = '''' \<or> uuid = '''' then None
          else
            (let plain = \<not> is_root_encrypted \<or> (mountpoint part = ''/'' \<and> \<not> is_boot_encrypted);
                 crypt_password = (if plain then ''none'' else ''/crypto_keyfile.bin'');
                 crypt_options = (if plain then '''' else '' '' @ crypttab_opts);
                 device_str = ''UUID='' @ uuid
             in Some (pad_right 21 mapper_name @ '' '' @ pad_right 45 device_str @ '' ''
                  @ crypt_password @ crypt_options @ [newline_char]))
      | _ \<Rightarrow> None)"

definition crypttab_partitions :: "fs_partition sorter \<Rightarrow> fs_partition list \<Rightarrow> fs_partition list" where
  "crypttab_partitions srt partitions =
     unique_copy device (srt (<) device (srt (<) mountpoint partitions))"

fun append_crypttab_entries ::
  "string \<Rightarrow> bool \<Rightarrow> bool \<Rightarrow> string \<Rightarrow> fs_partition list \<Rightarrow> string" where
  "append_crypttab_entries opts root_enc boot_enc crypttab_content [] = crypttab_content"
| "append_crypttab_entries opts root_enc boot_enc crypttab_content (part # parts) =
     (case gen_crypttab_entry part opts root_enc boot_enc of
        None \<Rightarrow> append_crypttab_entries opts root_enc boot_enc crypttab_content parts
      | Some crypttab_entry \<Rightarrow>
          append_crypttab_entries opts root_enc boot_enc (crypttab_content @ crypttab_entry) parts)"

definition generate_crypttab_content ::
  "fs_partition sorter \<Rightarrow> fs_partition list \<Rightarrow> string \<Rightarrow> string" where
  "generate_crypttab_content srt partitions crypttab_opts =
     (let is_root_encrypted =
            list_ex (\<lambda>part. mountpoint part = ''/'' \<and> luks_mapper_name part \<noteq> None) partitions;
          is_boot_encrypted =
            list_ex (\<lambda>part. mountpoint part = ''/bool'' \<and> luks_mapper_name part \<noteq> None) partitions
      in append_crypttab_entries crypttab_opts is_root_encrypted is_boot_encrypted CRYPTTAB_HEADER
           (crypttab_partitions srt partitions))"

definition generate_crypttab ::
  "'m sysenv \<Rightarrow> fs_partition sorter \<Rightarrow> fs_partition list \<Rightarrow> string \<Rightarrow> string \<Rightarrow> ('m, bool) io" where
  "generate_crypttab env srt partitions root_mountpoint crypttab_opts = do {
     ok \<leftarrow> create_file_for_overwrite env (root_mountpoint @ ''/etc/crypttab'')
             (generate_crypttab_content srt partitions crypttab_opts);
     if \<not> ok then ret False else ret True
   }"

interpretation crypttab: planned_op env "generate_crypttab env srt ps root opts"
    "[Write (root @ ''/etc/crypttab'') (generate_crypttab_content srt ps opts)]" for env srt ps root opts
  by unfold_locales (rule state_ext, simp add: generate_crypttab_def split: prod.splits)

subsection \<open>Lemmas\<close>

definition crypttab_entry_text :: "string \<Rightarrow> bool \<Rightarrow> bool \<Rightarrow> fs_partition \<Rightarrow> string" where
  "crypttab_entry_text opts root_enc boot_enc p =
     (case gen_crypttab_entry p opts root_enc boot_enc of None \<Rightarrow> '''' | Some e \<Rightarrow> e)"

lemma append_crypttab_entries_eq:
  "append_crypttab_entries opts re be acc ps = acc @ concat (map (crypttab_entry_text opts re be) ps)"
  by (induction ps arbitrary: acc) (auto simp: crypttab_entry_text_def split: option.splits)

lemma crypttab_devices:
  assumes "sort_contract srt"
  shows "sorted_wrt (<) (map device (crypttab_partitions srt ps)) \<and>
    device ` set (crypttab_partitions srt ps) = device ` set ps \<and>
    set (crypttab_partitions srt ps) \<subseteq> set ps"
  using unique_copy_strict [OF sort_contract.sorted_srt [OF assms]]
    set_unique_copy [of device "srt (<) device (srt (<) mountpoint ps)"]
  by (simp add: crypttab_partitions_def keys_unique_copy sort_contract.set_srt [OF assms])

lemma crypttab_least_mountpoint:
  assumes "stable_sort_contract srt"
    and "p \<in> set (crypttab_partitions srt ps)" "q \<in> set ps" "device p = device q"
  shows "mountpoint p \<le> mountpoint q"
proof (rule unique_copy_first [where key = device and Q = "\<lambda>a b. mountpoint a \<le> mountpoint b"])
  show "sorted_wrt (\<lambda>a b. device a \<le> device b \<and> (device a = device b \<longrightarrow> mountpoint a \<le> mountpoint b))
      (srt (<) device (srt (<) mountpoint ps))"
    by (rule stable_sort_contract.srt_twice [OF assms(1)])
  show "p \<in> set (unique_copy device (srt (<) device (srt (<) mountpoint ps)))"
    using assms(2) by (simp add: crypttab_partitions_def)
  have "sort_contract srt" using assms(1) by (simp add: stable_sort_contract_def)
  then show "q \<in> set (srt (<) device (srt (<) mountpoint ps))"
    using assms(3) by (simp add: sort_contract.set_srt)
qed (use assms(4) in auto)

subsection \<open>Properties\<close>

text \<open>Under a stable sort the table has the header and then one slot per device of the
  scheme, devices in strictly increasing order, filled by the entry of the
  partition of that device with the least mount point: the root partition when the device holds it.\<close>

theorem crypttab_one_entry_per_device:
  assumes "stable_sort_contract srt"
  shows "\<exists>parts root_enc boot_enc. generate_crypttab_content srt ps opts =
      CRYPTTAB_HEADER @ concat (map (crypttab_entry_text opts root_enc boot_enc) parts) \<and>
    (root_enc \<longleftrightarrow> (\<exists>p\<in>set ps. mountpoint p = ''/'' \<and> luks_mapper_name p \<noteq> None)) \<and>
    sorted_wrt (<) (map device parts) \<and> device ` set parts = device ` set ps \<and> set parts \<subseteq> set ps \<and>
    (\<forall>p\<in>set parts. \<forall>q\<in>set ps. device p = device q \<longrightarrow> mountpoint p \<le> mountpoint q)"
proof -
  have sc: "sort_contract srt" using assms by (simp add: stable_sort_contract_def)
  let ?parts = "crypttab_partitions srt ps"
  let ?re = "list_ex (\<lambda>part. mountpoint part = ''/'' \<and> luks_mapper_name part \<noteq> None) ps"
  let ?be = "list_ex (\<lambda>part. mountpoint part = ''/bool'' \<and> luks_mapper_name part \<noteq> None) ps"
  show ?thesis
  proof (intro exI conjI)
    show "generate_crypttab_content srt ps opts =
        CRYPTTAB_HEADER @ concat (map (crypttab_entry_text opts ?re ?be) ?parts)"
      unfolding generate_crypttab_content_def Let_def by (rule append_crypttab_entries_eq)
    show "?re \<longleftrightarrow> (\<exists>p\<in>set ps. mountpoint p = ''/'' \<and> luks_mapper_name p \<noteq> None)"
      by (simp add: list_ex_iff)
    show "\<forall>p\<in>set ?parts. \<forall>q\<in>set ps. device p = device q \<longrightarrow> mountpoint p \<le> mountpoint q"
      using crypttab_least_mountpoint [OF assms] by blast
  qed (use crypttab_devices [OF sc, of ps] in simp_all)
qed

text \<open>The test for an encrypted boot partition asks for the mount point \<^verbatim>\<open>/bool\<close>: in a scheme
  without such a mount point, however its \<^verbatim>\<open>/boot\<close> is encrypted, every entry is made as if boot were plain, so
  the entry of the root partition never names the key file.\<close>

theorem crypttab_ignores_encrypted_boot:
  assumes "sort_contract srt" "\<forall>p\<in>set ps. mountpoint p \<noteq> ''/bool''"
  shows "\<exists>parts root_enc. generate_crypttab_content srt ps opts =
      CRYPTTAB_HEADER @ concat (map (crypttab_entry_text opts root_enc False) parts) \<and>
    set parts \<subseteq> set ps \<and>
    (\<forall>p\<in>set parts. mountpoint p = ''/'' \<longrightarrow> luks_mapper_name p \<noteq> None \<longrightarrow> luks_uuid p \<noteq> None \<longrightarrow>
       the (luks_mapper_name p) \<noteq> '''' \<longrightarrow> the (luks_uuid p) \<noteq> '''' \<longrightarrow>
       suffix ''none\<newline>'' (crypttab_entry_text opts root_enc False p))"
proof -
  let ?parts = "crypttab_partitions srt ps"
  let ?re = "list_ex (\<lambda>part. mountpoint part = ''/'' \<and> luks_mapper_name part \<noteq> None) ps"
  have be: "\<not> list_ex (\<lambda>part. mountpoint part = ''/bool'' \<and> luks_mapper_name part \<noteq> None) ps"
    using assms(2) by (auto simp: list_ex_iff)
  have content: "generate_crypttab_content srt ps opts =
      CRYPTTAB_HEADER @ concat (map (crypttab_entry_text opts ?re False) ?parts)"
    unfolding generate_crypttab_content_def Let_def append_crypttab_entries_eq using be by simp
  have none: "suffix ''none\<newline>'' (crypttab_entry_text opts ?re False p)"
    if "mountpoint p = ''/''" "luks_mapper_name p \<noteq> None" "luks_uuid p \<noteq> None"
      "the (luks_mapper_name p) \<noteq> ''''" "the (luks_uuid p) \<noteq> ''''" for p
    using that by (auto simp: crypttab_entry_text_def gen_crypttab_entry_def suffix_def)
  have sub: "set ?parts \<subseteq> set ps" using crypttab_devices [OF assms(1)] by blast
  show ?thesis using content none sub by blast
qed

definition sample_luks_scheme :: "fs_partition list" where
  "sample_luks_scheme =
     [empty_partition\<lparr>fstype := ''btrfs'', mountpoint := ''/home'', device := ''/dev/sda2'',
        luks_mapper_name := Some ''cryptroot'', luks_uuid := Some ''6bdb3301''\<rparr>,
      empty_partition\<lparr>fstype := ''btrfs'', mountpoint := ''/'', device := ''/dev/sda2'',
        luks_mapper_name := Some ''cryptroot'', luks_uuid := Some ''6bdb3301''\<rparr>,
      empty_partition\<lparr>fstype := ''ext4'', mountpoint := ''/boot'', device := ''/dev/sda1'',
        luks_mapper_name := Some ''cryptboot'', luks_uuid := Some ''8efb4b84''\<rparr>]"

theorem crypttab_one_entry_per_device_witness:
  "\<exists>parts root_enc boot_enc. generate_crypttab_content insertion_sort sample_luks_scheme ''luks'' =
      CRYPTTAB_HEADER @ concat (map (crypttab_entry_text ''luks'' root_enc boot_enc) parts) \<and>
    device ` set parts = device ` set sample_luks_scheme"
  using crypttab_one_entry_per_device [OF insertion.stable_sort_contract_axioms,
      of sample_luks_scheme "''luks''"] by blast

theorem crypttab_ignores_encrypted_boot_witness:
  "\<exists>parts root_enc. generate_crypttab_content insertion_sort sample_luks_scheme ''luks'' =
      CRYPTTAB_HEADER @ concat (map (crypttab_entry_text ''luks'' root_enc False) parts) \<and>
    set parts \<subseteq> set sample_luks_scheme"
proof -
  have "\<forall>p\<in>set sample_luks_scheme. mountpoint p \<noteq> ''/bool''"
    by (simp add: sample_luks_scheme_def empty_partition_def)
  from crypttab_ignores_encrypted_boot [OF insertion.sort_contract_axioms this, of "''luks''"]
  show ?thesis by blast
qed

end
