(* ===== verification/Initcpio.thy ===== *)
theory Initcpio
  imports Plan
begin

section \<open>The initramfs configuration (gucc/src/initcpio.cpp, gucc/include/gucc/initcpio.hpp)\<close>

text \<open>
  The class \<^verbatim>\<open>Initcpio\<close> edits the lists MODULES, FILES and HOOKS of \<^verbatim>\<open>/etc/mkinitcpio.conf\<close>: every
  editing method parses the file, changes a list or refuses, and writes the file back.  The object
  is a record; a method takes and returns it.  The locale \<open>initcpio_edit\<close> holds what the methods share; each of
  them is an interpretation.
\<close>

record initcpio =
  ic_modules :: "string list"
  ic_files :: "string list"
  ic_hooks :: "string list"
  ic_file_path :: string

definition new_initcpio :: "string \<Rightarrow> initcpio" where
  "new_initcpio path = \<lparr>ic_modules = [], ic_files = [], ic_hooks = [], ic_file_path = path\<rparr>"

subsection \<open>Writing\<close>

definition modify_initcpio_line :: "string \<Rightarrow> string \<Rightarrow> string \<Rightarrow> string \<Rightarrow> string" where
  "modify_initcpio_line formatted_modules formatted_files formatted_hooks line =
     (if starts_with line ''MODULES'' then ''MODULES=('' @ formatted_modules @ '')''
      else if starts_with line ''FILES'' then ''FILES=('' @ formatted_files @ '')''
      else if starts_with line ''HOOKS'' then ''HOOKS=('' @ formatted_hooks @ '')''
      else line)"

definition modify_initcpio_fields :: "string \<Rightarrow> string \<Rightarrow> string \<Rightarrow> string \<Rightarrow> string" where
  "modify_initcpio_fields file_content formatted_modules formatted_files formatted_hooks =
     rewrite_lines (modify_initcpio_line formatted_modules formatted_files formatted_hooks) file_content"

definition write_initcpio :: "'m sysenv \<Rightarrow> initcpio \<Rightarrow> ('m, bool) io" where
  "write_initcpio env ic = do {
     there \<leftarrow> path_exists env (ic_file_path ic);
     if \<not> there then ret False
     else do {
       file_content \<leftarrow> read_whole_file (ic_file_path ic);
       if file_content = '''' then ret False
       else create_file_for_overwrite env (ic_file_path ic)
              (modify_initcpio_fields file_content (join (ic_modules ic) (CHR '' ''))
                 (join (ic_files ic) (CHR '' '')) (join (ic_hooks ic) (CHR '' '')))
     }
   }"

subsection \<open>Parsing\<close>

text \<open>
  The length passed to \<^verbatim>\<open>substr\<close> is the distance from the opening bracket to the character before the first
  closing one; when that one comes first the distance is negative, wraps to a huge
  \<^verbatim>\<open>size_t\<close>, and \<^verbatim>\<open>substr\<close> takes the rest of the line.
\<close>

definition parse_initcpio_line :: "string \<Rightarrow> string list" where
  "parse_initcpio_line line =
     (case (find_sub ''('' line, find_index (\<lambda>c. c = CHR '')'') line) of
        (Some open_bracket_pos, Some close_bracket) \<Rightarrow>
          (let len = int close_bracket - 1 - int open_bracket_pos;
               behind = drop (open_bracket_pos + 1) line;
               input_data = (if len < 0 then behind else take (nat len) behind)
           in views_split (CHR '' '') input_data)
      | _ \<Rightarrow> [])"

fun parse_initcpio_lines :: "string list \<Rightarrow> initcpio \<Rightarrow> initcpio" where
  "parse_initcpio_lines [] ic = ic"
| "parse_initcpio_lines (line # lines) ic =
     parse_initcpio_lines lines
       (if starts_with line ''MODULES'' then ic\<lparr>ic_modules := parse_initcpio_line line\<rparr>
        else if starts_with line ''FILES'' then ic\<lparr>ic_files := parse_initcpio_line line\<rparr>
        else if starts_with line ''HOOKS'' then ic\<lparr>ic_hooks := parse_initcpio_line line\<rparr>
        else ic)"

definition parse_initcpio :: "string \<Rightarrow> initcpio \<Rightarrow> initcpio" where
  "parse_initcpio content ic = parse_initcpio_lines (make_split_view content newline_char) ic"

definition parse_file :: "'m sysenv \<Rightarrow> initcpio \<Rightarrow> ('m, bool \<times> initcpio) io" where
  "parse_file env ic = do {
     there \<leftarrow> path_exists env (ic_file_path ic);
     if \<not> there then ret (False, ic)
     else do {
       file_content \<leftarrow> read_whole_file (ic_file_path ic);
       if file_content = '''' then ret (False, ic)
       else ret (True, parse_initcpio file_content ic)
     }
   }"

subsection \<open>The editing methods\<close>

definition append_module :: "'m sysenv \<Rightarrow> string \<Rightarrow> initcpio \<Rightarrow> ('m, bool \<times> initcpio) io" where
  "append_module env module ic0 = do {
     (parsed, ic) \<leftarrow> parse_file env ic0;
     if \<not> parsed then ret (False, ic)
     else if module \<in> set (ic_modules ic) then ret (False, ic)
     else do {
       let ic' = ic\<lparr>ic_modules := ic_modules ic @ [module]\<rparr>;
       ok \<leftarrow> write_initcpio env ic';
       ret (ok, ic')
     }
   }"

definition append_file :: "'m sysenv \<Rightarrow> string \<Rightarrow> initcpio \<Rightarrow> ('m, bool \<times> initcpio) io" where
  "append_file env file ic0 = do {
     (parsed, ic) \<leftarrow> parse_file env ic0;
     if \<not> parsed then ret (False, ic)
     else if file \<in> set (ic_files ic) then ret (False, ic)
     else do {
       let ic' = ic\<lparr>ic_files := ic_files ic @ [file]\<rparr>;
       ok \<leftarrow> write_initcpio env ic';
       ret (ok, ic')
     }
   }"

definition append_hook :: "'m sysenv \<Rightarrow> string \<Rightarrow> initcpio \<Rightarrow> ('m, bool \<times> initcpio) io" where
  "append_hook env hook ic0 = do {
     (parsed, ic) \<leftarrow> parse_file env ic0;
     if \<not> parsed then ret (False, ic)
     else if hook \<in> set (ic_hooks ic) then ret (False, ic)
     else do {
       let ic' = ic\<lparr>ic_hooks := ic_hooks ic @ [hook]\<rparr>;
       ok \<leftarrow> write_initcpio env ic';
       ret (ok, ic')
     }
   }"

definition append_hooks :: "'m sysenv \<Rightarrow> string list \<Rightarrow> initcpio \<Rightarrow> ('m, bool \<times> initcpio) io" where
  "append_hooks env hook ic0 = do {
     (parsed, ic) \<leftarrow> parse_file env ic0;
     if \<not> parsed then ret (False, ic)
     else do {
       let to_add = filter (\<lambda>el. el \<notin> set (ic_hooks ic)) hook;
       if to_add = [] then ret (False, ic)
       else do {
         let ic' = ic\<lparr>ic_hooks := ic_hooks ic @ to_add\<rparr>;
         ok \<leftarrow> write_initcpio env ic';
         ret (ok, ic')
       }
     }
   }"

text \<open>Insertion before the position \<^verbatim>\<open>std::ranges::find\<close> returns, the end when there is none.\<close>

definition insert_before :: "string \<Rightarrow> string list \<Rightarrow> string list \<Rightarrow> string list" where
  "insert_before needle new xs =
     (case find_index (\<lambda>x. x = needle) xs of
        None \<Rightarrow> xs @ new
      | Some i \<Rightarrow> take i xs @ new @ drop i xs)"

definition insert_hook :: "'m sysenv \<Rightarrow> string \<Rightarrow> string \<Rightarrow> initcpio \<Rightarrow> ('m, bool \<times> initcpio) io" where
  "insert_hook env needle hook ic0 = do {
     (parsed, ic) \<leftarrow> parse_file env ic0;
     if \<not> parsed then ret (False, ic)
     else if hook \<in> set (ic_hooks ic) then ret (False, ic)
     else do {
       let ic' = ic\<lparr>ic_hooks := insert_before needle [hook] (ic_hooks ic)\<rparr>;
       ok \<leftarrow> write_initcpio env ic';
       ret (ok, ic')
     }
   }"

definition insert_hooks :: "'m sysenv \<Rightarrow> string \<Rightarrow> string list \<Rightarrow> initcpio \<Rightarrow> ('m, bool \<times> initcpio) io" where
  "insert_hooks env needle hook ic0 = do {
     (parsed, ic) \<leftarrow> parse_file env ic0;
     if \<not> parsed then ret (False, ic)
     else do {
       let to_add = filter (\<lambda>el. el \<notin> set (ic_hooks ic)) hook;
       if to_add = [] then ret (False, ic)
       else do {
         let ic' = ic\<lparr>ic_hooks := insert_before needle to_add (ic_hooks ic)\<rparr>;
         ok \<leftarrow> write_initcpio env ic';
         ret (ok, ic')
       }
     }
   }"

definition remove_module :: "'m sysenv \<Rightarrow> string \<Rightarrow> initcpio \<Rightarrow> ('m, bool \<times> initcpio) io" where
  "remove_module env module ic0 = do {
     (parsed, ic) \<leftarrow> parse_file env ic0;
     if \<not> parsed then ret (False, ic)
     else (case find_index (\<lambda>x. x = module) (ic_modules ic) of
       None \<Rightarrow> ret (False, ic)
     | Some needle_pos \<Rightarrow> do {
         let ic' = ic\<lparr>ic_modules := take needle_pos (ic_modules ic) @ drop (Suc needle_pos) (ic_modules ic)\<rparr>;
         ok \<leftarrow> write_initcpio env ic';
         ret (ok, ic')
       })
   }"

definition remove_hook :: "'m sysenv \<Rightarrow> string \<Rightarrow> initcpio \<Rightarrow> ('m, bool \<times> initcpio) io" where
  "remove_hook env hook ic0 = do {
     (parsed, ic) \<leftarrow> parse_file env ic0;
     if \<not> parsed then ret (False, ic)
     else (case find_index (\<lambda>x. x = hook) (ic_hooks ic) of
       None \<Rightarrow> ret (False, ic)
     | Some needle_pos \<Rightarrow> do {
         let ic' = ic\<lparr>ic_hooks := take needle_pos (ic_hooks ic) @ drop (Suc needle_pos) (ic_hooks ic)\<rparr>;
         ok \<leftarrow> write_initcpio env ic';
         ret (ok, ic')
       })
   }"

subsection \<open>Round trip of the text\<close>

text \<open>Lists that survive being written into a line and read again.\<close>

definition word_list :: "string list \<Rightarrow> bool" where
  "word_list ws \<longleftrightarrow>
     ws \<noteq> [''''] \<and> (\<forall>w\<in>set ws. \<forall>c\<in>set w. c \<notin> {CHR '' '', CHR ''('', CHR '')'', newline_char})"

lemma join_words:
  assumes "word_list ws"
  shows "CHR ''('' \<notin> set (join ws (CHR '' ''))" "CHR '')'' \<notin> set (join ws (CHR '' ''))"
    "newline_char \<notin> set (join ws (CHR '' ''))"
proof -
  have "set (join ws (CHR '' '')) \<subseteq> {CHR '' ''} \<union> \<Union> (set ` set ws)"
    by (induction ws) (auto simp: join_Cons)
  then show "CHR ''('' \<notin> set (join ws (CHR '' ''))" "CHR '')'' \<notin> set (join ws (CHR '' ''))"
    "newline_char \<notin> set (join ws (CHR '' ''))"
    using assms by (auto simp: word_list_def)
qed

lemma find_index_append_None:
  "find_index P xs = None \<Longrightarrow> P y \<Longrightarrow> find_index P (xs @ y # ys) = Some (length xs)"
  by (induction xs) (auto split: if_splits)

lemma find_sub_char: "c \<notin> set xs \<Longrightarrow> find_sub [c] (xs @ c # ys) = Some (length xs)"
  by (induction xs) auto

lemma parse_initcpio_line_words:
  assumes "word_list ws" "CHR ''('' \<notin> set pre" "CHR '')'' \<notin> set pre"
  shows "parse_initcpio_line (pre @ CHR ''('' # join ws (CHR '' '') @ '')'') = ws"
proof -
  let ?j = "join ws (CHR '' '')"
  have o: "find_sub ''('' (pre @ CHR ''('' # ?j @ '')'') = Some (length pre)"
    using assms(2) by (rule find_sub_char)
  have "find_index (\<lambda>c. c = CHR '')'') ((pre @ CHR ''('' # ?j) @ CHR '')'' # []) =
      Some (length (pre @ CHR ''('' # ?j))"
    using assms(3) join_words [OF assms(1)]
    by (intro find_index_append_None) (auto simp: find_index_None_iff)
  then have c: "find_index (\<lambda>c. c = CHR '')'') (pre @ CHR ''('' # ?j @ '')'') =
      Some (Suc (length pre + length ?j))"
    by simp
  have "views_split (CHR '' '') ?j = ws"
    using assms(1) by (intro views_split_join) (auto simp: word_list_def)
  then show ?thesis by (simp add: parse_initcpio_line_def o c)
qed

abbreviation field_line :: "string \<Rightarrow> bool" where
  "field_line l \<equiv> starts_with l ''MODULES'' \<or> starts_with l ''FILES'' \<or> starts_with l ''HOOKS''"

lemma modify_line_other: "\<not> field_line l \<Longrightarrow> modify_initcpio_line m f h l = l"
  by (simp add: modify_initcpio_line_def)

lemma modify_line_no_newline:
  "word_list ms \<Longrightarrow> word_list fs \<Longrightarrow> word_list hs \<Longrightarrow> newline_char \<notin> set l \<Longrightarrow>
   newline_char \<notin> set (modify_initcpio_line (join ms (CHR '' '')) (join fs (CHR '' '')) (join hs (CHR '' '')) l)"
  by (auto simp: modify_initcpio_line_def join_words)

lemma not_two_fields:
  "starts_with l ''FILES'' \<Longrightarrow> \<not> starts_with l ''MODULES''"
  "starts_with l ''HOOKS'' \<Longrightarrow> \<not> starts_with l ''MODULES''"
  "starts_with l ''HOOKS'' \<Longrightarrow> \<not> starts_with l ''FILES''"
  by (cases l; auto)+

lemma parse_modified_lines:
  assumes "word_list ms" "word_list fs" "word_list hs"
  shows "parse_initcpio_lines
      (filter (\<lambda>l. l \<noteq> '''') (map (modify_initcpio_line (join ms (CHR '' '')) (join fs (CHR '' '')) (join hs (CHR '' ''))) ls)) ic =
    ic\<lparr>ic_modules := (if \<exists>l\<in>set ls. starts_with l ''MODULES'' then ms else ic_modules ic),
       ic_files := (if \<exists>l\<in>set ls. starts_with l ''FILES'' then fs else ic_files ic),
       ic_hooks := (if \<exists>l\<in>set ls. starts_with l ''HOOKS'' then hs else ic_hooks ic)\<rparr>"
proof (induction ls arbitrary: ic)
  case Nil
  show ?case by simp
next
  case (Cons l ls)
  have m: "parse_initcpio_line (''MODULES=('' @ join ms (CHR '' '') @ '')'') = ms"
    using parse_initcpio_line_words [OF assms(1), of "''MODULES=''"] by simp
  have f: "parse_initcpio_line (''FILES=('' @ join fs (CHR '' '') @ '')'') = fs"
    using parse_initcpio_line_words [OF assms(2), of "''FILES=''"] by simp
  have h: "parse_initcpio_line (''HOOKS=('' @ join hs (CHR '' '') @ '')'') = hs"
    using parse_initcpio_line_words [OF assms(3), of "''HOOKS=''"] by simp
  consider "starts_with l ''MODULES''" | "starts_with l ''FILES''" | "starts_with l ''HOOKS''" | "\<not> field_line l"
    by blast
  then show ?case
  proof cases
    case 1
    with Cons.IH m not_two_fields [of l] show ?thesis by (auto simp: modify_initcpio_line_def)
  next
    case 2
    with Cons.IH f not_two_fields [of l] show ?thesis by (auto simp: modify_initcpio_line_def)
  next
    case 3
    with Cons.IH h not_two_fields [of l] show ?thesis by (auto simp: modify_initcpio_line_def)
  next
    case 4
    with Cons.IH show ?thesis by (simp add: modify_initcpio_line_def)
  qed
qed

definition has_field_lines :: "string \<Rightarrow> bool" where
  "has_field_lines content \<longleftrightarrow>
     (\<forall>k\<in>{''MODULES'', ''FILES'', ''HOOKS''}. \<exists>l\<in>set (views_split newline_char content). starts_with l k)"

definition written_text :: "initcpio \<Rightarrow> string \<Rightarrow> string" where
  "written_text ic content =
     modify_initcpio_fields content (join (ic_modules ic) (CHR '' '')) (join (ic_files ic) (CHR '' ''))
       (join (ic_hooks ic) (CHR '' ''))"

definition words_ok :: "initcpio \<Rightarrow> bool" where
  "words_ok ic \<longleftrightarrow> word_list (ic_modules ic) \<and> word_list (ic_files ic) \<and> word_list (ic_hooks ic)"

lemma parse_written_text:
  assumes "words_ok ic" "has_field_lines content"
  shows "parse_initcpio (written_text ic content) ic0 = ic\<lparr>ic_file_path := ic_file_path ic0\<rparr>"
proof -
  let ?f = "modify_initcpio_line (join (ic_modules ic) (CHR '' '')) (join (ic_files ic) (CHR '' '')) (join (ic_hooks ic) (CHR '' ''))"
  let ?ls = "views_split newline_char content"
  have nl: "\<forall>l\<in>set (map ?f ?ls). newline_char \<notin> set l"
    using assms(1) by (auto simp: words_ok_def modify_line_no_newline dest: views_split_no_delim)
  have "make_split_view (written_text ic content) newline_char = filter (\<lambda>l. l \<noteq> '''') (map ?f ?ls)"
    by (simp only: written_text_def modify_initcpio_fields_def rewrite_lines_eq make_split_view_join [OF nl])
  then show ?thesis
    using assms unfolding parse_initcpio_def words_ok_def has_field_lines_def
    by (simp add: parse_modified_lines)
qed

text \<open>What is not a field line is kept, and no line is added or lost.\<close>

lemma written_text_lines:
  assumes "words_ok ic"
  shows "views_split newline_char (written_text ic content) =
      map (modify_initcpio_line (join (ic_modules ic) (CHR '' '')) (join (ic_files ic) (CHR '' '')) (join (ic_hooks ic) (CHR '' '')))
        (views_split newline_char content)"
proof -
  let ?f = "modify_initcpio_line (join (ic_modules ic) (CHR '' '')) (join (ic_files ic) (CHR '' '')) (join (ic_hooks ic) (CHR '' ''))"
  let ?ls = "views_split newline_char content"
  have nl: "\<forall>l\<in>set (map ?f ?ls). newline_char \<notin> set l"
    using assms by (auto simp: words_ok_def modify_line_no_newline dest: views_split_no_delim)
  have "?ls \<noteq> [[]]"
    by (cases content) (auto simp: views_split_def dest: arg_cong [where f = length] split: list.splits if_splits)
  then have "map ?f ?ls \<noteq> [[]]"
    by (cases ?ls) (auto simp: modify_initcpio_line_def split: if_splits)
  then show ?thesis
    unfolding written_text_def modify_initcpio_fields_def rewrite_lines_eq
    by (rule views_split_join [OF nl])
qed

subsection \<open>The contract of the editing methods\<close>

definition edit_initcpio ::
  "'m sysenv \<Rightarrow> (initcpio \<Rightarrow> initcpio option) \<Rightarrow> initcpio \<Rightarrow> ('m, bool \<times> initcpio) io" where
  "edit_initcpio env edit ic0 = do {
     (parsed, ic) \<leftarrow> parse_file env ic0;
     if \<not> parsed then ret (False, ic)
     else (case edit ic of
       None \<Rightarrow> ret (False, ic)
     | Some ic' \<Rightarrow> do { ok \<leftarrow> write_initcpio env ic'; ret (ok, ic') })
   }"

lemma parse_initcpio_lines_path [simp]:
  "ic_file_path (parse_initcpio_lines ls ic) = ic_file_path ic"
  by (induction ls arbitrary: ic) auto

lemma parse_initcpio_path [simp]: "ic_file_path (parse_initcpio c ic) = ic_file_path ic"
  by (simp add: parse_initcpio_def)

lemma run_parse_file:
  "status w = Running \<Longrightarrow> files (host w) (ic_file_path ic) = Some content \<Longrightarrow> content \<noteq> [] \<Longrightarrow>
   run_state (parse_file env ic) w = ((True, parse_initcpio content ic), w)"
  by (simp add: parse_file_def io_prims)

lemma run_write_initcpio:
  "status w = Running \<Longrightarrow> files (host w) (ic_file_path ic) = Some content \<Longrightarrow> content \<noteq> [] \<Longrightarrow>
   can_open_out env (ic_file_path ic) (host w) \<Longrightarrow>
   run_state (write_initcpio env ic) w =
     (True, w\<lparr>host := store_file (ic_file_path ic) (written_text ic content) (host w),
              trace := trace w @ [WriteFile (ic_file_path ic) (written_text ic content)]\<rparr>)"
  by (simp add: write_initcpio_def io_prims written_text_def)

lemma starts_with_modified:
  "k \<in> {''MODULES'', ''FILES'', ''HOOKS''} \<Longrightarrow> starts_with (modify_initcpio_line a b c l) k \<longleftrightarrow> starts_with l k"
  using not_two_fields [of l] by (auto simp: modify_initcpio_line_def)

lemma has_field_lines_written: "words_ok ic \<Longrightarrow> has_field_lines content \<Longrightarrow> has_field_lines (written_text ic content)"
  unfolding has_field_lines_def by (simp add: written_text_lines starts_with_modified)

text \<open>The machine holds, at its path, a configuration file with the lists of an object.\<close>

definition holds_conf :: "'m sysenv \<Rightarrow> 'm world \<Rightarrow> initcpio \<Rightarrow> bool" where
  "holds_conf env w ic \<longleftrightarrow> status w = Running \<and> (\<forall>h. can_open_out env (ic_file_path ic) h) \<and>
     (\<exists>content. files (host w) (ic_file_path ic) = Some content \<and> has_field_lines content \<and>
        (\<forall>ic0. ic_file_path ic0 = ic_file_path ic \<longrightarrow> parse_initcpio content ic0 = ic))"

definition edited :: "(initcpio \<Rightarrow> initcpio option) \<Rightarrow> initcpio \<Rightarrow> initcpio" where
  "edited edit ic = (case edit ic of None \<Rightarrow> ic | Some ic' \<Rightarrow> ic')"

locale initcpio_edit =
  fixes env :: "'m sysenv"
    and operation :: "initcpio \<Rightarrow> ('m, bool \<times> initcpio) io"
    and edit :: "initcpio \<Rightarrow> initcpio option"
  assumes refines: "operation ic0 = edit_initcpio env edit ic0"
    and keeps_path: "edit ic = Some ic' \<Longrightarrow> ic_file_path ic' = ic_file_path ic"
begin

lemma refused:
  assumes "status w = Running" "files (host w) (ic_file_path ic0) = Some content" "content \<noteq> []"
    and "edit (parse_initcpio content ic0) = None"
  shows "run_state (operation ic0) w = ((False, parse_initcpio content ic0), w)"
  using assms by (simp add: refines edit_initcpio_def run_parse_file)

lemma applied:
  assumes "status w = Running" "files (host w) (ic_file_path ic0) = Some content" "content \<noteq> []"
    and "edit (parse_initcpio content ic0) = Some ic'" "can_open_out env (ic_file_path ic0) (host w)"
  shows "run_state (operation ic0) w =
    ((True, ic'),
     w\<lparr>host := store_file (ic_file_path ic0) (written_text ic' content) (host w),
       trace := trace w @ [WriteFile (ic_file_path ic0) (written_text ic' content)]\<rparr>)"
proof -
  have path: "ic_file_path ic' = ic_file_path ic0" using keeps_path [OF assms(4)] by simp
  have "run_state (write_initcpio env ic') w =
      (True, w\<lparr>host := store_file (ic_file_path ic') (written_text ic' content) (host w),
        trace := trace w @ [WriteFile (ic_file_path ic') (written_text ic' content)]\<rparr>)"
    using assms path by (intro run_write_initcpio) simp_all
  with assms path show ?thesis by (simp add: refines edit_initcpio_def run_parse_file)
qed

lemma missing_file:
  assumes "status w = Running" "files (host w) (ic_file_path ic0) = None"
  shows "run_state (operation ic0) w = ((False, ic0), w)"
  using assms by (simp add: refines edit_initcpio_def parse_file_def io_prims)

text \<open>What was written reads back as the edited object.\<close>

lemma reparse:
  assumes "status w = Running" "files (host w) (ic_file_path ic0) = Some content" "content \<noteq> []"
    and "edit (parse_initcpio content ic0) = Some ic'" "can_open_out env (ic_file_path ic0) (host w)"
    and "words_ok ic'" "has_field_lines content" "ic_file_path ic1 = ic_file_path ic0"
  shows "\<exists>w' content'. run_state (operation ic0) w = ((True, ic'), w') \<and> status w' = Running \<and>
    content' = written_text ic' content \<and> content' \<noteq> [] \<and>
    files (host w') = (files (host w))(ic_file_path ic0 \<mapsto> content') \<and>
    trace w' = trace w @ [WriteFile (ic_file_path ic0) content'] \<and>
    parse_initcpio content' ic1 = ic'"
proof -
  have "parse_initcpio (written_text ic' content) ic1 = ic'"
    using parse_written_text [OF assms(6,7), of ic1] keeps_path [OF assms(4)] assms(8) by simp
  moreover have "written_text ic' content \<noteq> []"
    using written_text_lines [OF assms(6), of content] assms(7)
    by (auto simp: has_field_lines_def views_split_def)
  ultimately show ?thesis using applied [OF assms(1-5)] assms(1) by simp
qed

text \<open>A file that holds the lists of an object, and what one edit makes of it.\<close>

lemma edits:
  assumes "holds_conf env w ic" "ic_file_path ic0 = ic_file_path ic" "words_ok (edited edit ic)"
  shows "\<exists>ok w'. run_state (operation ic0) w = ((ok, edited edit ic), w') \<and> holds_conf env w' (edited edit ic) \<and>
    (\<forall>p. p \<noteq> ic_file_path ic \<longrightarrow> files (host w') p = files (host w) p)"
proof -
  obtain content where c: "status w = Running" "files (host w) (ic_file_path ic) = Some content" "has_field_lines content"
      "\<And>ic0. ic_file_path ic0 = ic_file_path ic \<Longrightarrow> parse_initcpio content ic0 = ic" "\<And>h. can_open_out env (ic_file_path ic) h"
    using assms(1) unfolding holds_conf_def by blast
  have ne: "content \<noteq> []" using c(3) by (auto simp: has_field_lines_def views_split_def)
  have f: "files (host w) (ic_file_path ic0) = Some content" using c(2) assms(2) by simp
  show ?thesis
  proof (cases "edit ic")
    case None
    have "edit (parse_initcpio content ic0) = None" using None c(4) [OF assms(2)] by simp
    from refused [OF c(1) f ne this] None c(4) [OF assms(2)] assms(1) show ?thesis by (auto simp: edited_def)
  next
    case (Some ic')
    have e: "edit (parse_initcpio content ic0) = Some ic'" using Some c(4) [OF assms(2)] by simp
    have o: "can_open_out env (ic_file_path ic0) (host w)" using c(5) assms(2) by simp
    have ok: "words_ok ic'" using assms(3) Some by (simp add: edited_def)
    have path: "ic_file_path ic' = ic_file_path ic" using keeps_path [OF Some] .
    have written: "has_field_lines (written_text ic' content)"
      by (rule has_field_lines_written [OF ok c(3)])
    have parse: "parse_initcpio (written_text ic' content) ic1 = ic'" if "ic_file_path ic1 = ic_file_path ic'" for ic1
      using parse_written_text [OF ok c(3), of ic1] that by simp
    from applied [OF c(1) f ne e o] Some path assms(2) written parse c(1,5) show ?thesis
      by (auto simp: edited_def holds_conf_def)
  qed
qed

end

definition append_hook_edit :: "string \<Rightarrow> initcpio \<Rightarrow> initcpio option" where
  "append_hook_edit hook ic =
     (if hook \<in> set (ic_hooks ic) then None else Some (ic\<lparr>ic_hooks := ic_hooks ic @ [hook]\<rparr>))"

definition append_module_edit :: "string \<Rightarrow> initcpio \<Rightarrow> initcpio option" where
  "append_module_edit m ic =
     (if m \<in> set (ic_modules ic) then None else Some (ic\<lparr>ic_modules := ic_modules ic @ [m]\<rparr>))"

definition append_file_edit :: "string \<Rightarrow> initcpio \<Rightarrow> initcpio option" where
  "append_file_edit f ic =
     (if f \<in> set (ic_files ic) then None else Some (ic\<lparr>ic_files := ic_files ic @ [f]\<rparr>))"

definition append_hooks_edit :: "string list \<Rightarrow> initcpio \<Rightarrow> initcpio option" where
  "append_hooks_edit hs ic =
     (let to_add = filter (\<lambda>h. h \<notin> set (ic_hooks ic)) hs in
      if to_add = [] then None else Some (ic\<lparr>ic_hooks := ic_hooks ic @ to_add\<rparr>))"

definition insert_hook_edit :: "string \<Rightarrow> string \<Rightarrow> initcpio \<Rightarrow> initcpio option" where
  "insert_hook_edit needle hook ic =
     (if hook \<in> set (ic_hooks ic) then None
      else Some (ic\<lparr>ic_hooks := insert_before needle [hook] (ic_hooks ic)\<rparr>))"

definition insert_hooks_edit :: "string \<Rightarrow> string list \<Rightarrow> initcpio \<Rightarrow> initcpio option" where
  "insert_hooks_edit needle hs ic =
     (let to_add = filter (\<lambda>h. h \<notin> set (ic_hooks ic)) hs in
      if to_add = [] then None
      else Some (ic\<lparr>ic_hooks := insert_before needle to_add (ic_hooks ic)\<rparr>))"

definition remove_module_edit :: "string \<Rightarrow> initcpio \<Rightarrow> initcpio option" where
  "remove_module_edit m ic =
     (if m \<in> set (ic_modules ic) then Some (ic\<lparr>ic_modules := remove1 m (ic_modules ic)\<rparr>) else None)"

definition remove_hook_edit :: "string \<Rightarrow> initcpio \<Rightarrow> initcpio option" where
  "remove_hook_edit h ic =
     (if h \<in> set (ic_hooks ic) then Some (ic\<lparr>ic_hooks := remove1 h (ic_hooks ic)\<rparr>) else None)"

lemma find_index_remove1:
  "find_index (\<lambda>x. x = a) xs = Some i \<Longrightarrow> take i xs @ drop (Suc i) xs = remove1 a xs"
  by (induction xs arbitrary: i) (auto split: if_splits)

lemma find_index_mem: "find_index (\<lambda>x. x = a) xs = None \<longleftrightarrow> a \<notin> set xs"
  by (auto simp: find_index_None_iff)

lemma find_index_mem_Some: "find_index (\<lambda>x. x = a) xs = Some i \<Longrightarrow> a \<in> set xs"
  by (auto dest: find_index_SomeD)

lemmas edit_defs = edit_initcpio_def Let_def append_hook_edit_def append_module_edit_def append_file_edit_def
  append_hooks_edit_def insert_hook_edit_def insert_hooks_edit_def remove_module_edit_def remove_hook_edit_def

interpretation append_hook_op: initcpio_edit env "append_hook env hook" "append_hook_edit hook" for env hook
  by unfold_locales
    (rule state_ext, auto simp: append_hook_def edit_defs split: prod.splits if_splits)

interpretation append_module_op: initcpio_edit env "append_module env m" "append_module_edit m" for env m
  by unfold_locales
    (rule state_ext, auto simp: append_module_def edit_defs split: prod.splits if_splits)

interpretation append_file_op: initcpio_edit env "append_file env f" "append_file_edit f" for env f
  by unfold_locales
    (rule state_ext, auto simp: append_file_def edit_defs split: prod.splits if_splits)

interpretation append_hooks_op: initcpio_edit env "append_hooks env hs" "append_hooks_edit hs" for env hs
  by unfold_locales
    (rule state_ext, auto simp: append_hooks_def edit_defs split: prod.splits if_splits)

interpretation insert_hook_op: initcpio_edit env "insert_hook env needle hook" "insert_hook_edit needle hook" for env needle hook
  by unfold_locales
    (rule state_ext, auto simp: insert_hook_def edit_defs split: prod.splits if_splits)

interpretation insert_hooks_op: initcpio_edit env "insert_hooks env needle hs" "insert_hooks_edit needle hs" for env needle hs
  by unfold_locales
    (rule state_ext, auto simp: insert_hooks_def edit_defs split: prod.splits if_splits)

interpretation remove_module_op: initcpio_edit env "remove_module env m" "remove_module_edit m" for env m
  by unfold_locales
    (rule state_ext, auto simp: remove_module_def edit_defs find_index_mem find_index_remove1
      dest: find_index_mem_Some split: prod.splits if_splits option.splits)

interpretation remove_hook_op: initcpio_edit env "remove_hook env h" "remove_hook_edit h" for env h
  by unfold_locales
    (rule state_ext, auto simp: remove_hook_def edit_defs find_index_mem find_index_remove1
      dest: find_index_mem_Some split: prod.splits if_splits option.splits)

subsection \<open>Properties\<close>

definition plain_word :: "string \<Rightarrow> bool" where
  "plain_word h \<longleftrightarrow> h \<noteq> '''' \<and> (\<forall>c\<in>set h. c \<notin> {CHR '' '', CHR ''('', CHR '')'', newline_char})"

lemma word_list_append: "word_list ws \<Longrightarrow> plain_word h \<Longrightarrow> word_list (ws @ [h])"
  by (cases ws) (auto simp: word_list_def plain_word_def)

text \<open>Appending a hook that is not yet listed writes the file once; the file then reads back as the lists it
  had before with the hook at the end of HOOKS, no other file is touched, lines that are no MODULES, FILES or HOOKS
  lines are kept in place; and doing it again is refused without any request.\<close>

theorem append_hook_effect:
  assumes "status w = Running" "files (host w) path = Some content" "can_open_out env path (host w)"
    and "ic = parse_initcpio content (new_initcpio path)" "words_ok ic" "has_field_lines content"
    and "plain_word hook" "hook \<notin> set (ic_hooks ic)"
  shows "\<exists>w' content'.
    run_state (append_hook env hook (new_initcpio path)) w =
      ((True, ic\<lparr>ic_hooks := ic_hooks ic @ [hook]\<rparr>), w') \<and>
    files (host w') = (files (host w))(path \<mapsto> content') \<and>
    trace w' = trace w @ [WriteFile path content'] \<and>
    parse_initcpio content' (new_initcpio path) = ic\<lparr>ic_hooks := ic_hooks ic @ [hook]\<rparr> \<and>
    filter (\<lambda>l. \<not> field_line l) (views_split newline_char content') =
      filter (\<lambda>l. \<not> field_line l) (views_split newline_char content) \<and>
    (\<exists>ic'. run_state (append_hook env hook (new_initcpio path)) w' = ((False, ic'), w'))"
proof -
  let ?ic = "ic\<lparr>ic_hooks := ic_hooks ic @ [hook]\<rparr>"
  have path: "ic_file_path (new_initcpio path) = path" by (simp add: new_initcpio_def)
  have ne: "content \<noteq> []" using assms(6) by (auto simp: has_field_lines_def views_split_def)
  have edit: "append_hook_edit hook (parse_initcpio content (new_initcpio path)) = Some ?ic"
    using assms(4,8) by (simp add: append_hook_edit_def)
  have ok: "words_ok ?ic" using assms(5,7) by (simp add: words_ok_def word_list_append)
  obtain w' where run: "run_state (append_hook env hook (new_initcpio path)) w = ((True, ?ic), w')"
    and st: "status w' = Running" and wne: "written_text ?ic content \<noteq> []"
    and fs: "files (host w') = (files (host w))(path \<mapsto> written_text ?ic content)"
    and tr: "trace w' = trace w @ [WriteFile path (written_text ?ic content)]"
    and re: "parse_initcpio (written_text ?ic content) (new_initcpio path) = ?ic"
    using append_hook_op.reparse [of w "new_initcpio path" content hook ?ic env "new_initcpio path"]
      assms(1-3,6) ne edit ok path by auto
  have again: "run_state (append_hook env hook (new_initcpio path)) w' = ((False, ?ic), w')"
    using append_hook_op.refused [of w' "new_initcpio path" "written_text ?ic content" hook env]
      st fs wne path re by (simp add: append_hook_edit_def)
  have "filter (\<lambda>l. \<not> field_line l) (map (modify_initcpio_line a b c) ls) =
      filter (\<lambda>l. \<not> field_line l) ls" for a b c ls
    by (induction ls) (auto simp: modify_initcpio_line_def)
  then have "filter (\<lambda>l. \<not> field_line l) (views_split newline_char (written_text ?ic content)) =
      filter (\<lambda>l. \<not> field_line l) (views_split newline_char content)"
    by (simp only: written_text_lines [OF ok])
  with run fs tr re again show ?thesis by blast
qed

definition sample_conf :: string where
  "sample_conf = ''# comment\<newline>MODULES=()\<newline>FILES=()\<newline>HOOKS=(base udev block filesystems)\<newline>''"

definition sample_conf_ic :: initcpio where
  "sample_conf_ic = parse_initcpio sample_conf (new_initcpio ''/mnt/etc/mkinitcpio.conf'')"

lemma sample_conf_ic_eq:
  "sample_conf_ic = \<lparr>ic_modules = [], ic_files = [], ic_hooks = [''base'', ''udev'', ''block'', ''filesystems''],
     ic_file_path = ''/mnt/etc/mkinitcpio.conf''\<rparr>"
  by code_simp

lemma sample_conf_ok: "words_ok sample_conf_ic" "has_field_lines sample_conf"
  by (simp add: sample_conf_ic_eq words_ok_def word_list_def)
    (simp add: has_field_lines_def sample_conf_def views_split_def)

theorem append_hook_effect_witness:
  "\<exists>w' content'.
    run_state (append_hook quiet_env ''encrypt'' (new_initcpio ''/mnt/etc/mkinitcpio.conf''))
        (world_of [(''/mnt/etc/mkinitcpio.conf'', sample_conf)]) =
      ((True, sample_conf_ic\<lparr>ic_hooks := ic_hooks sample_conf_ic @ [''encrypt'']\<rparr>), w') \<and>
    trace w' = trace (world_of [(''/mnt/etc/mkinitcpio.conf'', sample_conf)]) @ [WriteFile ''/mnt/etc/mkinitcpio.conf'' content']"
proof -
  have f: "files (host (world_of [(''/mnt/etc/mkinitcpio.conf'', sample_conf)])) ''/mnt/etc/mkinitcpio.conf'' =
      Some sample_conf" by simp
  have o: "can_open_out quiet_env ''/mnt/etc/mkinitcpio.conf''
      (host (world_of [(''/mnt/etc/mkinitcpio.conf'', sample_conf)]))" by (simp add: quiet_env_def)
  have h: "plain_word ''encrypt''" "''encrypt'' \<notin> set (ic_hooks sample_conf_ic)"
    by (simp_all add: plain_word_def sample_conf_ic_eq)
  from append_hook_effect [OF world_of_simps(1) f o sample_conf_ic_def sample_conf_ok h]
  show ?thesis by blast
qed

text \<open>Inserting a hook before another one that is listed puts it directly in front of its first
  occurrence and changes nothing else in the lists that the file holds.\<close>

theorem insert_hook_effect:
  assumes "status w = Running" "files (host w) path = Some content" "can_open_out env path (host w)"
    and "ic = parse_initcpio content (new_initcpio path)" "words_ok ic" "has_field_lines content"
    and "plain_word hook" "hook \<notin> set (ic_hooks ic)"
    and "ic_hooks ic = before @ needle # behind" "needle \<notin> set before"
  shows "\<exists>w' content'.
    run_state (insert_hook env needle hook (new_initcpio path)) w =
      ((True, ic\<lparr>ic_hooks := before @ hook # needle # behind\<rparr>), w') \<and>
    files (host w') = (files (host w))(path \<mapsto> content') \<and>
    parse_initcpio content' (new_initcpio path) = ic\<lparr>ic_hooks := before @ hook # needle # behind\<rparr>"
proof -
  let ?ic = "ic\<lparr>ic_hooks := before @ hook # needle # behind\<rparr>"
  have path: "ic_file_path (new_initcpio path) = path" by (simp add: new_initcpio_def)
  have ne: "content \<noteq> []" using assms(6) by (auto simp: has_field_lines_def views_split_def)
  have "find_index (\<lambda>x. x = needle) before = None" using assms(10) by (simp add: find_index_mem)
  then have pos: "insert_before needle [hook] (ic_hooks ic) = before @ hook # needle # behind"
    using assms(9) by (simp add: insert_before_def find_index_append_None)
  have edit: "insert_hook_edit needle hook (parse_initcpio content (new_initcpio path)) = Some ?ic"
    using assms(4,8) pos by (simp add: insert_hook_edit_def)
  have ok: "words_ok ?ic"
    using assms(5,7,9) by (cases before) (auto simp: words_ok_def word_list_def plain_word_def)
  show ?thesis
    using insert_hook_op.reparse [of w "new_initcpio path" content needle hook ?ic env "new_initcpio path"]
      assms(1-3,6) ne edit ok path by auto
qed

theorem insert_hook_effect_witness:
  "\<exists>w' content'.
    run_state (insert_hook quiet_env ''block'' ''encrypt'' (new_initcpio ''/mnt/etc/mkinitcpio.conf''))
        (world_of [(''/mnt/etc/mkinitcpio.conf'', sample_conf)]) =
      ((True, sample_conf_ic\<lparr>ic_hooks := [''base'', ''udev''] @ ''encrypt'' # ''block'' # [''filesystems'']\<rparr>), w') \<and>
    parse_initcpio content' (new_initcpio ''/mnt/etc/mkinitcpio.conf'') =
      sample_conf_ic\<lparr>ic_hooks := [''base'', ''udev''] @ ''encrypt'' # ''block'' # [''filesystems'']\<rparr>"
proof -
  have f: "files (host (world_of [(''/mnt/etc/mkinitcpio.conf'', sample_conf)])) ''/mnt/etc/mkinitcpio.conf'' =
      Some sample_conf" by simp
  have o: "can_open_out quiet_env ''/mnt/etc/mkinitcpio.conf''
      (host (world_of [(''/mnt/etc/mkinitcpio.conf'', sample_conf)]))" by (simp add: quiet_env_def)
  have h: "plain_word ''encrypt''" "''encrypt'' \<notin> set (ic_hooks sample_conf_ic)"
    "ic_hooks sample_conf_ic = [''base'', ''udev''] @ ''block'' # [''filesystems'']"
    "''block'' \<notin> set [''base'', ''udev'']"
    by (simp_all add: plain_word_def sample_conf_ic_eq)
  from insert_hook_effect [OF world_of_simps(1) f o sample_conf_ic_def sample_conf_ok h]
  show ?thesis by blast
qed



end
