(* ===== verification/Kernel_Params.thy ===== *)
theory Kernel_Params
  imports Partitioning
begin

section \<open>Kernel parameters (gucc/src/kernel_params.cpp)\<close>

text \<open>
  The kernel command line of a partition scheme.  The loop over the partitions keeps the list under
  construction and the last root, encrypted root and swap seen; the property relates it to a
  declarative description over the whole scheme.  The two failures of the code (\<^verbatim>\<open>nullopt\<close>) are told apart, and the
  read of an unset \<^verbatim>\<open>luks_uuid\<close>, which is undefined, is an error of its own.
\<close>

datatype kernel_params_error = RootDatasetMissing | RootUuidMissing | LuksUuidUnset

record params_state =
  params_list :: "string list"
  cryptdevice_params :: "string list"
  root_uuid :: "string option"
  swap_uuid :: "string option"
  swap_mappername :: "string option"

definition is_root_on_btrfs :: "fs_partition \<Rightarrow> bool" where
  "is_root_on_btrfs part \<longleftrightarrow> mountpoint part = ''/'' \<and> fstype part = ''btrfs''"

definition is_root_on_zfs :: "fs_partition \<Rightarrow> bool" where
  "is_root_on_zfs part \<longleftrightarrow> mountpoint part = ''/'' \<and> fstype part = ''zfs''"

definition scan_swap :: "fs_partition \<Rightarrow> params_state \<Rightarrow> params_state" where
  "scan_swap part st =
     (if fstype part = ''linuxswap'' \<and> luks_mapper_name part = None
      then st\<lparr>swap_uuid := Some (uuid_str part)\<rparr>
      else if fstype part = ''linuxswap'' \<and> luks_mapper_name part \<noteq> None
      then st\<lparr>swap_mappername := luks_mapper_name part\<rparr>
      else st)"

definition scan_crypt :: "fs_partition \<Rightarrow> params_state \<Rightarrow> kernel_params_error + params_state" where
  "scan_crypt part st =
     (if mountpoint part = ''/'' then
        (case luks_mapper_name part of
           None \<Rightarrow> Inr st
         | Some mapper \<Rightarrow>
             (case luks_uuid part of
                None \<Rightarrow> Inl LuksUuidUnset
              | Some uuid \<Rightarrow>
                  Inr (st\<lparr>cryptdevice_params :=
                    [''cryptdevice=UUID='' @ uuid @ '':'' @ mapper, ''root=/dev/mapper/'' @ mapper]\<rparr>)))
      else Inr st)"

definition scan_root :: "fs_partition \<Rightarrow> params_state \<Rightarrow> params_state" where
  "scan_root part st =
     (if mountpoint part = ''/'' then st\<lparr>root_uuid := Some (uuid_str part)\<rparr> else st)"

definition scan_fs :: "string option \<Rightarrow> fs_partition \<Rightarrow> params_state \<Rightarrow> kernel_params_error + params_state" where
  "scan_fs zfs_root_dataset part st =
     (if is_root_on_btrfs part \<and> subvolume part \<noteq> None
      then Inr (st\<lparr>params_list := params_list st @ [''rootflags=subvol='' @ the (subvolume part)]\<rparr>)
      else if is_root_on_zfs part
      then (case zfs_root_dataset of
              None \<Rightarrow> Inl RootDatasetMissing
            | Some dataset \<Rightarrow> Inr (st\<lparr>params_list := params_list st @ [''root=ZFS='' @ dataset]\<rparr>))
      else Inr st)"

fun scan_partitions ::
  "string option \<Rightarrow> fs_partition list \<Rightarrow> params_state \<Rightarrow> kernel_params_error + params_state" where
  "scan_partitions zfs_root_dataset [] st = Inr st"
| "scan_partitions zfs_root_dataset (part # parts) st =
     (case scan_crypt part (scan_swap part st) of
        Inl e \<Rightarrow> Inl e
      | Inr st1 \<Rightarrow>
          (case scan_fs zfs_root_dataset part (scan_root part st1) of
             Inl e \<Rightarrow> Inl e
           | Inr st2 \<Rightarrow> scan_partitions zfs_root_dataset parts st2))"

definition finish_params :: "params_state \<Rightarrow> kernel_params_error + string list" where
  "finish_params st =
     (case root_uuid st of
        None \<Rightarrow> Inl RootUuidMissing
      | Some uuid \<Rightarrow>
          if uuid = '''' then Inl RootUuidMissing
          else Inr (params_list st
            @ (if cryptdevice_params st \<noteq> [] then cryptdevice_params st else [''root=UUID='' @ uuid])
            @ (case swap_uuid st of
                 None \<Rightarrow> []
               | Some swap \<Rightarrow> if swap = '''' then [] else [''resume=UUID='' @ swap])
            @ (case swap_mappername st of
                 None \<Rightarrow> []
               | Some mapper \<Rightarrow> if mapper = '''' then [] else [''resume=/dev/mapper/'' @ mapper])))"

definition get_kernel_params ::
  "fs_partition list \<Rightarrow> string \<Rightarrow> string option \<Rightarrow> kernel_params_error + string list" where
  "get_kernel_params partitions kernel_params zfs_root_dataset =
     (let start = \<lparr>params_list = make_multiline kernel_params False (CHR '' '') @ [''rw''],
            cryptdevice_params = [], root_uuid = None, swap_uuid = None, swap_mappername = None\<rparr>
      in case scan_partitions zfs_root_dataset partitions start of
           Inl e \<Rightarrow> Inl e
         | Inr st \<Rightarrow> finish_params st)"

subsection \<open>The description over the whole scheme\<close>

definition last_of :: "('a \<Rightarrow> bool) \<Rightarrow> ('a \<Rightarrow> 'b) \<Rightarrow> 'b option \<Rightarrow> 'a list \<Rightarrow> 'b option" where
  "last_of P f dflt xs = (if filter P xs = [] then dflt else Some (f (last (filter P xs))))"

lemma last_of_simps [simp]:
  "last_of P f d [] = d"
  "last_of P f d (x # xs) = last_of P f (if P x then Some (f x) else d) xs"
  by (auto simp: last_of_def)

abbreviation is_root :: "fs_partition \<Rightarrow> bool" where
  "is_root p \<equiv> mountpoint p = ''/''"

abbreviation is_luks :: "fs_partition \<Rightarrow> bool" where
  "is_luks p \<equiv> luks_mapper_name p \<noteq> None"

abbreviation is_swap :: "fs_partition \<Rightarrow> bool" where
  "is_swap p \<equiv> fstype p = ''linuxswap''"

definition root_flags :: "string option \<Rightarrow> fs_partition \<Rightarrow> string list" where
  "root_flags dataset p =
     (if is_root_on_btrfs p \<and> subvolume p \<noteq> None then [''rootflags=subvol='' @ the (subvolume p)]
      else if is_root_on_zfs p then [''root=ZFS='' @ the dataset] else [])"

definition crypt_params :: "fs_partition \<Rightarrow> string list" where
  "crypt_params p =
     [''cryptdevice=UUID='' @ the (luks_uuid p) @ '':'' @ the (luks_mapper_name p),
      ''root=/dev/mapper/'' @ the (luks_mapper_name p)]"

definition nonempty_param :: "string \<Rightarrow> string option \<Rightarrow> string list" where
  "nonempty_param key v = (case v of None \<Rightarrow> [] | Some s \<Rightarrow> if s = '''' then [] else [key @ s])"

text \<open>
  What a root partition can refuse: the encryption is looked at before the file system, so an unset identifier comes first.
\<close>

definition root_errors :: "string option \<Rightarrow> fs_partition \<Rightarrow> kernel_params_error list" where
  "root_errors dataset p =
     (if is_root p \<and> is_luks p \<and> luks_uuid p = None then [LuksUuidUnset]
      else if is_root_on_zfs p \<and> dataset = None then [RootDatasetMissing] else [])"

definition well_formed_roots :: "string option \<Rightarrow> fs_partition list \<Rightarrow> bool" where
  "well_formed_roots dataset ps \<longleftrightarrow>
     (\<forall>p\<in>set ps. is_root p \<longrightarrow> (is_luks p \<longrightarrow> luks_uuid p \<noteq> None) \<and>
        (fstype p = ''zfs'' \<longrightarrow> dataset \<noteq> None))"

lemma well_formed_roots_iff: "well_formed_roots dataset ps \<longleftrightarrow> concat (map (root_errors dataset) ps) = []"
proof (induction ps)
  case (Cons p ps)
  have "well_formed_roots dataset (p # ps) \<longleftrightarrow> root_errors dataset p = [] \<and> well_formed_roots dataset ps"
    by (auto simp: well_formed_roots_def root_errors_def is_root_on_zfs_def)
  with Cons show ?case by simp
qed (simp add: well_formed_roots_def)

lemma scan_partitions_error:
  "concat (map (root_errors dataset) ps) = e # es \<Longrightarrow> scan_partitions dataset ps st = Inl e"
proof (induction ps arbitrary: st)
  case (Cons p ps)
  then show ?case
    by (cases "root_errors dataset p = []")
      (auto simp: root_errors_def scan_crypt_def scan_fs_def is_root_on_zfs_def is_root_on_btrfs_def
        split: if_splits option.splits)
qed simp

lemma scan_partitions_eq:
  "well_formed_roots dataset ps \<Longrightarrow>
   scan_partitions dataset ps st = Inr
     \<lparr>params_list = params_list st @ concat (map (root_flags dataset) ps),
      cryptdevice_params = the (last_of (\<lambda>p. is_root p \<and> is_luks p) crypt_params (Some (cryptdevice_params st)) ps),
      root_uuid = last_of is_root uuid_str (root_uuid st) ps,
      swap_uuid = last_of (\<lambda>p. is_swap p \<and> \<not> is_luks p) uuid_str (swap_uuid st) ps,
      swap_mappername = last_of (\<lambda>p. is_swap p \<and> is_luks p) (\<lambda>p. the (luks_mapper_name p)) (swap_mappername st) ps\<rparr>"
proof (induction ps arbitrary: st)
  case Nil
  show ?case by simp
next
  case (Cons p ps)
  have wf: "well_formed_roots dataset ps" using Cons.prems by (simp add: well_formed_roots_def)
  have p: "is_root p \<Longrightarrow> is_luks p \<Longrightarrow> luks_uuid p \<noteq> None" "is_root p \<Longrightarrow> fstype p = ''zfs'' \<Longrightarrow> dataset \<noteq> None"
    using Cons.prems by (auto simp: well_formed_roots_def)
  let ?st1 = "(scan_swap p st)\<lparr>cryptdevice_params :=
      (if is_root p \<and> is_luks p then crypt_params p else cryptdevice_params st)\<rparr>"
  have crypt: "scan_crypt p (scan_swap p st) = Inr ?st1"
    using p(1) by (auto simp: scan_crypt_def scan_swap_def crypt_params_def split: option.splits)
  have fs: "scan_fs dataset p (scan_root p ?st1) =
      Inr ((scan_root p ?st1)\<lparr>params_list := params_list st @ root_flags dataset p\<rparr>)"
    using p(2) by (auto simp: scan_fs_def scan_root_def scan_swap_def root_flags_def is_root_on_zfs_def split: option.splits)
  let ?st2 = "(scan_root p ?st1)\<lparr>params_list := params_list st @ root_flags dataset p\<rparr>"
  have step: "scan_partitions dataset (p # ps) st = scan_partitions dataset ps ?st2"
    by (simp only: scan_partitions.simps crypt fs sum.case)
  have fields: "params_list ?st2 = params_list st @ root_flags dataset p"
    "cryptdevice_params ?st2 = (if is_root p \<and> is_luks p then crypt_params p else cryptdevice_params st)"
    "root_uuid ?st2 = (if is_root p then Some (uuid_str p) else root_uuid st)"
    "swap_uuid ?st2 = (if is_swap p \<and> \<not> is_luks p then Some (uuid_str p) else swap_uuid st)"
    "swap_mappername ?st2 = (if is_swap p \<and> is_luks p then Some (the (luks_mapper_name p)) else swap_mappername st)"
    by (auto simp: scan_root_def scan_swap_def)
  show ?case
    unfolding step Cons.IH [OF wf] fields by (simp add: if_distrib [of Some] cong: if_cong)
qed

subsection \<open>Properties\<close>

text \<open>C4. The kernel command line of a scheme.  It is refused when a root partition on zfs stands in the scheme and no root
  dataset is given, and when there is no root or the UUID of the last root is empty.  A root with a mapper name whose LUKS UUID is unset
  makes the code read an empty optional, which is undefined; of several roots with one of these two faults the first in the scheme decides, and
  in one root the LUKS UUID is read first, while the missing root or UUID is noticed only after the whole scheme.  Otherwise the command line is: the given words, \<^verbatim>\<open>rw\<close>, the flags of the
  btrfs and zfs roots, then the device of the root (the last encrypted one if there is any, the last root otherwise) and the
  last plain and the last encrypted swap to resume from, if they are not empty.\<close>

theorem kernel_params_description:
  "get_kernel_params ps cmdline dataset =
    (case concat (map (root_errors dataset) ps) of
       e # es \<Rightarrow> Inl e
     | [] \<Rightarrow>
    (case last_of is_root uuid_str None ps of
       None \<Rightarrow> Inl RootUuidMissing
     | Some uuid \<Rightarrow>
         if uuid = '''' then Inl RootUuidMissing
         else Inr (make_split_view cmdline (CHR '' '') @ [''rw''] @ concat (map (root_flags dataset) ps)
           @ (case last_of (\<lambda>p. is_root p \<and> is_luks p) crypt_params None ps of
                None \<Rightarrow> [''root=UUID='' @ uuid] | Some crypt \<Rightarrow> crypt)
           @ nonempty_param ''resume=UUID='' (last_of (\<lambda>p. is_swap p \<and> \<not> is_luks p) uuid_str None ps)
           @ nonempty_param ''resume=/dev/mapper/''
               (last_of (\<lambda>p. is_swap p \<and> is_luks p) (\<lambda>p. the (luks_mapper_name p)) None ps))))"
proof (cases "concat (map (root_errors dataset) ps)")
  case Nil
  then have wf: "well_formed_roots dataset ps" by (simp only: well_formed_roots_iff)
  have "the (last_of P crypt_params (Some []) ps) =
      (case last_of P crypt_params None ps of None \<Rightarrow> [] | Some c \<Rightarrow> c)" for P
    by (simp add: last_of_def)
  moreover have "last_of P crypt_params None ps = Some c \<Longrightarrow> c \<noteq> []" for P c
    by (auto simp: last_of_def crypt_params_def split: if_splits)
  ultimately show ?thesis
    unfolding Nil list.case
    by (auto simp: get_kernel_params_def scan_partitions_eq [OF wf] finish_params_def
        nonempty_param_def make_multiline_def split: option.splits)
next
  case (Cons e es)
  show ?thesis unfolding Cons list.case by (simp add: get_kernel_params_def scan_partitions_error [OF Cons])
qed

definition sample_root_scheme :: "fs_partition list" where
  "sample_root_scheme =
     [empty_partition\<lparr>fstype := ''btrfs'', mountpoint := ''/'', device := ''/dev/sda2'', uuid_str := ''6bdb'',
        subvolume := Some ''/@'', luks_mapper_name := Some ''cryptroot'', luks_uuid := Some ''00ff''\<rparr>,
      empty_partition\<lparr>fstype := ''linuxswap'', device := ''/dev/sda3'', uuid_str := ''59848b1b''\<rparr>]"

theorem kernel_params_description_witness:
  "get_kernel_params sample_root_scheme ''quiet splash'' None =
    Inr [''quiet'', ''splash'', ''rw'', ''rootflags=subvol=/@'', ''cryptdevice=UUID=00ff:cryptroot'',
      ''root=/dev/mapper/cryptroot'', ''resume=UUID=59848b1b'']"
  using kernel_params_description [of sample_root_scheme "''quiet splash''" None]
  by (simp add: sample_root_scheme_def empty_partition_def root_flags_def root_errors_def crypt_params_def is_root_on_btrfs_def
      is_root_on_zfs_def nonempty_param_def make_split_view_eq)

text \<open>A zfs root without a root dataset is refused, wherever it stands in the scheme,
  as long as no partition in front of it makes the code read an unset LUKS identifier.\<close>

theorem kernel_params_zfs_needs_dataset:
  assumes "ps = as @ p # bs" "is_root_on_zfs p"
    and "\<forall>q\<in>set (as @ [p]). is_root q \<longrightarrow> is_luks q \<longrightarrow> luks_uuid q \<noteq> None"
  shows "get_kernel_params ps cmdline None = Inl RootDatasetMissing"
proof -
  have "scan_partitions None (as @ p # bs) st = Inl RootDatasetMissing" for st
    using assms(3)
  proof (induction as arbitrary: st)
    case Nil
    with assms(2) show ?case
      by (auto simp: scan_crypt_def scan_fs_def is_root_on_zfs_def is_root_on_btrfs_def split: option.splits)
  next
    case (Cons q as)
    then show ?case
      by (auto simp: scan_crypt_def scan_fs_def split: option.splits)
  qed
  with assms(1) show ?thesis by (simp add: get_kernel_params_def)
qed

theorem kernel_params_zfs_needs_dataset_witness:
  "get_kernel_params (sample_root_scheme @
      [empty_partition\<lparr>fstype := ''zfs'', mountpoint := ''/'', uuid_str := ''6bdb''\<rparr>]) ''quiet'' None =
    Inl RootDatasetMissing"
proof (rule kernel_params_zfs_needs_dataset)
  show "sample_root_scheme @ [empty_partition\<lparr>fstype := ''zfs'', mountpoint := ''/'', uuid_str := ''6bdb''\<rparr>] =
      sample_root_scheme @ empty_partition\<lparr>fstype := ''zfs'', mountpoint := ''/'', uuid_str := ''6bdb''\<rparr> # []"
    by (rule refl)
qed (auto simp: is_root_on_zfs_def empty_partition_def sample_root_scheme_def)

end
