(* ===== verification/Bootloader.thy ===== *)
theory Bootloader
  imports Initcpio
begin

section \<open>Boot loaders (gucc/src/bootloader.cpp, gucc/include/gucc/bootloader.hpp)\<close>

text \<open>
  The GRUB configuration, produced by rewriting a template line by line from a record of settings,
  the rEFInd and Limine configurations, and the installation of GRUB, systemd-boot, rEFInd and
  Limine.  The main lemma reads the generated GRUB file back: its assignments are exactly the
  settings of the record.
\<close>

subsection \<open>Settings\<close>

record grub_config =
  default_entry :: string
  grub_timeout :: int
  grub_distributor :: string
  cmdline_linux_default :: string
  cmdline_linux :: string
  preload_modules :: string
  enable_cryptodisk :: "bool option"
  timeout_style :: string
  terminal_input :: string
  terminal_output :: "string option"
  gfxmode :: string
  gfxpayload_linux :: string
  disable_linux_uuid :: "bool option"
  disable_recovery :: bool
  color_normal :: "string option"
  color_highlight :: "string option"
  background :: "string option"
  theme_path :: "string option"
  init_tune :: "string option"
  savedefault :: "bool option"
  disable_submenu :: "bool option"
  disable_os_prober :: "bool option"

definition default_grub_config :: grub_config where
  "default_grub_config =
     \<lparr>default_entry = ''0'', grub_timeout = 5, grub_distributor = ''Arch'',
      cmdline_linux_default = ''loglevel=3 quiet'', cmdline_linux = '''',
      preload_modules = ''part_gpt part_msdos'', enable_cryptodisk = None, timeout_style = ''menu'',
      terminal_input = ''console'', terminal_output = None, gfxmode = ''auto'',
      gfxpayload_linux = ''keep'', disable_linux_uuid = None, disable_recovery = True,
      color_normal = None, color_highlight = None, background = None, theme_path = None,
      init_tune = None, savedefault = None, disable_submenu = None, disable_os_prober = None\<rparr>"

record grub_install_config =
  gi_is_efi :: bool
  gi_do_recheck :: bool
  gi_is_removable :: bool
  gi_is_root_on_zfs :: bool
  gi_device :: "string option"
  gi_efi_directory :: "string option"
  gi_bootloader_id :: "string option"

record limine_install_config =
  li_is_removable :: bool
  li_root_mountpoint :: string
  li_boot_mountpoint :: string
  li_kernel_params :: "string list"

record refind_install_config =
  ri_is_removable :: bool
  ri_root_mountpoint :: string
  ri_boot_mountpoint :: string
  ri_extra_kernel_versions :: "string list"
  ri_kernel_params :: "string list"

subsection \<open>Templates\<close>

definition grub_template_lines :: "string list" where
  "grub_template_lines =
     [''# GRUB boot loader configuration'',
      '''',
      ''GRUB_DEFAULT=0'',
      ''GRUB_TIMEOUT=5'',
      ''GRUB_DISTRIBUTOR=\"Arch\"'',
      ''GRUB_CMDLINE_LINUX_DEFAULT=\"loglevel=3 quiet\"'',
      ''GRUB_CMDLINE_LINUX=\"\"'',
      '''',
      ''# Preload both GPT and MBR modules so that they are not missed'',
      ''GRUB_PRELOAD_MODULES=\"part_gpt part_msdos\"'',
      '''',
      ''# Uncomment to enable booting from LUKS encrypted devices'',
      ''#GRUB_ENABLE_CRYPTODISK=y'',
      '''',
      ''# Set to '' @ squote @ ''countdown'' @ squote @ '' or '' @ squote @ ''hidden'' @ squote @ '' to change timeout behavior,'',
      ''# press ESC key to display menu.'',
      ''GRUB_TIMEOUT_STYLE=menu'',
      '''',
      ''# Uncomment to use basic console'',
      ''GRUB_TERMINAL_INPUT=console'',
      '''',
      ''# Uncomment to disable graphical terminal'',
      ''#GRUB_TERMINAL_OUTPUT=console'',
      '''',
      ''# The resolution used on graphical terminal'',
      ''# note that you can use only modes which your graphic card supports via VBE'',
      ''# you can see them in real GRUB with the command `videoinfo'' @ squote,
      ''GRUB_GFXMODE=auto'',
      '''',
      ''# Uncomment to allow the kernel use the same resolution used by grub'',
      ''GRUB_GFXPAYLOAD_LINUX=keep'',
      '''',
      ''# Uncomment if you want GRUB to pass to the Linux kernel the old parameter'',
      ''# format \"root=/dev/xxx\" instead of \"root=/dev/disk/by-uuid/xxx\"'',
      ''#GRUB_DISABLE_LINUX_UUID=true'',
      '''',
      ''# Uncomment to disable generation of recovery mode menu entries'',
      ''GRUB_DISABLE_RECOVERY=true'',
      '''',
      ''# Uncomment and set to the desired menu colors.  Used by normal and wallpaper'',
      ''# modes only.  Entries specified as foreground/background.'',
      ''#GRUB_COLOR_NORMAL=\"light-blue/black\"'',
      ''#GRUB_COLOR_HIGHLIGHT=\"light-cyan/blue\"'',
      '''',
      ''# Uncomment one of them for the gfx desired, a image background or a gfxtheme'',
      ''#GRUB_BACKGROUND=\"/path/to/wallpaper\"'',
      ''#GRUB_THEME=\"/path/to/gfxtheme\"'',
      '''',
      ''# Uncomment to get a beep at GRUB start'',
      ''#GRUB_INIT_TUNE=\"480 440 1\"'',
      '''',
      ''# Uncomment to make GRUB remember the last selection. This requires'',
      ''# setting '' @ squote @ ''GRUB_DEFAULT=saved'' @ squote @ '' above.'',
      ''#GRUB_SAVEDEFAULT=true'',
      '''',
      ''# Uncomment to disable submenus in boot menu'',
      ''#GRUB_DISABLE_SUBMENU=y'',
      '''',
      ''# Probing for other operating systems is disabled for security reasons. Read'',
      ''# documentation on GRUB_DISABLE_OS_PROBER, if still want to enable this'',
      ''# functionality install os-prober and uncomment to detect and include other'',
      ''# operating systems.'',
      ''#GRUB_DISABLE_OS_PROBER=false'']"

definition limine_template_lines :: "string list" where
  "limine_template_lines =
     [''# Limine boot loader configuration'',
      ''timeout: 5'',
      ''remember_last_entry: yes'',
      '''',
      ''# CachyOS Limine theme'',
      ''# Author: diegons490 (https://github.com/diegons490/cachyos-limine-theme)'',
      ''term_palette: 1e1e2e;f38ba8;a6e3a1;f9e2af;89b4fa;f5c2e7;94e2d5;cdd6f4'',
      ''term_palette_bright: 585b70;f38ba8;a6e3a1;f9e2af;89b4fa;f5c2e7;94e2d5;cdd6f4'',
      ''term_background: ffffffff'',
      ''term_foreground: cdd6f4'',
      ''term_background_bright: ffffffff'',
      ''term_foreground_bright: cdd6f4'',
      ''interface_branding:'',
      ''wallpaper: boot():/limine-splash.png'']"

definition GRUB_DEFAULT_CONFIG :: string where
  "GRUB_DEFAULT_CONFIG = concat (map (\<lambda>l. l @ [newline_char]) grub_template_lines)"

definition LIMINE_DEFAULT_CONFIG :: string where
  "LIMINE_DEFAULT_CONFIG = concat (map (\<lambda>l. l @ [newline_char]) limine_template_lines)"

subsection \<open>GRUB lines\<close>

definition convert_boolean_val :: "string \<Rightarrow> bool \<Rightarrow> string" where
  "convert_boolean_val needle val =
     (if needle = ''GRUB_ENABLE_CRYPTODISK='' \<or> needle = ''GRUB_DISABLE_SUBMENU=''
      then (if val then ''y'' else ''n'')
      else (if val then ''true'' else ''false''))"

text \<open>The text each of the macros returns for a line that starts with its needle.\<close>

definition dquote :: "string \<Rightarrow> string" where
  "dquote s = ''\"'' @ s @ ''\"''"

definition conv_req_f :: "string \<Rightarrow> string \<Rightarrow> string" where
  "conv_req_f needle f = needle @ f"

definition conv_req_f_s :: "string \<Rightarrow> string \<Rightarrow> string" where
  "conv_req_f_s needle f = needle @ dquote f"

definition conv_opt_f :: "string \<Rightarrow> string option \<Rightarrow> string \<Rightarrow> string" where
  "conv_opt_f needle f default_val =
     (case f of Some v \<Rightarrow> needle @ v | None \<Rightarrow> ''#'' @ needle @ default_val)"

definition conv_opt_f_s :: "string \<Rightarrow> string option \<Rightarrow> string \<Rightarrow> string" where
  "conv_opt_f_s needle f default_val =
     (case f of Some v \<Rightarrow> needle @ dquote v | None \<Rightarrow> ''#'' @ needle @ dquote default_val)"

definition conv_req_b :: "string \<Rightarrow> bool \<Rightarrow> string" where
  "conv_req_b needle f = needle @ convert_boolean_val needle f"

definition conv_opt_b :: "string \<Rightarrow> bool option \<Rightarrow> string \<Rightarrow> string" where
  "conv_opt_b needle f default_val =
     (case f of Some v \<Rightarrow> needle @ convert_boolean_val needle v
      | None \<Rightarrow> ''#'' @ needle @ default_val)"

definition parse_grub_line :: "grub_config \<Rightarrow> string \<Rightarrow> string" where
  "parse_grub_line c line0 =
     (let line = (if starts_with line0 ''#GRUB_'' then drop 1 line0 else line0) in
      if \<not> starts_with line ''GRUB_'' then line
      else if starts_with line ''GRUB_DEFAULT='' then conv_req_f ''GRUB_DEFAULT='' (default_entry c)
      else if starts_with line ''GRUB_TIMEOUT='' then conv_req_f ''GRUB_TIMEOUT='' (show_int (grub_timeout c))
      else if starts_with line ''GRUB_DISTRIBUTOR='' then conv_req_f_s ''GRUB_DISTRIBUTOR='' (grub_distributor c)
      else if starts_with line ''GRUB_CMDLINE_LINUX_DEFAULT=''
      then conv_req_f_s ''GRUB_CMDLINE_LINUX_DEFAULT='' (cmdline_linux_default c)
      else if starts_with line ''GRUB_CMDLINE_LINUX='' then conv_req_f_s ''GRUB_CMDLINE_LINUX='' (cmdline_linux c)
      else if starts_with line ''GRUB_PRELOAD_MODULES=''
      then conv_req_f_s ''GRUB_PRELOAD_MODULES='' (preload_modules c)
      else if starts_with line ''GRUB_TIMEOUT_STYLE='' then conv_req_f ''GRUB_TIMEOUT_STYLE='' (timeout_style c)
      else if starts_with line ''GRUB_TERMINAL_INPUT='' then conv_req_f ''GRUB_TERMINAL_INPUT='' (terminal_input c)
      else if starts_with line ''GRUB_TERMINAL_OUTPUT=''
      then conv_opt_f ''GRUB_TERMINAL_OUTPUT='' (terminal_output c) ''console''
      else if starts_with line ''GRUB_GFXMODE='' then conv_req_f ''GRUB_GFXMODE='' (gfxmode c)
      else if starts_with line ''GRUB_GFXPAYLOAD_LINUX=''
      then conv_req_f ''GRUB_GFXPAYLOAD_LINUX='' (gfxpayload_linux c)
      else if starts_with line ''GRUB_COLOR_NORMAL=''
      then conv_opt_f_s ''GRUB_COLOR_NORMAL='' (color_normal c) ''light-blue/black''
      else if starts_with line ''GRUB_COLOR_HIGHLIGHT=''
      then conv_opt_f_s ''GRUB_COLOR_HIGHLIGHT='' (color_highlight c) ''light-cyan/blue''
      else if starts_with line ''GRUB_BACKGROUND=''
      then conv_opt_f_s ''GRUB_BACKGROUND='' (background c) ''/path/to/wallpaper''
      else if starts_with line ''GRUB_THEME=''
      then conv_opt_f_s ''GRUB_THEME='' (theme_path c) ''/path/to/gfxtheme''
      else if starts_with line ''GRUB_INIT_TUNE=''
      then conv_opt_f_s ''GRUB_INIT_TUNE='' (init_tune c) ''480 440 1''
      else if contains line ''=y'' \<or> contains line ''=true'' \<or> contains line ''=false'' then
        (if starts_with line ''GRUB_ENABLE_CRYPTODISK=''
         then conv_opt_b ''GRUB_ENABLE_CRYPTODISK='' (enable_cryptodisk c) ''y''
         else if starts_with line ''GRUB_DISABLE_LINUX_UUID=''
         then conv_opt_b ''GRUB_DISABLE_LINUX_UUID='' (disable_linux_uuid c) ''true''
         else if starts_with line ''GRUB_DISABLE_RECOVERY=''
         then conv_req_b ''GRUB_DISABLE_RECOVERY='' (disable_recovery c)
         else if starts_with line ''GRUB_SAVEDEFAULT=''
         then conv_opt_b ''GRUB_SAVEDEFAULT='' (savedefault c) ''true''
         else if starts_with line ''GRUB_DISABLE_SUBMENU=''
         then conv_opt_b ''GRUB_DISABLE_SUBMENU='' (disable_submenu c) ''y''
         else if starts_with line ''GRUB_DISABLE_OS_PROBER=''
         then conv_opt_b ''GRUB_DISABLE_OS_PROBER='' (disable_os_prober c) ''false''
         else line)
      else line)"

definition gen_grub_config :: "grub_config \<Rightarrow> string" where
  "gen_grub_config c = rewrite_lines (parse_grub_line c) GRUB_DEFAULT_CONFIG"

subsection \<open>Installing\<close>

definition write_grub_config :: "'m sysenv \<Rightarrow> grub_config \<Rightarrow> string \<Rightarrow> ('m, bool) io" where
  "write_grub_config env c root_mountpoint = do {
     ok \<leftarrow> create_file_for_overwrite env (root_mountpoint @ ''/etc/default/grub'') (gen_grub_config c);
     if \<not> ok then ret False else ret True
   }"

definition grub_install_cmd :: "grub_install_config \<Rightarrow> string" where
  "grub_install_cmd g =
     (if gi_is_root_on_zfs g then ''ZPOOL_VDEV_NAME_PATH=YES '' else '''')
     @ ''grub-install --target='' @ (if gi_is_efi g then ''x86_64-efi'' else ''i386-pc'')
     @ (if gi_do_recheck g then '' --recheck'' else '''')
     @ (if gi_is_removable g then '' --removable'' else '''')
     @ (case gi_efi_directory g of
          Some d \<Rightarrow> if gi_is_efi g then '' --efi-directory='' @ d else '''' | None \<Rightarrow> '''')
     @ (case gi_bootloader_id g of
          Some b \<Rightarrow> if gi_is_efi g then '' --bootloader-id='' @ b else '''' | None \<Rightarrow> '''')
     @ (case gi_device g of Some d \<Rightarrow> if \<not> gi_is_efi g then '' '' @ d else '''' | None \<Rightarrow> '''')"

definition install_grub ::
  "'m sysenv \<Rightarrow> grub_config \<Rightarrow> grub_install_config \<Rightarrow> string \<Rightarrow> ('m, bool) io" where
  "install_grub env c g root_mountpoint = do {
     written \<leftarrow> write_grub_config env c root_mountpoint;
     if \<not> written then ret False
     else do {
       installed \<leftarrow> arch_chroot_checked env (grub_install_cmd g) root_mountpoint;
       if \<not> installed then ret False
       else do {
         generated \<leftarrow> arch_chroot_checked env ''grub-mkconfig -o /boot/grub/grub.cfg'' root_mountpoint;
         if \<not> generated then ret False else ret True
       }
     }
   }"

text \<open>The result of \<^verbatim>\<open>remove_hook\<close> is not looked at.\<close>

definition drop_autodetect :: "'m sysenv \<Rightarrow> string \<Rightarrow> ('m, unit) io" where
  "drop_autodetect env root_mountpoint = do {
     r \<leftarrow> remove_hook env ''autodetect'' (new_initcpio (root_mountpoint @ ''/etc/mkinitcpio.conf''));
     ret ()
   }"

definition install_systemd_boot :: "'m sysenv \<Rightarrow> string \<Rightarrow> string \<Rightarrow> bool \<Rightarrow> ('m, bool) io" where
  "install_systemd_boot env root_mountpoint efi_directory is_volume_removable = do {
     installed \<leftarrow> arch_chroot_checked env (''bootctl --path='' @ efi_directory @ '' install'') root_mountpoint;
     if \<not> installed then ret False
     else do {
       generated \<leftarrow> arch_chroot_checked env ''sdboot-manage gen'' root_mountpoint;
       if \<not> generated then ret False
       else if is_volume_removable
       then do { drop_autodetect env root_mountpoint; ret True }
       else ret True
     }
   }"

definition gen_refind_config :: "string list \<Rightarrow> string" where
  "gen_refind_config kernel_params =
     (let kernel_params_str = join kernel_params (CHR '' '') in
      ''\"Boot with standard options\"    '' @ dquote kernel_params_str @ [newline_char]
      @ ''\"Boot to single-user mode\"    '' @ dquote kernel_params_str @ '' single\<newline>'')"

definition extra_kern_line :: "string list \<Rightarrow> string \<Rightarrow> string" where
  "extra_kern_line extra_kernel_versions line =
     (if starts_with line ''#extra_kernel_version_strings'' \<or> starts_with line ''extra_kernel_version_strings''
      then ''extra_kernel_version_strings '' @ join extra_kernel_versions (CHR '','')
      else line)"

definition refind_write_extra_kern_strings ::
  "'m sysenv \<Rightarrow> string \<Rightarrow> string list \<Rightarrow> ('m, bool) io" where
  "refind_write_extra_kern_strings env file_path extra_kernel_versions = do {
     file_content \<leftarrow> read_whole_file file_path;
     if file_content = '''' \<or> extra_kernel_versions = [] then ret False
     else create_file_for_overwrite env file_path
            (rewrite_lines (extra_kern_line extra_kernel_versions) file_content)
   }"

definition refind_install_cmd :: "string \<Rightarrow> bool \<Rightarrow> string" where
  "refind_install_cmd root_path is_removable_drive =
     ''refind-install --root '' @ root_path
     @ (if is_removable_drive then '' --alldrivers --yes'' else '''')
     @ '' &>>/tmp/cachyos-install.log''"

definition install_refind :: "'m sysenv \<Rightarrow> refind_install_config \<Rightarrow> ('m, bool) io" where
  "install_refind env r = do {
     installed \<leftarrow> exec_checked env (refind_install_cmd (ri_root_mountpoint r) (ri_is_removable r));
     if \<not> installed then ret False
     else do {
       u \<leftarrow> (if ri_is_removable r then drop_autodetect env (ri_root_mountpoint r) else ret ());
       written \<leftarrow> create_file_for_overwrite env (ri_root_mountpoint r @ ''/boot/refind_linux.conf'')
                    (gen_refind_config (ri_kernel_params r));
       if \<not> written then ret False
       else do {
         extra \<leftarrow> refind_write_extra_kern_strings env (ri_boot_mountpoint r @ ''/EFI/refind/refind.conf'')
                    (ri_extra_kernel_versions r);
         if \<not> extra then ret False else ret True
       }
     }
   }"

definition gen_limine_config :: "string list \<Rightarrow> string" where
  "gen_limine_config kernel_params =
     ''KERNEL_CMDLINE[default]='' @ dquote (join kernel_params (CHR '' '')) @ [newline_char]"

definition install_limine :: "'m sysenv \<Rightarrow> limine_install_config \<Rightarrow> ('m, bool) io" where
  "install_limine env l = do {
     ok1 \<leftarrow> create_file_for_overwrite env (li_boot_mountpoint l @ ''/limine.conf'') LIMINE_DEFAULT_CONFIG;
     if \<not> ok1 then ret False
     else do {
       ok2 \<leftarrow> create_file_for_overwrite env (li_root_mountpoint l @ ''/etc/default/limine'')
                (gen_limine_config (li_kernel_params l));
       if \<not> ok2 then ret False
       else do {
         ok3 \<leftarrow> arch_chroot_checked env ''limine-install'' (li_root_mountpoint l);
         if \<not> ok3 then ret False
         else do {
           ok4 \<leftarrow> arch_chroot_checked env ''limine-mkinitcpio'' (li_root_mountpoint l);
           if \<not> ok4 then ret False else ret True
         }
       }
     }
   }"

subsection \<open>The installations are plans\<close>

definition install_grub_plan :: "'m sysenv \<Rightarrow> grub_config \<Rightarrow> grub_install_config \<Rightarrow> string \<Rightarrow> step list" where
  "install_grub_plan env c g root =
     Write (root @ ''/etc/default/grub'') (gen_grub_config c)
     # chroot_steps env (grub_install_cmd g) root
     @ chroot_steps env ''grub-mkconfig -o /boot/grub/grub.cfg'' root"

definition install_limine_plan :: "'m sysenv \<Rightarrow> limine_install_config \<Rightarrow> step list" where
  "install_limine_plan env l =
     [Write (li_boot_mountpoint l @ ''/limine.conf'') LIMINE_DEFAULT_CONFIG,
      Write (li_root_mountpoint l @ ''/etc/default/limine'') (gen_limine_config (li_kernel_params l))]
     @ chroot_steps env ''limine-install'' (li_root_mountpoint l)
     @ chroot_steps env ''limine-mkinitcpio'' (li_root_mountpoint l)"

interpretation install_grub_op: planned_op env "install_grub env c g root" "install_grub_plan env c g root"
  for env c g root
  by unfold_locales
    (simp add: install_grub_def write_grub_config_def install_grub_plan_def plan_simps
      cong: if_cong del: run_plan.simps)

interpretation install_limine_op: planned_op env "install_limine env l" "install_limine_plan env l" for env l
  by unfold_locales
    (simp add: install_limine_def install_limine_plan_def plan_simps cong: if_cong del: run_plan.simps)

subsection \<open>Reading a GRUB file\<close>

text \<open>
  The assignments of a GRUB file: its lines that begin with \<^verbatim>\<open>GRUB_\<close>, split at the first equals sign.
  And what they ought to be for a record of settings: every required setting, every optional one that is set,
  in the order of the template.
\<close>

definition assignment_of :: "string \<Rightarrow> (string \<times> string) list" where
  "assignment_of l =
     (if starts_with l ''GRUB_''
      then [(takeWhile (\<lambda>x. x \<noteq> CHR ''='') l, drop 1 (dropWhile (\<lambda>x. x \<noteq> CHR ''='') l))] else [])"

definition grub_assignments :: "string \<Rightarrow> (string \<times> string) list" where
  "grub_assignments text_of_file = concat (map assignment_of (views_split newline_char text_of_file))"

definition setting :: "string \<Rightarrow> string \<Rightarrow> (string \<times> string) list" where
  "setting key v = [(key, v)]"

definition optional :: "string \<Rightarrow> string option \<Rightarrow> (string \<times> string) list" where
  "optional key v = (case v of None \<Rightarrow> [] | Some s \<Rightarrow> [(key, s)])"

definition yes_no :: "bool \<Rightarrow> string" where "yes_no b = (if b then ''y'' else ''n'')"

definition true_false :: "bool \<Rightarrow> string" where "true_false b = (if b then ''true'' else ''false'')"

definition grub_lines :: "grub_config \<Rightarrow> string list" where
  "grub_lines c =
     [''# GRUB boot loader configuration'',
      '''',
      conv_req_f ''GRUB_DEFAULT='' (default_entry c),
      conv_req_f ''GRUB_TIMEOUT='' (show_int (grub_timeout c)),
      conv_req_f_s ''GRUB_DISTRIBUTOR='' (grub_distributor c),
      conv_req_f_s ''GRUB_CMDLINE_LINUX_DEFAULT='' (cmdline_linux_default c),
      conv_req_f_s ''GRUB_CMDLINE_LINUX='' (cmdline_linux c),
      '''',
      ''# Preload both GPT and MBR modules so that they are not missed'',
      conv_req_f_s ''GRUB_PRELOAD_MODULES='' (preload_modules c),
      '''',
      ''# Uncomment to enable booting from LUKS encrypted devices'',
      conv_opt_b ''GRUB_ENABLE_CRYPTODISK='' (enable_cryptodisk c) ''y'',
      '''',
      ''# Set to '' @ squote @ ''countdown'' @ squote @ '' or '' @ squote @ ''hidden'' @ squote @ '' to change timeout behavior,'',
      ''# press ESC key to display menu.'',
      conv_req_f ''GRUB_TIMEOUT_STYLE='' (timeout_style c),
      '''',
      ''# Uncomment to use basic console'',
      conv_req_f ''GRUB_TERMINAL_INPUT='' (terminal_input c),
      '''',
      ''# Uncomment to disable graphical terminal'',
      conv_opt_f ''GRUB_TERMINAL_OUTPUT='' (terminal_output c) ''console'',
      '''',
      ''# The resolution used on graphical terminal'',
      ''# note that you can use only modes which your graphic card supports via VBE'',
      ''# you can see them in real GRUB with the command `videoinfo'' @ squote,
      conv_req_f ''GRUB_GFXMODE='' (gfxmode c),
      '''',
      ''# Uncomment to allow the kernel use the same resolution used by grub'',
      conv_req_f ''GRUB_GFXPAYLOAD_LINUX='' (gfxpayload_linux c),
      '''',
      ''# Uncomment if you want GRUB to pass to the Linux kernel the old parameter'',
      ''# format \"root=/dev/xxx\" instead of \"root=/dev/disk/by-uuid/xxx\"'',
      conv_opt_b ''GRUB_DISABLE_LINUX_UUID='' (disable_linux_uuid c) ''true'',
      '''',
      ''# Uncomment to disable generation of recovery mode menu entries'',
      conv_req_b ''GRUB_DISABLE_RECOVERY='' (disable_recovery c),
      '''',
      ''# Uncomment and set to the desired menu colors.  Used by normal and wallpaper'',
      ''# modes only.  Entries specified as foreground/background.'',
      conv_opt_f_s ''GRUB_COLOR_NORMAL='' (color_normal c) ''light-blue/black'',
      conv_opt_f_s ''GRUB_COLOR_HIGHLIGHT='' (color_highlight c) ''light-cyan/blue'',
      '''',
      ''# Uncomment one of them for the gfx desired, a image background or a gfxtheme'',
      conv_opt_f_s ''GRUB_BACKGROUND='' (background c) ''/path/to/wallpaper'',
      conv_opt_f_s ''GRUB_THEME='' (theme_path c) ''/path/to/gfxtheme'',
      '''',
      ''# Uncomment to get a beep at GRUB start'',
      conv_opt_f_s ''GRUB_INIT_TUNE='' (init_tune c) ''480 440 1'',
      '''',
      ''# Uncomment to make GRUB remember the last selection. This requires'',
      ''# setting '' @ squote @ ''GRUB_DEFAULT=saved'' @ squote @ '' above.'',
      conv_opt_b ''GRUB_SAVEDEFAULT='' (savedefault c) ''true'',
      '''',
      ''# Uncomment to disable submenus in boot menu'',
      conv_opt_b ''GRUB_DISABLE_SUBMENU='' (disable_submenu c) ''y'',
      '''',
      ''# Probing for other operating systems is disabled for security reasons. Read'',
      ''# documentation on GRUB_DISABLE_OS_PROBER, if still want to enable this'',
      ''# functionality install os-prober and uncomment to detect and include other'',
      ''# operating systems.'',
      conv_opt_b ''GRUB_DISABLE_OS_PROBER='' (disable_os_prober c) ''false'']"

definition grub_settings :: "grub_config \<Rightarrow> (string \<times> string) list" where
  "grub_settings c = concat
     [setting ''GRUB_DEFAULT'' (default_entry c),
      setting ''GRUB_TIMEOUT'' (show_int (grub_timeout c)),
      setting ''GRUB_DISTRIBUTOR'' (dquote (grub_distributor c)),
      setting ''GRUB_CMDLINE_LINUX_DEFAULT'' (dquote (cmdline_linux_default c)),
      setting ''GRUB_CMDLINE_LINUX'' (dquote (cmdline_linux c)),
      setting ''GRUB_PRELOAD_MODULES'' (dquote (preload_modules c)),
      optional ''GRUB_ENABLE_CRYPTODISK'' (map_option yes_no (enable_cryptodisk c)),
      setting ''GRUB_TIMEOUT_STYLE'' (timeout_style c),
      setting ''GRUB_TERMINAL_INPUT'' (terminal_input c),
      optional ''GRUB_TERMINAL_OUTPUT'' (terminal_output c),
      setting ''GRUB_GFXMODE'' (gfxmode c),
      setting ''GRUB_GFXPAYLOAD_LINUX'' (gfxpayload_linux c),
      optional ''GRUB_DISABLE_LINUX_UUID'' (map_option true_false (disable_linux_uuid c)),
      setting ''GRUB_DISABLE_RECOVERY'' (true_false (disable_recovery c)),
      optional ''GRUB_COLOR_NORMAL'' (map_option dquote (color_normal c)),
      optional ''GRUB_COLOR_HIGHLIGHT'' (map_option dquote (color_highlight c)),
      optional ''GRUB_BACKGROUND'' (map_option dquote (background c)),
      optional ''GRUB_THEME'' (map_option dquote (theme_path c)),
      optional ''GRUB_INIT_TUNE'' (map_option dquote (init_tune c)),
      optional ''GRUB_SAVEDEFAULT'' (map_option true_false (savedefault c)),
      optional ''GRUB_DISABLE_SUBMENU'' (map_option yes_no (disable_submenu c)),
      optional ''GRUB_DISABLE_OS_PROBER'' (map_option true_false (disable_os_prober c))]"

text \<open>The comments that the template keeps for the optional settings that are not set.\<close>

definition unset_line :: "'a option \<Rightarrow> string \<Rightarrow> string list" where
  "unset_line v l = (case v of None \<Rightarrow> [l] | Some s \<Rightarrow> [])"

definition grub_comments :: "grub_config \<Rightarrow> string list" where
  "grub_comments c = concat
     [unset_line (enable_cryptodisk c) ''#GRUB_ENABLE_CRYPTODISK=y'',
      unset_line (terminal_output c) ''#GRUB_TERMINAL_OUTPUT=console'',
      unset_line (disable_linux_uuid c) ''#GRUB_DISABLE_LINUX_UUID=true'',
      unset_line (color_normal c) ''#GRUB_COLOR_NORMAL=\"light-blue/black\"'',
      unset_line (color_highlight c) ''#GRUB_COLOR_HIGHLIGHT=\"light-cyan/blue\"'',
      unset_line (background c) ''#GRUB_BACKGROUND=\"/path/to/wallpaper\"'',
      unset_line (theme_path c) ''#GRUB_THEME=\"/path/to/gfxtheme\"'',
      unset_line (init_tune c) ''#GRUB_INIT_TUNE=\"480 440 1\"'',
      unset_line (savedefault c) ''#GRUB_SAVEDEFAULT=true'',
      unset_line (disable_submenu c) ''#GRUB_DISABLE_SUBMENU=y'',
      unset_line (disable_os_prober c) ''#GRUB_DISABLE_OS_PROBER=false'']"

subsection \<open>Lemmas on the lines\<close>

lemmas conv_defs = conv_req_f_def conv_req_f_s_def conv_opt_f_def conv_opt_f_s_def conv_req_b_def conv_opt_b_def

lemma grub_lines_eq: "map (parse_grub_line c) grub_template_lines = grub_lines c"
  by (simp add: grub_template_lines_def grub_lines_def parse_grub_line_def contains_def)

definition opt_one_line :: "string option \<Rightarrow> bool" where
  "opt_one_line v \<longleftrightarrow> (case v of None \<Rightarrow> True | Some s \<Rightarrow> newline_char \<notin> set s)"

definition grub_clean :: "grub_config \<Rightarrow> bool" where
  "grub_clean c \<longleftrightarrow>
     (\<forall>s\<in>{default_entry c, grub_distributor c, cmdline_linux_default c, cmdline_linux c, preload_modules c,
         timeout_style c, terminal_input c, gfxmode c, gfxpayload_linux c}. newline_char \<notin> set s) \<and>
     (\<forall>v\<in>{terminal_output c, color_normal c, color_highlight c, background c, theme_path c, init_tune c}.
        opt_one_line v)"

lemma newline_not_in_show_int: "newline_char \<notin> set (show_int i)"
  using show_nat_chars [of newline_char] by (auto simp: show_int_def)

lemma conv_one_line:
  "newline_char \<notin> set n \<Longrightarrow> newline_char \<notin> set f \<Longrightarrow> newline_char \<notin> set (conv_req_f n f)"
  "newline_char \<notin> set n \<Longrightarrow> newline_char \<notin> set f \<Longrightarrow> newline_char \<notin> set (conv_req_f_s n f)"
  "newline_char \<notin> set n \<Longrightarrow> newline_char \<notin> set d \<Longrightarrow> opt_one_line v \<Longrightarrow> newline_char \<notin> set (conv_opt_f n v d)"
  "newline_char \<notin> set n \<Longrightarrow> newline_char \<notin> set d \<Longrightarrow> opt_one_line v \<Longrightarrow> newline_char \<notin> set (conv_opt_f_s n v d)"
  "newline_char \<notin> set n \<Longrightarrow> newline_char \<notin> set (conv_req_b n b)"
  "newline_char \<notin> set n \<Longrightarrow> newline_char \<notin> set d \<Longrightarrow> newline_char \<notin> set (conv_opt_b n ob d)"
  by (auto simp: conv_defs dquote_def convert_boolean_val_def opt_one_line_def split: option.splits)

lemma grub_lines_clean: "grub_clean c \<Longrightarrow> \<forall>l\<in>set (grub_lines c). newline_char \<notin> set l"
  unfolding grub_lines_def grub_clean_def
  by (simp add: conv_one_line newline_not_in_show_int)

lemma grub_template_clean: "\<forall>l\<in>set grub_template_lines. newline_char \<notin> set l"
  by (simp add: grub_template_lines_def)

text \<open>What each kind of line assigns.\<close>

definition grub_needle :: "string \<Rightarrow> bool" where
  "grub_needle n \<longleftrightarrow> starts_with n ''GRUB_'' \<and> n \<noteq> [] \<and> last n = CHR ''='' \<and> CHR ''='' \<notin> set (butlast n)"

lemma split_at_delimiter:
  "d \<notin> set k \<Longrightarrow> takeWhile (\<lambda>x. x \<noteq> d) (k @ d # v) = k"
  "d \<notin> set k \<Longrightarrow> dropWhile (\<lambda>x. x \<noteq> d) (k @ d # v) = d # v"
  by (induction k) auto

lemma assignment_of_needle:
  assumes "grub_needle n"
  shows "assignment_of (n @ v) = [(butlast n, v)]"
proof -
  have n: "n = butlast n @ [CHR ''='']"
    using assms append_butlast_last_id [of n] by (simp add: grub_needle_def)
  have sw: "starts_with (n @ v) ''GRUB_''" using assms by (auto simp: grub_needle_def starts_with_iff)
  have eq: "n @ v = butlast n @ CHR ''='' # v" by (subst n) simp
  have "CHR ''='' \<notin> set (butlast n)" using assms by (simp add: grub_needle_def)
  with sw show ?thesis
    unfolding eq by (simp add: assignment_of_def split_at_delimiter)
qed

lemma assignment_of_comment: "assignment_of (CHR ''#'' # s) = []" "assignment_of [] = []"
  by (simp_all add: assignment_of_def)

lemma assignment_of_conv:
  assumes "grub_needle n"
  shows "assignment_of (conv_req_f n f) = setting (butlast n) f"
    "assignment_of (conv_req_f_s n f) = setting (butlast n) (dquote f)"
    "assignment_of (conv_opt_f n v d) = optional (butlast n) v"
    "assignment_of (conv_opt_f_s n v d) = optional (butlast n) (map_option dquote v)"
    "assignment_of (conv_req_b n b) = setting (butlast n) (convert_boolean_val n b)"
    "assignment_of (conv_opt_b n ob d) = optional (butlast n) (map_option (convert_boolean_val n) ob)"
  using assms
  by (simp_all add: conv_defs assignment_of_needle assignment_of_comment setting_def optional_def split: option.splits)

lemma convert_boolean_val_cases:
  "convert_boolean_val ''GRUB_ENABLE_CRYPTODISK='' = yes_no"
  "convert_boolean_val ''GRUB_DISABLE_SUBMENU='' = yes_no"
  "convert_boolean_val ''GRUB_DISABLE_LINUX_UUID='' = true_false"
  "convert_boolean_val ''GRUB_DISABLE_RECOVERY='' = true_false"
  "convert_boolean_val ''GRUB_SAVEDEFAULT='' = true_false"
  "convert_boolean_val ''GRUB_DISABLE_OS_PROBER='' = true_false"
  by (rule ext, simp add: convert_boolean_val_def yes_no_def true_false_def)+

lemma grub_needles:
  "grub_needle ''GRUB_DEFAULT=''" "grub_needle ''GRUB_TIMEOUT=''" "grub_needle ''GRUB_DISTRIBUTOR=''"
  "grub_needle ''GRUB_CMDLINE_LINUX_DEFAULT=''" "grub_needle ''GRUB_CMDLINE_LINUX=''"
  "grub_needle ''GRUB_PRELOAD_MODULES=''" "grub_needle ''GRUB_ENABLE_CRYPTODISK=''"
  "grub_needle ''GRUB_TIMEOUT_STYLE=''" "grub_needle ''GRUB_TERMINAL_INPUT=''" "grub_needle ''GRUB_TERMINAL_OUTPUT=''"
  "grub_needle ''GRUB_GFXMODE=''" "grub_needle ''GRUB_GFXPAYLOAD_LINUX=''" "grub_needle ''GRUB_DISABLE_LINUX_UUID=''"
  "grub_needle ''GRUB_DISABLE_RECOVERY=''" "grub_needle ''GRUB_COLOR_NORMAL=''" "grub_needle ''GRUB_COLOR_HIGHLIGHT=''"
  "grub_needle ''GRUB_BACKGROUND=''" "grub_needle ''GRUB_THEME=''" "grub_needle ''GRUB_INIT_TUNE=''"
  "grub_needle ''GRUB_SAVEDEFAULT=''" "grub_needle ''GRUB_DISABLE_SUBMENU=''" "grub_needle ''GRUB_DISABLE_OS_PROBER=''"
  by (simp_all add: grub_needle_def)

lemma grub_lines_settings: "concat (map assignment_of (grub_lines c)) = grub_settings c"
  by (simp add: grub_lines_def grub_settings_def assignment_of_conv grub_needles assignment_of_comment
      convert_boolean_val_cases)

text \<open>What each kind of line leaves as a comment.\<close>

definition comment_of :: "string \<Rightarrow> string list" where
  "comment_of l = (if starts_with l ''#GRUB_'' then [l] else [])"

lemma filter_comments: "filter (\<lambda>l. starts_with l ''#GRUB_'') ls = concat (map comment_of ls)"
  by (induction ls) (simp_all add: comment_of_def)

lemma comment_of_needle:
  assumes "grub_needle n"
  shows "comment_of (n @ v) = []" "comment_of (CHR ''#'' # n @ v) = [CHR ''#'' # n @ v]"
  using assms by (auto simp: grub_needle_def comment_of_def starts_with_iff)

lemma comment_of_conv:
  assumes "grub_needle n"
  shows "comment_of (conv_req_f n f) = []"
    "comment_of (conv_req_f_s n f) = []"
    "comment_of (conv_opt_f n v d) = unset_line v (''#'' @ n @ d)"
    "comment_of (conv_opt_f_s n v d) = unset_line v (''#'' @ n @ dquote d)"
    "comment_of (conv_req_b n b) = []"
    "comment_of (conv_opt_b n ob d) = unset_line ob (''#'' @ n @ d)"
  using assms by (simp_all add: conv_defs comment_of_needle unset_line_def split: option.splits)

lemma comment_of_text: "comment_of (CHR ''#'' # CHR '' '' # s) = []" "comment_of [] = []"
  by (simp_all add: comment_of_def)

lemma grub_lines_comments: "concat (map comment_of (grub_lines c)) = grub_comments c"
  by (simp add: grub_lines_def grub_comments_def comment_of_conv grub_needles comment_of_text dquote_def)

subsection \<open>Properties\<close>

lemma grub_config_lines:
  assumes "grub_clean c"
  shows "views_split newline_char (gen_grub_config c) = grub_lines c @ ['''']"
proof -
  have "views_split newline_char GRUB_DEFAULT_CONFIG = grub_template_lines @ ['''']"
    unfolding GRUB_DEFAULT_CONFIG_def concat_lines_join
    by (rule views_split_join) (use grub_template_clean in \<open>auto simp: grub_template_lines_def\<close>)
  then have "gen_grub_config c = join (grub_lines c @ ['''']) newline_char"
    by (simp add: gen_grub_config_def rewrite_lines_eq grub_lines_eq parse_grub_line_def)
  moreover have "grub_lines c \<noteq> []" by (simp add: grub_lines_def)
  ultimately show ?thesis
    using grub_lines_clean [OF assms] by (simp only:) (rule views_split_join, auto)
qed

text \<open>C5. The generated GRUB file means what the record says, provided no text of the record holds a line end: read back, its assignments are exactly the
  required settings and the optional settings that are set, each once, in the template's order,
  quoted where the template quotes; and the lines that begin with \<^verbatim>\<open>#GRUB_\<close> are exactly the comments of the template
  for the optional settings that are not set, in the template's order.\<close>

theorem grub_config_assignments:
  assumes "grub_clean c"
  shows "grub_assignments (gen_grub_config c) = grub_settings c \<and>
    filter (\<lambda>l. starts_with l ''#GRUB_'') (views_split newline_char (gen_grub_config c)) = grub_comments c"
  unfolding grub_assignments_def grub_config_lines [OF assms] filter_comments
  by (simp add: grub_lines_settings assignment_of_comment grub_lines_comments comment_of_text)

lemma default_grub_clean: "grub_clean default_grub_config"
  by (simp add: grub_clean_def default_grub_config_def opt_one_line_def)

theorem grub_config_assignments_witness:
  "grub_assignments (gen_grub_config (default_grub_config\<lparr>enable_cryptodisk := Some True, grub_timeout := 10\<rparr>)) =
    grub_settings (default_grub_config\<lparr>enable_cryptodisk := Some True, grub_timeout := 10\<rparr>) \<and>
   filter (\<lambda>l. starts_with l ''#GRUB_'') (views_split newline_char
     (gen_grub_config (default_grub_config\<lparr>enable_cryptodisk := Some True, grub_timeout := 10\<rparr>))) =
    grub_comments (default_grub_config\<lparr>enable_cryptodisk := Some True, grub_timeout := 10\<rparr>)"
  by (rule grub_config_assignments) (simp add: grub_clean_def default_grub_config_def opt_one_line_def)

text \<open>The default settings reproduce the template, character by character.\<close>

theorem default_grub_config_is_template:
  "gen_grub_config default_grub_config = GRUB_DEFAULT_CONFIG"
proof -
  have "grub_lines default_grub_config = grub_template_lines"
    by (simp add: grub_lines_def grub_template_lines_def default_grub_config_def conv_defs dquote_def
        convert_boolean_val_def show_int_def show_nat_digit digit_char_def)
  then have "join (views_split newline_char (gen_grub_config default_grub_config)) newline_char =
      join (grub_template_lines @ ['''']) newline_char"
    by (simp only: grub_config_lines [OF default_grub_clean])
  then show ?thesis
    by (simp only: join_views_split GRUB_DEFAULT_CONFIG_def concat_lines_join)
qed

text \<open>Installing GRUB writes the configuration before it runs \<^verbatim>\<open>grub-install\<close> and generates the menu
  last: on success all three have been done in this order with the configuration of the record in
  place, and the menu is generated only when the configuration was written and \<^verbatim>\<open>grub-install\<close> succeeded.\<close>

theorem install_grub_order:
  assumes "status w = Running" "ndevenv env"
    and "run_state (install_grub env c g root) w = (ok, w')"
  shows "\<exists>evs. trace w' = trace w @ evs \<and>
    prefix evs [WriteFile (root @ ''/etc/default/grub'') (gen_grub_config c),
      System (chroot_checked_cmd (grub_install_cmd g) root),
      System (chroot_checked_cmd ''grub-mkconfig -o /boot/grub/grub.cfg'' root)] \<and>
    (ok \<longrightarrow> length evs = 3) \<and>
    (length evs = 3 \<longrightarrow> fst (exec_steps env [Write (root @ ''/etc/default/grub'') (gen_grub_config c),
      Run (chroot_checked_cmd (grub_install_cmd g) root)] (host w)))"
proof -
  let ?first = "[Write (root @ ''/etc/default/grub'') (gen_grub_config c),
      Run (chroot_checked_cmd (grub_install_cmd g) root)]"
  have plan: "install_grub_plan env c g root =
      ?first @ [Run (chroot_checked_cmd ''grub-mkconfig -o /boot/grub/grub.cfg'' root)]"
    using assms(2) by (simp add: install_grub_plan_def chroot_steps_def)
  obtain evs h where ex: "exec_steps env (install_grub_plan env c g root) (host w) = (ok, evs, h)"
    and w': "w' = w\<lparr>host := h, trace := trace w @ evs\<rparr>"
    using install_grub_op.outcome [OF assms(1), of env c g root] assms(3) by (auto split: prod.splits)
  obtain ok1 evs1 h1 where first: "exec_steps env ?first (host w) = (ok1, evs1, h1)"
    by (cases "exec_steps env ?first (host w)") auto
  have "length evs1 \<le> 2" using exec_steps_events [OF first] by (auto dest: prefix_length_le)
  then have "length evs = 3 \<longrightarrow> ok1"
    using ex first unfolding plan exec_steps_append by (auto split: if_splits)
  with exec_steps_events [OF ex] w' first show ?thesis
    by (intro exI [of _ evs]) (auto simp: plan)
qed

theorem install_grub_order_witness:
  "\<exists>evs. trace (snd (run_state (install_grub quiet_env default_grub_config
      \<lparr>gi_is_efi = True, gi_do_recheck = True, gi_is_removable = False, gi_is_root_on_zfs = False,
       gi_device = None, gi_efi_directory = Some ''/boot'', gi_bootloader_id = Some ''cachyos''\<rparr> ''/mnt'')
      (world_of []))) = trace (world_of []) @ evs \<and> length evs \<le> 3"
proof -
  have n: "ndevenv quiet_env" by (simp add: quiet_env_def)
  show ?thesis
    using install_grub_order [OF world_of_simps(1) n surjective_pairing] by (fastforce dest: prefix_length_le)
qed

text \<open>Writing the extra kernel version strings of rEFInd replaces exactly the lines that set them,
  commented out or not, keeps every other line in place, and doing it again changes nothing.\<close>

theorem refind_extra_strings:
  assumes "status w = Running" "files (host w) path = Some content" "content \<noteq> []"
    and "can_open_out env path (host w)" "versions \<noteq> []" "\<forall>v\<in>set versions. newline_char \<notin> set v"
    and "run_state (refind_write_extra_kern_strings env path versions) w = (ok, w')"
  shows "ok \<and> (\<exists>content'. files (host w') = (files (host w))(path \<mapsto> content') \<and>
    views_split newline_char content' = map (extra_kern_line versions) (views_split newline_char content) \<and>
    rewrite_lines (extra_kern_line versions) content' = content')"
proof -
  have "newline_char \<notin> set (join versions (CHR '',''))"
    using assms(6) by (induction versions) (auto simp: join_Cons)
  then have clean: "newline_char \<notin> set l \<Longrightarrow> newline_char \<notin> set (extra_kern_line versions l)" for l
    by (simp add: extra_kern_line_def)
  have ne: "l \<noteq> [] \<Longrightarrow> extra_kern_line versions l \<noteq> []" for l by (simp add: extra_kern_line_def)
  have idem: "extra_kern_line versions (extra_kern_line versions l) = extra_kern_line versions l" for l
    by (simp add: extra_kern_line_def)
  have "run_state (refind_write_extra_kern_strings env path versions) w =
      (True, w\<lparr>host := store_file path (rewrite_lines (extra_kern_line versions) content) (host w),
         trace := trace w @ [WriteFile path (rewrite_lines (extra_kern_line versions) content)]\<rparr>)"
    using assms(1-5) by (simp add: refind_write_extra_kern_strings_def io_prims)
  with assms(7) show ?thesis
    using views_split_rewrite_lines [of "extra_kern_line versions" content, OF clean ne]
      rewrite_lines_idem [of "extra_kern_line versions" content, OF clean ne idem] by auto
qed

theorem refind_extra_strings_witness:
  "\<exists>content'. files (host (snd (run_state
      (refind_write_extra_kern_strings quiet_env ''/boot/EFI/refind/refind.conf'' [''linux-cachyos'', ''linux''])
      (world_of [(''/boot/EFI/refind/refind.conf'', ''timeout 20\<newline>#extra_kernel_version_strings linux-lts,linux\<newline>'')]))))
    ''/boot/EFI/refind/refind.conf'' = Some content'"
proof -
  let ?w = "world_of [(''/boot/EFI/refind/refind.conf'', ''timeout 20\<newline>#extra_kernel_version_strings linux-lts,linux\<newline>'')]"
  have f: "files (host ?w) ''/boot/EFI/refind/refind.conf'' =
      Some ''timeout 20\<newline>#extra_kernel_version_strings linux-lts,linux\<newline>''" by simp
  have o: "can_open_out quiet_env ''/boot/EFI/refind/refind.conf'' (host ?w)" by (simp add: quiet_env_def)
  show ?thesis
    using refind_extra_strings [OF world_of_simps(1) f _ o _ _ surjective_pairing,
        of "[''linux-cachyos'', ''linux'']"] by auto
qed

end
