(* ===== verification/Btrfs.thy ===== *)
theory Btrfs
  imports Partitioning
begin

section \<open>Btrfs subvolumes (gucc/src/btrfs.cpp)\<close>

text \<open>
  Creating and mounting subvolumes, and adding them to a partition scheme.  The scheme operation
  overwrites the partition that a subvolume matches or adds one modelled on the root.  It looks the root
  up again for every addition and dereferences the result: an earlier overwrite can have taken the root away, and
  then the read is undefined, the error \<open>RootLost\<close> of the model.
\<close>

record btrfs_subvolume =
  sv_subvolume :: string
  sv_mountpoint :: string

definition get_dirname :: "string \<Rightarrow> string" where
  "get_dirname full_path =
     (if full_path = ''/'' then full_path
      else (case find_last_of (CHR ''/'') full_path of
              None \<Rightarrow> ''''
            | Some pos \<Rightarrow> take pos full_path))"

definition find_partition :: "fs_partition \<Rightarrow> btrfs_subvolume \<Rightarrow> bool" where
  "find_partition part subvol \<longleftrightarrow>
     mountpoint part = sv_mountpoint subvol \<or> subvolume part = Some (sv_subvolume subvol)"

definition is_root_btrfs_part :: "fs_partition \<Rightarrow> bool" where
  "is_root_btrfs_part part \<longleftrightarrow> mountpoint part = ''/'' \<and> fstype part = ''btrfs''"

definition find_root_btrfs_part :: "fs_partition list \<Rightarrow> nat option" where
  "find_root_btrfs_part parts = find_index is_root_btrfs_part parts"

subsection \<open>Creating and mounting\<close>

definition create_subvol_cmd :: "string \<Rightarrow> string \<Rightarrow> string" where
  "create_subvol_cmd subvol root_mountpoint =
     ''btrfs subvolume create '' @ root_mountpoint @ subvol @ '' 2>>/tmp/cachyos-install.log''"

definition btrfs_create_subvol :: "'m sysenv \<Rightarrow> string \<Rightarrow> string \<Rightarrow> ('m, bool) io" where
  "btrfs_create_subvol env subvol root_mountpoint = do {
     ok \<leftarrow> create_directories env (root_mountpoint @ get_dirname subvol);
     if \<not> ok then ret False
     else exec_checked env (create_subvol_cmd subvol root_mountpoint)
   }"

definition mount_subvol_cmd :: "btrfs_subvolume \<Rightarrow> string \<Rightarrow> string \<Rightarrow> string \<Rightarrow> string" where
  "mount_subvol_cmd subvol dev root_mountpoint opts =
     (let mount_option = (if sv_subvolume subvol = '''' then opts
            else ''subvol='' @ sv_subvolume subvol @ '','' @ opts)
      in ''mount -o '' @ mount_option @ '' \"'' @ dev @ ''\" '' @ root_mountpoint @ sv_mountpoint subvol)"

definition btrfs_mount_subvols ::
  "'m sysenv \<Rightarrow> btrfs_subvolume list \<Rightarrow> string \<Rightarrow> string \<Rightarrow> string \<Rightarrow> ('m, bool) io" where
  "btrfs_mount_subvols env subvols dev root_mountpoint opts =
     all_checked (\<lambda>subvol. do {
       ok \<leftarrow> create_directories env (root_mountpoint @ sv_mountpoint subvol);
       if \<not> ok then ret False
       else exec_checked env (mount_subvol_cmd subvol dev root_mountpoint opts)
     }) subvols"

definition btrfs_create_subvols ::
  "'m sysenv \<Rightarrow> btrfs_subvolume list \<Rightarrow> string \<Rightarrow> string \<Rightarrow> string \<Rightarrow> ('m, bool) io" where
  "btrfs_create_subvols env subvols dev root_mountpoint opts = do {
     created \<leftarrow> all_checked (\<lambda>subvol.
       if sv_subvolume subvol = '''' then ret True
       else btrfs_create_subvol env (sv_subvolume subvol) root_mountpoint) subvols;
     if \<not> created then ret False
     else do {
       unmounted \<leftarrow> exec env (''umount -v '' @ root_mountpoint @ '' &>>/tmp/cachyos-install.log'') True;
       do {
         mounted \<leftarrow> btrfs_mount_subvols env subvols dev root_mountpoint opts;
         if \<not> mounted then ret False else ret True
       }
     }
   }"

subsection \<open>Adding subvolumes to a scheme\<close>

datatype append_error = NoRootPartition | RootLost

definition subvol_partition :: "fs_partition \<Rightarrow> btrfs_subvolume \<Rightarrow> fs_partition" where
  "subvol_partition root_part subvol =
     empty_partition
       \<lparr>fstype := fstype root_part, mountpoint := sv_mountpoint subvol, uuid_str := uuid_str root_part,
        device := device root_part, mount_opts := mount_opts root_part,
        subvolume := Some (sv_subvolume subvol), luks_mapper_name := luks_mapper_name root_part,
        luks_uuid := luks_uuid root_part, luks_passphrase := luks_passphrase root_part\<rparr>"

definition append_subvolume ::
  "fs_partition list \<Rightarrow> btrfs_subvolume \<Rightarrow> append_error + fs_partition list" where
  "append_subvolume partitions subvol =
     (case find_index (\<lambda>part. find_partition part subvol) partitions of
        Some i \<Rightarrow> Inr (partitions[i := (partitions ! i)
          \<lparr>mountpoint := sv_mountpoint subvol, subvolume := Some (sv_subvolume subvol)\<rparr>])
      | None \<Rightarrow>
          (case find_root_btrfs_part partitions of
             None \<Rightarrow> Inl RootLost
           | Some r \<Rightarrow> Inr (partitions @ [subvol_partition (partitions ! r) subvol])))"

fun append_subvolumes ::
  "fs_partition list \<Rightarrow> btrfs_subvolume list \<Rightarrow> append_error + fs_partition list" where
  "append_subvolumes partitions [] = Inr partitions"
| "append_subvolumes partitions (subvol # subvols) =
     (case append_subvolume partitions subvol of
        Inl e \<Rightarrow> Inl e
      | Inr partitions' \<Rightarrow> append_subvolumes partitions' subvols)"

definition btrfs_append_subvolumes ::
  "fs_partition sorter \<Rightarrow> fs_partition list \<Rightarrow> btrfs_subvolume list \<Rightarrow> append_error + fs_partition list" where
  "btrfs_append_subvolumes srt partitions subvols =
     (if subvols = [] then Inr partitions
      else if find_root_btrfs_part partitions = None then Inl NoRootPartition
      else (case append_subvolumes partitions subvols of
              Inl e \<Rightarrow> Inl e
            | Inr partitions' \<Rightarrow> Inr (srt (<) device partitions')))"

subsection \<open>The mounting operations are plans\<close>

definition mount_subvols_plan :: "btrfs_subvolume list \<Rightarrow> string \<Rightarrow> string \<Rightarrow> string \<Rightarrow> step list" where
  "mount_subvols_plan subvols dev root opts =
     concat (map (\<lambda>s. [MakeDirs (root @ sv_mountpoint s), Run (mount_subvol_cmd s dev root opts)]) subvols)"

definition create_subvols_plan :: "btrfs_subvolume list \<Rightarrow> string \<Rightarrow> string \<Rightarrow> string \<Rightarrow> step list" where
  "create_subvols_plan subvols dev root opts =
     concat (map (\<lambda>s. if sv_subvolume s = '''' then []
       else [MakeDirs (root @ get_dirname (sv_subvolume s)), Run (create_subvol_cmd (sv_subvolume s) root)]) subvols)
     @ Try (''umount -v '' @ root @ '' &>>/tmp/cachyos-install.log'')
     # mount_subvols_plan subvols dev root opts"

lemma mount_subvols_eq_plan:
  "btrfs_mount_subvols env subvols dev root opts = run_plan env (mount_subvols_plan subvols dev root opts)"
  unfolding btrfs_mount_subvols_def mount_subvols_plan_def
  by (rule all_checked_plan) (simp add: plan_simps cong: if_cong del: run_plan.simps)

lemma create_subvols_eq_plan:
  "btrfs_create_subvols env subvols dev root opts = run_plan env (create_subvols_plan subvols dev root opts)"
proof -
  have "all_checked (\<lambda>s. if sv_subvolume s = '''' then ret True
        else btrfs_create_subvol env (sv_subvolume s) root) subvols =
      run_plan env (concat (map (\<lambda>s. if sv_subvolume s = '''' then []
       else [MakeDirs (root @ get_dirname (sv_subvolume s)), Run (create_subvol_cmd (sv_subvolume s) root)]) subvols))"
    by (rule all_checked_plan)
      (simp add: btrfs_create_subvol_def plan_simps cong: if_cong del: run_plan.simps, simp)
  then show ?thesis
    by (simp add: btrfs_create_subvols_def create_subvols_plan_def mount_subvols_eq_plan plan_simps
        cong: if_cong del: run_plan.simps)
qed

interpretation mount_subvols: planned_op env "btrfs_mount_subvols env subvols dev root opts"
    "mount_subvols_plan subvols dev root opts" for env subvols dev root opts
  by unfold_locales (rule mount_subvols_eq_plan)

interpretation create_subvols: planned_op env "btrfs_create_subvols env subvols dev root opts"
    "create_subvols_plan subvols dev root opts" for env subvols dev root opts
  by unfold_locales (rule create_subvols_eq_plan)

subsection \<open>Lemmas on the scheme\<close>

text \<open>
  The subvolumes do not rename the root away: one that carries the name of the root's subvolume is
  mounted at the root.  With distinct names and mount points this is kept by every step.
\<close>

definition keeps_root :: "fs_partition \<Rightarrow> btrfs_subvolume list \<Rightarrow> bool" where
  "keeps_root p subvols \<longleftrightarrow> (\<forall>s\<in>set subvols. subvolume p = Some (sv_subvolume s) \<longrightarrow> sv_mountpoint s = ''/'')"

definition holds_subvol :: "btrfs_subvolume \<Rightarrow> fs_partition \<Rightarrow> bool" where
  "holds_subvol s p \<longleftrightarrow> mountpoint p = sv_mountpoint s \<and> subvolume p = Some (sv_subvolume s)"

lemma find_root_Some:
  "i < length ps \<Longrightarrow> is_root_btrfs_part (ps ! i) \<Longrightarrow> \<exists>r < length ps. find_root_btrfs_part ps = Some r \<and> is_root_btrfs_part (ps ! r)"
  unfolding find_root_btrfs_part_def
  by (metis find_index_None_iff find_index_SomeD nth_mem option.exhaust)

lemma append_subvolume_cases:
  assumes "i < length ps" "is_root_btrfs_part (ps ! i)"
  obtains (overwrite) j where "j < length ps" "find_partition (ps ! j) s"
      "append_subvolume ps s = Inr (ps[j := (ps ! j)\<lparr>mountpoint := sv_mountpoint s, subvolume := Some (sv_subvolume s)\<rparr>])"
  | (add) r where "r < length ps" "is_root_btrfs_part (ps ! r)" "\<forall>p\<in>set ps. \<not> find_partition p s"
      "append_subvolume ps s = Inr (ps @ [subvol_partition (ps ! r) s])"
proof (cases "find_index (\<lambda>p. find_partition p s) ps")
  case None
  obtain r where r: "r < length ps" "find_root_btrfs_part ps = Some r" "is_root_btrfs_part (ps ! r)"
    using find_root_Some [OF assms] by blast
  have "\<forall>p\<in>set ps. \<not> find_partition p s" using None by (simp add: find_index_None_iff)
  with r None show ?thesis by (intro add [of r]) (simp_all add: append_subvolume_def)
next
  case (Some j)
  then have "j < length ps" "find_partition (ps ! j) s" using find_index_SomeD [OF Some] by auto
  with Some show ?thesis by (intro overwrite [of j]) (simp_all add: append_subvolume_def)
qed

lemma append_subvolume_step:
  assumes "i < length ps" "is_root_btrfs_part (ps ! i)" "keeps_root (ps ! i) (s # ss)"
    and "sv_subvolume s \<notin> sv_subvolume ` set ss"
  shows "\<exists>ps'. append_subvolume ps s = Inr ps' \<and> i < length ps' \<and> is_root_btrfs_part (ps' ! i) \<and>
    keeps_root (ps' ! i) ss \<and> (\<exists>p\<in>set ps'. holds_subvol s p) \<and>
    (\<forall>p\<in>set ps. \<not> find_partition p s \<longrightarrow> p \<in> set ps') \<and> device ` set ps' = device ` set ps"
  using assms(1,2)
proof (cases rule: append_subvolume_cases [where s = s])
  case (overwrite j)
  let ?p = "(ps ! j)\<lparr>mountpoint := sv_mountpoint s, subvolume := Some (sv_subvolume s)\<rparr>"
  have root: "is_root_btrfs_part (ps[j := ?p] ! i) \<and> keeps_root (ps[j := ?p] ! i) ss"
  proof (cases "j = i")
    case True
    have "sv_mountpoint s = ''/''"
      using overwrite(2) assms(2,3) True by (auto simp: find_partition_def keeps_root_def is_root_btrfs_part_def)
    with True assms show ?thesis by (auto simp: is_root_btrfs_part_def keeps_root_def)
  next
    case False
    with assms show ?thesis by (simp add: keeps_root_def)
  qed
  have "?p \<in> set (ps[j := ?p])" using overwrite(1) by (simp add: set_update_memI)
  moreover have "holds_subvol s ?p" by (simp add: holds_subvol_def)
  moreover have "p \<in> set (ps[j := ?p])" if "p \<in> set ps" "\<not> find_partition p s" for p
    using that overwrite(1,2) by (metis in_set_conv_nth length_list_update nth_list_update_neq)
  moreover have "map device (ps[j := ?p]) = map device ps"
    using overwrite(1) by (simp add: map_update list_update_same_conv)
  then have "device ` set (ps[j := ?p]) = device ` set ps" by (metis set_map)
  ultimately show ?thesis using overwrite(3) root assms(1) by (metis length_list_update)
next
  case (add r)
  have "holds_subvol s (subvol_partition (ps ! r) s)" by (simp add: holds_subvol_def subvol_partition_def)
  moreover have "device (subvol_partition (ps ! r) s) \<in> device ` set ps"
    using add(1) by (simp add: subvol_partition_def)
  ultimately show ?thesis
    using add(4) assms by (auto simp: nth_append keeps_root_def)
qed

lemma append_subvolumes_result:
  assumes "i < length ps" "is_root_btrfs_part (ps ! i)" "keeps_root (ps ! i) subvols"
    and "distinct (map sv_subvolume subvols)" "distinct (map sv_mountpoint subvols)"
  shows "\<exists>ps'. append_subvolumes ps subvols = Inr ps' \<and> (\<exists>p\<in>set ps'. is_root_btrfs_part p) \<and>
    (\<forall>s\<in>set subvols. \<exists>p\<in>set ps'. holds_subvol s p) \<and>
    (\<forall>p\<in>set ps. (\<forall>s\<in>set subvols. \<not> find_partition p s) \<longrightarrow> p \<in> set ps') \<and>
    device ` set ps' = device ` set ps"
  using assms
proof (induction subvols arbitrary: ps)
  case Nil
  then show ?case by auto
next
  case (Cons s ss)
  obtain ps1 where 1: "append_subvolume ps s = Inr ps1" "i < length ps1" "is_root_btrfs_part (ps1 ! i)"
      "keeps_root (ps1 ! i) ss" "\<exists>p\<in>set ps1. holds_subvol s p"
      "\<forall>p\<in>set ps. \<not> find_partition p s \<longrightarrow> p \<in> set ps1" "device ` set ps1 = device ` set ps"
    using append_subvolume_step [of i ps s ss] Cons.prems by auto
  obtain ps2 where 2: "append_subvolumes ps1 ss = Inr ps2" "\<exists>p\<in>set ps2. is_root_btrfs_part p"
      "\<forall>t\<in>set ss. \<exists>p\<in>set ps2. holds_subvol t p"
      "\<forall>p\<in>set ps1. (\<forall>t\<in>set ss. \<not> find_partition p t) \<longrightarrow> p \<in> set ps2" "device ` set ps2 = device ` set ps1"
    using Cons.IH [OF 1(2-4)] Cons.prems(4,5) by auto
  obtain q where q: "q \<in> set ps1" "holds_subvol s q" using 1(5) by blast
  then have "\<forall>t\<in>set ss. \<not> find_partition q t"
    using Cons.prems(4,5) by (auto simp: holds_subvol_def find_partition_def)
  with q 2(4) have "\<exists>p\<in>set ps2. holds_subvol s p" by blast
  with 1 2 show ?case by auto
qed

subsection \<open>Properties\<close>

text \<open>C9. Adding a nonempty list of subvolumes with pairwise distinct names and mount points to a scheme with a btrfs root, none of
  which renames that root away, always succeeds; the result is sorted by device, still has a btrfs root, has a
  partition for every subvolume, keeps every partition that no subvolume matches, and uses no other device.\<close>

theorem btrfs_append_subvolumes_result:
  assumes "sort_contract srt" "r \<in> set ps" "is_root_btrfs_part r" "keeps_root r subvols"
    and "distinct (map sv_subvolume subvols)" "distinct (map sv_mountpoint subvols)" "subvols \<noteq> []"
  shows "\<exists>ps'. btrfs_append_subvolumes srt ps subvols = Inr ps' \<and> sorted (map device ps') \<and>
    (\<exists>p\<in>set ps'. is_root_btrfs_part p) \<and>
    (\<forall>s\<in>set subvols. \<exists>p\<in>set ps'. mountpoint p = sv_mountpoint s \<and> subvolume p = Some (sv_subvolume s)) \<and>
    (\<forall>p\<in>set ps. (\<forall>s\<in>set subvols. \<not> find_partition p s) \<longrightarrow> p \<in> set ps') \<and>
    device ` set ps' = device ` set ps"
proof -
  obtain i where i: "i < length ps" "ps ! i = r" using assms(2) by (auto simp: in_set_conv_nth)
  then obtain k where "find_root_btrfs_part ps = Some k" using find_root_Some [of i ps] assms(3) by auto
  moreover obtain ps' where "append_subvolumes ps subvols = Inr ps'" "\<exists>p\<in>set ps'. is_root_btrfs_part p"
    "\<forall>s\<in>set subvols. \<exists>p\<in>set ps'. holds_subvol s p"
    "\<forall>p\<in>set ps. (\<forall>s\<in>set subvols. \<not> find_partition p s) \<longrightarrow> p \<in> set ps'" "device ` set ps' = device ` set ps"
    using append_subvolumes_result [of i ps subvols] i assms by auto
  ultimately show ?thesis
    using assms(7) sort_contract.sorted_srt [OF assms(1)] sort_contract.set_srt [OF assms(1)]
    by (intro exI [of _ "srt (<) device ps'"]) (simp add: btrfs_append_subvolumes_def holds_subvol_def)
qed

definition sample_btrfs_scheme :: "fs_partition list" where
  "sample_btrfs_scheme =
     [empty_partition\<lparr>fstype := ''fat32'', mountpoint := ''/boot'', device := ''/dev/nvme0n1p2''\<rparr>,
      empty_partition\<lparr>fstype := ''btrfs'', mountpoint := ''/'', device := ''/dev/nvme0n1p1'', uuid_str := ''6bdb''\<rparr>]"

definition sample_subvols :: "btrfs_subvolume list" where
  "sample_subvols =
     [\<lparr>sv_subvolume = ''/@'', sv_mountpoint = ''/''\<rparr>, \<lparr>sv_subvolume = ''/@home'', sv_mountpoint = ''/home''\<rparr>]"

theorem btrfs_append_subvolumes_result_witness:
  "\<exists>ps'. btrfs_append_subvolumes insertion_sort sample_btrfs_scheme sample_subvols = Inr ps' \<and>
    device ` set ps' = device ` set sample_btrfs_scheme"
proof -
  let ?r = "empty_partition\<lparr>fstype := ''btrfs'', mountpoint := ''/'', device := ''/dev/nvme0n1p1'', uuid_str := ''6bdb''\<rparr>"
  have r: "?r \<in> set sample_btrfs_scheme" "is_root_btrfs_part ?r" "keeps_root ?r sample_subvols"
    by (simp_all add: sample_btrfs_scheme_def is_root_btrfs_part_def keeps_root_def empty_partition_def)
  have d: "distinct (map sv_subvolume sample_subvols)" "distinct (map sv_mountpoint sample_subvols)"
    "sample_subvols \<noteq> []" by (simp_all add: sample_subvols_def)
  show ?thesis
    using btrfs_append_subvolumes_result [OF insertion.sort_contract_axioms r d] by blast
qed

text \<open>
  Once no partition is the btrfs root, subvolumes that are not mounted at the root leave it so, and the first one that has
  to be added fails.
\<close>

lemma find_root_None: "\<forall>p\<in>set ps. \<not> is_root_btrfs_part p \<Longrightarrow> find_root_btrfs_part ps = None"
  by (simp add: find_root_btrfs_part_def find_index_None_iff)

lemma append_subvolumes_rootless:
  assumes "\<forall>p\<in>set ps. \<not> is_root_btrfs_part p \<and> \<not> find_partition p t"
    and "\<forall>m\<in>set mid. sv_mountpoint m \<noteq> ''/'' \<and> sv_subvolume m \<noteq> sv_subvolume t \<and> sv_mountpoint m \<noteq> sv_mountpoint t"
  shows "append_subvolumes ps (mid @ t # post) = Inl RootLost"
  using assms
proof (induction mid arbitrary: ps)
  case Nil
  then have "find_index (\<lambda>p. find_partition p t) ps = None" by (simp add: find_index_None_iff)
  with Nil show ?case by (simp add: append_subvolume_def find_root_None)
next
  case (Cons m mid)
  show ?case
  proof (cases "find_index (\<lambda>p. find_partition p m) ps")
    case None
    with Cons.prems show ?thesis by (simp add: append_subvolume_def find_root_None)
  next
    case (Some j)
    let ?ps = "ps[j := (ps ! j)\<lparr>mountpoint := sv_mountpoint m, subvolume := Some (sv_subvolume m)\<rparr>]"
    have "set ?ps \<subseteq> insert ((ps ! j)\<lparr>mountpoint := sv_mountpoint m, subvolume := Some (sv_subvolume m)\<rparr>) (set ps)"
      by (rule set_update_subset_insert)
    moreover have "\<not> is_root_btrfs_part ((ps ! j)\<lparr>mountpoint := sv_mountpoint m, subvolume := Some (sv_subvolume m)\<rparr>)"
      "\<not> find_partition ((ps ! j)\<lparr>mountpoint := sv_mountpoint m, subvolume := Some (sv_subvolume m)\<rparr>) t"
      using Cons.prems(2) by (auto simp: is_root_btrfs_part_def find_partition_def)
    ultimately have "append_subvolumes ?ps (mid @ t # post) = Inl RootLost"
      using Cons.prems by (intro Cons.IH) auto
    with Some show ?thesis by (simp add: append_subvolume_def)
  qed
qed

text \<open>C23. A scheme with exactly one btrfs root, at position \<open>i\<close>, and subvolumes of which the first one, \<open>s\<close>, has the root partition as
  its first match, by the name of the root's own subvolume, but another mount point than \<^verbatim>\<open>/\<close>: it moves the root away.  If, after
  subvolumes that are not mounted at \<^verbatim>\<open>/\<close> either, a subvolume \<open>t\<close> comes that matches no other partition and shares no name and no
  mount point with the subvolumes before it, so that it would have to be added, the code dereferences the end of the list, whatever follows.\<close>

theorem btrfs_append_loses_root:
  assumes "i < length ps" "is_root_btrfs_part (ps ! i)" "\<forall>j<length ps. j \<noteq> i \<longrightarrow> \<not> is_root_btrfs_part (ps ! j)"
    and "subvolume (ps ! i) = Some (sv_subvolume s)" "sv_mountpoint s \<noteq> ''/''" "\<forall>j<i. \<not> find_partition (ps ! j) s"
    and "\<forall>m\<in>set mid. sv_mountpoint m \<noteq> ''/''"
    and "\<forall>m\<in>set (s # mid). sv_subvolume m \<noteq> sv_subvolume t \<and> sv_mountpoint m \<noteq> sv_mountpoint t"
    and "\<forall>j<length ps. j \<noteq> i \<longrightarrow> \<not> find_partition (ps ! j) t"
  shows "btrfs_append_subvolumes srt ps (s # mid @ t # post) = Inl RootLost"
proof -
  let ?p = "(ps ! i)\<lparr>mountpoint := sv_mountpoint s, subvolume := Some (sv_subvolume s)\<rparr>"
  have "find_partition (ps ! i) s" using assms(4) by (simp add: find_partition_def)
  then have "find_index (\<lambda>p. find_partition p s) ps = Some i" using assms(1,6) by (simp add: find_index_Some_iff)
  then have moved: "append_subvolume ps s = Inr (ps[i := ?p])" by (simp add: append_subvolume_def)
  have "\<not> is_root_btrfs_part q \<and> \<not> find_partition q t" if q: "q \<in> set (ps[i := ?p])" for q
  proof -
    obtain j where j: "j < length ps" "q = ps[i := ?p] ! j" using q by (auto simp: in_set_conv_nth)
    show ?thesis
      using j assms(1,3,5,8,9) by (cases "j = i") (auto simp: is_root_btrfs_part_def find_partition_def)
  qed
  then have "append_subvolumes (ps[i := ?p]) (mid @ t # post) = Inl RootLost"
    using assms(7,8) by (intro append_subvolumes_rootless) auto
  moreover have "find_root_btrfs_part ps \<noteq> None" using find_root_Some [OF assms(1,2)] by auto
  ultimately show ?thesis by (simp add: btrfs_append_subvolumes_def moved)
qed

theorem btrfs_append_loses_root_witness:
  "btrfs_append_subvolumes insertion_sort
     [empty_partition\<lparr>fstype := ''fat32'', mountpoint := ''/boot'', device := ''/dev/sda1''\<rparr>,
      empty_partition\<lparr>fstype := ''btrfs'', mountpoint := ''/'', device := ''/dev/sda2'', subvolume := Some ''/@''\<rparr>]
     [\<lparr>sv_subvolume = ''/@'', sv_mountpoint = ''/data''\<rparr>, \<lparr>sv_subvolume = ''/@boot'', sv_mountpoint = ''/boot''\<rparr>,
      \<lparr>sv_subvolume = ''/@home'', sv_mountpoint = ''/home''\<rparr>] =
   Inl RootLost"
  by (rule btrfs_append_loses_root [where i = 1 and mid = "[\<lparr>sv_subvolume = ''/@boot'', sv_mountpoint = ''/boot''\<rparr>]" and post = "[]", simplified])
    (simp_all add: is_root_btrfs_part_def find_partition_def empty_partition_def less_Suc_eq numeral_2_eq_2)

end
