(* ===== verification/Shell_Words.thy ===== *)
theory Shell_Words
  imports Prelude
begin

section \<open>Shell words\<close>

text \<open>
  The words a POSIX shell splits a command into, as far as blanks and single quotes go: quoted text joins
  the word it touches.
\<close>

fun sh_split :: "bool \<Rightarrow> string option \<Rightarrow> string \<Rightarrow> string list" where
  "sh_split quoted word [] = (case word of None \<Rightarrow> [] | Some x \<Rightarrow> [x])"
| "sh_split True word (c # cs) =
     (if c = CHR 0x27 then sh_split False word cs
      else sh_split True (Some ((case word of None \<Rightarrow> '''' | Some x \<Rightarrow> x) @ [c])) cs)"
| "sh_split False word (c # cs) =
     (if c = CHR '' '' then
        (case word of None \<Rightarrow> sh_split False None cs | Some x \<Rightarrow> x # sh_split False None cs)
      else if c = CHR 0x27 then sh_split True (Some (case word of None \<Rightarrow> '''' | Some x \<Rightarrow> x)) cs
      else sh_split False (Some ((case word of None \<Rightarrow> '''' | Some x \<Rightarrow> x) @ [c])) cs)"

definition sh_words :: "string \<Rightarrow> string list" where
  "sh_words cmd = sh_split False None cmd"

lemma sh_split_plain:
  "CHR '' '' \<notin> set s \<Longrightarrow> CHR 0x27 \<notin> set s \<Longrightarrow>
   sh_split False (Some w) (s @ t) = sh_split False (Some (w @ s)) t"
  by (induction s arbitrary: w) auto

lemma sh_split_quoted:
  "CHR 0x27 \<notin> set s \<Longrightarrow>
   sh_split True (Some w) (s @ CHR 0x27 # t) = sh_split False (Some (w @ s)) t"
  by (induction s arbitrary: w) auto

lemma sh_split_blank:
  "CHR 0x27 \<notin> set s \<Longrightarrow>
   sh_split False w (s @ CHR '' '' # t) = sh_split False w s @ sh_split False None t"
  by (induction s arbitrary: w) (auto split: option.splits)

end
