(* ===== verification/Zfs.thy ===== *)
theory Zfs
  imports Plan Shell_Words
begin

section \<open>ZFS pools and datasets (gucc/src/zfs.cpp, gucc/include/gucc/zfs_types.hpp)\<close>

text \<open>
  The commands that create, list, change and destroy pools, volumes and datasets, and the setup of a pool from a
  configuration.  A build without NDEVENV only logs most of them; \<open>dev_checked\<close> is that distinction.
  The command that creates a pool is read with the shell words of \<open>Shell_Words\<close>.
\<close>

record zfs_dataset =
  zd_zpath :: string
  zd_mountpoint :: string

record zfs_setup_config =
  zs_zpool_name :: string
  zs_zpool_options :: string
  zs_passphrase :: "string option"
  zs_datasets :: "zfs_dataset list"

subsection \<open>Volumes and datasets\<close>

definition log_suffix :: string where
  "log_suffix = '' 2>>/tmp/cachyos-install.log''"

definition zfs_create_zvol :: "'m sysenv \<Rightarrow> string \<Rightarrow> string \<Rightarrow> ('m, bool) io" where
  "zfs_create_zvol env zsize zpath =
     dev_checked env (''zfs create -V '' @ zsize @ ''M '' @ zpath @ log_suffix)"

definition create_dataset_cmd :: "string \<Rightarrow> string \<Rightarrow> string" where
  "create_dataset_cmd zpath zmount = ''zfs create -o mountpoint='' @ zmount @ '' '' @ zpath @ log_suffix"

definition zfs_create_dataset :: "'m sysenv \<Rightarrow> string \<Rightarrow> string \<Rightarrow> ('m, bool) io" where
  "zfs_create_dataset env zpath zmount = dev_checked env (create_dataset_cmd zpath zmount)"

definition zfs_create_datasets :: "'m sysenv \<Rightarrow> zfs_dataset list \<Rightarrow> ('m, bool) io" where
  "zfs_create_datasets env zdatasets =
     all_checked (\<lambda>zdataset. zfs_create_dataset env (zd_zpath zdataset) (zd_mountpoint zdataset)) zdatasets"

definition zfs_destroy_dataset :: "'m sysenv \<Rightarrow> string \<Rightarrow> ('m, bool) io" where
  "zfs_destroy_dataset env zdataset = dev_checked env (''zfs destroy -r '' @ zdataset @ log_suffix)"

definition list_all_cmd :: string where
  "list_all_cmd = ''zfs list -H -o name 2>/dev/null | grep \"/\"''"

definition zfs_list_pools :: "'m sysenv \<Rightarrow> ('m, string) io" where
  "zfs_list_pools env =
     (if ndevenv env then exec env list_all_cmd False else ret (''vol0\<newline>vol1\<newline>''))"

fun list_device_names :: "'m sysenv \<Rightarrow> string list \<Rightarrow> string \<Rightarrow> ('m, string) io" where
  "list_device_names env [] list_of_devices = ret list_of_devices"
| "list_device_names env (dev # devices) list_of_devices = do {
     out \<leftarrow> exec env (''find -L /dev/ -xtype l -samefile '' @ dev @ '' 2>/dev/null'') False;
     list_device_names env devices (list_of_devices @ dev @ [newline_char] @ out)
   }"

definition zfs_list_devs :: "'m sysenv \<Rightarrow> ('m, string) io" where
  "zfs_list_devs env = do {
     out \<leftarrow> exec env (''zpool status -PL 2>/dev/null | awk '' @ squote @ ''{print $1}'' @ squote
              @ '' | grep \"^/\"'') False;
     list_device_names env (make_multiline out False newline_char) ''''
   }"

definition zfs_list_datasets :: "'m sysenv \<Rightarrow> string \<Rightarrow> ('m, string) io" where
  "zfs_list_datasets env type_name =
     (if \<not> ndevenv env then ret ''zpcachyos''
      else if type_name = ''zvol'' then exec env ''zfs list -Ht volume -o name,volsize 2>/dev/null'' False
      else if type_name = ''legacy''
      then exec env (''zfs list -Ht filesystem -o name,mountpoint 2>/dev/null | grep \"^.*/.*legacy$\" | awk ''
             @ squote @ ''{print $1}'' @ squote) False
      else exec env list_all_cmd False)"

definition zfs_set_property :: "'m sysenv \<Rightarrow> string \<Rightarrow> string \<Rightarrow> ('m, bool) io" where
  "zfs_set_property env property dataset =
     dev_checked env (''zfs set '' @ property @ '' '' @ dataset @ log_suffix)"

subsection \<open>Pools\<close>

definition zpool_set_cmd :: "string \<Rightarrow> string \<Rightarrow> string" where
  "zpool_set_cmd property pool_name = ''zpool set '' @ property @ '' '' @ pool_name @ log_suffix"

definition zpool_set_property :: "'m sysenv \<Rightarrow> string \<Rightarrow> string \<Rightarrow> ('m, bool) io" where
  "zpool_set_property env property pool_name = do {
     ok \<leftarrow> exec_checked env (zpool_set_cmd property pool_name);
     if \<not> ok then ret False else ret True
   }"

definition zpool_create_cmd :: "string \<Rightarrow> string \<Rightarrow> string \<Rightarrow> string option \<Rightarrow> string" where
  "zpool_create_cmd device_path pool_name pool_options passphrase =
     (let cmd = ''zpool create '' @ pool_options
            @ (if passphrase \<noteq> None then ''-O encryption=aes-256-gcm -O keyformat=passphrase'' else '''')
            @ squote @ pool_name @ squote @ '' '' @ squote @ device_path @ squote @ log_suffix
      in case passphrase of
           Some pass \<Rightarrow> ''echo '' @ squote @ pass @ squote @ '' | '' @ cmd
         | None \<Rightarrow> cmd)"

definition zfs_create_zpool ::
  "'m sysenv \<Rightarrow> string \<Rightarrow> string \<Rightarrow> string \<Rightarrow> string option \<Rightarrow> ('m, bool) io" where
  "zfs_create_zpool env device_path pool_name pool_options passphrase = do {
     ok \<leftarrow> exec_checked env (zpool_create_cmd device_path pool_name pool_options passphrase);
     if \<not> ok then ret False else ret True
   }"

definition find_rootfs :: "zfs_dataset list \<Rightarrow> zfs_dataset option" where
  "find_rootfs datasets = map_option (nth datasets) (find_index (\<lambda>d. zd_mountpoint d = ''/'') datasets)"

definition zpool_export :: "string \<Rightarrow> string" where
  "zpool_export pool_name = ''zpool export '' @ pool_name @ log_suffix"

definition zfs_create_with_config :: "'m sysenv \<Rightarrow> string \<Rightarrow> zfs_setup_config \<Rightarrow> ('m, bool) io" where
  "zfs_create_with_config env device_path cfg = do {
     pool_ok \<leftarrow> zfs_create_zpool env device_path (zs_zpool_name cfg) (zs_zpool_options cfg) (zs_passphrase cfg);
     if \<not> pool_ok then ret False
     else do {
       datasets_ok \<leftarrow> zfs_create_datasets env (zs_datasets cfg);
       if \<not> datasets_ok then ret False
       else do {
         property_ok \<leftarrow> (case find_rootfs (zs_datasets cfg) of
             None \<Rightarrow> ret True
           | Some rootfs \<Rightarrow> zpool_set_property env (''bootfs='' @ zd_zpath rootfs) (zs_zpool_name cfg));
         if \<not> property_ok then ret False
         else do {
           export_ok \<leftarrow> exec_checked env (zpool_export (zs_zpool_name cfg));
           if \<not> export_ok then ret False else ret True
         }
       }
     }
   }"

subsection \<open>The setup is a plan\<close>

definition zfs_setup_plan :: "'m sysenv \<Rightarrow> string \<Rightarrow> zfs_setup_config \<Rightarrow> step list" where
  "zfs_setup_plan env dev cfg =
     Run (zpool_create_cmd dev (zs_zpool_name cfg) (zs_zpool_options cfg) (zs_passphrase cfg))
     # concat (map (\<lambda>d. dev_steps env (create_dataset_cmd (zd_zpath d) (zd_mountpoint d))) (zs_datasets cfg))
     @ (case find_rootfs (zs_datasets cfg) of
          None \<Rightarrow> []
        | Some d \<Rightarrow> [Run (zpool_set_cmd (''bootfs='' @ zd_zpath d) (zs_zpool_name cfg))])
     @ [Run (zpool_export (zs_zpool_name cfg))]"

lemma create_datasets_plan [plan_simps]:
  "zfs_create_datasets env ds =
     run_plan env (concat (map (\<lambda>d. dev_steps env (create_dataset_cmd (zd_zpath d) (zd_mountpoint d))) ds))"
  unfolding zfs_create_datasets_def
  by (rule all_checked_plan) (simp add: zfs_create_dataset_def plan_simps del: run_plan.simps)

lemma zfs_setup_eq_plan: "zfs_create_with_config env dev cfg = run_plan env (zfs_setup_plan env dev cfg)"
proof (cases "find_rootfs (zs_datasets cfg)")
  case None
  have "State_Monad.bind (ret True) f = f True" for f :: "bool \<Rightarrow> ('x, bool) state"
    by (rule state_ext) simp
  with None show ?thesis
    by (simp add: zfs_create_with_config_def zfs_setup_plan_def zfs_create_zpool_def plan_simps
        cong: if_cong del: run_plan.simps)
next
  case (Some d)
  then show ?thesis
    by (simp add: zfs_create_with_config_def zfs_setup_plan_def zfs_create_zpool_def zpool_set_property_def
        plan_simps cong: if_cong del: run_plan.simps)
qed

interpretation zfs_setup: planned_op env "zfs_create_with_config env dev cfg" "zfs_setup_plan env dev cfg"
  for env dev cfg
  by unfold_locales (rule zfs_setup_eq_plan)

subsection \<open>Properties\<close>

text \<open>C14. Setting up a pool, in a build that changes the machine, asks for the creation of the pool, then of its datasets in the given order, then sets
  \<^verbatim>\<open>bootfs\<close> to the first dataset mounted at the root, if there is one, and exports the pool last.  It reports success exactly when all of
  these requests succeed, and then has made exactly them; when it reports failure, one of them has failed after the ones before it
  had succeeded, and it is the last request that was made.\<close>

theorem zfs_setup_requests:
  assumes "status w = Running" "ndevenv env" "run_state (zfs_create_with_config env dev cfg) w = (ok, w')"
    and "cmds = zpool_create_cmd dev (zs_zpool_name cfg) (zs_zpool_options cfg) (zs_passphrase cfg)
       # map (\<lambda>d. create_dataset_cmd (zd_zpath d) (zd_mountpoint d)) (zs_datasets cfg)
       @ (case find_rootfs (zs_datasets cfg) of
            None \<Rightarrow> [] | Some d \<Rightarrow> [zpool_set_cmd (''bootfs='' @ zd_zpath d) (zs_zpool_name cfg)])
       @ [zpool_export (zs_zpool_name cfg)]"
  shows "(ok \<longleftrightarrow> fst (exec_steps env (map Run cmds) (host w))) \<and>
    (ok \<longrightarrow> trace w' = trace w @ map System cmds) \<and>
    (\<not> ok \<longrightarrow> (\<exists>k. failed_at env (map Run cmds) (host w) k \<and> trace w' = trace w @ map System (take (Suc k) cmds)))"
proof -
  have "concat (map (\<lambda>d. dev_steps env (create_dataset_cmd (zd_zpath d) (zd_mountpoint d))) ds) =
      map Run (map (\<lambda>d. create_dataset_cmd (zd_zpath d) (zd_mountpoint d)) ds)" for ds :: "zfs_dataset list"
    using assms(2) by (induction ds) (simp_all add: dev_steps_def)
  then have "zfs_setup_plan env dev cfg = map Run cmds"
    unfolding zfs_setup_plan_def assms(4) map_append list.map by (simp only: append_Cons append_Nil) (simp split: option.splits)
  from zfs_setup.commands_outcome [OF assms(1,3) this] show ?thesis by blast
qed

definition sample_zfs_config :: zfs_setup_config where
  "sample_zfs_config =
     \<lparr>zs_zpool_name = ''zpcachyos'', zs_zpool_options = ''-f -o ashift=12 -O dnodesize=auto'', zs_passphrase = None,
      zs_datasets = [\<lparr>zd_zpath = ''zpcachyos/ROOT/cos/root'', zd_mountpoint = ''/''\<rparr>,
                     \<lparr>zd_zpath = ''zpcachyos/ROOT/cos/home'', zd_mountpoint = ''/home''\<rparr>]\<rparr>"

theorem zfs_setup_requests_witness:
  "trace (snd (run_state (zfs_create_with_config quiet_env ''/dev/sda2'' sample_zfs_config) (world_of []))) = map System
    [zpool_create_cmd ''/dev/sda2'' ''zpcachyos'' ''-f -o ashift=12 -O dnodesize=auto'' None,
     create_dataset_cmd ''zpcachyos/ROOT/cos/root'' ''/'', create_dataset_cmd ''zpcachyos/ROOT/cos/home'' ''/home'',
     zpool_set_cmd ''bootfs=zpcachyos/ROOT/cos/root'' ''zpcachyos'', zpool_export ''zpcachyos'']"
proof -
  have dev: "ndevenv quiet_env" by (simp add: quiet_env_def)
  obtain ok w' where run: "run_state (zfs_create_with_config quiet_env ''/dev/sda2'' sample_zfs_config) (world_of []) = (ok, w')" by force
  have "trace w' = trace (world_of []) @ map System
      (zpool_create_cmd ''/dev/sda2'' (zs_zpool_name sample_zfs_config) (zs_zpool_options sample_zfs_config) (zs_passphrase sample_zfs_config)
       # map (\<lambda>d. create_dataset_cmd (zd_zpath d) (zd_mountpoint d)) (zs_datasets sample_zfs_config)
       @ (case find_rootfs (zs_datasets sample_zfs_config) of
            None \<Rightarrow> [] | Some d \<Rightarrow> [zpool_set_cmd (''bootfs='' @ zd_zpath d) (zs_zpool_name sample_zfs_config)])
       @ [zpool_export (zs_zpool_name sample_zfs_config)])"
    using zfs_setup_requests [OF world_of_simps(1) dev run refl] quiet_commands by blast
  then show ?thesis
    unfolding run by (simp add: sample_zfs_config_def find_rootfs_def find_index.simps)
qed

text \<open>There is no blank between the pool options and the quoted pool name, so the shell glues the name to the last
  option: the words of the command have that option with the name attached where the name ought to be.\<close>

theorem zpool_name_glued:
  assumes "opts = init @ '' '' @ lastopt" "CHR 0x27 \<notin> set init"
    and "lastopt \<noteq> ''''" "CHR '' '' \<notin> set lastopt" "CHR 0x27 \<notin> set lastopt"
    and "CHR 0x27 \<notin> set pool" "CHR 0x27 \<notin> set dev"
  shows "sh_words (zpool_create_cmd dev pool opts None) =
    sh_words (''zpool create '' @ init) @ [lastopt @ pool, dev, ''2>>/tmp/cachyos-install.log'']"
proof -
  obtain c cs where l: "lastopt = c # cs" using assms(3) by (cases lastopt) auto
  have cmd: "zpool_create_cmd dev pool opts None =
      (''zpool create '' @ init) @ CHR '' '' # c # (cs @ CHR 0x27 # pool @ CHR 0x27 #
        CHR '' '' # CHR 0x27 # dev @ CHR 0x27 # log_suffix)"
    by (simp add: zpool_create_cmd_def assms(1) l)
  have noq: "CHR 0x27 \<notin> set (''zpool create '' @ init)" using assms(2) by simp
  have c: "c \<noteq> CHR '' ''" "c \<noteq> CHR 0x27" "CHR '' '' \<notin> set cs" "CHR 0x27 \<notin> set cs"
    using assms(4,5) l by auto
  show ?thesis
    unfolding sh_words_def cmd sh_split_blank [OF noq]
    using assms(6,7) l c by (simp add: sh_split_plain sh_split_quoted log_suffix_def)
qed

theorem zpool_name_glued_witness:
  "sh_words (zpool_create_cmd ''/dev/sda2'' ''zpcachyos'' ''-f -o ashift=12 -O dnodesize=auto'' None) =
    [''zpool'', ''create'', ''-f'', ''-o'', ''ashift=12'', ''-O'', ''dnodesize=autozpcachyos'', ''/dev/sda2'',
     ''2>>/tmp/cachyos-install.log'']"
proof -
  have "sh_words (zpool_create_cmd ''/dev/sda2'' ''zpcachyos'' ''-f -o ashift=12 -O dnodesize=auto'' None) =
      sh_words (''zpool create '' @ ''-f -o ashift=12 -O'') @
        [''dnodesize=auto'' @ ''zpcachyos'', ''/dev/sda2'', ''2>>/tmp/cachyos-install.log'']"
    by (rule zpool_name_glued) simp_all
  then show ?thesis by (simp add: sh_words_def)
qed

end
