(* ===== verification/Luks.thy ===== *)
theory Luks
  imports Plan
begin

section \<open>LUKS containers and their key file (gucc/src/luks.cpp)\<close>

text \<open>
  Opening, formatting and keying a LUKS1 container, and the setup of the key file that the initramfs uses to
  unlock it.  The text passed to \<^verbatim>\<open>fmt::format\<close> for the generation of the key file has one field and three
  arguments: the field takes the first of them, the additional flags.
\<close>

definition luks1_open_cmd :: "string \<Rightarrow> string \<Rightarrow> string \<Rightarrow> string" where
  "luks1_open_cmd luks_pass part luks_name =
     ''echo '' @ squote @ luks_pass @ squote @ '' | cryptsetup open --type luks1 '' @ part @ '' '' @ luks_name
     @ '' &>/dev/null''"

definition luks1_open :: "'m sysenv \<Rightarrow> string \<Rightarrow> string \<Rightarrow> string \<Rightarrow> ('m, bool) io" where
  "luks1_open env luks_pass part luks_name = exec_checked env (luks1_open_cmd luks_pass part luks_name)"

definition luks1_format_cmd :: "string \<Rightarrow> string \<Rightarrow> string \<Rightarrow> string" where
  "luks1_format_cmd luks_pass part additional_flags =
     ''echo '' @ squote @ luks_pass @ squote @ '' | cryptsetup -q '' @ additional_flags
     @ '' --type luks1 luksFormat '' @ part @ '' &>/dev/null''"

definition luks1_format :: "'m sysenv \<Rightarrow> string \<Rightarrow> string \<Rightarrow> string \<Rightarrow> ('m, bool) io" where
  "luks1_format env luks_pass part additional_flags =
     exec_checked env (luks1_format_cmd luks_pass part additional_flags)"

definition luks1_add_key_cmd :: "string \<Rightarrow> string \<Rightarrow> string \<Rightarrow> string" where
  "luks1_add_key_cmd dest_file part additional_flags =
     ''cryptsetup -q '' @ additional_flags @ '' luksAddKey '' @ part @ '' '' @ dest_file @ '' &>/dev/null''"

definition luks1_add_key :: "'m sysenv \<Rightarrow> string \<Rightarrow> string \<Rightarrow> string \<Rightarrow> ('m, bool) io" where
  "luks1_add_key env dest_file part additional_flags =
     exec_checked env (luks1_add_key_cmd dest_file part additional_flags)"

definition dd_keyfile_cmd :: "string \<Rightarrow> string" where
  "dd_keyfile_cmd first_argument =
     ''dd bs=512 count=4 if=/dev/urandom of='' @ first_argument @ '' iflag=fullblock &>/dev/null''"

definition add_initcpio_file_cmd :: "string \<Rightarrow> string" where
  "add_initcpio_file_cmd conf =
     ''grep -q '' @ squote @ ''/crypto_keyfile.bin'' @ squote @ '' '' @ conf @ '' || sed -i '' @ squote
     @ ''/FILES/ s~)~/crypto_keyfile.bin)~'' @ squote @ '' '' @ conf"

text \<open>Steps 2 to 4, with the key file in place.\<close>

definition install_keyfile ::
  "'m sysenv \<Rightarrow> string \<Rightarrow> string \<Rightarrow> string \<Rightarrow> string \<Rightarrow> ('m, bool) io" where
  "install_keyfile env dest_file mnt part additional_flags = do {
     chmod_out \<leftarrow> exec env (''chmod 600 '' @ dest_file) False;
     do {
       key_added \<leftarrow> luks1_add_key env dest_file part additional_flags;
       if \<not> key_added then ret False
       else do {
         file_added \<leftarrow> exec_checked env (add_initcpio_file_cmd (mnt @ ''/etc/mkinitcpio.conf''));
         if \<not> file_added then ret False
         else do {
           arch_chroot env ''mkinitcpio -P'' mnt False;
           ret True
         }
       }
     }
   }"

definition luks1_setup_keyfile ::
  "'m sysenv \<Rightarrow> string \<Rightarrow> string \<Rightarrow> string \<Rightarrow> string \<Rightarrow> ('m, bool) io" where
  "luks1_setup_keyfile env dest_file mnt part additional_flags = do {
     there \<leftarrow> path_exists env dest_file;
     if \<not> there then do {
       generated \<leftarrow> exec_checked env (dd_keyfile_cmd additional_flags);
       if \<not> generated then ret False else install_keyfile env dest_file mnt part additional_flags
     }
     else install_keyfile env dest_file mnt part additional_flags
   }"

subsection \<open>The setup is a plan, once the existence of the key file is known\<close>

definition keyfile_plan :: "'m sysenv \<Rightarrow> bool \<Rightarrow> string \<Rightarrow> string \<Rightarrow> string \<Rightarrow> string \<Rightarrow> step list" where
  "keyfile_plan env there dest_file mnt part flags =
     (if there then [] else [Run (dd_keyfile_cmd flags)])
     @ [Shell (''chmod 600 '' @ dest_file), Run (luks1_add_key_cmd dest_file part flags),
        Run (add_initcpio_file_cmd (mnt @ ''/etc/mkinitcpio.conf''))]
     @ chroot_shell_steps env ''mkinitcpio -P'' mnt False"

lemma arch_chroot_then_true:
  "State_Monad.bind (arch_chroot env c r i) (\<lambda>u. ret True) = run_plan env (chroot_shell_steps env c r i)"
  using arch_chroot_plan [of env c r i "[]"] by simp

lemma install_keyfile_plan [plan_simps]:
  "install_keyfile env dest_file mnt part flags = run_plan env (keyfile_plan env True dest_file mnt part flags)"
  by (simp add: install_keyfile_def keyfile_plan_def luks1_add_key_def arch_chroot_then_true plan_simps
      cong: if_cong del: run_plan.simps)

lemma generate_keyfile_plan:
  "do { generated \<leftarrow> exec_checked env (dd_keyfile_cmd flags);
        if \<not> generated then ret False else install_keyfile env dest_file mnt part flags } =
   run_plan env (keyfile_plan env False dest_file mnt part flags)"
  by (simp add: plan_simps cong: if_cong del: run_plan.simps) (simp add: keyfile_plan_def)

lemma setup_keyfile_plan:
  "run_state (luks1_setup_keyfile env dest_file mnt part flags) w =
   run_state (run_plan env
     (keyfile_plan env (status w = Running \<and> (files (host w) dest_file \<noteq> None \<or> dir_exists env dest_file (host w)))
        dest_file mnt part flags)) w"
  unfolding luks1_setup_keyfile_def generate_keyfile_plan
  unfolding install_keyfile_plan
  by (simp add: path_exists_def inspect_def del: run_plan.simps)

subsection \<open>Properties\<close>

text \<open>The key file setup: only if nothing exists at the destination is a key generated first; then the permissions are
  restricted, the key is added to the container and the file to the initramfs, in this order, and the
  initramfs is rebuilt.  The key is not written to the destination, though: the command that generates it does not
  name the destination, its output is what the additional flags say.\<close>

theorem keyfile_setup_requests:
  assumes "status w = Running" "ndevenv env" "files (host w) dest_file = None" "\<not> dir_exists env dest_file (host w)"
    and "run_state (luks1_setup_keyfile env dest_file mnt part flags) w = (ok, w')"
  shows "\<exists>evs. trace w' = trace w @ evs \<and>
    prefix evs [System (dd_keyfile_cmd flags), Popen (''chmod 600 '' @ dest_file),
      System (luks1_add_key_cmd dest_file part flags),
      System (add_initcpio_file_cmd (mnt @ ''/etc/mkinitcpio.conf'')),
      Popen (''arch-chroot '' @ mnt @ '' mkinitcpio -P 2>>/tmp/cachyos-install.log 2>&1'')] \<and>
    (ok \<longrightarrow> length evs = 5) \<and> evs \<noteq> [] \<and>
    hd evs = System (''dd bs=512 count=4 if=/dev/urandom of='' @ flags @ '' iflag=fullblock &>/dev/null'')"
proof -
  let ?plan = "keyfile_plan env False dest_file mnt part flags"
  have run: "run_state (run_plan env ?plan) w = (ok, w')"
    using assms(1,3-5) by (simp add: setup_keyfile_plan del: run_plan.simps)
  obtain evs h where ex: "exec_steps env ?plan (host w) = (ok, evs, h)"
    and w': "w' = w\<lparr>host := h, trace := trace w @ evs\<rparr>"
    using run_plan_outcome [OF assms(1), of env ?plan] run by (auto split: prod.splits)
  have evs: "map step_event ?plan = [System (dd_keyfile_cmd flags), Popen (''chmod 600 '' @ dest_file),
      System (luks1_add_key_cmd dest_file part flags),
      System (add_initcpio_file_cmd (mnt @ ''/etc/mkinitcpio.conf'')),
      Popen (''arch-chroot '' @ mnt @ '' mkinitcpio -P 2>>/tmp/cachyos-install.log 2>&1'')]"
    using assms(2) by (simp add: keyfile_plan_def chroot_shell_steps_def)
  have pre: "prefix evs (map step_event ?plan)" and len: "ok \<longrightarrow> length evs = 5"
    using exec_steps_events [OF ex] evs by auto
  have ne: "evs \<noteq> []"
    using ex by (auto simp: keyfile_plan_def split: prod.splits if_splits)
  with pre have "hd evs = System (dd_keyfile_cmd flags)" unfolding evs by (cases evs) auto
  with pre len ne w' show ?thesis unfolding evs dd_keyfile_cmd_def by auto
qed

theorem keyfile_setup_requests_witness:
  "\<exists>evs. trace (snd (run_state (luks1_setup_keyfile quiet_env ''/mnt/crypto_keyfile.bin'' ''/mnt'' ''/dev/sda2'' '''')
      (world_of []))) = trace (world_of []) @ evs \<and>
    hd evs = System (''dd bs=512 count=4 if=/dev/urandom of='' @ '''' @ '' iflag=fullblock &>/dev/null'')"
proof -
  have n: "ndevenv quiet_env" "files (host (world_of [])) ''/mnt/crypto_keyfile.bin'' = None"
    "\<not> dir_exists quiet_env ''/mnt/crypto_keyfile.bin'' (host (world_of []))" by (simp_all add: quiet_env_def)
  show ?thesis
    using keyfile_setup_requests [OF world_of_simps(1) n surjective_pairing, of "''/mnt''" "''/dev/sda2''" "''''"]
    by blast
qed

end
