(* ===== verification/Accounts.thy ===== *)
theory Accounts
  imports Plan Shell_Words
begin

section \<open>Users, groups, host name and automatic login (gucc/src/user.cpp, gucc/src/autologin.cpp)\<close>

text \<open>
  Creating groups and the user, setting passwords, the host name and hosts files, and the
  automatic login of the display managers.  The user is made by a fixed sequence of requests; only the password
  command depends on what a program printed.
\<close>

record user_info =
  username :: string
  password :: string
  shell :: string
  sudoers_group :: string

subsection \<open>Groups and passwords\<close>

definition create_group_cmd :: "string \<Rightarrow> bool \<Rightarrow> string" where
  "create_group_cmd grp is_system = ''groupadd --force '' @ (if is_system then ''--system'' else '''') @ grp"

definition create_group :: "'m sysenv \<Rightarrow> string \<Rightarrow> string \<Rightarrow> bool \<Rightarrow> ('m, bool) io" where
  "create_group env grp mnt is_system = arch_chroot_checked env (create_group_cmd grp is_system) mnt"

definition password_set_cmd :: "string \<Rightarrow> string \<Rightarrow> string" where
  "password_set_cmd encrypted_passwd user =
     ''usermod -p '' @ squote @ encrypted_passwd @ squote @ '' '' @ user"

definition set_user_password :: "'m sysenv \<Rightarrow> string \<Rightarrow> string \<Rightarrow> string \<Rightarrow> ('m, bool) io" where
  "set_user_password env user pass mnt = do {
     encrypted_passwd \<leftarrow> exec env (''openssl passwd '' @ pass) False;
     ok \<leftarrow> arch_chroot_checked env (password_set_cmd encrypted_passwd user) mnt;
     if \<not> ok then ret False else ret True
   }"

definition set_root_password :: "'m sysenv \<Rightarrow> string \<Rightarrow> string \<Rightarrow> ('m, bool) io" where
  "set_root_password env pass mnt = set_user_password env ''root'' pass mnt"

subsection \<open>The user\<close>

definition useradd_cmd :: "string \<Rightarrow> string \<Rightarrow> string" where
  "useradd_cmd user user_shell =
     ''useradd -m -U'' @ (if user_shell \<noteq> '''' then '' -s '' @ user_shell else '''') @ '' '' @ user"

definition groups_set_cmd :: "string list \<Rightarrow> string \<Rightarrow> string" where
  "groups_set_cmd groups user = ''usermod -aG '' @ join groups (CHR '','') @ '' '' @ user"

definition home_setup_cmd :: "string \<Rightarrow> string" where
  "home_setup_cmd user = ''chown -R '' @ user @ '':'' @ user @ '' /home/'' @ user"

definition sudoers_path :: "string \<Rightarrow> string" where
  "sudoers_path mnt = mnt @ ''/etc/sudoers.d/10-installer''"

definition sudoers_line :: "string \<Rightarrow> string" where
  "sudoers_line grp = ''%'' @ grp @ '' ALL=(ALL) ALL\<newline>''"

definition setup_sudoers :: "'m sysenv \<Rightarrow> string \<Rightarrow> string \<Rightarrow> ('m, bool) io" where
  "setup_sudoers env grp mnt =
     (if grp = '''' then ret True
      else do {
        written \<leftarrow> create_file_for_overwrite env (sudoers_path mnt) (sudoers_line grp);
        if \<not> written then ret False
        else do {
          restricted \<leftarrow> set_permissions env (sudoers_path mnt);
          if \<not> restricted then ret False else ret True
        }
      })"

definition create_new_user :: "'m sysenv \<Rightarrow> user_info \<Rightarrow> string list \<Rightarrow> string \<Rightarrow> ('m, bool) io" where
  "create_new_user env info default_groups mnt =
     (if sudoers_group info \<noteq> '''' \<and> sudoers_group info \<notin> set default_groups then ret False
      else do {
        groups_ok \<leftarrow> all_checked (\<lambda>grp. create_group env grp mnt False) default_groups;
        if \<not> groups_ok then ret False
        else do {
          user_ok \<leftarrow> arch_chroot_checked env (useradd_cmd (username info) (shell info)) mnt;
          if \<not> user_ok then ret False
          else do {
            member_ok \<leftarrow> arch_chroot_checked env (groups_set_cmd default_groups (username info)) mnt;
            if \<not> member_ok then ret False
            else do {
              home_ok \<leftarrow> arch_chroot_checked env (home_setup_cmd (username info)) mnt;
              if \<not> home_ok then ret False
              else do {
                password_ok \<leftarrow> set_user_password env (username info) (password info) mnt;
                if \<not> password_ok then ret False else setup_sudoers env (sudoers_group info) mnt
              }
            }
          }
        }
      })"

subsection \<open>Host name and hosts\<close>

definition hosts_text :: "string \<Rightarrow> string" where
  "hosts_text hostname =
     ''# Standard host addresses\<newline>127.0.0.1  localhost\<newline>::1        localhost ip6-localhost ip6-loopback\<newline>ff02::1    ip6-allnodes\<newline>ff02::2    ip6-allrouters\<newline>''
     @ (if hostname = '''' then '''' else ''# This host address\<newline>127.0.1.1  '' @ hostname @ [newline_char])"

definition set_hosts :: "'m sysenv \<Rightarrow> string \<Rightarrow> string \<Rightarrow> ('m, bool) io" where
  "set_hosts env hostname mnt = do {
     ok \<leftarrow> create_file_for_overwrite env (mnt @ ''/etc/hosts'') (hosts_text hostname);
     if \<not> ok then ret False else ret True
   }"

definition set_hostname :: "'m sysenv \<Rightarrow> string \<Rightarrow> string \<Rightarrow> ('m, bool) io" where
  "set_hostname env hostname mnt = do {
     ok \<leftarrow> create_file_for_overwrite env (mnt @ ''/etc/hostname'') (hostname @ [newline_char]);
     if \<not> ok then ret False
     else do {
       hosts_ok \<leftarrow> set_hosts env hostname mnt;
       if \<not> hosts_ok then ret False else ret True
     }
   }"

subsection \<open>Automatic login\<close>

definition sed_cmd :: "string \<Rightarrow> string \<Rightarrow> string" where
  "sed_cmd script path = ''sed -i '' @ squote @ script @ squote @ '' '' @ path"

definition enable_autologin :: "'m sysenv \<Rightarrow> string \<Rightarrow> string \<Rightarrow> string \<Rightarrow> ('m, bool) io" where
  "enable_autologin env displaymanager user root =
     (if displaymanager = ''gdm'' then
        (let conf = root @ ''/etc/gdm/custom.conf'' in do {
          o1 \<leftarrow> exec env (sed_cmd (''s/^AutomaticLogin=*/AutomaticLogin='' @ user @ ''/g'') conf) False;
          o2 \<leftarrow> exec env (sed_cmd ''s/^AutomaticLoginEnable=*/AutomaticLoginEnable=true/g'' conf) False;
          o3 \<leftarrow> exec env (sed_cmd ''s/^TimedLoginEnable=*/TimedLoginEnable=true/g'' conf) False;
          o4 \<leftarrow> exec env (sed_cmd (''s/^TimedLogin=*/TimedLoginEnable='' @ user @ ''/g'') conf) False;
          o5 \<leftarrow> exec env (sed_cmd ''s/^TimedLoginDelay=*/TimedLoginDelay=0/g'' conf) False;
          ret True
        })
      else if displaymanager = ''lightdm'' then
        (let conf = root @ ''/etc/lightdm/lightdm.conf'' in do {
          o1 \<leftarrow> exec env (sed_cmd (''s/^#autologin-user=/autologin-user='' @ user @ ''/'') conf) False;
          o2 \<leftarrow> exec env (sed_cmd ''s/^#autologin-user-timeout=0/autologin-user-timeout=0/'' conf) False;
          group_ok \<leftarrow> create_group env ''autologin'' root True;
          if \<not> group_ok then ret False
          else do {
            member_ok \<leftarrow> arch_chroot_checked env (''gpasswd -a '' @ user @ '' autologin'') root;
            if \<not> member_ok then ret False else ret True
          }
        })
      else if displaymanager = ''sddm'' then do {
        o1 \<leftarrow> exec env (sed_cmd (''s/^User=/User='' @ user @ ''/g'') (root @ ''/etc/sddm.conf'')) False;
        ret True
      }
      else if displaymanager = ''lxdm'' then do {
        o1 \<leftarrow> exec env (sed_cmd (''s/^# autologin=dgod/autologin='' @ user @ ''/g'') (root @ ''/etc/lxdm/lxdm.conf'')) False;
        ret True
      }
      else ret True)"

subsection \<open>Plans\<close>

definition account_plan :: "'m sysenv \<Rightarrow> user_info \<Rightarrow> string list \<Rightarrow> string \<Rightarrow> step list" where
  "account_plan env info groups mnt =
     concat (map (\<lambda>g. chroot_steps env (create_group_cmd g False) mnt) groups)
     @ chroot_steps env (useradd_cmd (username info) (shell info)) mnt
     @ chroot_steps env (groups_set_cmd groups (username info)) mnt
     @ chroot_steps env (home_setup_cmd (username info)) mnt"

definition sudoers_plan :: "string \<Rightarrow> string \<Rightarrow> step list" where
  "sudoers_plan grp mnt =
     (if grp = '''' then [] else [Write (sudoers_path mnt) (sudoers_line grp), Perms (sudoers_path mnt)])"

lemma create_groups_plan [plan_simps]:
  "all_checked (\<lambda>g. create_group env g mnt False) groups =
   run_plan env (concat (map (\<lambda>g. chroot_steps env (create_group_cmd g False) mnt) groups))"
  by (rule all_checked_plan) (simp add: create_group_def plan_simps del: run_plan.simps)

interpretation sudoers: planned_op env "setup_sudoers env grp mnt" "sudoers_plan grp mnt" for env grp mnt
  by unfold_locales
    (simp add: setup_sudoers_def sudoers_plan_def plan_simps cong: if_cong del: run_plan.simps, simp)

interpretation hostname: planned_op env "set_hostname env name mnt"
    "[Write (mnt @ ''/etc/hostname'') (name @ [newline_char]), Write (mnt @ ''/etc/hosts'') (hosts_text name)]"
  for env name mnt
  by unfold_locales
    (simp add: set_hostname_def set_hosts_def plan_simps cong: if_cong del: run_plan.simps)

lemma create_new_user_split:
  "sudoers_group info = '''' \<or> sudoers_group info \<in> set groups \<Longrightarrow>
   create_new_user env info groups mnt =
     do { ok \<leftarrow> run_plan env (account_plan env info groups mnt);
          if \<not> ok then ret False
          else do { pw_ok \<leftarrow> set_user_password env (username info) (password info) mnt;
                    if \<not> pw_ok then ret False else run_plan env (sudoers_plan (sudoers_group info) mnt) } }"
  unfolding sudoers.refines [symmetric] account_plan_def create_new_user_def
  by (rule state_ext)
    (auto simp: create_groups_plan arch_chroot_checked_plan run_plan_append simp del: run_plan.simps split: prod.splits)

lemma run_set_user_password:
  assumes "status w = Running" "ndevenv env" "run_state (set_user_password env user pass mnt) w = (True, w')"
  shows "status w' = Running \<and> (\<exists>enc. trace w' = trace w @
    [Popen (''openssl passwd '' @ pass), System (chroot_checked_cmd (password_set_cmd enc user) mnt)])"
proof -
  obtain out h where p: "popen_call env (''openssl passwd '' @ pass) (host w) = (out, h)"
    by (cases "popen_call env (''openssl passwd '' @ pass) (host w)") auto
  let ?enc = "case out of None \<Rightarrow> ''-1'' | Some s \<Rightarrow> drop_final_newline s"
  let ?w1 = "w\<lparr>host := h, trace := trace w @ [Popen (''openssl passwd '' @ pass)]\<rparr>"
  have "run_state (exec env (''openssl passwd '' @ pass) False) w = (?enc, ?w1)"
    by (rule run_exec [OF assms(1) p])
  then have "run_state (run_plan env (chroot_steps env (password_set_cmd ?enc user) mnt)) ?w1 = (True, w')"
    using assms(3) by (simp add: set_user_password_def plan_simps cong: if_cong del: run_plan.simps)
  from run_plan_success [OF _ this] assms(1,2) show ?thesis by (auto simp: chroot_steps_def)
qed

subsection \<open>Properties\<close>

text \<open>C12. A successful creation of the user has made exactly these requests: its groups in order, the
  user, the memberships, the home directory, the password, and last, if there is a sudoers group, the sudoers
  file for just that group followed by the restriction of its permissions; and the group is one of the user's groups.\<close>

theorem create_new_user_requests:
  assumes "status w = Running" "ndevenv env"
    and "run_state (create_new_user env info groups mnt) w = (True, w')"
  shows "(sudoers_group info = '''' \<or> sudoers_group info \<in> set groups) \<and>
    (\<exists>enc. trace w' = trace w @
      map (\<lambda>c. System (chroot_checked_cmd c mnt))
        (map (\<lambda>g. create_group_cmd g False) groups @
          [useradd_cmd (username info) (shell info), groups_set_cmd groups (username info),
           home_setup_cmd (username info)]) @
      [Popen (''openssl passwd '' @ password info),
       System (chroot_checked_cmd (password_set_cmd enc (username info)) mnt)] @
      (if sudoers_group info = '''' then []
       else [WriteFile (sudoers_path mnt) (sudoers_line (sudoers_group info)), SetPerms (sudoers_path mnt)]))"
proof -
  have grp: "sudoers_group info = '''' \<or> sudoers_group info \<in> set groups"
    using assms(3) by (auto simp: create_new_user_def split: if_splits)
  obtain w1 w2 where
    1: "run_state (run_plan env (account_plan env info groups mnt)) w = (True, w1)" and
    2: "run_state (set_user_password env (username info) (password info) mnt) w1 = (True, w2)" and
    3: "run_state (run_plan env (sudoers_plan (sudoers_group info) mnt)) w2 = (True, w')"
    using assms(3) unfolding create_new_user_split [OF grp] checked_bind_success by blast
  have t1: "status w1 = Running" "trace w1 = trace w @ map step_event (account_plan env info groups mnt)"
    using run_plan_success [OF assms(1) 1] by simp_all
  obtain enc where t2: "status w2 = Running" "trace w2 = trace w1 @
      [Popen (''openssl passwd '' @ password info),
       System (chroot_checked_cmd (password_set_cmd enc (username info)) mnt)]"
    using run_set_user_password [OF t1(1) assms(2) 2] by blast
  have t3: "trace w' = trace w2 @ map step_event (sudoers_plan (sudoers_group info) mnt)"
    using run_plan_success [OF t2(1) 3] by simp
  have steps: "map step_event (chroot_steps env c mnt) = [System (chroot_checked_cmd c mnt)]" for c
    using assms(2) by (simp add: chroot_steps_def)
  have gs: "map step_event (concat (map (\<lambda>g. chroot_steps env (create_group_cmd g False) mnt) gs)) =
      map (\<lambda>c. System (chroot_checked_cmd c mnt)) (map (\<lambda>g. create_group_cmd g False) gs)" for gs
    by (induction gs) (simp_all add: steps)
  have acc: "map step_event (account_plan env info groups mnt) =
      map (\<lambda>c. System (chroot_checked_cmd c mnt))
        (map (\<lambda>g. create_group_cmd g False) groups @
          [useradd_cmd (username info) (shell info), groups_set_cmd groups (username info),
           home_setup_cmd (username info)])"
    unfolding account_plan_def map_append gs by (simp add: steps)
  have sud: "map step_event (sudoers_plan (sudoers_group info) mnt) =
      (if sudoers_group info = '''' then []
       else [WriteFile (sudoers_path mnt) (sudoers_line (sudoers_group info)), SetPerms (sudoers_path mnt)])"
    by (simp add: sudoers_plan_def)
  show ?thesis
    using grp t3 t2(2) t1(2) unfolding acc sud by auto
qed

definition sample_user :: user_info where
  "sample_user = \<lparr>username = ''john'', password = ''secret'', shell = ''/bin/fish'', sudoers_group = ''wheel''\<rparr>"

lemma sample_user_created:
  "fst (run_state (create_new_user quiet_env sample_user [''sys'', ''wheel''] ''/mnt'') (world_of []))"
  by (simp add: create_new_user_def sample_user_def create_group_def arch_chroot_checked_def set_user_password_def
      setup_sudoers_def exec_checked_def io_prims quiet_env_def show_int_eq_0_iff)

theorem create_new_user_requests_witness:
  "sudoers_group sample_user \<in> set [''sys'', ''wheel''] \<and>
   length (trace (snd (run_state (create_new_user quiet_env sample_user [''sys'', ''wheel''] ''/mnt'') (world_of [])))) = 9"
proof -
  have n: "ndevenv quiet_env" by (simp add: quiet_env_def)
  obtain w' where run: "run_state (create_new_user quiet_env sample_user [''sys'', ''wheel''] ''/mnt'') (world_of []) = (True, w')"
    using sample_user_created by (metis prod.collapse)
  have "sudoers_group sample_user \<noteq> ''''" by (simp add: sample_user_def)
  with create_new_user_requests [OF world_of_simps(1) n run] run show ?thesis by auto
qed

text \<open>A sudoers group outside the user's groups is refused before anything is requested.\<close>

theorem create_new_user_rejected:
  assumes "sudoers_group info \<noteq> ''''" "sudoers_group info \<notin> set groups"
  shows "run_state (create_new_user env info groups mnt) w = (False, w)"
  using assms by (simp add: create_new_user_def)

theorem create_new_user_rejected_witness:
  "run_state (create_new_user quiet_env sample_user [''sys'', ''users''] ''/mnt'') (world_of []) = (False, world_of [])"
  by (rule create_new_user_rejected) (simp_all add: sample_user_def)

text \<open>For lightdm the group is created with a command in which \<^verbatim>\<open>--system\<close> and the group's name are one word, so no group
  \<^verbatim>\<open>autologin\<close> is asked for before the user is made a member of it.\<close>

theorem lightdm_group_glued:
  assumes "status w = Running" "ndevenv env"
    and "run_state (enable_autologin env ''lightdm'' user root) w = (True, w')"
  shows "\<exists>cmd evs. sh_words cmd = [''groupadd'', ''--force'', ''--systemautologin''] \<and>
    trace w' = trace w @ evs @
      [System (chroot_checked_cmd cmd root),
       System (chroot_checked_cmd (''gpasswd -a '' @ user @ '' autologin'') root)] \<and>
    (\<forall>e\<in>set evs. \<exists>c. e = Popen c)"
proof -
  let ?conf = "root @ ''/etc/lightdm/lightdm.conf''"
  let ?cmd = "create_group_cmd ''autologin'' True"
  let ?plan = "[Shell (sed_cmd (''s/^#autologin-user=/autologin-user='' @ user @ ''/'') ?conf),
      Shell (sed_cmd ''s/^#autologin-user-timeout=0/autologin-user-timeout=0/'' ?conf)]
    @ chroot_steps env ?cmd root @ chroot_steps env (''gpasswd -a '' @ user @ '' autologin'') root"
  have "enable_autologin env ''lightdm'' user root = run_plan env ?plan"
    by (simp add: enable_autologin_def create_group_def plan_simps Let_def cong: if_cong del: run_plan.simps)
  with assms(3) have "run_state (run_plan env ?plan) w = (True, w')" by simp
  from run_plan_success [OF assms(1) this] have "trace w' = trace w @ map step_event ?plan" by simp
  moreover have "sh_words ?cmd = [''groupadd'', ''--force'', ''--systemautologin'']"
    by (simp add: create_group_cmd_def sh_words_def)
  ultimately show ?thesis
    using assms(2)
    by (intro exI [of _ ?cmd] exI [of _ "map step_event (take 2 ?plan)"]) (simp add: chroot_steps_def)
qed

theorem lightdm_group_glued_witness:
  "\<exists>cmd evs. sh_words cmd = [''groupadd'', ''--force'', ''--systemautologin''] \<and>
    trace (snd (run_state (enable_autologin quiet_env ''lightdm'' ''john'' ''/mnt'') (world_of []))) =
      trace (world_of []) @ evs @ [System (chroot_checked_cmd cmd ''/mnt''),
       System (chroot_checked_cmd (''gpasswd -a '' @ ''john'' @ '' autologin'') ''/mnt'')]"
proof -
  have n: "ndevenv quiet_env" by (simp add: quiet_env_def)
  have "fst (run_state (enable_autologin quiet_env ''lightdm'' ''john'' ''/mnt'') (world_of []))"
    by (simp add: enable_autologin_def create_group_def arch_chroot_checked_def exec_checked_def io_prims quiet_env_def
        show_int_eq_0_iff Let_def)
  then obtain w' where run: "run_state (enable_autologin quiet_env ''lightdm'' ''john'' ''/mnt'') (world_of []) = (True, w')"
    by (metis prod.collapse)
  from lightdm_group_glued [OF world_of_simps(1) n run] show ?thesis unfolding run by auto
qed

end
