(* ===== verification/System_Setup.thy ===== *)
theory System_Setup
  imports Partitioning
begin

section \<open>Small system services (gucc/src: swap, hwclock, systemd_services, chwd, locale, fs_utils, mount_partitions)\<close>

text \<open>
  Swap files and partitions, the hardware clock, enabling services, the hardware profiles of chwd,
  the locale, queries about mounted file systems, and mounting with the detection of LUKS and LVM.
\<close>

subsection \<open>Swap (swap.cpp)\<close>

definition make_swapfile :: "'m sysenv \<Rightarrow> string \<Rightarrow> string \<Rightarrow> ('m, bool) io" where
  "make_swapfile env root swap_size =
     (let path = root @ ''/swapfile'' in do {
        allocated \<leftarrow> exec_checked env (''fallocate -l '' @ swap_size @ '' '' @ path @ '' &>>/tmp/cachyos-install.log'');
        if \<not> allocated then ret False
        else do {
          made \<leftarrow> exec_checked env (''chmod 600 '' @ path @ '' && mkswap '' @ path @ '' &>/dev/null'');
          if \<not> made then ret False
          else do {
            enabled \<leftarrow> exec_checked env (''swapon '' @ path @ '' &>/dev/null'');
            if \<not> enabled then ret False else ret True
          }
        }
      })"

definition make_swap_partition :: "'m sysenv \<Rightarrow> fs_partition \<Rightarrow> ('m, bool) io" where
  "make_swap_partition env swap_partition = do {
     made \<leftarrow> exec_checked env (''mkswap '' @ device swap_partition @ '' &>/dev/null'');
     if \<not> made then ret False
     else do {
       enabled \<leftarrow> exec_checked env (''swapon '' @ device swap_partition @ '' &>/dev/null'');
       if \<not> enabled then ret False else ret True
     }
   }"

definition swapfile_plan :: "string \<Rightarrow> string \<Rightarrow> step list" where
  "swapfile_plan root swap_size =
     map Run [''fallocate -l '' @ swap_size @ '' '' @ root @ ''/swapfile'' @ '' &>>/tmp/cachyos-install.log'',
       ''chmod 600 '' @ root @ ''/swapfile'' @ '' && mkswap '' @ root @ ''/swapfile'' @ '' &>/dev/null'',
       ''swapon '' @ root @ ''/swapfile'' @ '' &>/dev/null'']"

interpretation swapfile: planned_op env "make_swapfile env root swap_size" "swapfile_plan root swap_size"
  for env root swap_size
  by unfold_locales
    (simp add: make_swapfile_def swapfile_plan_def Let_def plan_simps cong: if_cong del: run_plan.simps)

interpretation swap_partition: planned_op env "make_swap_partition env p"
    "map Run [''mkswap '' @ device p @ '' &>/dev/null'', ''swapon '' @ device p @ '' &>/dev/null'']" for env p
  by unfold_locales (simp add: make_swap_partition_def plan_simps cong: if_cong del: run_plan.simps)

subsection \<open>Hardware clock (hwclock.cpp)\<close>

definition set_hwclock_utc :: "'m sysenv \<Rightarrow> string \<Rightarrow> ('m, bool) io" where
  "set_hwclock_utc env root = do {
     set \<leftarrow> arch_chroot_checked env ''hwclock --systohc --utc'' root;
     if set then ret True
     else do {
       set_isa \<leftarrow> arch_chroot_checked env ''hwclock --systohc --utc --directisa'' root;
       if set_isa then ret True else ret False
     }
   }"

definition set_hwclock_localtime :: "'m sysenv \<Rightarrow> string \<Rightarrow> ('m, bool) io" where
  "set_hwclock_localtime env root = do {
     set \<leftarrow> arch_chroot_checked env ''hwclock --systohc --localtime'' root;
     if set then ret True else ret False
   }"

text \<open>The fallback runs exactly when the first command failed.\<close>

lemma run_set_hwclock_utc:
  assumes "status w = Running" "ndevenv env"
    and "system_call env (chroot_checked_cmd ''hwclock --systohc --utc'' root) (host w) = (rc1, h1)"
    and "system_call env (chroot_checked_cmd ''hwclock --systohc --utc --directisa'' root) h1 = (rc2, h2)"
  shows "run_state (set_hwclock_utc env root) w =
    (if rc1 = 0 then (True, w\<lparr>host := h1, trace := trace w @ [System (chroot_checked_cmd ''hwclock --systohc --utc'' root)]\<rparr>)
     else (rc2 = 0, w\<lparr>host := h2, trace := trace w @ [System (chroot_checked_cmd ''hwclock --systohc --utc'' root),
        System (chroot_checked_cmd ''hwclock --systohc --utc --directisa'' root)]\<rparr>))"
  using assms
  by (simp add: set_hwclock_utc_def arch_chroot_checked_def exec_checked_def io_prims show_int_eq_0_iff)

subsection \<open>Services (systemd_services.cpp) and hardware profiles (chwd.cpp)\<close>

definition enable_systemd_service :: "'m sysenv \<Rightarrow> string \<Rightarrow> string \<Rightarrow> ('m, bool) io" where
  "enable_systemd_service env service_name root = do {
     ok \<leftarrow> arch_chroot_checked env (''systemctl enable '' @ service_name) root;
     if \<not> ok then ret False else ret True
   }"

text \<open>The box-drawing bar of the table that chwd prints, in UTF-8.\<close>

definition box_bar :: string where
  "box_bar = [CHR 0xE2, CHR 0x94, CHR 0x82]"

definition get_all_profile_names :: "'m sysenv \<Rightarrow> ('m, string list) io" where
  "get_all_profile_names env = do {
     profiles \<leftarrow> exec env (''chwd --list-all | grep -v '' @ squote @ ''Name'' @ squote @ '' | grep '' @ squote
       @ box_bar @ squote @ '' | awk '' @ squote @ ''{print $2}'' @ squote) False;
     ret (make_multiline profiles False newline_char)
   }"

definition get_available_profile_names :: "'m sysenv \<Rightarrow> ('m, string list) io" where
  "get_available_profile_names env = do {
     all_profile_names \<leftarrow> get_all_profile_names env;
     if all_profile_names = [] then ret []
     else do {
       out \<leftarrow> exec env (''chwd --list -d | grep Name | awk '' @ squote @ ''{print $4}'' @ squote) False;
       let available = make_multiline out False newline_char;
       ret (filter (\<lambda>profile_name. profile_name \<in> set available) all_profile_names)
     }
   }"

definition install_available_profiles :: "'m sysenv \<Rightarrow> string \<Rightarrow> ('m, bool) io" where
  "install_available_profiles env root = do {
     ok \<leftarrow> arch_chroot_checked env ''chwd -a -f'' root;
     if \<not> ok then ret False else ret True
   }"

subsection \<open>Locale (locale.cpp)\<close>

definition locale_keys :: "string list" where
  "locale_keys =
     [''LANG'', ''LC_NUMERIC'', ''LC_TIME'', ''LC_MONETARY'', ''LC_PAPER'', ''LC_NAME'', ''LC_ADDRESS'',
      ''LC_TELEPHONE'', ''LC_MEASUREMENT'', ''LC_IDENTIFICATION'', ''LC_MESSAGES'']"

definition locale_config_text :: "string \<Rightarrow> string" where
  "locale_config_text loc = concat (map (\<lambda>key. key @ ''=\"'' @ loc @ ''\"\<newline>'') locale_keys)"

definition prepare_locale_set :: "'m sysenv \<Rightarrow> string \<Rightarrow> string \<Rightarrow> ('m, bool) io" where
  "prepare_locale_set env loc mnt = do {
     written \<leftarrow> create_file_for_overwrite env (mnt @ ''/etc/locale.conf'') (locale_config_text loc);
     if \<not> written then ret False
     else do {
       out \<leftarrow> exec env (''sed -i \"s/#'' @ loc @ ''/'' @ loc @ ''/\" '' @ mnt @ ''/etc/locale.gen'') False;
       ret True
     }
   }"

definition set_locale :: "'m sysenv \<Rightarrow> string \<Rightarrow> string \<Rightarrow> ('m, bool) io" where
  "set_locale env loc mnt = do {
     prepared \<leftarrow> prepare_locale_set env loc mnt;
     if \<not> prepared then ret False
     else do {
       generated \<leftarrow> arch_chroot_checked env ''locale-gen'' mnt;
       if \<not> generated then ret False else ret True
     }
   }"

definition get_possible_locales :: "'m sysenv \<Rightarrow> ('m, string list) io" where
  "get_possible_locales env = do {
     locales \<leftarrow> exec env (''cat /etc/locale.gen | grep -v '' @ squote @ ''#  '' @ squote @ '' | sed '' @ squote
       @ ''s/#//g'' @ squote @ '' | awk '' @ squote @ ''/UTF-8/ {print $1}'' @ squote) False;
     ret (make_multiline locales False newline_char)
   }"

definition locale_plan :: "'m sysenv \<Rightarrow> string \<Rightarrow> string \<Rightarrow> step list" where
  "locale_plan env loc mnt =
     Write (mnt @ ''/etc/locale.conf'') (locale_config_text loc)
     # Shell (''sed -i \"s/#'' @ loc @ ''/'' @ loc @ ''/\" '' @ mnt @ ''/etc/locale.gen'')
     # chroot_steps env ''locale-gen'' mnt"

interpretation locale_op: planned_op env "set_locale env loc mnt" "locale_plan env loc mnt" for env loc mnt
  by unfold_locales
    (simp add: set_locale_def prepare_locale_set_def locale_plan_def plan_simps cong: if_cong del: run_plan.simps)

subsection \<open>Queries about mounted file systems (fs_utils.cpp)\<close>

definition get_mountpoint_fs :: "'m sysenv \<Rightarrow> string \<Rightarrow> ('m, string) io" where
  "get_mountpoint_fs env mnt = exec env (''findmnt -ln -o FSTYPE \"'' @ mnt @ ''\"'') False"

definition get_mountpoint_source :: "'m sysenv \<Rightarrow> string \<Rightarrow> ('m, string) io" where
  "get_mountpoint_source env mnt = exec env (''findmnt -ln -o SOURCE \"'' @ mnt @ ''\"'') False"

definition get_device_uuid :: "'m sysenv \<Rightarrow> string \<Rightarrow> ('m, string) io" where
  "get_device_uuid env dev =
     exec env (''lsblk -o UUID '' @ squote @ dev @ squote @ '' | awk '' @ squote @ ''NR==2'' @ squote) False"

definition zfs_mount_all :: "'m sysenv \<Rightarrow> ('m, unit) io" where
  "zfs_mount_all env = do { out \<leftarrow> exec env ''zfs mount -aO &>/dev/null'' False; ret () }"

subsection \<open>Mounting (mount_partitions.cpp)\<close>

definition mount_cmd :: "string \<Rightarrow> string \<Rightarrow> string \<Rightarrow> string" where
  "mount_cmd part mount_dir opts =
     (if opts \<noteq> '''' then ''mount -o '' @ opts @ '' '' @ part @ '' '' @ mount_dir
      else ''mount '' @ part @ '' '' @ mount_dir)"

definition mount_partition :: "'m sysenv \<Rightarrow> string \<Rightarrow> string \<Rightarrow> string \<Rightarrow> ('m, bool) io" where
  "mount_partition env part mount_dir opts = exec_checked env (mount_cmd part mount_dir opts)"

text \<open>The references that \<^verbatim>\<open>query_partition\<close> writes to.\<close>

record crypt_info =
  ci_is_luks :: int
  ci_is_lvm :: int
  ci_luks_name :: string
  ci_luks_dev :: string
  ci_luks_uuid :: string

fun check_cryptparts ::
  "'m sysenv \<Rightarrow> string \<Rightarrow> (string \<Rightarrow> crypt_info \<Rightarrow> ('m, crypt_info) io) \<Rightarrow> string list \<Rightarrow> crypt_info \<Rightarrow> ('m, bool \<times> crypt_info) io" where
  "check_cryptparts env luks_name functor_of [] info = ret (False, info)"
| "check_cryptparts env luks_name functor_of (cryptpart # cryptparts) info = do {
     found \<leftarrow> exec_checked env (''lsblk -lno NAME '' @ cryptpart @ '' | grep -q '' @ squote @ luks_name @ squote);
     if found then do { info' \<leftarrow> functor_of cryptpart info; ret (True, info') }
     else check_cryptparts env luks_name functor_of cryptparts info
   }"

definition note_lvm :: "string \<Rightarrow> crypt_info \<Rightarrow> ('m, crypt_info) io" where
  "note_lvm cryptpart info =
     ret (info\<lparr>ci_luks_dev := ci_luks_dev info @ '' cryptdevice='' @ cryptpart @ '':'' @ ci_luks_name info, ci_is_lvm := 1\<rparr>)"

definition note_luks_uuid :: "'m sysenv \<Rightarrow> string \<Rightarrow> crypt_info \<Rightarrow> ('m, crypt_info) io" where
  "note_luks_uuid env cryptpart info = do {
     uuid \<leftarrow> exec env (''lsblk -lno UUID,TYPE,FSTYPE '' @ cryptpart @ '' | grep '' @ squote @ ''part'' @ squote
       @ '' | grep -i '' @ squote @ ''crypto_luks'' @ squote @ '' | awk '' @ squote @ ''{print $1}'' @ squote) False;
     ret (info\<lparr>ci_luks_uuid := uuid,
       ci_luks_dev := ci_luks_dev info @ '' cryptdevice=UUID='' @ uuid @ '':'' @ ci_luks_name info\<rparr>)
   }"

definition list_cryptparts_cmd :: "string \<Rightarrow> string \<Rightarrow> string \<Rightarrow> string" where
  "list_cryptparts_cmd type_pattern fs_pattern dir =
     ''lsblk -lno NAME,FSTYPE,TYPE | grep '' @ squote @ type_pattern @ squote @ '' | grep -i '' @ squote @ fs_pattern
     @ squote @ '' | uniq | awk '' @ squote @ ''{print \"'' @ dir @ ''\"$1}'' @ squote"

definition query_partition :: "'m sysenv \<Rightarrow> string \<Rightarrow> crypt_info \<Rightarrow> ('m, bool \<times> crypt_info) io" where
  "query_partition env part info0 = do {
     crypt \<leftarrow> exec_checked env (''lsblk -lno TYPE '' @ part @ '' | grep -q '' @ squote @ ''crypt'' @ squote);
     if \<not> crypt then ret (True, info0)
     else do {
       name \<leftarrow> exec env (''echo '' @ part @ '' | sed \"s~^/dev/mapper/~~g\"'') False;
       let info1 = info0\<lparr>ci_is_luks := 1, ci_luks_name := name\<rparr>;
       out1 \<leftarrow> exec env (list_cryptparts_cmd ''lvm'' ''crypto_luks'' ''/dev/mapper/'') False;
       (found1, info2) \<leftarrow> check_cryptparts env name note_lvm (make_multiline out1 False newline_char) info1;
       if found1 then ret (True, info2)
       else do {
         out2 \<leftarrow> exec env (list_cryptparts_cmd '' crypt$'' ''LVM2_member'' ''/dev/mapper/'') False;
         (found2, info3) \<leftarrow> check_cryptparts env name note_lvm (make_multiline out2 False newline_char) info2;
         if found2 then ret (True, info3)
         else do {
           out3 \<leftarrow> exec env (list_cryptparts_cmd ''part'' ''crypto_luks'' ''/dev/'') False;
           (found3, info4) \<leftarrow> check_cryptparts env name (note_luks_uuid env) (make_multiline out3 False newline_char) info3;
           if found3 then ret (True, info4) else ret (True, info4)
         }
       }
     }
   }"


end
