(* ===== verification/Cpu.thy ===== *)
theory Cpu
  imports Main "HOL-Library.Word"
begin

section \<open>Instruction set levels (gucc/src/cpu.cpp)\<close>

text \<open>
  Which x86-64 levels the processor supports, from the registers that cpuid and xgetbv return: 32-bit and
  64-bit words.  What the instructions return is the parameter \<open>cpu\<close>.  The features are
  computed once and kept in a static variable, whose initial value is a flag that no computation sets.
\<close>

unbundle bit_operations_syntax

record cpuid_regs =
  reg_eax :: "32 word"
  reg_ebx :: "32 word"
  reg_ecx :: "32 word"
  reg_edx :: "32 word"

text \<open>
  \<open>cpu_id\<close> is cpuid by leaf and subleaf, \<open>cpu_xgetbv\<close> the two registers of xgetbv as \<^verbatim>\<open>(edx, eax)\<close>,
  \<open>cpu_amd64\<close> whether the build is for amd64, \<open>cpu_machine\<close> the machine name of uname.
\<close>

record cpu =
  cpu_id :: "32 word \<Rightarrow> 32 word \<Rightarrow> cpuid_regs"
  cpu_xgetbv :: "32 word \<times> 32 word"
  cpu_amd64 :: bool
  cpu_machine :: string

definition xgetbv :: "cpu \<Rightarrow> 64 word" where
  "xgetbv c = (case cpu_xgetbv c of (edx, eax) \<Rightarrow> push_bit 32 (ucast edx :: 64 word) OR (ucast eax :: 64 word))"

subsection \<open>Features\<close>

definition SSE2 :: "32 word" where "SSE2 = push_bit 0 1"
definition SSSE3 :: "32 word" where "SSSE3 = push_bit 1 1"
definition SSE41 :: "32 word" where "SSE41 = push_bit 2 1"
definition SSE42 :: "32 word" where "SSE42 = push_bit 3 1"
definition AVX :: "32 word" where "AVX = push_bit 4 1"
definition AVX2 :: "32 word" where "AVX2 = push_bit 5 1"
definition AVX512F :: "32 word" where "AVX512F = push_bit 6 1"
definition AVX512BW :: "32 word" where "AVX512BW = push_bit 7 1"
definition AVX512CD :: "32 word" where "AVX512CD = push_bit 8 1"
definition AVX512DQ :: "32 word" where "AVX512DQ = push_bit 9 1"
definition AVX512VL :: "32 word" where "AVX512VL = push_bit 10 1"
definition UNDEFINED :: "32 word" where "UNDEFINED = push_bit 30 1"

definition reg_has :: "32 word \<Rightarrow> nat \<Rightarrow> bool" where
  "reg_has reg n \<longleftrightarrow> reg AND push_bit n 1 \<noteq> 0"

definition set_if :: "bool \<Rightarrow> 32 word \<Rightarrow> 32 word \<Rightarrow> 32 word" where
  "set_if c flag features = (if c then features OR flag else features)"

definition detect_features :: "cpu \<Rightarrow> 32 word" where
  "detect_features c =
     (let max_id = sint (reg_eax (cpu_id c 0 0));
          regs = cpu_id c 1 0;
          ecx = reg_ecx regs;
          f1 = set_if (cpu_amd64 c \<or> reg_has (reg_edx regs) 26) SSE2 0;
          f2 = set_if (reg_has ecx 0) SSSE3 f1;
          f3 = set_if (reg_has ecx 19) SSE41 f2;
          f4 = set_if (reg_has ecx 20) SSE42 f3
      in if \<not> reg_has ecx 27 then f4
         else
           (let mask = xgetbv c in
            if mask AND 6 \<noteq> 6 then f4
            else
              (let f5 = set_if (reg_has ecx 28) AVX f4 in
               if \<not> 7 \<le> max_id then f5
               else
                 (let ebx = reg_ebx (cpu_id c 7 0);
                      f6 = set_if (reg_has ebx 5) AVX2 f5
                  in if mask AND 224 \<noteq> 224 then f6
                     else
                       (let f7 = set_if (reg_has ebx 31) AVX512VL f6;
                            f8 = set_if (reg_has ebx 16) AVX512F f7;
                            f9 = set_if (reg_has ebx 30) AVX512BW f8;
                            f10 = set_if (reg_has ebx 28) AVX512CD f9
                        in set_if (reg_has ebx 17) AVX512DQ f10)))))"

text \<open>The static variable is passed in and out.\<close>

definition get_cpu_features :: "cpu \<Rightarrow> 32 word \<Rightarrow> 32 word \<times> 32 word" where
  "get_cpu_features c g_cpu_features =
     (if g_cpu_features \<noteq> UNDEFINED then (g_cpu_features, g_cpu_features)
      else (let features = detect_features c in (features, features)))"

definition has_feature :: "32 word \<Rightarrow> 32 word \<Rightarrow> bool" where
  "has_feature features flag \<longleftrightarrow> features AND flag \<noteq> 0"

subsection \<open>Levels\<close>

definition isa_levels_of :: "string \<Rightarrow> 32 word \<Rightarrow> string list" where
  "isa_levels_of machine_name features =
     (let supports_v2 = has_feature features SSSE3 \<and> has_feature features SSE41 \<and> has_feature features SSE42;
          supports_v3 = supports_v2 \<and> has_feature features AVX \<and> has_feature features AVX2;
          supports_v4 = supports_v3 \<and> has_feature features AVX512F \<and> has_feature features AVX512VL \<and>
            has_feature features AVX512BW \<and> has_feature features AVX512CD \<and> has_feature features AVX512DQ
      in [machine_name]
         @ (if supports_v2 then [''x86_64_v2''] else [])
         @ (if supports_v3 then [''x86_64_v3''] else [])
         @ (if supports_v4 then [''x86_64_v4''] else []))"

definition get_isa_levels :: "cpu \<Rightarrow> 32 word \<Rightarrow> string list \<times> 32 word" where
  "get_isa_levels c g_cpu_features =
     (case get_cpu_features c g_cpu_features of
        (features, cache) \<Rightarrow> (isa_levels_of (cpu_machine c) features, cache))"

subsection \<open>Lemmas on the flags\<close>

lemma reg_has_bit: "reg_has r n \<longleftrightarrow> bit r n"
  by (simp add: reg_has_def bit_iff_and_push_bit_not_eq_0)

lemma has_feature_bit: "has_feature f (push_bit n 1) \<longleftrightarrow> bit f n"
  by (simp add: has_feature_def bit_iff_and_push_bit_not_eq_0)

lemma bit_set_if: "k < 32 \<Longrightarrow> bit (set_if c (push_bit k 1) f) n \<longleftrightarrow> bit f n \<or> (c \<and> n = k)"
  by (auto simp: set_if_def bit_or_iff bit_exp_iff possible_bit_word)

lemmas flag_defs = SSE2_def SSSE3_def SSE41_def SSE42_def AVX_def AVX2_def AVX512F_def AVX512BW_def
  AVX512CD_def AVX512DQ_def AVX512VL_def UNDEFINED_def

definition os_saves_avx :: "cpu \<Rightarrow> bool" where
  "os_saves_avx c \<longleftrightarrow> bit (reg_ecx (cpu_id c 1 0)) 27 \<and> xgetbv c AND 6 = 6"

definition leaf7_ebx :: "cpu \<Rightarrow> nat \<Rightarrow> bool" where
  "leaf7_ebx c n \<longleftrightarrow> os_saves_avx c \<and> 7 \<le> sint (reg_eax (cpu_id c 0 0)) \<and> bit (reg_ebx (cpu_id c 7 0)) n"

lemma set_if_False [simp]: "set_if False flag f = f"
  by (simp add: set_if_def)

lemma detect_features_chain:
  "detect_features c =
     (let wide = (xgetbv c AND 224 = 224) in
      set_if (wide \<and> leaf7_ebx c 17) AVX512DQ (set_if (wide \<and> leaf7_ebx c 28) AVX512CD
      (set_if (wide \<and> leaf7_ebx c 30) AVX512BW (set_if (wide \<and> leaf7_ebx c 16) AVX512F
      (set_if (wide \<and> leaf7_ebx c 31) AVX512VL (set_if (leaf7_ebx c 5) AVX2
      (set_if (os_saves_avx c \<and> bit (reg_ecx (cpu_id c 1 0)) 28) AVX
      (set_if (bit (reg_ecx (cpu_id c 1 0)) 20) SSE42 (set_if (bit (reg_ecx (cpu_id c 1 0)) 19) SSE41
      (set_if (bit (reg_ecx (cpu_id c 1 0)) 0) SSSE3
      (set_if (cpu_amd64 c \<or> bit (reg_edx (cpu_id c 1 0)) 26) SSE2 0)))))))))))"
proof (cases "bit (reg_ecx (cpu_id c 1 0)) 27 \<and> xgetbv c AND 6 = 6")
  case False
  then show ?thesis
    unfolding detect_features_def Let_def reg_has_bit os_saves_avx_def leaf7_ebx_def by auto
next
  case True
  then show ?thesis
    unfolding detect_features_def Let_def reg_has_bit os_saves_avx_def leaf7_ebx_def by auto
qed

lemma detect_features_bits:
  "bit (detect_features c) n \<longleftrightarrow>
     n = 0 \<and> (cpu_amd64 c \<or> bit (reg_edx (cpu_id c 1 0)) 26) \<or>
     n = 1 \<and> bit (reg_ecx (cpu_id c 1 0)) 0 \<or> n = 2 \<and> bit (reg_ecx (cpu_id c 1 0)) 19 \<or>
     n = 3 \<and> bit (reg_ecx (cpu_id c 1 0)) 20 \<or>
     n = 4 \<and> os_saves_avx c \<and> bit (reg_ecx (cpu_id c 1 0)) 28 \<or>
     n = 5 \<and> leaf7_ebx c 5 \<or>
     xgetbv c AND 224 = 224 \<and>
       (n = 6 \<and> leaf7_ebx c 16 \<or> n = 7 \<and> leaf7_ebx c 30 \<or> n = 8 \<and> leaf7_ebx c 28 \<or>
        n = 9 \<and> leaf7_ebx c 17 \<or> n = 10 \<and> leaf7_ebx c 31)"
  unfolding detect_features_chain Let_def flag_defs by (simp only: bit_set_if) (auto simp: bit_set_if)

lemma detect_features_defined: "detect_features c \<noteq> UNDEFINED"
proof
  assume "detect_features c = UNDEFINED"
  then have "bit (detect_features c) 30" by (simp add: UNDEFINED_def bit_exp_iff possible_bit_word)
  then show False unfolding detect_features_bits by simp
qed

lemma detected_flags:
  "has_feature (detect_features c) SSSE3 \<longleftrightarrow> bit (reg_ecx (cpu_id c 1 0)) 0"
  "has_feature (detect_features c) SSE41 \<longleftrightarrow> bit (reg_ecx (cpu_id c 1 0)) 19"
  "has_feature (detect_features c) SSE42 \<longleftrightarrow> bit (reg_ecx (cpu_id c 1 0)) 20"
  "has_feature (detect_features c) AVX \<longleftrightarrow> os_saves_avx c \<and> bit (reg_ecx (cpu_id c 1 0)) 28"
  "has_feature (detect_features c) AVX2 \<longleftrightarrow> leaf7_ebx c 5"
  "has_feature (detect_features c) AVX512F \<longleftrightarrow> xgetbv c AND 224 = 224 \<and> leaf7_ebx c 16"
  "has_feature (detect_features c) AVX512BW \<longleftrightarrow> xgetbv c AND 224 = 224 \<and> leaf7_ebx c 30"
  "has_feature (detect_features c) AVX512CD \<longleftrightarrow> xgetbv c AND 224 = 224 \<and> leaf7_ebx c 28"
  "has_feature (detect_features c) AVX512DQ \<longleftrightarrow> xgetbv c AND 224 = 224 \<and> leaf7_ebx c 17"
  "has_feature (detect_features c) AVX512VL \<longleftrightarrow> xgetbv c AND 224 = 224 \<and> leaf7_ebx c 31"
  unfolding flag_defs has_feature_bit detect_features_bits by simp_all

lemma level_chain:
  "(v3 \<Longrightarrow> v2) \<Longrightarrow> (v4 \<Longrightarrow> v3) \<Longrightarrow>
   [m] @ (if v2 then [a] else []) @ (if v3 then [b] else []) @ (if v4 then [d] else []) =
   m # take (if v4 then 3 else if v3 then 2 else if v2 then 1 else 0) [a, b, d]"
  by (cases v2; cases v3; cases v4) auto

lemma isa_levels_of_chain:
  "isa_levels_of m f =
     (let v2 = has_feature f SSSE3 \<and> has_feature f SSE41 \<and> has_feature f SSE42;
          v3 = v2 \<and> has_feature f AVX \<and> has_feature f AVX2;
          v4 = v3 \<and> has_feature f AVX512F \<and> has_feature f AVX512VL \<and>
            has_feature f AVX512BW \<and> has_feature f AVX512CD \<and> has_feature f AVX512DQ
      in m # take (if v4 then 3 else if v3 then 2 else if v2 then 1 else 0)
           [''x86_64_v2'', ''x86_64_v3'', ''x86_64_v4''])"
  unfolding isa_levels_of_def Let_def by (rule level_chain) blast+

subsection \<open>Properties\<close>

text \<open>C19. The levels are the machine name and then an initial piece of the chain v2, v3, v4, decided by these bits: v2 by bits 0, 19
  and 20 of the third register of leaf 1; v3 by v2, the AVX bit, state saving enabled by the system, and bit 5 of leaf 7;
  v4 by v3, the wide state components and bits 16, 17, 28, 30 and 31 of leaf 7.  (Bit 0 is SSE3; SSSE3, which the level needs, is bit 9 and is
  not looked at.)\<close>

theorem isa_levels_bits:
  "fst (get_isa_levels c UNDEFINED) =
     (let ecx = reg_ecx (cpu_id c 1 0);
          v2 = bit ecx 0 \<and> bit ecx 19 \<and> bit ecx 20;
          v3 = v2 \<and> os_saves_avx c \<and> bit ecx 28 \<and> leaf7_ebx c 5;
          v4 = v3 \<and> xgetbv c AND 224 = 224 \<and> leaf7_ebx c 16 \<and> leaf7_ebx c 17 \<and> leaf7_ebx c 28 \<and>
            leaf7_ebx c 30 \<and> leaf7_ebx c 31
      in cpu_machine c # take (if v4 then 3 else if v3 then 2 else if v2 then 1 else 0)
           [''x86_64_v2'', ''x86_64_v3'', ''x86_64_v4''])"
proof -
  have f: "fst (get_isa_levels c UNDEFINED) = isa_levels_of (cpu_machine c) (detect_features c)"
    by (simp add: get_isa_levels_def get_cpu_features_def Let_def)
  show ?thesis
    unfolding f isa_levels_of_chain Let_def detected_flags
    by (simp only: conj_ac conj_absorb conj_left_absorb)
qed

text \<open>The features are computed at most once: the first call leaves a value that the second returns
  unchanged, whatever the processor would then say.\<close>

theorem features_cached:
  "get_isa_levels c' (snd (get_isa_levels c UNDEFINED)) =
     (cpu_machine c' # tl (fst (get_isa_levels c UNDEFINED)), snd (get_isa_levels c UNDEFINED))"
  using detect_features_defined [of c]
  by (simp add: get_isa_levels_def get_cpu_features_def isa_levels_of_def Let_def)

text \<open>Hence two processors that differ in bit 9 alone, with and without SSSE3, get the same levels.\<close>

lemma bit_flip9: "n \<noteq> 9 \<Longrightarrow> bit (x XOR 512 :: 32 word) n \<longleftrightarrow> bit x n"
proof -
  assume "n \<noteq> 9"
  moreover have "(512 :: 32 word) = 2 ^ 9" by simp
  ultimately show ?thesis by (simp only: bit_xor_iff bit_exp_iff) simp
qed

lemma isa_levels_ignore_ssse3:
  assumes "\<And>l s. cpu_id d l s = (if l = 1 then (cpu_id c l s)\<lparr>reg_ecx := reg_ecx (cpu_id c l s) XOR push_bit 9 1\<rparr> else cpu_id c l s)"
    and "cpu_xgetbv d = cpu_xgetbv c" "cpu_machine d = cpu_machine c"
  shows "fst (get_isa_levels d UNDEFINED) = fst (get_isa_levels c UNDEFINED)"
proof -
  have x: "xgetbv d = xgetbv c" using assms(2) by (simp add: xgetbv_def)
  have e: "bit (reg_ecx (cpu_id d 1 0)) 0 \<longleftrightarrow> bit (reg_ecx (cpu_id c 1 0)) 0"
    "bit (reg_ecx (cpu_id d 1 0)) 19 \<longleftrightarrow> bit (reg_ecx (cpu_id c 1 0)) 19"
    "bit (reg_ecx (cpu_id d 1 0)) 20 \<longleftrightarrow> bit (reg_ecx (cpu_id c 1 0)) 20"
    "bit (reg_ecx (cpu_id d 1 0)) 28 \<longleftrightarrow> bit (reg_ecx (cpu_id c 1 0)) 28"
    by (simp_all add: assms(1) bit_flip9)
  have l: "leaf7_ebx d n \<longleftrightarrow> leaf7_ebx c n" "os_saves_avx d \<longleftrightarrow> os_saves_avx c" for n
    by (simp_all add: leaf7_ebx_def os_saves_avx_def x assms(1) bit_flip9)
  show ?thesis by (simp only: isa_levels_bits Let_def e l x assms(3))
qed

end
