(* ===== verification/Repos.thy ===== *)
theory Repos
  imports Plan Cpu
begin

section \<open>Package repositories (gucc/src/pacmanconf_repo.cpp, gucc/src/repos.cpp)\<close>

text \<open>
  Putting repositories in front of the configured ones, listing the configured ones, and the choice of the
  CachyOS repositories for the processor.  The insertion searches the text of the first repository line
  from the beginning of the file and inserts one character before it; at the very beginning that position wraps
  around and the insertion throws, which ends the process.
\<close>

subsection \<open>pacman.conf\<close>

definition is_repo_line :: "string \<Rightarrow> bool" where
  "is_repo_line line \<longleftrightarrow>
     line \<noteq> '''' \<and> \<not> starts_with line ''#'' \<and> starts_with line ''['' \<and> \<not> starts_with line ''[options]''"

definition push_repos_front :: "'m sysenv \<Rightarrow> string \<Rightarrow> string \<Rightarrow> ('m, bool) io" where
  "push_repos_front env file_path val = do {
     file_content \<leftarrow> read_whole_file file_path;
     if file_content = '''' then ret False
     else
       (let lines = make_split_view file_content newline_char in
        case find_index is_repo_line lines of
          None \<Rightarrow> ret False
        | Some i \<Rightarrow>
            (case find_sub (lines ! i) file_content of
               Some (Suc p) \<Rightarrow> do {
                 opened \<leftarrow> create_file_for_overwrite env file_path
                   (take p file_content @ [newline_char] @ val @ [newline_char] @ drop p file_content);
                 if \<not> opened then ret False else ret True
               }
             | _ \<Rightarrow> terminate False))
   }"

definition repo_lines :: "string \<Rightarrow> string list" where
  "repo_lines file_content = filter is_repo_line (views_split newline_char file_content)"

definition get_repo_list :: "string \<Rightarrow> ('m, string list) io" where
  "get_repo_list file_path = do {
     file_content \<leftarrow> read_whole_file file_path;
     if file_content = '''' then ret [] else ret (repo_lines file_content)
   }"

subsection \<open>Architecture-specific repositories\<close>

definition CACHYOS_V1_REPO_STR :: string where
  "CACHYOS_V1_REPO_STR = ''\<newline>[cachyos]\<newline>Include = /etc/pacman.d/cachyos-mirrorlist\<newline>''"

definition CACHYOS_V3_REPO_STR :: string where
  "CACHYOS_V3_REPO_STR = ''\<newline>[cachyos-v3]\<newline>Include = /etc/pacman.d/cachyos-v3-mirrorlist\<newline>[cachyos-core-v3]\<newline>Include = /etc/pacman.d/cachyos-v3-mirrorlist\<newline>[cachyos-extra-v3]\<newline>Include = /etc/pacman.d/cachyos-v3-mirrorlist\<newline>''"

definition CACHYOS_V4_REPO_STR :: string where
  "CACHYOS_V4_REPO_STR = ''\<newline>[cachyos-v4]\<newline>Include = /etc/pacman.d/cachyos-v4-mirrorlist\<newline>[cachyos-core-v4]\<newline>Include = /etc/pacman.d/cachyos-v4-mirrorlist\<newline>[cachyos-extra-v4]\<newline>Include = /etc/pacman.d/cachyos-v4-mirrorlist\<newline>''"

definition CACHYOS_ZNVER4_REPO_STR :: string where
  "CACHYOS_ZNVER4_REPO_STR = ''\<newline>[cachyos-znver4]\<newline>Include = /etc/pacman.d/cachyos-v4-mirrorlist\<newline>[cachyos-core-znver4]\<newline>Include = /etc/pacman.d/cachyos-v4-mirrorlist\<newline>[cachyos-extra-znver4]\<newline>Include = /etc/pacman.d/cachyos-v4-mirrorlist\<newline>''"

abbreviation pacman_conf :: string where "pacman_conf \<equiv> ''/etc/pacman.conf''"
abbreviation pacman_conf_cachyos :: string where "pacman_conf_cachyos \<equiv> ''./pacman.conf''"
abbreviation pacman_conf_path_backup :: string where "pacman_conf_path_backup \<equiv> ''/etc/pacman.conf.bak''"

definition add_arch_specific_repo ::
  "'m sysenv \<Rightarrow> string \<Rightarrow> string \<Rightarrow> string list \<Rightarrow> string \<Rightarrow> ('m, bool) io" where
  "add_arch_specific_repo env isa_level repo_name isa_levels repos_data =
     (if isa_level \<notin> set isa_levels then ret True
      else do {
        repo_list \<leftarrow> get_repo_list pacman_conf;
        if ''['' @ repo_name @ '']'' \<in> set repo_list then ret True
        else do {
          copied \<leftarrow> copy_file env pacman_conf pacman_conf_cachyos;
          if \<not> copied then ret False
          else do {
            pushed \<leftarrow> push_repos_front env pacman_conf_cachyos repos_data;
            backed_up \<leftarrow> rename_file env pacman_conf pacman_conf_path_backup;
            if \<not> backed_up then ret False
            else do {
              moved \<leftarrow> rename_file env pacman_conf_cachyos pacman_conf;
              if \<not> moved then ret False else ret True
            }
          }
        }
      })"

definition znver_check_cmd :: string where
  "znver_check_cmd =
     (''gcc -march=native -Q --help=target 2>&1 | head -n 35 | grep -E '' @ squote @ ''(znver4|znver5)'' @ squote
      @ '' > /dev/null'')"

definition check_supported_znver45 :: "'m sysenv \<Rightarrow> ('m, bool) io" where
  "check_supported_znver45 env = exec_checked env znver_check_cmd"

definition oracle_check_cmd :: string where
  "oracle_check_cmd = ''systemd-detect-virt | grep -q oracle''"

text \<open>The choice of the ISA-specific repositories, once the base repository is there.\<close>

definition install_isa_repos :: "'m sysenv \<Rightarrow> string list \<Rightarrow> ('m, bool) io" where
  "install_isa_repos env isa_levels = do {
     oracle \<leftarrow> exec_checked env oracle_check_cmd;
     if oracle then ret True
     else do {
       znver \<leftarrow> check_supported_znver45 env;
       if znver then do {
         ok \<leftarrow> add_arch_specific_repo env ''x86_64_v4'' ''cachyos-znver4'' isa_levels CACHYOS_ZNVER4_REPO_STR;
         if \<not> ok then ret False else ret True
       }
       else if ''x86_64_v4'' \<in> set isa_levels then do {
         ok \<leftarrow> add_arch_specific_repo env ''x86_64_v4'' ''cachyos-v4'' isa_levels CACHYOS_V4_REPO_STR;
         if \<not> ok then ret False else ret True
       }
       else if ''x86_64_v3'' \<in> set isa_levels then do {
         ok \<leftarrow> add_arch_specific_repo env ''x86_64_v3'' ''cachyos-v3'' isa_levels CACHYOS_V3_REPO_STR;
         if \<not> ok then ret False else ret True
       }
       else ret True
     }
   }"

definition install_cachyos_repos :: "'m sysenv \<Rightarrow> cpu \<Rightarrow> 32 word \<Rightarrow> ('m, bool) io" where
  "install_cachyos_repos env c g_cpu_features = do {
     received \<leftarrow> exec_checked env ''pacman-key --recv-keys F3B607488DB35A47 --keyserver keyserver.ubuntu.com 2>>/tmp/cachyos-install.log &>/dev/null'';
     if \<not> received then ret False
     else do {
       signed \<leftarrow> exec_checked env ''pacman-key --lsign-key F3B607488DB35A47 2>>/tmp/cachyos-install.log &>/dev/null'';
       if \<not> signed then ret False
       else do {
         let isa_levels = fst (get_isa_levels c g_cpu_features);
         base_ok \<leftarrow> add_arch_specific_repo env ''x86_64'' ''cachyos'' isa_levels CACHYOS_V1_REPO_STR;
         if \<not> base_ok then ret False else install_isa_repos env isa_levels
       }
     }
   }"

subsection \<open>Lemmas on the insertion\<close>

lemma prefix_before_delim:
  assumes "prefix n (drop j (a @ d # t))" "j \<le> length a" "d \<notin> set n"
  shows "sublist n a"
proof -
  have "prefix n (drop j a @ d # t)" using assms(1,2) by simp
  then have "prefix n (drop j a)"
    using assms(3) by (auto simp: prefix_append prefix_Cons)
  then show ?thesis by (metis append_take_drop_id prefix_def sublist_appendI)
qed

lemma find_sub_after_delim:
  assumes "\<not> sublist n a" "d \<notin> set n" "prefix n t"
  shows "find_sub n (a @ d # t) = Some (Suc (length a))"
  unfolding find_sub_Some_iff
  using assms prefix_before_delim [of n _ a d t] by (auto simp: less_Suc_eq_le)

lemma find_index_append:
  "(\<forall>x\<in>set xs. \<not> P x) \<Longrightarrow> P y \<Longrightarrow> find_index P (xs @ y # ys) = Some (length xs)"
  by (induction xs) auto

lemma repo_lines_eq: "repo_lines s = filter is_repo_line (split_pieces newline_char s)"
  by (simp add: repo_lines_def views_split_def is_repo_line_def)

lemma repo_lines_append: "repo_lines (a @ newline_char # b) = repo_lines a @ repo_lines b"
  by (simp add: repo_lines_eq split_pieces_append_delim)

lemma repo_lines_none: "repo_lines a = [] \<Longrightarrow> \<forall>l\<in>set (make_split_view a newline_char). \<not> is_repo_line l"
  by (auto simp: repo_lines_eq make_split_view_eq filter_empty_conv)

lemma make_split_view_line:
  assumes "newline_char \<notin> set line" "line \<noteq> []" "behind = [] \<or> hd behind = newline_char"
  shows "\<exists>rest. make_split_view (line @ behind) newline_char = line # rest"
  using assms
  by (cases behind) (auto simp: make_split_view_delim_free make_split_view_append_delim)

text \<open>The first repository line is behind some text that does not contain it.\<close>

definition repos_at :: "string \<Rightarrow> string \<Rightarrow> string \<Rightarrow> string \<Rightarrow> bool" where
  "repos_at content before line behind \<longleftrightarrow>
     content = before @ newline_char # line @ behind \<and> is_repo_line line \<and> newline_char \<notin> set line \<and>
     (behind = [] \<or> hd behind = newline_char) \<and> repo_lines before = [] \<and> \<not> sublist line before"

lemma run_push_repos_front:
  assumes "status w = Running" "files (host w) path = Some content" "repos_at content before line behind"
    and "can_open_out env path (host w)"
  shows "run_state (push_repos_front env path val) w =
    (let content' = before @ newline_char # val @ newline_char # newline_char # line @ behind in
     (True, w\<lparr>host := store_file path content' (host w), trace := trace w @ [WriteFile path content']\<rparr>))"
proof -
  have c: "content = before @ newline_char # line @ behind" and l: "is_repo_line line" "newline_char \<notin> set line"
    and b: "behind = [] \<or> hd behind = newline_char" and n: "repo_lines before = []" "\<not> sublist line before"
    using assms(3) by (auto simp: repos_at_def)
  have ne: "line \<noteq> []" using l(1) by (simp add: is_repo_line_def)
  obtain rest where rest: "make_split_view (line @ behind) newline_char = line # rest"
    using make_split_view_line [OF l(2) ne b] by blast
  let ?before = "make_split_view before newline_char"
  have lines: "make_split_view content newline_char = ?before @ line # rest"
    by (simp add: c make_split_view_append_delim rest)
  have idx: "find_index is_repo_line (?before @ line # rest) = Some (length ?before)"
    using repo_lines_none [OF n(1)] l(1) by (rule find_index_append)
  have pos: "find_sub line content = Some (Suc (length before))"
    unfolding c by (rule find_sub_after_delim [OF n(2) l(2)]) simp
  have "content \<noteq> []" by (simp add: c)
  with assms(1,2,4) show ?thesis
    by (simp add: push_repos_front_def run_read_whole_file lines idx pos Let_def run_create_file)
      (simp add: c)
qed

subsection \<open>Properties\<close>

text \<open>C13. If the first repository line is not the first line of the file and its text does not occur earlier, pushing
  repositories puts them in front: the file then lists the pushed repositories followed by the ones it listed before.\<close>

theorem push_repos_front_lists:
  assumes "status w = Running" "files (host w) path = Some content" "repos_at content before line behind"
    and "can_open_out env path (host w)" "run_state (push_repos_front env path val) w = (ok, w')"
  shows "ok \<and> (\<exists>content'. files (host w') = (files (host w))(path \<mapsto> content') \<and>
    repo_lines content' = repo_lines val @ repo_lines content)"
proof -
  let ?content' = "before @ newline_char # val @ newline_char # newline_char # line @ behind"
  have "repo_lines content = repo_lines before @ repo_lines (line @ behind)"
    using assms(3) repo_lines_append [of before "line @ behind"] by (simp add: repos_at_def)
  moreover have "repo_lines ?content' = repo_lines before @ repo_lines val @ repo_lines [] @ repo_lines (line @ behind)"
    using repo_lines_append [of before "val @ newline_char # newline_char # line @ behind"]
      repo_lines_append [of val "newline_char # line @ behind"] repo_lines_append [of "[]" "line @ behind"] by simp
  moreover have "repo_lines before = []" "repo_lines [] = []"
    using assms(3) by (simp_all add: repos_at_def repo_lines_def views_split_def)
  ultimately have lists: "repo_lines ?content' = repo_lines val @ repo_lines content" by simp
  have "ok \<and> files (host w') = (files (host w))(path \<mapsto> ?content')"
    using run_push_repos_front [OF assms(1-4), of val] assms(5) by (simp add: Let_def)
  with lists show ?thesis by blast
qed

definition sample_pacman_conf :: string where
  "sample_pacman_conf = ''[options]\<newline>HoldPkg = pacman\<newline>[core]\<newline>Include = /etc/pacman.d/mirrorlist\<newline>''"

lemma sample_repos_at:
  "repos_at sample_pacman_conf ''[options]\<newline>HoldPkg = pacman'' ''[core]'' ''\<newline>Include = /etc/pacman.d/mirrorlist\<newline>''"
proof -
  have "\<not> sublist ''[core]'' ''[options]\<newline>HoldPkg = pacman''"
    unfolding find_sub_None_iff [symmetric] by simp
  then show ?thesis
    by (simp add: repos_at_def sample_pacman_conf_def is_repo_line_def repo_lines_def views_split_def)
qed

theorem push_repos_front_lists_witness:
  "fst (run_state (push_repos_front quiet_env ''./pacman.conf'' CACHYOS_V1_REPO_STR)
    (world_of [(''./pacman.conf'', sample_pacman_conf)]))"
proof -
  have f: "files (host (world_of [(''./pacman.conf'', sample_pacman_conf)])) ''./pacman.conf'' = Some sample_pacman_conf"
    by simp
  have o: "can_open_out quiet_env ''./pacman.conf'' (host (world_of [(''./pacman.conf'', sample_pacman_conf)]))"
    by (simp add: quiet_env_def)
  show ?thesis
    using push_repos_front_lists [OF world_of_simps(1) f sample_repos_at o surjective_pairing] by blast
qed

text \<open>A file that begins with a repository line ends the process: the insertion position wraps around and the
  string throws inside a function declared not to.\<close>

theorem push_repos_front_terminates:
  assumes "status w = Running" "files (host w) path = Some (line @ behind)" "is_repo_line line" "newline_char \<notin> set line"
    and "behind = [] \<or> hd behind = newline_char"
  shows "run_state (push_repos_front env path val) w = (False, w\<lparr>status := Terminated\<rparr>)"
proof -
  have ne: "line \<noteq> []" using assms(3) by (simp add: is_repo_line_def)
  obtain rest where rest: "make_split_view (line @ behind) newline_char = line # rest"
    using make_split_view_line [OF assms(4) ne assms(5)] by blast
  have pos: "find_sub line (line @ behind) = Some 0"
    unfolding find_sub_Some_iff by simp
  show ?thesis
    using assms(1-3) ne
    by (simp add: push_repos_front_def run_read_whole_file rest Let_def pos terminate_def halt_def)
qed

theorem push_repos_front_terminates_witness:
  "run_state (push_repos_front quiet_env ''./pacman.conf'' CACHYOS_V1_REPO_STR)
     (world_of [(''./pacman.conf'', ''[core]'' @ ''\<newline>Server = x\<newline>'')]) =
   (False, (world_of [(''./pacman.conf'', ''[core]'' @ ''\<newline>Server = x\<newline>'')])\<lparr>status := Terminated\<rparr>)"
  by (rule push_repos_front_terminates [where line = "''[core]''" and behind = "''\<newline>Server = x\<newline>''"])
    (simp_all add: is_repo_line_def)

text \<open>What the file system promises of a copy and of a rename that report success.\<close>

definition posix_copy_rename :: "'m sysenv \<Rightarrow> bool" where
  "posix_copy_rename env \<longleftrightarrow>
     (\<forall>a b h h'. copy_call env a b h = (True, h') \<longrightarrow>
        (\<exists>d. files h a = Some d \<and> files h' = (files h)(b \<mapsto> d))) \<and>
     (\<forall>a b h h'. rename_call env a b h = (True, h') \<longrightarrow>
        (\<exists>d. files h a = Some d \<and> files h' = ((files h)(a := None))(b \<mapsto> d)))"

lemma run_copy_file:
  assumes "status w = Running" "run_state (copy_file env a b) w = (True, w1)" "posix_copy_rename env"
  shows "status w1 = Running \<and> (\<exists>d. files (host w) a = Some d \<and> files (host w1) = (files (host w))(b \<mapsto> d))"
  using assms unfolding posix_copy_rename_def
  by (cases "copy_call env a b (host w)") (auto simp: copy_file_def perform_def)

lemma run_rename_file:
  assumes "status w = Running" "run_state (rename_file env a b) w = (True, w1)" "posix_copy_rename env"
  shows "status w1 = Running \<and>
    (\<exists>d. files (host w) a = Some d \<and> files (host w1) = ((files (host w))(a := None))(b \<mapsto> d))"
  using assms unfolding posix_copy_rename_def
  by (cases "rename_call env a b (host w)") (auto simp: rename_file_def perform_def)

text \<open>A supported repository that is not yet listed: when adding it reports success, the new configuration lists the
  given repositories followed by the old ones, and the old configuration is the backup.\<close>

theorem add_arch_specific_repo_effect:
  assumes "status w = Running" "files (host w) pacman_conf = Some content" "repos_at content before line behind"
    and "isa_level \<in> set isa_levels" "''['' @ repo_name @ '']'' \<notin> set (repo_lines content)"
    and "\<And>h. can_open_out env pacman_conf_cachyos h" "posix_copy_rename env"
    and "run_state (add_arch_specific_repo env isa_level repo_name isa_levels repos_data) w = (True, w')"
  shows "\<exists>content'. files (host w') pacman_conf = Some content' \<and>
    repo_lines content' = repo_lines repos_data @ repo_lines content \<and>
    files (host w') pacman_conf_path_backup = Some content"
proof -
  have ne: "content \<noteq> []" using assms(3) by (auto simp: repos_at_def)
  have repos: "run_state (get_repo_list pacman_conf) w = (repo_lines content, w)"
    using assms(1,2) ne by (simp add: get_repo_list_def run_read_whole_file)
  obtain ok1 w1 where 1: "run_state (copy_file env pacman_conf pacman_conf_cachyos) w = (ok1, w1)"
    by (cases "run_state (copy_file env pacman_conf pacman_conf_cachyos) w") auto
  with assms(4,5,8) repos have "ok1" by (auto simp: add_arch_specific_repo_def split: if_splits)
  with 1 have "run_state (copy_file env pacman_conf pacman_conf_cachyos) w = (True, w1)" by simp
  from run_copy_file [OF assms(1) this assms(7)] assms(2)
  have copied: "status w1 = Running" "files (host w1) = (files (host w))(pacman_conf_cachyos \<mapsto> content)"
    by auto
  obtain ok2 w2 where 2: "run_state (push_repos_front env pacman_conf_cachyos repos_data) w1 = (ok2, w2)"
    by (cases "run_state (push_repos_front env pacman_conf_cachyos repos_data) w1") auto
  have f1: "files (host w1) pacman_conf_cachyos = Some content" using copied(2) by simp
  obtain content' where pushed: "files (host w2) = (files (host w1))(pacman_conf_cachyos \<mapsto> content')"
      "repo_lines content' = repo_lines repos_data @ repo_lines content"
    using push_repos_front_lists [OF copied(1) f1 assms(3) assms(6) 2] by blast
  have st2: "status w2 = Running"
    using run_push_repos_front [OF copied(1) f1 assms(3) assms(6), of repos_data] 2 copied(1) by (auto simp: Let_def)
  obtain ok3 w3 where 3: "run_state (rename_file env pacman_conf pacman_conf_path_backup) w2 = (ok3, w3)"
    by (cases "run_state (rename_file env pacman_conf pacman_conf_path_backup) w2") auto
  obtain ok4 w4 where 4: "run_state (rename_file env pacman_conf_cachyos pacman_conf) w3 = (ok4, w4)"
    by (cases "run_state (rename_file env pacman_conf_cachyos pacman_conf) w3") auto
  have oks: "ok3" "ok4" "w4 = w'"
    using assms(4,5,8) repos 1 \<open>ok1\<close> 2 3 4 by (auto simp: add_arch_specific_repo_def split: if_splits)
  have 3: "status w3 = Running" "files (host w3) = ((files (host w2))(pacman_conf := None))(pacman_conf_path_backup \<mapsto> content)"
    using run_rename_file [OF st2 3 [unfolded eqTrueI [OF oks(1)]] assms(7)] pushed(1) copied(2) assms(2) by auto
  have "files (host w4) = ((files (host w3))(pacman_conf_cachyos := None))(pacman_conf \<mapsto> content')"
    using run_rename_file [OF 3(1) 4 [unfolded eqTrueI [OF oks(2)]] assms(7)] 3(2) pushed(1) by auto
  with oks 3(2) pushed show ?thesis by simp
qed

text \<open>If the compiler reports a Zen 4 or Zen 5 target but the processor was not found to support v4, nothing is added and nothing
  more is requested: the v3 repositories are not tried, also when v3 is supported.\<close>

theorem znver_without_v4_adds_nothing:
  assumes "status w = Running" "''x86_64_v4'' \<notin> set isa_levels"
    and "system_call env oracle_check_cmd (host w) = (rc, h1)" "rc \<noteq> 0"
    and "system_call env znver_check_cmd h1 = (0, h2)"
  shows "run_state (install_isa_repos env isa_levels) w =
    (True, w\<lparr>host := h2, trace := trace w @ [System oracle_check_cmd, System znver_check_cmd]\<rparr>)"
proof -
  let ?w1 = "w\<lparr>host := h1, trace := trace w @ [System oracle_check_cmd]\<rparr>"
  have 1: "run_state (exec_checked env oracle_check_cmd) w = (False, ?w1)"
    using run_exec_checked [OF assms(1,3)] assms(4) by simp
  have 2: "run_state (exec_checked env znver_check_cmd) ?w1 =
      (True, w\<lparr>host := h2, trace := trace w @ [System oracle_check_cmd, System znver_check_cmd]\<rparr>)"
    using run_exec_checked [of ?w1 env znver_check_cmd 0 h2] assms(1,5) by simp
  have skip: "add_arch_specific_repo env ''x86_64_v4'' name isa_levels repos = ret True" for name repos
    using assms(2) by (simp add: add_arch_specific_repo_def)
  show ?thesis
    unfolding install_isa_repos_def check_supported_znver45_def skip by (simp add: 1 2)
qed

theorem znver_without_v4_adds_nothing_witness:
  "run_state (install_isa_repos (quiet_env\<lparr>system_call := (\<lambda>c h. (if c = oracle_check_cmd then 1 else 0, h))\<rparr>)
      [''x86_64'', ''x86_64_v2'', ''x86_64_v3'']) (world_of []) =
    (True, (world_of [])\<lparr>host := host (world_of []),
       trace := trace (world_of []) @ [System oracle_check_cmd, System znver_check_cmd]\<rparr>)"
  by (rule znver_without_v4_adds_nothing [where rc = 1])
    (simp_all add: oracle_check_cmd_def znver_check_cmd_def)

text \<open>An environment whose copies and renames act on the files.\<close>

definition disk_env :: "unit sysenv" where
  "disk_env = quiet_env
     \<lparr>copy_call := (\<lambda>a b h. case files h a of
         None \<Rightarrow> (False, h) | Some d \<Rightarrow> (True, h\<lparr>files := (files h)(b \<mapsto> d)\<rparr>)),
      rename_call := (\<lambda>a b h. case files h a of
         None \<Rightarrow> (False, h) | Some d \<Rightarrow> (True, h\<lparr>files := ((files h)(a := None))(b \<mapsto> d)\<rparr>))\<rparr>"

lemma disk_env_calls:
  "files h a = Some d \<Longrightarrow> copy_call disk_env a b h = (True, h\<lparr>files := (files h)(b \<mapsto> d)\<rparr>)"
  "files h a = Some d \<Longrightarrow> rename_call disk_env a b h = (True, h\<lparr>files := ((files h)(a := None))(b \<mapsto> d)\<rparr>)"
  by (simp_all add: disk_env_def)

lemma posix_disk_env: "posix_copy_rename disk_env"
  by (auto simp: posix_copy_rename_def disk_env_def split: option.splits)

lemma run_disk_copy:
  "status u = Running \<Longrightarrow> files (host u) a = Some d \<Longrightarrow>
   \<exists>u'. run_state (copy_file disk_env a b) u = (True, u') \<and> status u' = Running \<and>
     files (host u') = (files (host u))(b \<mapsto> d)"
  by (simp add: copy_file_def perform_def disk_env_calls)

lemma run_disk_rename:
  "status u = Running \<Longrightarrow> files (host u) a = Some d \<Longrightarrow>
   \<exists>u'. run_state (rename_file disk_env a b) u = (True, u') \<and> status u' = Running \<and>
     files (host u') = ((files (host u))(a := None))(b \<mapsto> d)"
  by (simp add: rename_file_def perform_def disk_env_calls)

lemma add_arch_specific_repo_disk:
  assumes "status w = Running" "files (host w) pacman_conf = Some content" "repos_at content before line behind"
    and "isa_level \<in> set isa_levels" "''['' @ repo_name @ '']'' \<notin> set (repo_lines content)"
  shows "\<exists>w'. run_state (add_arch_specific_repo disk_env isa_level repo_name isa_levels repos_data) w = (True, w')"
proof -
  have ne: "content \<noteq> []" using assms(3) by (auto simp: repos_at_def)
  have repos: "run_state (get_repo_list pacman_conf) w = (repo_lines content, w)"
    using assms(1,2) ne by (simp add: get_repo_list_def run_read_whole_file)
  have o: "can_open_out disk_env pacman_conf_cachyos h" for h by (simp add: disk_env_def quiet_env_def)
  obtain w1 where 1: "run_state (copy_file disk_env pacman_conf pacman_conf_cachyos) w = (True, w1)"
      "status w1 = Running" "files (host w1) = (files (host w))(pacman_conf_cachyos \<mapsto> content)"
    using run_disk_copy [OF assms(1,2)] by blast
  have f1: "files (host w1) pacman_conf_cachyos = Some content" using 1(3) by simp
  obtain c w2 where 2: "run_state (push_repos_front disk_env pacman_conf_cachyos repos_data) w1 = (True, w2)"
      "status w2 = Running" "files (host w2) = (files (host w1))(pacman_conf_cachyos \<mapsto> c)"
    using run_push_repos_front [OF 1(2) f1 assms(3) o, of repos_data] 1(2) by (simp add: Let_def)
  have f2: "files (host w2) pacman_conf = Some content" using 1(3) 2(3) assms(2) by simp
  obtain w3 where 3: "run_state (rename_file disk_env pacman_conf pacman_conf_path_backup) w2 = (True, w3)"
      "status w3 = Running" "files (host w3) = ((files (host w2))(pacman_conf := None))(pacman_conf_path_backup \<mapsto> content)"
    using run_disk_rename [OF 2(2) f2] by blast
  have f3: "files (host w3) pacman_conf_cachyos = Some c" using 2(3) 3(3) by simp
  obtain w4 where 4: "run_state (rename_file disk_env pacman_conf_cachyos pacman_conf) w3 = (True, w4)"
    using run_disk_rename [OF 3(2) f3] by blast
  show ?thesis
    using assms(4,5) repos 1(1) 2(1) 3(1) 4 by (simp add: add_arch_specific_repo_def)
qed

theorem add_arch_specific_repo_effect_witness:
  "\<exists>content'. files (host (snd (run_state
      (add_arch_specific_repo disk_env ''x86_64'' ''cachyos'' [''x86_64''] CACHYOS_V1_REPO_STR)
      (world_of [(pacman_conf, sample_pacman_conf)])))) pacman_conf = Some content' \<and>
    repo_lines content' = repo_lines CACHYOS_V1_REPO_STR @ repo_lines sample_pacman_conf"
proof -
  let ?w = "world_of [(pacman_conf, sample_pacman_conf)]"
  have f: "files (host ?w) pacman_conf = Some sample_pacman_conf" by simp
  have l: "''x86_64'' \<in> set [''x86_64'']" "''['' @ ''cachyos'' @ '']'' \<notin> set (repo_lines sample_pacman_conf)"
    by (simp_all add: repo_lines_def views_split_def sample_pacman_conf_def is_repo_line_def)
  have o: "can_open_out disk_env pacman_conf_cachyos h" for h by (simp add: disk_env_def quiet_env_def)
  obtain w' where r: "run_state (add_arch_specific_repo disk_env ''x86_64'' ''cachyos'' [''x86_64''] CACHYOS_V1_REPO_STR) ?w = (True, w')"
    using add_arch_specific_repo_disk [OF world_of_simps(1) f sample_repos_at l] by blast
  from add_arch_specific_repo_effect [OF world_of_simps(1) f sample_repos_at l o posix_disk_env r] r
  show ?thesis by auto
qed

end
