(* ===== verification/Packages.thy ===== *)
theory Packages
  imports World
begin

section \<open>Package lists (gucc/src/package_list.cpp, package_profiles.cpp, fetch_file.cpp)\<close>

text \<open>
  Fetching the network profiles, reading them, and composing the lists of packages to install.
  The TOML parser is a library: \<open>toml\<close> is the tree it returns and \<open>toml_parse\<close> a parameter.  What
  the code does with a tree of an unexpected shape (a null pointer dereferenced, an
  empty optional read, the end of a range dereferenced) is an error value, told apart from the failures the code reports.
\<close>

subsection \<open>Fetching\<close>

definition FILE_URL_PREFIX :: string where "FILE_URL_PREFIX = ''file://''"

definition fetch_file :: "'m sysenv \<Rightarrow> string \<Rightarrow> ('m, string option) io" where
  "fetch_file env url = do {
     response \<leftarrow> http_request env url;
     (let (status_code, content) = response in
      if http_success env status_code \<or>
         (starts_with url FILE_URL_PREFIX \<and> status_code = 0 \<and> content \<noteq> '''')
      then ret (Some content) else ret None)
   }"

definition fetch_file_from_url :: "'m sysenv \<Rightarrow> string \<Rightarrow> string \<Rightarrow> ('m, string option) io" where
  "fetch_file_from_url env url fallback_url = do {
     fetch_content \<leftarrow> fetch_file env url;
     case fetch_content of
       Some content \<Rightarrow> ret (Some content)
     | None \<Rightarrow> do {
         fetch_content \<leftarrow> fetch_file env fallback_url;
         case fetch_content of Some content \<Rightarrow> ret (Some content) | None \<Rightarrow> ret None
       }
   }"

subsection \<open>Profiles\<close>

datatype toml =
    TomlString string
  | TomlArray "toml list"
  | TomlTable "(string \<times> toml) list"
  | TomlOther

record base_profiles =
  base_packages :: "string list"
  base_desktop_packages :: "string list"

record desktop_profile =
  profile_name :: string
  profile_packages :: "string list"

record net_profiles =
  the_base_profiles :: base_profiles
  desktop_profiles :: "desktop_profile list"

text \<open>\<open>Reported\<close> is the empty optional the functions return; the others leave the defined behaviour of the program.\<close>

datatype profile_error = Reported | NullArray | NullTable | EmptyOptional | EndOfProfiles | DanglingPackage

definition toml_at :: "toml option \<Rightarrow> string \<Rightarrow> toml option" where
  "toml_at node key = (case node of Some (TomlTable kvs) \<Rightarrow> map_of kvs key | _ \<Rightarrow> None)"

fun as_array :: "toml option \<Rightarrow> toml list option" where
  "as_array (Some (TomlArray nodes)) = Some nodes"
| "as_array node = None"

fun as_table :: "toml option \<Rightarrow> (string \<times> toml) list option" where
  "as_table (Some (TomlTable kvs)) = Some kvs"
| "as_table node = None"

fun push_toml_nodes :: "toml list \<Rightarrow> string list \<Rightarrow> profile_error + string list" where
  "push_toml_nodes [] vec = Inr vec"
| "push_toml_nodes (TomlString elem # nodes) vec = push_toml_nodes nodes (vec @ [elem])"
| "push_toml_nodes (node # nodes) vec = Inl EmptyOptional"

definition parse_toml_array :: "toml list option \<Rightarrow> string list \<Rightarrow> profile_error + string list" where
  "parse_toml_array arr vec = (case arr of None \<Rightarrow> Inl NullArray | Some nodes \<Rightarrow> push_toml_nodes nodes vec)"

definition sum_bind :: "'e + 'a \<Rightarrow> ('a \<Rightarrow> 'e + 'b) \<Rightarrow> 'e + 'b" where
  "sum_bind r f = (case r of Inl e \<Rightarrow> Inl e | Inr x \<Rightarrow> f x)"

definition parse_base_tables :: "toml option \<Rightarrow> profile_error + base_profiles" where
  "parse_base_tables table =
     sum_bind (parse_toml_array (as_array (toml_at (toml_at table ''base-packages'') ''packages'')) []) (\<lambda>base.
     sum_bind (parse_toml_array
         (as_array (toml_at (toml_at (toml_at table ''base-packages'') ''desktop'') ''packages'')) []) (\<lambda>desktop.
     Inr \<lparr>base_packages = base, base_desktop_packages = desktop\<rparr>))"

fun parse_desktop_entries ::
  "(string \<times> toml) list \<Rightarrow> desktop_profile list \<Rightarrow> profile_error + desktop_profile list" where
  "parse_desktop_entries [] profiles = Inr profiles"
| "parse_desktop_entries ((key, val) # entries) profiles =
     (case as_table (Some val) of
        None \<Rightarrow> Inl NullTable
      | Some value_table \<Rightarrow>
          sum_bind (parse_toml_array (as_array (map_of value_table ''packages'')) []) (\<lambda>packages.
          parse_desktop_entries entries
            (profiles @ [\<lparr>profile_name = key, profile_packages = packages\<rparr>])))"

definition parse_desktop_tables :: "toml option \<Rightarrow> profile_error + desktop_profile list" where
  "parse_desktop_tables table =
     (case as_table (toml_at table ''desktop'') of
        None \<Rightarrow> Inl NullTable
      | Some entries \<Rightarrow> parse_desktop_entries entries [])"

definition parse_base_profiles ::
  "(string \<Rightarrow> (string \<times> toml) list option) \<Rightarrow> string \<Rightarrow> profile_error + base_profiles" where
  "parse_base_profiles toml_parse config_content =
     (case toml_parse config_content of
        None \<Rightarrow> Inl Reported
      | Some netprof_table \<Rightarrow> parse_base_tables (Some (TomlTable netprof_table)))"

definition parse_desktop_profiles ::
  "(string \<Rightarrow> (string \<times> toml) list option) \<Rightarrow> string \<Rightarrow> profile_error + desktop_profile list" where
  "parse_desktop_profiles toml_parse config_content =
     (case toml_parse config_content of
        None \<Rightarrow> Inl Reported
      | Some netprof_table \<Rightarrow> parse_desktop_tables (Some (TomlTable netprof_table)))"

definition parse_net_profiles ::
  "(string \<Rightarrow> (string \<times> toml) list option) \<Rightarrow> string \<Rightarrow> profile_error + net_profiles" where
  "parse_net_profiles toml_parse config_content =
     (case toml_parse config_content of
        None \<Rightarrow> Inl Reported
      | Some netprof_table \<Rightarrow>
          sum_bind (parse_base_tables (Some (TomlTable netprof_table))) (\<lambda>base.
          sum_bind (parse_desktop_tables (Some (TomlTable netprof_table))) (\<lambda>desktop.
          Inr \<lparr>the_base_profiles = base, desktop_profiles = desktop\<rparr>)))"

subsection \<open>Base packages\<close>

text \<open>
  The list is a vector that the loop appends to while it holds a reference to one of its elements; an append that
  exceeds the capacity moves the elements, and the reference no longer names one.  \<open>grow\<close> is the library's choice of the next
  capacity.
\<close>

type_synonym string_vector = "string list \<times> nat"

definition emplace_back :: "(nat \<Rightarrow> nat) \<Rightarrow> string \<Rightarrow> string_vector \<Rightarrow> string_vector \<times> bool" where
  "emplace_back grow x v =
     (case v of (xs, capacity) \<Rightarrow>
        if length xs < capacity then ((xs @ [x], capacity), False)
        else ((xs @ [x], grow capacity), True))"

fun grown_capacity :: "(nat \<Rightarrow> nat) \<Rightarrow> nat \<Rightarrow> nat" where
  "grown_capacity grow 0 = 0"
| "grown_capacity grow (Suc n) =
     (let capacity = grown_capacity grow n in if n < capacity then capacity else grow capacity)"

fun add_kernel_packages ::
  "(nat \<Rightarrow> nat) \<Rightarrow> bool \<Rightarrow> nat list \<Rightarrow> string_vector \<Rightarrow> profile_error + string_vector" where
  "add_kernel_packages grow is_root_on_zfs [] pkg_list = Inr pkg_list"
| "add_kernel_packages grow is_root_on_zfs (i # is) pkg_list =
     (let pkg = fst pkg_list ! i;
          (pkg_list, moved) = emplace_back grow (pkg @ ''-headers'') pkg_list
      in if is_root_on_zfs
         then (if moved then Inl DanglingPackage
               else if starts_with pkg ''linux-cachyos''
               then add_kernel_packages grow is_root_on_zfs is (fst (emplace_back grow (pkg @ ''-zfs'') pkg_list))
               else add_kernel_packages grow is_root_on_zfs is pkg_list)
         else add_kernel_packages grow is_root_on_zfs is pkg_list)"

record net_profile_info =
  net_profs_url :: string
  net_profs_fallback_url :: string

definition get_pkglist_base ::
  "'m sysenv \<Rightarrow> (nat \<Rightarrow> nat) \<Rightarrow> (string \<Rightarrow> (string \<times> toml) list option) \<Rightarrow> string \<Rightarrow> string \<Rightarrow> bool \<Rightarrow>
   net_profile_info \<Rightarrow> ('m, profile_error + string list) io" where
  "get_pkglist_base env grow toml_parse packages root_filesystem server_mode net_profile_info =
     (if net_profs_url net_profile_info = '''' \<and> net_profs_fallback_url net_profile_info = ''''
      then ret (Inl Reported)
      else
        (let is_root_on_zfs = (root_filesystem = ''zfs'');
             is_root_on_btrfs = (root_filesystem = ''btrfs'');
             is_root_on_bcachefs = (root_filesystem = ''bcachefs'');
             pkgs = make_multiline packages False space_char;
             pkg_count = length pkgs
         in case add_kernel_packages grow is_root_on_zfs [0..<pkg_count] (pkgs, grown_capacity grow pkg_count) of
              Inl e \<Rightarrow> ret (Inl e)
            | Inr (pkg_list, capacity) \<Rightarrow>
                (let pkg_list = pkg_list @ (if is_root_on_zfs then [''zfs-utils''] else []);
                     pkg_list = pkg_list @ (if is_root_on_bcachefs then [''bcachefs-tools''] else [])
                 in do {
                   net_profs_content \<leftarrow> fetch_file_from_url env (net_profs_url net_profile_info)
                     (net_profs_fallback_url net_profile_info);
                   case net_profs_content of
                     None \<Rightarrow> ret (Inl Reported)
                   | Some content \<Rightarrow>
                       (case parse_base_profiles toml_parse content of
                          Inl e \<Rightarrow> ret (Inl e)
                        | Inr base_net_profs \<Rightarrow>
                            ret (Inr (pkg_list @
                              (if \<not> server_mode
                               then (if is_root_on_btrfs then [''snapper'', ''btrfs-assistant-git''] else [])
                                 @ base_desktop_packages base_net_profs
                               else []) @
                              base_packages base_net_profs)))
                 })))"

subsection \<open>Desktop packages\<close>

text \<open>The desktops in the order of the code's branches, and whether each needs the X server.\<close>

definition desktop_choices :: "(string \<times> bool) list" where
  "desktop_choices =
     [(''i3wm'', True), (''sway'', False), (''kde'', True), (''xfce'', True), (''gnome'', True), (''wayfire'', False),
      (''openbox'', True), (''lxqt'', True), (''bspwm'', True), (''cinnamon'', True), (''ukui'', True),
      (''qtile'', True), (''mate'', True), (''lxde'', True), (''hyprland'', False), (''budgie'', True)]"

definition find_profile :: "string \<Rightarrow> desktop_profile list \<Rightarrow> profile_error + desktop_profile" where
  "find_profile name profiles =
     (case find (\<lambda>p. profile_name p = name) profiles of None \<Rightarrow> Inl EndOfProfiles | Some p \<Rightarrow> Inr p)"

fun add_desktops ::
  "desktop_profile list \<Rightarrow> string \<Rightarrow> (string \<times> bool) list \<Rightarrow> string list \<Rightarrow> bool \<Rightarrow>
   profile_error + string list \<times> bool" where
  "add_desktops profiles desktop_env [] pkg_list needed_xorg = Inr (pkg_list, needed_xorg)"
| "add_desktops profiles desktop_env ((name, xorg) # choices) pkg_list needed_xorg =
     (if contains desktop_env name
      then sum_bind (find_profile name profiles) (\<lambda>p.
             add_desktops profiles desktop_env choices (pkg_list @ profile_packages p) (xorg \<or> needed_xorg))
      else add_desktops profiles desktop_env choices pkg_list needed_xorg)"

definition select_desktop_packages :: "desktop_profile list \<Rightarrow> string \<Rightarrow> profile_error + string list" where
  "select_desktop_packages profiles desktop_env =
     sum_bind (add_desktops profiles desktop_env desktop_choices [] False) (\<lambda>(pkg_list, needed_xorg).
       if needed_xorg
       then sum_bind (find_profile ''xorg'' profiles) (\<lambda>p. Inr (pkg_list @ profile_packages p))
       else Inr pkg_list)"

definition get_pkglist_desktop ::
  "'m sysenv \<Rightarrow> (string \<Rightarrow> (string \<times> toml) list option) \<Rightarrow> string \<Rightarrow> net_profile_info \<Rightarrow>
   ('m, profile_error + string list) io" where
  "get_pkglist_desktop env toml_parse desktop_env net_profile_info =
     (if net_profs_url net_profile_info = '''' \<and> net_profs_fallback_url net_profile_info = ''''
      then ret (Inl Reported)
      else do {
        net_profs_content \<leftarrow> fetch_file_from_url env (net_profs_url net_profile_info)
          (net_profs_fallback_url net_profile_info);
        case net_profs_content of
          None \<Rightarrow> ret (Inl Reported)
        | Some content \<Rightarrow>
            (case parse_desktop_profiles toml_parse content of
               Inl e \<Rightarrow> ret (Inl e)
             | Inr desktop_net_profs \<Rightarrow> ret (select_desktop_packages desktop_net_profs desktop_env))
      })"

subsection \<open>Lemmas\<close>

lemma kernel_packages_without_zfs:
  "\<forall>i\<in>set is. i < length xs \<Longrightarrow>
   \<exists>c'. add_kernel_packages grow False is (xs, c) = Inr (xs @ map (\<lambda>i. xs ! i @ ''-headers'') is, c')"
proof (induction "is" arbitrary: xs c)
  case (Cons i rest)
  let ?xs = "xs @ [xs ! i @ ''-headers'']"
  have "\<exists>c'. add_kernel_packages grow False rest (?xs, c2) =
      Inr (?xs @ map (\<lambda>i. ?xs ! i @ ''-headers'') rest, c')" for c2
    using Cons.prems by (intro Cons.IH) auto
  moreover have "map (\<lambda>i. ?xs ! i @ ''-headers'') rest = map (\<lambda>i. xs ! i @ ''-headers'') rest"
    using Cons.prems by (auto simp: nth_append)
  ultimately show ?case by (simp add: emplace_back_def Let_def)
qed simp

text \<open>The packages that ZFS adds for one kernel package.\<close>

definition zfs_expansion :: "string \<Rightarrow> string list" where
  "zfs_expansion pkg =
     [pkg @ ''-headers''] @ (if starts_with pkg ''linux-cachyos'' then [pkg @ ''-zfs''] else [])"

lemma kernel_packages_with_zfs:
  "\<forall>i\<in>set is. i < length xs \<Longrightarrow>
   length xs + length (concat (map (\<lambda>i. zfs_expansion (xs ! i)) is)) \<le> c \<Longrightarrow>
   add_kernel_packages grow True is (xs, c) = Inr (xs @ concat (map (\<lambda>i. zfs_expansion (xs ! i)) is), c)"
proof (induction "is" arbitrary: xs)
  case (Cons i rest)
  let ?xs = "xs @ zfs_expansion (xs ! i)"
  have same: "map (\<lambda>i. zfs_expansion (?xs ! i)) rest = map (\<lambda>i. zfs_expansion (xs ! i)) rest"
    using Cons.prems by (auto simp: nth_append)
  have "add_kernel_packages grow True rest (?xs, c) = Inr (?xs @ concat (map (\<lambda>i. zfs_expansion (?xs ! i)) rest), c)"
    using Cons.prems by (intro Cons.IH) (auto simp: same)
  then show ?case
    unfolding same using Cons.prems by (simp add: emplace_back_def Let_def zfs_expansion_def split: if_splits)
qed simp

lemma map_nth_upt: "map (\<lambda>i. f (xs ! i)) [0..<length xs] = map f xs"
  using map_map [of f "(!) xs" "[0..<length xs]"] by (simp add: comp_def map_nth)

definition server_or_desktop :: "string \<Rightarrow> bool \<Rightarrow> base_profiles \<Rightarrow> string list" where
  "server_or_desktop root_filesystem server_mode base =
     (if server_mode then []
      else (if root_filesystem = ''btrfs'' then [''snapper'', ''btrfs-assistant-git''] else [])
        @ base_desktop_packages base) @ base_packages base"

subsection \<open>Properties\<close>

text \<open>C18. Away from a root on ZFS, when a profile address is given, the profile file is fetched and it parses, the base list is, in order: the
  given packages, their headers packages in the same order, the tools of bcachefs where it is the root file system, for a desktop with a root on btrfs the snapshot
  tools \<^verbatim>\<open>snapper\<close> and \<^verbatim>\<open>btrfs-assistant-git\<close>, for a desktop the desktop packages of the profile, and for a desktop
  and a server alike the base packages of the profile.\<close>

theorem pkglist_base_contents:
  assumes "net_profs_url info \<noteq> [] \<or> net_profs_fallback_url info \<noteq> []"
    and "run_state (fetch_file_from_url env (net_profs_url info) (net_profs_fallback_url info)) w = (Some content, w')"
    and "parse_base_profiles toml_parse content = Inr base" "root_filesystem \<noteq> ''zfs''"
  shows "run_state (get_pkglist_base env grow toml_parse packages root_filesystem server_mode info) w =
    (let pkgs = make_multiline packages False space_char in
     (Inr (pkgs @ map (\<lambda>p. p @ ''-headers'') pkgs @
        (if root_filesystem = ''bcachefs'' then [''bcachefs-tools''] else []) @
        (if \<not> server_mode \<and> root_filesystem = ''btrfs'' then [''snapper'', ''btrfs-assistant-git''] else []) @
        (if server_mode then [] else base_desktop_packages base) @
        base_packages base), w'))"
proof -
  let ?pkgs = "make_multiline packages False space_char"
  obtain c' where "add_kernel_packages grow False [0..<length ?pkgs] (?pkgs, grown_capacity grow (length ?pkgs)) =
      Inr (?pkgs @ map (\<lambda>i. ?pkgs ! i @ ''-headers'') [0..<length ?pkgs], c')"
    using kernel_packages_without_zfs [of "[0..<length ?pkgs]" ?pkgs grow] by auto
  then have loop: "add_kernel_packages grow False [0..<length ?pkgs] (?pkgs, grown_capacity grow (length ?pkgs)) =
      Inr (?pkgs @ map (\<lambda>p. p @ ''-headers'') ?pkgs, c')"
    by (simp only: map_nth_upt [of "\<lambda>p. p @ ''-headers''"])
  have no: "net_profs_url info = [] \<and> net_profs_fallback_url info = [] \<longleftrightarrow> False" using assms(1) by auto
  show ?thesis
    using assms(4) unfolding get_pkglist_base_def Let_def no
    by (simp add: loop assms(2,3) server_or_desktop_def)
qed

text \<open>On ZFS, when the vector of the given packages has room for all that is added to it, every package of the CachyOS kernel
  also gets its module package, and the ZFS tools follow.\<close>

theorem pkglist_zfs_contents:
  assumes "net_profs_url info \<noteq> [] \<or> net_profs_fallback_url info \<noteq> []"
    and "run_state (fetch_file_from_url env (net_profs_url info) (net_profs_fallback_url info)) w = (Some content, w')"
    and "parse_base_profiles toml_parse content = Inr base" "pkgs = make_multiline packages False space_char"
    and "length pkgs + length (concat (map zfs_expansion pkgs)) \<le> grown_capacity grow (length pkgs)"
  shows "run_state (get_pkglist_base env grow toml_parse packages ''zfs'' server_mode info) w =
    (Inr (pkgs @ concat (map zfs_expansion pkgs) @ [''zfs-utils''] @ server_or_desktop ''zfs'' server_mode base), w')"
proof -
  have same: "map (\<lambda>i. zfs_expansion (pkgs ! i)) [0..<length pkgs] = map zfs_expansion pkgs"
    by (rule map_nth_upt)
  have loop: "add_kernel_packages grow True [0..<length pkgs] (pkgs, grown_capacity grow (length pkgs)) =
      Inr (pkgs @ concat (map zfs_expansion pkgs), grown_capacity grow (length pkgs))"
    using kernel_packages_with_zfs [of "[0..<length pkgs]" pkgs "grown_capacity grow (length pkgs)" grow, unfolded same]
      assms(5) by simp
  have no: "net_profs_url info = [] \<and> net_profs_fallback_url info = [] \<longleftrightarrow> False" using assms(1) by auto
  show ?thesis
    unfolding get_pkglist_base_def Let_def no assms(4) [symmetric]
    by (simp add: loop assms(2,3) server_or_desktop_def)
qed

text \<open>On ZFS, a vector that the given packages fill moves at the first append, and the loop then reads
  the package through a reference to memory that was freed.\<close>

theorem pkglist_zfs_dangles:
  assumes "net_profs_url info \<noteq> [] \<or> net_profs_fallback_url info \<noteq> []"
    and "pkgs = make_multiline packages False space_char" "pkgs \<noteq> []" "grown_capacity grow (length pkgs) \<le> length pkgs"
  shows "run_state (get_pkglist_base env grow toml_parse packages ''zfs'' server_mode info) w = (Inl DanglingPackage, w)"
proof -
  have "[0..<length pkgs] = 0 # [1..<length pkgs]" using assms(3) by (simp add: upt_conv_Cons)
  then have loop: "add_kernel_packages grow True [0..<length pkgs] (pkgs, grown_capacity grow (length pkgs)) = Inl DanglingPackage"
    using assms(4) by (simp add: emplace_back_def Let_def)
  have no: "net_profs_url info = [] \<and> net_profs_fallback_url info = [] \<longleftrightarrow> False" using assms(1) by auto
  show ?thesis
    unfolding get_pkglist_base_def Let_def no assms(2) [symmetric] by (simp add: loop)
qed

text \<open>The growth of the GNU library: twice the size.\<close>

definition doubling :: "nat \<Rightarrow> nat" where "doubling c = (if c = 0 then 1 else 2 * c)"

definition sample_profiles_table :: "(string \<times> toml) list" where
  "sample_profiles_table =
     [(''base-packages'', TomlTable [(''packages'', TomlArray [TomlString ''base'']),
        (''desktop'', TomlTable [(''packages'', TomlArray [TomlString ''bluez''])])]),
      (''desktop'', TomlTable
        [(''kde'', TomlTable [(''packages'', TomlArray [TomlString ''plasma''])]),
         (''xorg'', TomlTable [(''packages'', TomlArray [TomlString ''xorg-server''])])])]"

definition sample_info :: net_profile_info where
  "sample_info = \<lparr>net_profs_url = ''https://host/net-profiles.toml'', net_profs_fallback_url = ''file:///net-profiles.toml''\<rparr>"

lemma sample_fetch:
  "run_state (fetch_file_from_url quiet_env (net_profs_url sample_info) (net_profs_fallback_url sample_info)) (world_of []) =
    (Some [], (world_of [])\<lparr>trace := [HttpGet ''https://host/net-profiles.toml'']\<rparr>)"
  by (simp add: fetch_file_from_url_def fetch_file_def http_request_def perform_def quiet_env_def sample_info_def)

lemma sample_base:
  "parse_base_profiles (\<lambda>s. Some sample_profiles_table) content =
    Inr \<lparr>base_packages = [''base''], base_desktop_packages = [''bluez'']\<rparr>"
  by (simp add: parse_base_profiles_def parse_base_tables_def toml_at_def parse_toml_array_def sum_bind_def
      sample_profiles_table_def)

theorem pkglist_base_contents_witness:
  "fst (run_state (get_pkglist_base quiet_env doubling (\<lambda>s. Some sample_profiles_table) ''linux-cachyos'' ''btrfs'' False sample_info)
     (world_of [])) =
   Inr [''linux-cachyos'', ''linux-cachyos-headers'', ''snapper'', ''btrfs-assistant-git'', ''bluez'', ''base'']"
proof -
  have i: "net_profs_url sample_info \<noteq> [] \<or> net_profs_fallback_url sample_info \<noteq> []" by (simp add: sample_info_def)
  show ?thesis
    by (subst pkglist_base_contents [OF i sample_fetch sample_base])
      (simp_all add: Let_def make_multiline_def make_split_view_def views_split_def)
qed

theorem pkglist_zfs_contents_witness:
  "fst (run_state (get_pkglist_base quiet_env (\<lambda>c. c + 8) (\<lambda>s. Some sample_profiles_table) ''linux-cachyos'' ''zfs'' True sample_info)
     (world_of [])) =
   Inr [''linux-cachyos'', ''linux-cachyos-headers'', ''linux-cachyos-zfs'', ''zfs-utils'', ''base'']"
proof -
  have i: "net_profs_url sample_info \<noteq> [] \<or> net_profs_fallback_url sample_info \<noteq> []" by (simp add: sample_info_def)
  have p: "[''linux-cachyos''] = make_multiline ''linux-cachyos'' False space_char"
    by (simp add: make_multiline_def make_split_view_def views_split_def)
  show ?thesis
    by (subst pkglist_zfs_contents [OF i sample_fetch sample_base p])
      (simp_all add: server_or_desktop_def zfs_expansion_def starts_with_def)
qed

theorem pkglist_zfs_dangles_witness:
  "run_state (get_pkglist_base quiet_env doubling (\<lambda>s. None) ''linux-cachyos'' ''zfs'' False sample_info) (world_of []) =
    (Inl DanglingPackage, world_of [])"
  by (rule pkglist_zfs_dangles [where pkgs = "[''linux-cachyos'']"])
    (simp_all add: sample_info_def make_multiline_def make_split_view_def views_split_def doubling_def)

subsection \<open>Desktop selection\<close>

text \<open>The profiles a choice of desktops asks for, and their packages.\<close>

definition desktop_names :: "string \<Rightarrow> string list" where
  "desktop_names desktop_env =
     filter (contains desktop_env) (map fst desktop_choices) @
     (if \<exists>(name, xorg)\<in>set desktop_choices. xorg \<and> contains desktop_env name then [''xorg''] else [])"

definition packages_of :: "desktop_profile list \<Rightarrow> string \<Rightarrow> string list" where
  "packages_of profiles name =
     (case find (\<lambda>p. profile_name p = name) profiles of None \<Rightarrow> [] | Some p \<Rightarrow> profile_packages p)"

definition has_profile :: "desktop_profile list \<Rightarrow> string \<Rightarrow> bool" where
  "has_profile profiles name \<longleftrightarrow> (\<exists>p\<in>set profiles. profile_name p = name)"

lemma has_profile_find: "has_profile profiles name \<longleftrightarrow> find (\<lambda>p. profile_name p = name) profiles \<noteq> None"
  by (auto simp: has_profile_def find_None_iff)

lemma find_profile_cases:
  "find_profile name profiles =
     (if has_profile profiles name
      then Inr (the (find (\<lambda>p. profile_name p = name) profiles)) else Inl EndOfProfiles)"
  by (auto simp: find_profile_def has_profile_find split: option.splits)

lemma packages_of_profile:
  "has_profile profiles name \<Longrightarrow>
   profile_packages (the (find (\<lambda>p. profile_name p = name) profiles)) = packages_of profiles name"
  by (auto simp: packages_of_def has_profile_find split: option.splits)

lemma add_desktops_eq:
  "add_desktops profiles env choices pkgs x =
     (let names = filter (contains env) (map fst choices) in
      if \<forall>n\<in>set names. has_profile profiles n
      then Inr (pkgs @ concat (map (packages_of profiles) names),
        x \<or> (\<exists>(n, y)\<in>set choices. y \<and> contains env n))
      else Inl EndOfProfiles)"
  by (induction profiles env choices pkgs x rule: add_desktops.induct)
    (auto simp: sum_bind_def find_profile_cases packages_of_profile Let_def)

text \<open>C17. The desktop list is made of the packages of the chosen desktops in the code's order, and of the X server's when one of
  them needs it; if a profile that is asked for is missing, the end of the list of profiles is dereferenced.\<close>

theorem desktop_packages:
  assumes "net_profs_url info \<noteq> [] \<or> net_profs_fallback_url info \<noteq> []"
    and "run_state (fetch_file_from_url env (net_profs_url info) (net_profs_fallback_url info)) w = (Some content, w')"
    and "parse_desktop_profiles toml_parse content = Inr profiles"
  shows "run_state (get_pkglist_desktop env toml_parse desktop_env info) w =
    (let names = desktop_names desktop_env in
     (if list_all (has_profile profiles) names then Inr (concat (map (packages_of profiles) names))
      else Inl EndOfProfiles, w'))"
proof -
  have no: "net_profs_url info = [] \<and> net_profs_fallback_url info = [] \<longleftrightarrow> False" using assms(1) by auto
  have "select_desktop_packages profiles desktop_env =
    (if list_all (has_profile profiles) (desktop_names desktop_env)
     then Inr (concat (map (packages_of profiles) (desktop_names desktop_env))) else Inl EndOfProfiles)"
    unfolding select_desktop_packages_def add_desktops_eq desktop_names_def Let_def
    by (auto simp: sum_bind_def find_profile_cases packages_of_profile list_all_iff simp del: Set.bex_simps)
  then show ?thesis
    unfolding get_pkglist_desktop_def no by (simp add: assms(2,3) Let_def)
qed

lemma sample_desktop:
  "parse_desktop_profiles (\<lambda>s. Some sample_profiles_table) content =
    Inr [\<lparr>profile_name = ''kde'', profile_packages = [''plasma'']\<rparr>,
         \<lparr>profile_name = ''xorg'', profile_packages = [''xorg-server'']\<rparr>]"
  by (simp add: parse_desktop_profiles_def parse_desktop_tables_def toml_at_def parse_toml_array_def sum_bind_def
      sample_profiles_table_def)

theorem desktop_packages_witness:
  "fst (run_state (get_pkglist_desktop quiet_env (\<lambda>s. Some sample_profiles_table) ''kde'' sample_info) (world_of [])) =
     Inr [''plasma'', ''xorg-server''] \<and>
   fst (run_state (get_pkglist_desktop quiet_env (\<lambda>s. Some sample_profiles_table) ''gnome'' sample_info) (world_of [])) =
     Inl EndOfProfiles"
proof -
  have i: "net_profs_url sample_info \<noteq> [] \<or> net_profs_fallback_url sample_info \<noteq> []" by (simp add: sample_info_def)
  have "desktop_names ''kde'' = [''kde'', ''xorg'']" "desktop_names ''gnome'' = [''gnome'', ''xorg'']"
    by (simp_all add: desktop_names_def desktop_choices_def contains_def)
  then show ?thesis
    by (simp add: desktop_packages [OF i sample_fetch sample_desktop] has_profile_def packages_of_def)
qed

end
