(* ===== verification/Block_Devices.thy ===== *)
theory Block_Devices
  imports World "HOL-Library.Word"
begin

section \<open>Block devices (gucc/src/block_devices.cpp)\<close>

text \<open>
  Listing the block devices through lsblk and finding one of them.  The JSON parser is a library:
  \<open>json\<close> is the tree it returns and \<open>json_parse\<close> a parameter (\<open>None\<close> on a parse error).  A member
  of a value that is no object violates an assertion of the parser; that is the result \<open>None\<close> of the reading functions.
  The output of lsblk is a tree (\<open>lsblk_node\<close>), of which the code reads the top.
\<close>

datatype json =
    JNull
  | JBool bool
  | JInt int
  | JDouble
  | JString string
  | JArray "json list"
  | JObject "(string \<times> json) list"

record block_device =
  bd_name :: string
  bd_type :: string
  bd_fstype :: string
  bd_uuid :: string
  bd_model :: "string option"
  bd_mountpoint :: "string option"
  bd_pkname :: "string option"
  bd_label :: "string option"
  bd_partuuid :: "string option"
  bd_size :: "64 word option"

definition new_block_device :: block_device where
  "new_block_device =
     \<lparr>bd_name = '''', bd_type = '''', bd_fstype = '''', bd_uuid = '''', bd_model = None, bd_mountpoint = None,
      bd_pkname = None, bd_label = None, bd_partuuid = None, bd_size = None\<rparr>"

text \<open>\<^verbatim>\<open>GetString\<close> is a C string: what follows a null character is not read.\<close>

definition c_string :: "string \<Rightarrow> string" where
  "c_string s = takeWhile (\<lambda>c. c \<noteq> CHR 0x00) s"

definition string_member :: "(string \<times> json) list \<Rightarrow> string \<Rightarrow> string option" where
  "string_member doc key = (case map_of doc key of Some (JString s) \<Rightarrow> Some (c_string s) | _ \<Rightarrow> None)"

definition int64_member :: "(string \<times> json) list \<Rightarrow> string \<Rightarrow> int option" where
  "int64_member doc key =
     (case map_of doc key of
        Some (JInt i) \<Rightarrow> (if - (2 ^ 63) \<le> i \<and> i < 2 ^ 63 then Some i else None)
      | _ \<Rightarrow> None)"

definition set_string :: "string option \<Rightarrow> ((string \<Rightarrow> string) \<Rightarrow> block_device \<Rightarrow> block_device) \<Rightarrow> block_device \<Rightarrow> block_device" where
  "set_string val field_update device =
     (case val of None \<Rightarrow> device | Some s \<Rightarrow> field_update (\<lambda>old. s) device)"

definition set_optional ::
  "'v option \<Rightarrow> (('v option \<Rightarrow> 'v option) \<Rightarrow> block_device \<Rightarrow> block_device) \<Rightarrow> block_device \<Rightarrow> block_device" where
  "set_optional val field_update device =
     (case val of None \<Rightarrow> device | Some v \<Rightarrow> field_update (\<lambda>old. Some v) device)"

definition get_blockdevice_from_json :: "json \<Rightarrow> block_device option" where
  "get_blockdevice_from_json doc =
     (case doc of
        JObject ms \<Rightarrow>
          (let device = new_block_device;
               device = set_string (string_member ms ''name'') bd_name_update device;
               device = set_string (string_member ms ''type'') bd_type_update device;
               device = set_string (string_member ms ''fstype'') bd_fstype_update device;
               device = set_string (string_member ms ''uuid'') bd_uuid_update device;
               device = set_optional (string_member ms ''model'') bd_model_update device;
               device = set_optional (string_member ms ''mountpoint'') bd_mountpoint_update device;
               device = set_optional (string_member ms ''pkname'') bd_pkname_update device;
               device = set_optional (string_member ms ''label'') bd_label_update device;
               device = set_optional (string_member ms ''partuuid'') bd_partuuid_update device;
               device = set_optional (map_option word_of_int (int64_member ms ''size'')) bd_size_update device
           in Some device)
      | _ \<Rightarrow> None)"

fun read_devices :: "json list \<Rightarrow> block_device list \<Rightarrow> block_device list option" where
  "read_devices [] block_devices = Some block_devices"
| "read_devices (device_json # rest) block_devices =
     (case get_blockdevice_from_json device_json of
        None \<Rightarrow> None
      | Some block_device \<Rightarrow> read_devices rest (block_devices @ [block_device]))"

definition parse_lsblk_json :: "(string \<Rightarrow> json option) \<Rightarrow> string \<Rightarrow> block_device list option" where
  "parse_lsblk_json json_parse json_output =
     (case json_parse json_output of
        None \<Rightarrow> Some []
      | Some (JObject ms) \<Rightarrow>
          (case map_of ms ''blockdevices'' of
             Some (JArray devices) \<Rightarrow> read_devices devices []
           | _ \<Rightarrow> Some [])
      | Some other \<Rightarrow> None)"

definition find_device_by_name :: "block_device list \<Rightarrow> string \<Rightarrow> block_device option" where
  "find_device_by_name devices device_name = find (\<lambda>dev. bd_name dev = device_name) devices"

definition find_device_by_pkname :: "block_device list \<Rightarrow> string \<Rightarrow> block_device option" where
  "find_device_by_pkname devices pkname =
     find (\<lambda>dev. case bd_pkname dev of Some name \<Rightarrow> name = pkname | None \<Rightarrow> False) devices"

definition lsblk_cmd :: string where
  "lsblk_cmd =
     ''lsblk -f -o NAME,TYPE,FSTYPE,UUID,PARTUUID,PKNAME,LABEL,SIZE,MOUNTPOINT,MODEL -b -p -a -J -Q \"type=='' @ squote @ ''part''
     @ squote @ '' || type=='' @ squote @ ''crypt'' @ squote @ '' && fstype\"''"

text \<open>The outer option is the assertion, the inner one the empty optional of an empty output.\<close>

definition list_block_devices ::
  "'m sysenv \<Rightarrow> (string \<Rightarrow> json option) \<Rightarrow> ('m, block_device list option option) io" where
  "list_block_devices env json_parse = do {
     lsblk_output \<leftarrow> exec env lsblk_cmd False;
     if lsblk_output = '''' then ret (Some None)
     else ret (map_option Some (parse_lsblk_json json_parse lsblk_output))
   }"

subsection \<open>Lemmas\<close>

text \<open>
  The output of lsblk: a tree of devices, a volume that is opened from a partition being a child of the partition.  A column without a
  value, the file system and its identifier included, is printed as null, and \<^verbatim>\<open>children\<close> is printed only where there are any.
\<close>

datatype lsblk_node = Lsblk_Node (node_device: block_device) (node_children: "lsblk_node list")

definition json_text :: "string option \<Rightarrow> json" where
  "json_text s = (case s of None \<Rightarrow> JNull | Some t \<Rightarrow> JString t)"

definition json_column :: "string \<Rightarrow> json" where
  "json_column s = (if s = '''' then JNull else JString s)"

definition json_columns :: "block_device \<Rightarrow> (string \<times> json) list" where
  "json_columns d =
     [(''name'', JString (bd_name d)), (''type'', JString (bd_type d)), (''fstype'', json_column (bd_fstype d)),
      (''uuid'', json_column (bd_uuid d)), (''partuuid'', json_text (bd_partuuid d)), (''pkname'', json_text (bd_pkname d)),
      (''label'', json_text (bd_label d)),
      (''size'', (case bd_size d of None \<Rightarrow> JNull | Some n \<Rightarrow> JInt (uint n))),
      (''mountpoint'', json_text (bd_mountpoint d)), (''model'', json_text (bd_model d))]"

fun json_of_node :: "lsblk_node \<Rightarrow> json" where
  "json_of_node (Lsblk_Node d cs) =
     JObject (json_columns d @ (if cs = [] then [] else [(''children'', JArray (map json_of_node cs))]))"

definition printable :: "string \<Rightarrow> bool" where
  "printable s \<longleftrightarrow> CHR 0x00 \<notin> set s"

definition printable_device :: "block_device \<Rightarrow> bool" where
  "printable_device d \<longleftrightarrow>
     list_all printable [bd_name d, bd_type d, bd_fstype d, bd_uuid d] \<and>
     list_all (pred_option printable) [bd_model d, bd_mountpoint d, bd_pkname d, bd_label d, bd_partuuid d] \<and>
     pred_option (\<lambda>n. uint n < 2 ^ 63) (bd_size d)"

lemma c_string_printable: "printable s \<Longrightarrow> c_string s = s"
  by (auto simp: c_string_def printable_def takeWhile_eq_all_conv)

text \<open>Each setter updates its field once, with the old value where the member is absent.\<close>

lemma set_string_member:
  "set_string val bd_name_update d = bd_name_update (\<lambda>old. case val of None \<Rightarrow> old | Some s \<Rightarrow> s) d"
  "set_string val bd_type_update d = bd_type_update (\<lambda>old. case val of None \<Rightarrow> old | Some s \<Rightarrow> s) d"
  "set_string val bd_fstype_update d = bd_fstype_update (\<lambda>old. case val of None \<Rightarrow> old | Some s \<Rightarrow> s) d"
  "set_string val bd_uuid_update d = bd_uuid_update (\<lambda>old. case val of None \<Rightarrow> old | Some s \<Rightarrow> s) d"
  by (cases val; simp add: set_string_def)+

lemma set_optional_member:
  "set_optional val bd_model_update d = bd_model_update (\<lambda>old. case val of None \<Rightarrow> old | Some v \<Rightarrow> Some v) d"
  "set_optional val bd_mountpoint_update d = bd_mountpoint_update (\<lambda>old. case val of None \<Rightarrow> old | Some v \<Rightarrow> Some v) d"
  "set_optional val bd_pkname_update d = bd_pkname_update (\<lambda>old. case val of None \<Rightarrow> old | Some v \<Rightarrow> Some v) d"
  "set_optional val bd_label_update d = bd_label_update (\<lambda>old. case val of None \<Rightarrow> old | Some v \<Rightarrow> Some v) d"
  "set_optional val bd_partuuid_update d = bd_partuuid_update (\<lambda>old. case val of None \<Rightarrow> old | Some v \<Rightarrow> Some v) d"
  by (cases val; simp add: set_optional_def)+

lemma set_size_member: "set_optional val bd_size_update d = bd_size_update (\<lambda>old. case val of None \<Rightarrow> old | Some v \<Rightarrow> Some v) d"
  by (cases val; simp add: set_optional_def)

lemma case_option_same: "(case v of None \<Rightarrow> None | Some x \<Rightarrow> Some x) = v"
  by (cases v) simp_all

lemma get_blockdevice_eq:
  "get_blockdevice_from_json (JObject ms) = Some
     \<lparr>bd_name = (case string_member ms ''name'' of None \<Rightarrow> [] | Some s \<Rightarrow> s),
      bd_type = (case string_member ms ''type'' of None \<Rightarrow> [] | Some s \<Rightarrow> s),
      bd_fstype = (case string_member ms ''fstype'' of None \<Rightarrow> [] | Some s \<Rightarrow> s),
      bd_uuid = (case string_member ms ''uuid'' of None \<Rightarrow> [] | Some s \<Rightarrow> s),
      bd_model = string_member ms ''model'', bd_mountpoint = string_member ms ''mountpoint'',
      bd_pkname = string_member ms ''pkname'', bd_label = string_member ms ''label'',
      bd_partuuid = string_member ms ''partuuid'', bd_size = map_option word_of_int (int64_member ms ''size'')\<rparr>"
  by (simp add: get_blockdevice_from_json_def set_string_member set_optional_member set_size_member new_block_device_def
      case_option_same map_option_case o_def)

lemma string_member_Cons:
  "string_member ((k, v) # ms) key =
     (if key = k then (case v of JString s \<Rightarrow> Some (c_string s) | _ \<Rightarrow> None) else string_member ms key)"
  by (simp add: string_member_def split: json.splits)

lemma int64_member_Cons:
  "int64_member ((k, v) # ms) key =
     (if key = k then (case v of JInt i \<Rightarrow> (if - (2 ^ 63) \<le> i \<and> i < 2 ^ 63 then Some i else None) | _ \<Rightarrow> None)
      else int64_member ms key)"
  by (simp add: int64_member_def split: json.splits)

lemma string_member_column:
  "printable s \<Longrightarrow> (case (case json_column s of JString s \<Rightarrow> Some (c_string s) | _ \<Rightarrow> None) of None \<Rightarrow> [] | Some s \<Rightarrow> s) = s"
  by (simp add: json_column_def c_string_printable)

lemma read_device_of_json:
  assumes "printable_device d"
  shows "get_blockdevice_from_json (JObject (json_columns d @ ms)) = Some d"
proof -
  have opt: "(case json_text v of JString s \<Rightarrow> Some (c_string s) | _ \<Rightarrow> None) = v" if "pred_option printable v" for v
    using that by (cases v) (simp_all add: json_text_def c_string_printable)
  have size: "map_option word_of_int
      (case (case bd_size d of None \<Rightarrow> JNull | Some n \<Rightarrow> JInt (uint n)) of
         JInt i \<Rightarrow> if - (2 ^ 63) \<le> i \<and> i < 2 ^ 63 then Some i else None | _ \<Rightarrow> None) = bd_size d"
  proof (cases "bd_size d")
    case (Some n)
    moreover have "- (2 ^ 63) \<le> uint n" using order_trans [of "- (2 ^ 63)" 0 "uint n"] by simp
    ultimately show ?thesis using assms by (simp add: printable_device_def)
  qed simp
  have pd: "printable (bd_name d)" "printable (bd_type d)" "printable (bd_fstype d)" "printable (bd_uuid d)"
    "pred_option printable (bd_model d)" "pred_option printable (bd_mountpoint d)" "pred_option printable (bd_pkname d)"
    "pred_option printable (bd_label d)" "pred_option printable (bd_partuuid d)"
    using assms by (simp_all add: printable_device_def)
  show ?thesis
    unfolding json_columns_def append_Cons append_Nil get_blockdevice_eq
    by (rule arg_cong [of _ _ Some], rule block_device.equality, simp_all only: string_member_Cons int64_member_Cons size opt c_string_printable pd
        string_member_column block_device.simps json.case option.case list.inject char.inject list.distinct simp_thms if_True if_False refl) simp
qed

lemma read_node: "printable_device (node_device n) \<Longrightarrow> get_blockdevice_from_json (json_of_node n) = Some (node_device n)"
  by (cases n) (simp add: read_device_of_json)

lemma read_devices_of_json:
  "list_all (\<lambda>n. printable_device (node_device n)) ns \<Longrightarrow>
   read_devices (map json_of_node ns) acc = Some (acc @ map node_device ns)"
  by (induction ns arbitrary: acc) (simp_all add: read_node)

subsection \<open>Properties\<close>

text \<open>C16. Of the tree of devices that lsblk prints, the devices at the top are read back, in order, with every column, an absent
  file system or identifier as the empty text; the devices below them, such as the volume opened from an encrypted partition, are not in the list,
  so that a name that only they have is not found.  The hypotheses: the texts of the devices at the top have no null character and their
  sizes are below 2 to the 63, the process is running, lsblk prints something, and the parser reads it as the object with the tree.\<close>

theorem lsblk_round_trip:
  assumes "list_all (\<lambda>n. printable_device (node_device n)) ns" "status w = Running"
    and "popen_call env lsblk_cmd (host w) = (Some out, h)" "drop_final_newline out \<noteq> []"
    and "json_parse (drop_final_newline out) = Some (JObject [(''blockdevices'', JArray (map json_of_node ns))])"
  shows "fst (run_state (list_block_devices env json_parse) w) = Some (Some (map node_device ns)) \<and>
    (name \<notin> bd_name ` node_device ` set ns \<longrightarrow> find_device_by_name (map node_device ns) name = None)"
  using assms by (auto simp: list_block_devices_def run_exec parse_lsblk_json_def read_devices_of_json
      find_device_by_name_def find_None_iff)

text \<open>
  A parser for the output of lsblk on the sample: values of JSON without escapes, fractions and booleans.  Its fuel is the length of the text,
  which bounds the nesting and the number of members.
\<close>

abbreviation json_blank :: "char \<Rightarrow> bool" where
  "json_blank c \<equiv> c = CHR '' '' \<or> c = newline_char"

abbreviation json_digit :: "char \<Rightarrow> bool" where
  "json_digit c \<equiv> c \<in> set ''0123456789''"

fun json_value :: "nat \<Rightarrow> string \<Rightarrow> (json \<times> string) option"
  and json_items :: "nat \<Rightarrow> string \<Rightarrow> (json list \<times> string) option"
  and json_members :: "nat \<Rightarrow> string \<Rightarrow> ((string \<times> json) list \<times> string) option" where
  "json_value 0 s = None"
| "json_value (Suc n) s =
     (case dropWhile json_blank s of
        [] \<Rightarrow> None
      | c # r \<Rightarrow>
          if c = CHR 0x22 then Some (JString (takeWhile (\<lambda>x. x \<noteq> CHR 0x22) r), drop 1 (dropWhile (\<lambda>x. x \<noteq> CHR 0x22) r))
          else if c = CHR ''{'' then map_option (\<lambda>(ms, r). (JObject ms, r)) (json_members n r)
          else if c = CHR ''['' then map_option (\<lambda>(vs, r). (JArray vs, r)) (json_items n r)
          else if c = CHR ''n'' then Some (JNull, drop 3 r)
          else if json_digit c
          then Some (JInt (foldl (\<lambda>i d. 10 * i + (of_char d - 48)) 0 (takeWhile json_digit (c # r))), dropWhile json_digit r)
          else None)"
| "json_items 0 s = None"
| "json_items (Suc n) s =
     (case json_value n s of
        None \<Rightarrow> None
      | Some (v, r) \<Rightarrow>
          (case dropWhile json_blank r of
             [] \<Rightarrow> None
           | c # r \<Rightarrow>
               if c = CHR '','' then map_option (\<lambda>(vs, r). (v # vs, r)) (json_items n r)
               else if c = CHR '']'' then Some ([v], r) else None))"
| "json_members 0 s = None"
| "json_members (Suc n) s =
     (case json_value n s of
        Some (JString k, CHR '':'' # r) \<Rightarrow>
          (case json_value n r of
             None \<Rightarrow> None
           | Some (v, r) \<Rightarrow>
               (case dropWhile json_blank r of
                  [] \<Rightarrow> None
                | c # r \<Rightarrow>
                    if c = CHR '','' then map_option (\<lambda>(ms, r). ((k, v) # ms, r)) (json_members n r)
                    else if c = CHR ''}'' then Some ([(k, v)], r) else None))
      | _ \<Rightarrow> None)"

definition small_json_parse :: "string \<Rightarrow> json option" where
  "small_json_parse s = map_option fst (json_value (length s) s)"

definition sample_nodes :: "lsblk_node list" where
  "sample_nodes =
     [Lsblk_Node (new_block_device\<lparr>bd_name := ''/dev/sda1'', bd_type := ''part'', bd_pkname := Some ''/dev/sda'', bd_size := Some 1024\<rparr>) [],
      Lsblk_Node (new_block_device\<lparr>bd_name := ''/dev/sda2'', bd_type := ''part'', bd_fstype := ''crypto_LUKS'', bd_uuid := ''00ff'',
          bd_pkname := Some ''/dev/sda'', bd_size := Some 4096\<rparr>)
        [Lsblk_Node (new_block_device\<lparr>bd_name := ''/dev/mapper/root'', bd_type := ''crypt'', bd_fstype := ''ext4'', bd_uuid := ''6bdb'',
            bd_pkname := Some ''/dev/sda2'', bd_mountpoint := Some ''/''\<rparr>) []]]"

definition sample_lsblk_output :: string where
  "sample_lsblk_output =
     ''{\"blockdevices\": [{\"name\":\"/dev/sda1\", \"type\":\"part\", \"fstype\":null, \"uuid\":null, \"partuuid\":null, \"pkname\":\"/dev/sda\", \"label\":null, \"size\":1024, \"mountpoint\":null, \"model\":null},\<newline>''
     @ ''{\"name\":\"/dev/sda2\", \"type\":\"part\", \"fstype\":\"crypto_LUKS\", \"uuid\":\"00ff\", \"partuuid\":null, \"pkname\":\"/dev/sda\", \"label\":null, \"size\":4096, \"mountpoint\":null, \"model\":null,\<newline>''
     @ ''\"children\": [{\"name\":\"/dev/mapper/root\", \"type\":\"crypt\", \"fstype\":\"ext4\", \"uuid\":\"6bdb\", \"partuuid\":null, \"pkname\":\"/dev/sda2\", \"label\":null, \"size\":null, \"mountpoint\":\"/\", \"model\":null}]}]}\<newline>''"

lemma sample_lsblk_parsed:
  "small_json_parse (drop_final_newline sample_lsblk_output) = Some (JObject [(''blockdevices'', JArray (map json_of_node sample_nodes))])"
  by code_simp

text \<open>The opened volume is printed below its partition, and is not found.\<close>

theorem lsblk_round_trip_witness:
  "fst (run_state (list_block_devices (quiet_env\<lparr>popen_call := \<lambda>c h. (Some sample_lsblk_output, h)\<rparr>) small_json_parse) (world_of [])) =
    Some (Some (map node_device sample_nodes)) \<and>
   find_device_by_name (map node_device sample_nodes) ''/dev/mapper/root'' = None"
proof -
  have devs: "list_all (\<lambda>n. printable_device (node_device n)) sample_nodes"
    "''/dev/mapper/root'' \<notin> bd_name ` node_device ` set sample_nodes"
    by (simp_all add: sample_nodes_def printable_device_def printable_def new_block_device_def)
  have out: "drop_final_newline sample_lsblk_output \<noteq> []" by code_simp
  have "popen_call (quiet_env\<lparr>popen_call := \<lambda>c h. (Some sample_lsblk_output, h)\<rparr>) lsblk_cmd (host (world_of [])) =
      (Some sample_lsblk_output, host (world_of []))"
    by simp
  from lsblk_round_trip [where json_parse = small_json_parse and ns = sample_nodes, OF devs(1) world_of_simps(1) this out sample_lsblk_parsed]
    devs(2)
  show ?thesis by blast
qed

text \<open>A negative size is read as a number above 2 to the 63.\<close>

theorem negative_size_wraps:
  assumes "map_of ms ''size'' = Some (JInt i)" "- (2 ^ 63) \<le> i" "i < 0"
  shows "map_option (\<lambda>d. map_option uint (bd_size d)) (get_blockdevice_from_json (JObject ms)) = Some (Some (2 ^ 64 + i))"
proof -
  have "uint (word_of_int i :: 64 word) = i mod 2 ^ 64" by (simp add: uint_word_of_int)
  also have "\<dots> = (2 ^ 64 + i) mod 2 ^ 64" by simp
  also have "\<dots> = 2 ^ 64 + i" using assms(2,3) by (intro mod_pos_pos_trivial) simp_all
  finally have "uint (word_of_int i :: 64 word) = 2 ^ 64 + i" .
  with assms show ?thesis
    by (simp add: get_blockdevice_from_json_def int64_member_def Let_def set_optional_def [of "Some _"])
qed

theorem negative_size_wraps_witness:
  "map_option (\<lambda>d. map_option uint (bd_size d)) (get_blockdevice_from_json (JObject [(''size'', JInt (- 1))])) =
    Some (Some (2 ^ 64 + (- 1)))"
  by (rule negative_size_wraps) simp_all

end
