(* ===== verification/Config.thy ===== *)
theory Config
  imports Plan Zfs
begin

section \<open>The installer's settings and its helpers (src/config.cpp, src/utils.hpp)\<close>

text \<open>
  The installer keeps its settings in one table from names to values of four types.  Reading a
  name that is not there puts an empty text there; reading a value at another type than it has
  throws, and the functions of the installer do not catch it (they are declared \<^verbatim>\<open>noexcept\<close>), so the process ends.
  Operations of the installer are values of the state monad over a world and the table.
\<close>

subsection \<open>The table\<close>

datatype config_value =
    CStr string
  | CInt int
  | CStrs "string list"
  | CZfs zfs_setup_config

type_synonym config = "string \<Rightarrow> config_value option"

type_synonym ('m, 'a) app = "('m world \<times> config, 'a) state"

definition lift_io :: "('m, 'a) io \<Rightarrow> ('m, 'a) app" where
  "lift_io act = State (\<lambda>(w, c). case run_state act w of (r, w') \<Rightarrow> (r, (w', c)))"

definition empty_zfs_config :: zfs_setup_config where
  "empty_zfs_config = \<lparr>zs_zpool_name = '''', zs_zpool_options = '''', zs_passphrase = None, zs_datasets = []\<rparr>"

definition initial_config :: "bool \<Rightarrow> config" where
  "initial_config bootmnt_exists = map_of
     [(''cachepath'', CStr ''/var/cache/pacman/pkg/''),
      (''hostcache'', CInt (if \<not> bootmnt_exists then 1 else 0)),
      (''menus'', CInt 2),
      (''POST_INSTALL'', CStr ''''),
      (''H_INIT'', CStr ''openrc''),
      (''SYSTEM'', CStr ''BIOS''),
      (''KEYMAP'', CStr ''us''),
      (''XKBMAP'', CStr ''us''),
      (''BTRFS'', CInt 0),
      (''ZFS'', CInt 0),
      (''LUKS'', CInt 0),
      (''LUKS_DEV'', CStr ''''),
      (''LUKS_NAME'', CStr ''''),
      (''LUKS_OPT'', CStr ''''),
      (''LUKS_UUID'', CStr ''''),
      (''LVM'', CInt 0),
      (''LVM_LV_NAME'', CStr ''''),
      (''LVM_SEP_BOOT'', CInt 0),
      (''RAID'', CInt 0),
      (''READY_PARTITIONS'', CStrs []),
      (''ZFS_ZPOOL_NAMES'', CStrs []),
      (''ZFS_ZPOOL_NAME'', CStr ''zpcachyos''),
      (''ZFS_SETUP_CONFIG'', CZfs empty_zfs_config),
      (''SWAP_DEVICE'', CStr ''''),
      (''NET_PROFILES_URL'', CStr ''https://raw.githubusercontent.com/CachyOS/New-Cli-Installer/master/net-profiles.toml''),
      (''NET_PROFILES_FALLBACK_URL'', CStr ''file:///var/lib/cachyos-installer/net-profiles.toml''),
      (''MOUNTPOINT'', CStr ''/mnt''),
      (''HEADLESS_MODE'', CInt 0),
      (''SERVER_MODE'', CInt 0),
      (''GRAPHIC_CARD'', CStr '''')]"

text \<open>\<open>None\<close> is the null pointer before the initialization; a second one is refused.\<close>

definition initialize_config ::
  "'m sysenv \<Rightarrow> config option \<Rightarrow> ('m, bool \<times> config option) io" where
  "initialize_config env s_config =
     (if s_config \<noteq> None then ret (False, s_config)
      else do {
        bootmnt \<leftarrow> path_exists env ''/run/miso/bootmnt'';
        ret (True, Some (initial_config bootmnt))
      })"

definition cfg_value :: "string \<Rightarrow> ('m, config_value) app" where
  "cfg_value key = State (\<lambda>(w, c).
     if status w \<noteq> Running then (CStr '''', (w, c))
     else (case c key of
             None \<Rightarrow> (CStr '''', (w, c(key \<mapsto> CStr '''')))
           | Some v \<Rightarrow> (v, (w, c))))"

definition cfg_set :: "string \<Rightarrow> config_value \<Rightarrow> ('m, unit) app" where
  "cfg_set key v = State (\<lambda>(w, c). ((), if status w = Running then (w, c(key \<mapsto> v)) else (w, c)))"

definition cfg_str :: "string \<Rightarrow> ('m, string) app" where
  "cfg_str key = do { v \<leftarrow> cfg_value key; case v of CStr s \<Rightarrow> ret s | _ \<Rightarrow> lift_io (terminate '''') }"

definition cfg_int :: "string \<Rightarrow> ('m, int) app" where
  "cfg_int key = do { v \<leftarrow> cfg_value key; case v of CInt i \<Rightarrow> ret i | _ \<Rightarrow> lift_io (terminate 0) }"

definition cfg_strs :: "string \<Rightarrow> ('m, string list) app" where
  "cfg_strs key = do { v \<leftarrow> cfg_value key; case v of CStrs ss \<Rightarrow> ret ss | _ \<Rightarrow> lift_io (terminate []) }"

subsection \<open>Helpers\<close>

definition is_digit :: "char \<Rightarrow> bool" where
  "is_digit ch \<longleftrightarrow> ch \<in> set ''0123456789''"

definition digits_value :: "string \<Rightarrow> int" where
  "digits_value ds = foldl (\<lambda>n d. 10 * n + (int (of_char d) - int (of_char (CHR ''0'')))) 0 ds"

text \<open>\<^verbatim>\<open>std::from_chars\<close>: a prefix of digits with an optional minus; no digits and overflow leave the zero.\<close>

definition to_int :: "string \<Rightarrow> int" where
  "to_int str =
     (let negative = (str \<noteq> [] \<and> hd str = CHR ''-'');
          digits = takeWhile is_digit (if negative then tl str else str);
          val = (if negative then - digits_value digits else digits_value digits)
      in if digits = [] then 0 else if - (2 ^ 31) \<le> val \<and> val < 2 ^ 31 then val else 0)"

partial_function (option) replace_loop ::
  "string \<Rightarrow> string \<Rightarrow> string \<Rightarrow> nat \<Rightarrow> nat \<Rightarrow> (string \<times> nat) option" where
  "replace_loop what with_text inout pos n =
     (case find_sub what (drop pos inout) of
        None \<Rightarrow> Some (inout, n)
      | Some off \<Rightarrow>
          replace_loop what with_text
            (take (pos + off) inout @ with_text @ drop (pos + off + length what) inout)
            (pos + off + length with_text) (n + 1))"

definition replace_all :: "string \<Rightarrow> string \<Rightarrow> string \<Rightarrow> (string \<times> nat) option" where
  "replace_all inout what with_text = replace_loop what with_text inout 0 0"

definition remove_all :: "string \<Rightarrow> string \<Rightarrow> (string \<times> nat) option" where
  "remove_all inout what = replace_all inout what ''''"

definition bootloader_default_mount :: "string \<Rightarrow> string \<Rightarrow> string" where
  "bootloader_default_mount bootloader bios_mode =
     (if bootloader = ''systemd-boot'' \<or> bootloader = ''limine'' \<or> bios_mode = ''BIOS'' then ''/boot''
      else if bootloader = ''grub'' \<or> bootloader = ''refind'' then ''/boot/efi''
      else ''unknown bootloader'')"

definition available_bootloaders :: "string \<Rightarrow> string list" where
  "available_bootloaders bios_mode =
     (if bios_mode = ''BIOS'' then [''grub''] else [''systemd-boot'', ''refind'', ''grub'', ''limine''])"

subsection \<open>Lemmas on the table\<close>

named_theorems app_simps \<open>evaluation of the operations on the table\<close>

lemma run_lift_io [app_simps]:
  "run_state (lift_io act) (w, c) = (fst (run_state act w), (snd (run_state act w), c))"
  by (simp add: lift_io_def split: prod.splits)

lemma run_cfg_set [app_simps]:
  "status w = Running \<Longrightarrow> run_state (cfg_set key v) (w, c) = ((), (w, c(key \<mapsto> v)))"
  by (simp add: cfg_set_def)

lemma run_cfg_value [app_simps]:
  "status w = Running \<Longrightarrow> c key = Some v \<Longrightarrow> run_state (cfg_value key) (w, c) = (v, (w, c))"
  by (simp add: cfg_value_def)

lemma run_cfg_str [app_simps]:
  "status w = Running \<Longrightarrow> c key = Some (CStr s) \<Longrightarrow> run_state (cfg_str key) (w, c) = (s, (w, c))"
  by (simp add: cfg_str_def run_cfg_value)

lemma run_cfg_int [app_simps]:
  "status w = Running \<Longrightarrow> c key = Some (CInt i) \<Longrightarrow> run_state (cfg_int key) (w, c) = (i, (w, c))"
  by (simp add: cfg_int_def run_cfg_value)

lemma run_cfg_strs [app_simps]:
  "status w = Running \<Longrightarrow> c key = Some (CStrs ss) \<Longrightarrow> run_state (cfg_strs key) (w, c) = (ss, (w, c))"
  by (simp add: cfg_strs_def run_cfg_value)

text \<open>Reading an absent name at a type other than text ends the process and leaves the empty text behind.\<close>

lemma run_cfg_int_absent:
  "status w = Running \<Longrightarrow> c key = None \<Longrightarrow>
   run_state (cfg_int key) (w, c) = (0, (w\<lparr>status := Terminated\<rparr>, c(key \<mapsto> CStr [])))"
  by (simp add: cfg_int_def cfg_value_def run_lift_io terminate_def halt_def)

lemma run_cfg_str_absent [app_simps]:
  "status w = Running \<Longrightarrow> c key = None \<Longrightarrow>
   run_state (cfg_str key) (w, c) = ([], (w, c(key \<mapsto> CStr [])))"
  by (simp add: cfg_str_def cfg_value_def)

lemma initial_config_simps [simp]:
  "initial_config b ''SYSTEM'' = Some (CStr ''BIOS'')" "initial_config b ''MOUNTPOINT'' = Some (CStr ''/mnt'')"
  "initial_config b ''HEADLESS_MODE'' = Some (CInt 0)" "initial_config b ''SERVER_MODE'' = Some (CInt 0)"
  "initial_config b ''LUKS'' = Some (CInt 0)" "initial_config b ''LVM'' = Some (CInt 0)"
  "initial_config b ''RAID'' = Some (CInt 0)" "initial_config b ''ZFS'' = Some (CInt 0)"
  "initial_config b ''hostcache'' = Some (CInt (if b then 0 else 1))"
  by (simp_all add: initial_config_def)

subsection \<open>Lemmas on the helpers\<close>

lemma find_sub_length: "find_sub what s = Some off \<Longrightarrow> off + length what \<le> length s"
  unfolding find_sub_Some_iff using prefix_length_le [of what "drop off s"] by auto

function replaced :: "string \<Rightarrow> string \<Rightarrow> string \<Rightarrow> string \<times> nat" where
  "replaced what with_text s =
     (case find_sub what s of
        None \<Rightarrow> (s, 0)
      | Some off \<Rightarrow>
          if what = [] then (s, 0)
          else (case replaced what with_text (drop (off + length what) s) of
                  (r, n) \<Rightarrow> (take off s @ with_text @ r, n + 1)))"
  by pat_completeness auto

termination
proof (relation "measure (\<lambda>(what, with_text, s). length s)")
  fix what with_text s :: string and off
  assume "find_sub what s = Some off" "what \<noteq> []"
  then show "((what, with_text, drop (off + length what) s), what, with_text, s)
      \<in> measure (\<lambda>(what, with_text, s). length s)"
    using find_sub_length [of what s off] by (cases what) auto
qed simp

declare replaced.simps [simp del]

lemma replace_loop_replaced:
  "what \<noteq> [] \<Longrightarrow>
   replace_loop what with_text (a @ s) (length a) n =
     Some (a @ fst (replaced what with_text s), n + snd (replaced what with_text s))"
proof (induction what with_text s arbitrary: a n rule: replaced.induct)
  case (1 what with_text s)
  show ?case
  proof (cases "find_sub what s")
    case None
    then show ?thesis by (subst replace_loop.simps) (simp add: replaced.simps)
  next
    case (Some off)
    let ?a = "a @ take off s @ with_text" and ?s = "drop (off + length what) s"
    have off: "off \<le> length s" using find_sub_length [OF Some] by simp
    have "replace_loop what with_text (a @ s) (length a) n = replace_loop what with_text (?a @ ?s) (length ?a) (n + 1)"
      using Some off by (subst replace_loop.simps) (simp add: add.assoc)
    also have "\<dots> = Some (?a @ fst (replaced what with_text ?s), n + 1 + snd (replaced what with_text ?s))"
      by (rule "1.IH" [OF Some "1.prems" "1.prems"])
    finally show ?thesis
      using Some "1.prems" by (simp add: replaced.simps [of what with_text s] split: prod.splits)
  qed
qed

lemma replace_loop_diverges:
  assumes "replace_loop what with_text inout pos n = Some r"
  shows "what \<noteq> []"
  by (rule replace_loop.raw_induct [OF _ assms, where P = "\<lambda>what t s p n r. what \<noteq> []"])
    (auto split: option.splits)

text \<open>C21. Replacing ends exactly when the text to replace is not empty, and is then the replacement of its occurrences from the
  left, none inside the text put in.\<close>

theorem replace_all_result:
  "replace_all inout what with_text =
     (if what = [] then None else Some (replaced what with_text inout))"
proof (cases "what = []")
  case True
  then show ?thesis
    using replace_loop_diverges [of what with_text inout 0 0] by (cases "replace_all inout what with_text") (auto simp: replace_all_def)
next
  case False
  then show ?thesis
    using replace_loop_replaced [of what with_text "[]" inout 0] by (simp add: replace_all_def)
qed

lemma bootloader_mount_known:
  "bios_mode = ''BIOS'' \<or> bootloader \<in> set (available_bootloaders bios_mode) \<longleftrightarrow>
   bootloader_default_mount bootloader bios_mode \<noteq> ''unknown bootloader''"
  by (auto simp: bootloader_default_mount_def available_bootloaders_def)

end
