(* ===== verification/Dialog.thy ===== *)
theory Dialog
  imports Config
begin

section \<open>Screens (src/widgets.cpp)\<close>

text \<open>
  A widget shows a text and, but for the boxes that only inform, waits for the user.  What is drawn and how keys move about in
  it is the code of the ftxui library; the widget gives back what the user settled on.  An answer that does not fit the
  widget counts as going back.  The selected entry of a menu is kept inside the list by the library.
\<close>

definition notice :: "string \<Rightarrow> ('m, unit) app" where
  "notice content = lift_io (perform (Shown content) () (\<lambda>h. ((), h)))"

definition inputbox :: "string \<Rightarrow> string \<Rightarrow> ('m, string option) app" where
  "inputbox val content = do {
     a \<leftarrow> lift_io (ask content [val]);
     ret (case a of Enter s \<Rightarrow> Some s | _ \<Rightarrow> None)
   }"

definition yesno :: "string \<Rightarrow> ('m, bool) app" where
  "yesno content = do { a \<leftarrow> lift_io (ask content []); ret (a = Agree) }"

definition menu :: "string list \<Rightarrow> string \<Rightarrow> ('m, nat option) app" where
  "menu entries content = do {
     a \<leftarrow> lift_io (ask content entries);
     ret (case a of Pick i \<Rightarrow> Some (min i (length entries - 1)) | _ \<Rightarrow> None)
   }"

definition checklist :: "string list \<Rightarrow> string \<Rightarrow> ('m, bool list option) app" where
  "checklist opts content = do {
     a \<leftarrow> lift_io (ask content opts);
     ret (case a of Tick marks \<Rightarrow> Some marks | _ \<Rightarrow> None)
   }"

text \<open>Reading an entry by index, out of range in an empty list only; and the menu whose answer is the entry itself.\<close>

definition entry_at :: "string list \<Rightarrow> nat \<Rightarrow> ('m, string) app" where
  "entry_at entries i = (if i < length entries then ret (entries ! i) else lift_io (terminate ''''))"

definition pick_entry :: "string list \<Rightarrow> string \<Rightarrow> ('m, string option) app" where
  "pick_entry entries content = do {
     selected \<leftarrow> menu entries content;
     case selected of
       None \<Rightarrow> ret None
     | Some i \<Rightarrow> do { entry \<leftarrow> entry_at entries i; ret (Some entry) }
   }"

text \<open>The first word of the chosen entry; an entry without words is an access out of range.\<close>

definition first_word :: "string \<Rightarrow> ('m, string) app" where
  "first_word src =
     (case make_multiline src False space_char of
        [] \<Rightarrow> lift_io (terminate '''')
      | line # lines \<Rightarrow> ret line)"

definition pick_word :: "string list \<Rightarrow> string \<Rightarrow> ('m, string option) app" where
  "pick_word entries content = do {
     selected \<leftarrow> pick_entry entries content;
     case selected of
       None \<Rightarrow> ret None
     | Some src \<Rightarrow> do { line \<leftarrow> first_word src; ret (Some line) }
   }"

fun ticked :: "string list \<Rightarrow> bool list \<Rightarrow> string list" where
  "ticked (opt # opts) (state # opts_state) = (if state then opt # ticked opts opts_state else ticked opts opts_state)"
| "ticked opts opts_state = []"

definition from_checklist_vector :: "string list \<Rightarrow> bool list \<Rightarrow> string list" where
  "from_checklist_vector opts opts_state = ticked opts opts_state"

definition from_checklist_string :: "string list \<Rightarrow> bool list \<Rightarrow> string" where
  "from_checklist_string opts opts_state =
     (let res = concat (map (\<lambda>opt. opt @ '' '') (ticked opts opts_state))
      in if ends_with res '' '' then butlast res else res)"

subsection \<open>Dialogues that repeat\<close>

text \<open>
  A loop that asks until the answer will do: \<open>Inl\<close> asks again, \<open>Inr\<close> ends it.  Each round uses up an
  answer, so the answers there are, and one round more in which none is left, bound the rounds; the locale states when that is so, and
  \<open>repeat_dialog_step\<close> that the loop is then the one of the source.
\<close>

fun dialog_loop :: "nat \<Rightarrow> ('s \<Rightarrow> ('m, 's + 'a) app) \<Rightarrow> 'a \<Rightarrow> 's \<Rightarrow> ('m, 'a) app" where
  "dialog_loop 0 body dflt s = do { u \<leftarrow> lift_io (halt Waiting); ret dflt }"
| "dialog_loop (Suc fuel) body dflt s = do {
     r \<leftarrow> body s;
     case r of Inl s' \<Rightarrow> dialog_loop fuel body dflt s' | Inr a \<Rightarrow> ret a
   }"

definition repeat_dialog :: "('s \<Rightarrow> ('m, 's + 'a) app) \<Rightarrow> 'a \<Rightarrow> 's \<Rightarrow> ('m, 'a) app" where
  "repeat_dialog body dflt s = State (\<lambda>(w, c). run_state (dialog_loop (Suc (length (user_answers w))) body dflt s) (w, c))"

text \<open>A menu stays open until an entry closes it or the user goes back.\<close>

definition menu_body :: "string list \<Rightarrow> string \<Rightarrow> (nat \<Rightarrow> ('m, bool) app) \<Rightarrow> unit \<Rightarrow> ('m, unit + unit) app" where
  "menu_body entries content callback u = do {
     selected \<leftarrow> menu entries content;
     case selected of
       None \<Rightarrow> ret (Inr ())
     | Some i \<Rightarrow> do { closed \<leftarrow> callback i; ret (if closed then Inr () else Inl ()) }
   }"

definition menu_loop :: "string list \<Rightarrow> string \<Rightarrow> (nat \<Rightarrow> ('m, bool) app) \<Rightarrow> ('m, unit) app" where
  "menu_loop entries content callback = repeat_dialog (menu_body entries content callback) () ()"

subsection \<open>Evaluation\<close>

lemma run_notice [app_simps]:
  "status w = Running \<Longrightarrow> run_state (notice content) (w, c) = ((), (w\<lparr>trace := trace w @ [Shown content]\<rparr>, c))"
  by (simp add: notice_def run_lift_io perform_def)

lemma run_inputbox:
  "status w = Running \<Longrightarrow> user_answers w = a # later \<Longrightarrow>
   run_state (inputbox val content) (w, c) =
     (case a of Enter s \<Rightarrow> Some s | _ \<Rightarrow> None, (w\<lparr>user_answers := later, trace := trace w @ [Asked content [val] a]\<rparr>, c))"
  by (simp add: inputbox_def run_lift_io run_ask)

lemma run_inputbox_alone:
  "status w = Running \<Longrightarrow> user_answers w = [] \<Longrightarrow> run_state (inputbox val content) (w, c) = (None, (w\<lparr>status := Waiting\<rparr>, c))"
  by (simp add: inputbox_def run_lift_io run_ask_alone)

lemma run_yesno:
  "status w = Running \<Longrightarrow> user_answers w = a # later \<Longrightarrow>
   run_state (yesno content) (w, c) = (a = Agree, (w\<lparr>user_answers := later, trace := trace w @ [Asked content [] a]\<rparr>, c))"
  by (simp add: yesno_def run_lift_io run_ask)

lemma run_menu:
  "status w = Running \<Longrightarrow> user_answers w = a # later \<Longrightarrow>
   run_state (menu entries content) (w, c) =
     (case a of Pick i \<Rightarrow> Some (min i (length entries - 1)) | _ \<Rightarrow> None,
      (w\<lparr>user_answers := later, trace := trace w @ [Asked content entries a]\<rparr>, c))"
  by (simp add: menu_def run_lift_io run_ask)

lemma run_repeat_dialog:
  "run_state (repeat_dialog body dflt s) (w, c) = run_state (dialog_loop (Suc (length (user_answers w))) body dflt s) (w, c)"
  by (simp add: repeat_dialog_def)

subsection \<open>The bound on the rounds\<close>

locale dialogue =
  fixes body :: "'s \<Rightarrow> ('m, 's + 'a) app"
  assumes uses_answer: "run_state (body s) (w, c) = (Inl s', (w', c')) \<Longrightarrow> length (user_answers w') < length (user_answers w)"
begin

lemma enough_rounds:
  "length (user_answers w) < n \<Longrightarrow> length (user_answers w) < m \<Longrightarrow>
   run_state (dialog_loop n body dflt s) (w, c) = run_state (dialog_loop m body dflt s) (w, c)"
proof (induction n arbitrary: m s w c)
  case (Suc n)
  then obtain m' where m: "m = Suc m'" by (cases m) auto
  obtain r w' c' where r: "run_state (body s) (w, c) = (r, (w', c'))" by (metis surj_pair)
  show ?case
  proof (cases r)
    case (Inl s')
    have "length (user_answers w') < n" "length (user_answers w') < m'"
      using uses_answer [OF r [unfolded Inl]] Suc.prems m by linarith+
    then have "run_state (dialog_loop n body dflt s') (w', c') = run_state (dialog_loop m' body dflt s') (w', c')" by (rule Suc.IH)
    then show ?thesis by (simp add: m r Inl)
  qed (simp add: m r)
qed simp

lemma repeat_dialog_step:
  "repeat_dialog body dflt s = do { r \<leftarrow> body s; case r of Inl s' \<Rightarrow> repeat_dialog body dflt s' | Inr a \<Rightarrow> ret a }"
proof (rule state_ext)
  fix wc :: "'m world \<times> config"
  obtain w c where wc: "wc = (w, c)" by force
  obtain r w' c' where r: "run_state (body s) (w, c) = (r, (w', c'))" by (metis surj_pair)
  show "run_state (repeat_dialog body dflt s) wc =
      run_state (do { r \<leftarrow> body s; case r of Inl s' \<Rightarrow> repeat_dialog body dflt s' | Inr a \<Rightarrow> ret a }) wc"
  proof (cases r)
    case (Inl s')
    have "length (user_answers w') < length (user_answers w)" by (rule uses_answer [OF r [unfolded Inl]])
    then have "run_state (dialog_loop (length (user_answers w)) body dflt s') (w', c') =
        run_state (dialog_loop (Suc (length (user_answers w'))) body dflt s') (w', c')"
      by (intro enough_rounds) auto
    then show ?thesis by (simp add: wc r Inl run_repeat_dialog)
  qed (simp add: wc r run_repeat_dialog)
qed

end

end
