(* ===== verification/Installer.thy ===== *)
theory Installer
  imports Dialog Fstab Accounts System_Setup Partitioning Mtab Luks Packages Repos
begin

section \<open>The installer's operations (src/utils.cpp, src/follow_process_log.cpp)\<close>

text \<open>
  The operations between the screens and the library \<^verbatim>\<open>gucc\<close>: each reads its settings, calls the
  library and goes on whatever the library reports.  Names carry the prefix of their namespace where the library has an
  operation of the same name.  A screen that only shows a text is a notice: an event of the trace.
  \<open>sort_mtab\<close> and \<open>sort_parts\<close> stand for \<^verbatim>\<open>std::ranges::sort\<close> at the types that the library sorts.
\<close>

subsection \<open>Commands\<close>

text \<open>A shell command is run under the log screen with a closing echo, so its own exit status does not reach the caller.\<close>

definition follow_args :: "string list \<Rightarrow> string list" where
  "follow_args vec =
     (if length vec > 2 \<and> vec ! 1 = ''-c''
      then butlast vec @ [last vec @ '' ; echo -e \"\<newline>----------DONE----------\<newline>\"'']
      else vec)"

definition follow_process_log_widget :: "'m sysenv \<Rightarrow> string list \<Rightarrow> ('m, bool) io" where
  "follow_process_log_widget env vec =
     perform (Follow (follow_args vec)) False (follow_call env (follow_args vec))"

definition run_or_follow :: "'m sysenv \<Rightarrow> int \<Rightarrow> string \<Rightarrow> ('m, bool) io" where
  "run_or_follow env headless_mode cmd_formatted =
     (if headless_mode \<noteq> 0 then exec_checked env cmd_formatted
      else follow_process_log_widget env [''/bin/sh'', ''-c'', cmd_formatted])"

definition is_connected :: "'m sysenv \<Rightarrow> ('m, bool) io" where
  "is_connected env =
     (if ndevenv env
      then do {
        (code, content) \<leftarrow> http_request env ''https://cachyos.org'';
        ret (http_success env code \<or> http_redirect env code)
      }
      else ret True)"

definition check_root :: "'m sysenv \<Rightarrow> ('m, bool) io" where
  "check_root env =
     (if ndevenv env then do { out \<leftarrow> exec env ''whoami'' False; ret (out = ''root'') } else ret True)"

definition utils_arch_chroot :: "'m sysenv \<Rightarrow> string \<Rightarrow> bool \<Rightarrow> ('m, unit) app" where
  "utils_arch_chroot env command follow = do {
     mnt \<leftarrow> cfg_str ''MOUNTPOINT'';
     headless_mode \<leftarrow> cfg_int ''HEADLESS_MODE'';
     if ndevenv env then
       (let follow_headless = follow \<and> headless_mode \<noteq> 0 in
        if \<not> follow \<or> follow_headless
        then lift_io (do { ok \<leftarrow> arch_chroot_checked env command mnt; ret () })
        else lift_io (do {
          ok \<leftarrow> follow_process_log_widget env [''/bin/sh'', ''-c'',
            (''arch-chroot '' @ mnt @ '' '' @ command @ '' 2>>/tmp/cachyos-install.log 2>&1'')];
          ret ()
        }))
     else ret ()
   }"

definition inst_needed :: "'m sysenv \<Rightarrow> string \<Rightarrow> ('m, unit) app" where
  "inst_needed env pkg = do {
     there \<leftarrow> lift_io (exec_checked env (''pacman -Qq '' @ pkg @ '' &>/dev/null''));
     if there then ret ()
     else if ndevenv env then do {
       headless_mode \<leftarrow> cfg_int ''HEADLESS_MODE'';
       ok \<leftarrow> lift_io (run_or_follow env headless_mode (''pacman -Sy --noconfirm '' @ pkg));
       ret ()
     }
     else ret ()
   }"

subsection \<open>Disks\<close>

definition swapoff_cmd :: "string \<Rightarrow> string" where
  "swapoff_cmd swap_device = (''swapoff '' @ swap_device)"

definition utils_umount_partitions :: "'m sysenv \<Rightarrow> mtab_entry sorter \<Rightarrow> ('m, unit) app" where
  "utils_umount_partitions env sort_mtab = do {
     mnt \<leftarrow> cfg_str ''MOUNTPOINT'';
     zfs_zpool_names \<leftarrow> cfg_strs ''ZFS_ZPOOL_NAMES'';
     swap_device \<leftarrow> cfg_str ''SWAP_DEVICE'';
     if ndevenv env then
       lift_io (do {
         off \<leftarrow> (if swap_device \<noteq> '''' then exec_checked env (swapoff_cmd swap_device) else ret True);
         ok \<leftarrow> umount_partitions env sort_mtab mnt zfs_zpool_names;
         ret ()
       })
     else ret ()
   }"

definition auto_partition :: "'m sysenv \<Rightarrow> fs_partition sorter \<Rightarrow> ('m, unit) app" where
  "auto_partition env sort_parts = do {
     device_info \<leftarrow> cfg_str ''DEVICE'';
     system_info \<leftarrow> cfg_str ''SYSTEM'';
     bootloader \<leftarrow> cfg_str ''BOOTLOADER'';
     let boot_mountpoint = bootloader_default_mount bootloader system_info;
     if boot_mountpoint = ''unknown bootloader'' then ret ()
     else if ndevenv env then
       (let is_system_efi = (system_info = ''UEFI'');
            partitions = generate_default_partition_schema device_info boot_mountpoint is_system_efi
        in if partitions = [] then ret ()
           else lift_io (do {
             ok \<leftarrow> make_clean_partschema env sort_parts device_info partitions is_system_efi;
             ret ()
           }))
     else ret ()
   }"

definition secure_wipe :: "'m sysenv \<Rightarrow> ('m, unit) app" where
  "secure_wipe env = do {
     device_info \<leftarrow> cfg_str ''DEVICE'';
     if ndevenv env then do {
       u \<leftarrow> inst_needed env ''wipe'';
       headless_mode \<leftarrow> cfg_int ''HEADLESS_MODE'';
       ok \<leftarrow> lift_io (run_or_follow env headless_mode (''wipe -Ifre '' @ device_info));
       ret ()
     }
     else ret ()
   }"

definition utils_generate_fstab :: "'m sysenv \<Rightarrow> ('m, unit) app" where
  "utils_generate_fstab env = do {
     mnt \<leftarrow> cfg_str ''MOUNTPOINT'';
     if ndevenv env then lift_io (do { ok \<leftarrow> run_genfstab_on_mount env mnt; ret () }) else ret ()
   }"

definition find_partitions_cmd :: "string \<Rightarrow> string" where
  "find_partitions_cmd include_part =
     (''lsblk -lno NAME,SIZE,TYPE | grep '' @ squote @ include_part @ squote @ '' | sed '' @ squote @ ''s/part$/''
        @ backslash @ ''/dev'' @ backslash @ ''//g'' @ squote @ '' | sed '' @ squote @ ''s/lvm$'' @ backslash
        @ ''|crypt$/'' @ backslash @ ''/dev'' @ backslash @ ''/mapper'' @ backslash @ ''//g'' @ squote
        @ '' | awk '' @ squote @ ''{print $3$1 \" \" $2}'' @ squote @ '' | awk '' @ squote
        @ ''!/mapper/{a[++i]=$0;next}1;END{while(x<length(a))print a[++x]}'' @ squote
        @ '' ; zfs list -Ht volume -o name,volsize 2>/dev/null | awk '' @ squote
        @ ''{printf \"/dev/zvol/%s %s'' @ backslash @ ''n\", $1, $2}'' @ squote)"

definition raid_partitions_cmd :: string where
  "raid_partitions_cmd = (''lsblk -lno NAME,SIZE,TYPE | grep raid | awk '' @ squote @ ''{print $1,$2}'' @ squote @ '' | uniq'')"

fun append_raid_parts :: "string \<Rightarrow> string list \<Rightarrow> string" where
  "append_raid_parts partitions_tmp [] = partitions_tmp"
| "append_raid_parts partitions_tmp (raid_part # raid_parts) =
     (case make_multiline raid_part False space_char of
        [] \<Rightarrow> append_raid_parts partitions_tmp raid_parts
      | name # rest \<Rightarrow>
          append_raid_parts (partitions_tmp @ [newline_char] @
            (''/dev/'' @ name @ '' '' @ (case rest of [] \<Rightarrow> '''' | sz # _ \<Rightarrow> sz))) raid_parts)"

text \<open>Too few partitions are reported and lead to the screen that creates some: \<open>create_partitions\<close>, a parameter.\<close>

definition too_few_partitions :: "string \<Rightarrow> string \<Rightarrow> int \<Rightarrow> string option" where
  "too_few_partitions include_part system_info number_partitions =
     (if include_part = (''part'' @ backslash @ ''|lvm'' @ backslash @ ''|crypt'') \<and>
        ((system_info = ''UEFI'' \<and> number_partitions < 2) \<or> (system_info = ''BIOS'' \<and> number_partitions = 0))
      then Some (''\<newline>BIOS systems require a minimum of one partition (ROOT).\<newline> \<newline>''
        @ ''UEFI systems require a minimum of two partitions (ROOT and UEFI).\<newline>'')
      else if include_part = (''part'' @ backslash @ ''|crypt'') \<and> number_partitions = 0
      then Some (''\<newline>There are no viable partitions available to use Logical Volume Manager.\<newline>''
        @ ''A minimum of one is required.\<newline>\<newline>If LVM is already in use, deactivating it will allow the partition(s)\<newline>''
        @ ''used for its Physical Volume(s) to be used again.\<newline>'')
      else if include_part = (''part'' @ backslash @ ''|lvm'') \<and> number_partitions < 2
      then Some (''\<newline>A minimum of two partitions are required for encryption:\<newline>\<newline>''
        @ ''1. Root (/) - standard or lvm partition types.\<newline>\<newline>''
        @ ''2. Boot (/boot or /boot/efi) - standard partition types only\<newline>(except lvm where using BIOS Grub).\<newline>'')
      else None)"

definition find_partitions :: "'m sysenv \<Rightarrow> ('m, unit) app \<Rightarrow> ('m, unit) app" where
  "find_partitions env create_partitions = do {
     u \<leftarrow> cfg_set ''PARTITIONS'' (CStr '''');
     u \<leftarrow> cfg_set ''NUMBER_PARTITIONS'' (CInt 0);
     include_part \<leftarrow> cfg_str ''INCLUDE_PART'';
     partitions_tmp \<leftarrow> lift_io (exec env (find_partitions_cmd include_part) False);
     raid_partitions_raw \<leftarrow> lift_io (exec env raid_partitions_cmd False);
     let partitions_tmp = (if raid_partitions_raw = '''' then partitions_tmp
           else append_raid_parts partitions_tmp (make_multiline raid_partitions_raw True newline_char));
     let partition_list = make_multiline partitions_tmp True newline_char;
     u \<leftarrow> cfg_set ''PARTITIONS'' (CStrs partition_list);
     u \<leftarrow> cfg_set ''NUMBER_PARTITIONS'' (CInt (int (length partition_list)));
     system_info \<leftarrow> cfg_str ''SYSTEM'';
     case too_few_partitions include_part system_info (int (length partition_list)) of
       None \<Rightarrow> ret ()
     | Some body \<Rightarrow> do { u \<leftarrow> notice body; create_partitions }
   }"

definition lvm_detect :: "'m sysenv \<Rightarrow> ('m, unit) app option \<Rightarrow> ('m, unit) app" where
  "lvm_detect env func_callback = do {
     lvm_pv \<leftarrow> lift_io (exec env ''pvs -o pv_name --noheading 2>/dev/null'' False);
     lvm_vg \<leftarrow> lift_io (exec env ''vgs -o vg_name --noheading 2>/dev/null'' False);
     lvm_lv \<leftarrow> lift_io (exec env ''lvs -o vg_name,lv_name --noheading --separator - 2>/dev/null'' False);
     if lvm_lv = '''' \<or> lvm_vg = '''' \<or> lvm_pv = '''' then ret ()
     else do {
       u \<leftarrow> (case func_callback of None \<Rightarrow> ret () | Some callback \<Rightarrow> callback);
       if ndevenv env then
         lift_io (do {
           ok \<leftarrow> exec_checked env ''modprobe -v dm-mod &>>/tmp/cachyos-install.log'';
           ok \<leftarrow> exec_checked env ''vgscan -v 1>/dev/null 2>>/tmp/cachyos-install.log'';
           ok \<leftarrow> exec_checked env ''vgchange -ay -v 1>/dev/null 2>>/tmp/cachyos-install.log'';
           ret ()
         })
       else ret ()
     }
   }"

definition lvm_del_all :: "'m sysenv \<Rightarrow> ('m, unit) io" where
  "lvm_del_all env =
     (if ndevenv env then do {
        out \<leftarrow> exec env ''lvremove -ff $(lvs --noheadings -o lv_path 2>/dev/null) 2>/dev/null'' True;
        out \<leftarrow> exec env ''vgremove -ff $(vgs --noheadings -o vg_name 2>/dev/null) 2>/dev/null'' True;
        out \<leftarrow> exec env ''pvremove -ff $(pvs --noheadings -o pv_name 2>/dev/null) 2>/dev/null'' True;
        ret ()
      }
      else ret ())"

subsection \<open>The installed system\<close>

definition on_mountpoint :: "'m sysenv \<Rightarrow> (string \<Rightarrow> ('m, bool) io) \<Rightarrow> ('m, unit) app" where
  "on_mountpoint env operation =
     (if ndevenv env then do {
        mnt \<leftarrow> cfg_str ''MOUNTPOINT'';
        lift_io (do { ok \<leftarrow> operation mnt; ret () })
      }
      else ret ())"

definition utils_set_hostname :: "'m sysenv \<Rightarrow> string \<Rightarrow> ('m, unit) app" where
  "utils_set_hostname env hostname = on_mountpoint env (set_hostname env hostname)"

definition utils_set_locale :: "'m sysenv \<Rightarrow> string \<Rightarrow> ('m, unit) app" where
  "utils_set_locale env locale_name = on_mountpoint env (set_locale env locale_name)"

definition set_xkbmap :: "'m sysenv \<Rightarrow> string \<Rightarrow> ('m, unit) app" where
  "set_xkbmap env xkbmap =
     on_mountpoint env (\<lambda>mnt. do {
       out \<leftarrow> exec env
         (''echo -e \"Section \"'' @ backslash @ ''\"InputClass\"'' @ backslash @ ''\"'' @ backslash
        @ ''nIdentifier \"'' @ backslash @ ''\"system-keyboard\"'' @ backslash @ ''\"'' @ backslash
        @ ''nMatchIsKeyboard \"'' @ backslash @ ''\"on\"'' @ backslash @ ''\"'' @ backslash @ ''nOption \"''
        @ backslash @ ''\"XkbLayout\"'' @ backslash @ ''\" \"'' @ backslash @ ''\"'' @ xkbmap @ ''\"''
        @ backslash @ ''\"'' @ backslash @ ''nEndSection\" > '' @ mnt
        @ ''/etc/X11/xorg.conf.d/00-keyboard.conf'') False;
       ret True
     })"

definition select_keymap :: "string \<Rightarrow> ('m, unit) app" where
  "select_keymap selected_keymap = cfg_set ''KEYMAP'' (CStr selected_keymap)"

definition load_keymap :: "'m sysenv \<Rightarrow> ('m, unit) app" where
  "load_keymap env = do {
     keymap \<leftarrow> cfg_str ''KEYMAP'';
     out \<leftarrow> lift_io (exec env (''loadkeys '' @ keymap) False);
     ret ()
   }"

definition set_timezone :: "'m sysenv \<Rightarrow> string \<Rightarrow> ('m, unit) app" where
  "set_timezone env timezone =
     (if ndevenv env
      then utils_arch_chroot env (''ln -sf /usr/share/zoneinfo/'' @ timezone @ '' /etc/localtime'') False
      else ret ())"

definition set_hw_clock :: "'m sysenv \<Rightarrow> string \<Rightarrow> ('m, unit) app" where
  "set_hw_clock env clock_type =
     on_mountpoint env (\<lambda>mnt.
       if clock_type = ''utc'' then set_hwclock_utc env mnt
       else if clock_type = ''localtime'' then set_hwclock_localtime env mnt
       else ret False)"

definition default_user_groups :: "string list" where
  "default_user_groups =
     [''wheel'', ''rfkill'', ''sys'', ''users'', ''lp'', ''video'', ''network'', ''storage'', ''audio'']"

definition pacstrap_cmd :: "int \<Rightarrow> string \<Rightarrow> string \<Rightarrow> string" where
  "pacstrap_cmd hostcache mnt packages =
     (let cmd = (if hostcache \<noteq> 0 then ''pacstrap'' else ''pacstrap -c'')
      in (cmd @ '' '' @ mnt @ '' '' @ packages @ '' |& tee -a /tmp/pacstrap.log''))"

definition utils_create_new_user :: "'m sysenv \<Rightarrow> string \<Rightarrow> string \<Rightarrow> string \<Rightarrow> ('m, unit) app" where
  "utils_create_new_user env user user_password user_shell =
     (if ndevenv env then do {
        mnt \<leftarrow> cfg_str ''MOUNTPOINT'';
        u \<leftarrow> (if ends_with user_shell ''zsh'' \<or> ends_with user_shell ''fish''
              then do {
                let packages = (''cachyos-'' @ (if ends_with user_shell ''zsh'' then ''zsh'' else ''fish'') @ ''-config'');
                hostcache \<leftarrow> cfg_int ''hostcache'';
                headless_mode \<leftarrow> cfg_int ''HEADLESS_MODE'';
                ok \<leftarrow> lift_io (run_or_follow env headless_mode (pacstrap_cmd hostcache mnt packages));
                ret ()
              }
              else ret ());
        lift_io (do {
          ok \<leftarrow> create_new_user env
            \<lparr>username = user, password = user_password, shell = user_shell, sudoers_group = ''wheel''\<rparr>
            default_user_groups mnt;
          ret ()
        })
      }
      else ret ())"

definition utils_set_root_password :: "'m sysenv \<Rightarrow> string \<Rightarrow> ('m, unit) app" where
  "utils_set_root_password env root_password = on_mountpoint env (set_root_password env root_password)"

definition utils_enable_autologin :: "'m sysenv \<Rightarrow> string \<Rightarrow> string \<Rightarrow> ('m, unit) app" where
  "utils_enable_autologin env dm user = on_mountpoint env (enable_autologin env dm user)"

definition grub_mkconfig :: "'m sysenv \<Rightarrow> ('m, unit) app" where
  "grub_mkconfig env = utils_arch_chroot env ''grub-mkconfig -o /boot/grub/grub.cfg'' True"

subsection \<open>Packages\<close>

definition utils_get_pkglist_base ::
  "'m sysenv \<Rightarrow> (nat \<Rightarrow> nat) \<Rightarrow> (string \<Rightarrow> (string \<times> toml) list option) \<Rightarrow> string \<Rightarrow> ('m, profile_error + string list) app" where
  "utils_get_pkglist_base env grow toml_parse packages = do {
     server_mode \<leftarrow> cfg_int ''SERVER_MODE'';
     mountpoint_info \<leftarrow> cfg_str ''MOUNTPOINT'';
     url \<leftarrow> cfg_str ''NET_PROFILES_URL'';
     fallback_url \<leftarrow> cfg_str ''NET_PROFILES_FALLBACK_URL'';
     root_filesystem \<leftarrow> lift_io (get_mountpoint_fs env mountpoint_info);
     lift_io (get_pkglist_base env grow toml_parse packages root_filesystem (server_mode \<noteq> 0)
       \<lparr>net_profs_url = url, net_profs_fallback_url = fallback_url\<rparr>)
   }"

definition utils_get_pkglist_desktop ::
  "'m sysenv \<Rightarrow> (string \<Rightarrow> (string \<times> toml) list option) \<Rightarrow> string \<Rightarrow> ('m, profile_error + string list) app" where
  "utils_get_pkglist_desktop env toml_parse desktop_env = do {
     url \<leftarrow> cfg_str ''NET_PROFILES_URL'';
     fallback_url \<leftarrow> cfg_str ''NET_PROFILES_FALLBACK_URL'';
     lift_io (get_pkglist_desktop env toml_parse desktop_env
       \<lparr>net_profs_url = url, net_profs_fallback_url = fallback_url\<rparr>)
   }"

definition install_from_pkglist :: "'m sysenv \<Rightarrow> string \<Rightarrow> ('m, bool) app" where
  "install_from_pkglist env packages = do {
     mnt \<leftarrow> cfg_str ''MOUNTPOINT'';
     hostcache \<leftarrow> cfg_int ''hostcache'';
     if ndevenv env then do {
       headless_mode \<leftarrow> cfg_int ''HEADLESS_MODE'';
       ok \<leftarrow> lift_io (run_or_follow env headless_mode (pacstrap_cmd hostcache mnt packages));
       if \<not> ok then ret False else ret True
     }
     else ret True
   }"

definition remove_pkgs :: "'m sysenv \<Rightarrow> string \<Rightarrow> ('m, unit) app" where
  "remove_pkgs env packages =
     (if packages = '''' then ret ()
      else if ndevenv env then utils_arch_chroot env (''pacman -Rsn '' @ packages) True
      else ret ())"

subsection \<open>Services\<close>

definition standard_services :: "string list" where
  "standard_services =
     [''avahi-daemon'', ''bluetooth'', ''cronie'', ''ModemManager'', ''NetworkManager'', ''org.cups.cupsd'', ''tlp'',
      ''haveged'', ''ufw'', ''apparmor'', ''fstrim.timer'']"

definition zfs_services :: "string list" where
  "zfs_services = [''zfs.target'', ''zfs-import-cache'', ''zfs-mount'', ''zfs-import.target'']"

fun enable_present_services :: "'m sysenv \<Rightarrow> string \<Rightarrow> string list \<Rightarrow> ('m, unit) io" where
  "enable_present_services env mnt [] = ret ()"
| "enable_present_services env mnt (service_name # services) = do {
     there \<leftarrow> path_exists env (mnt @ ''/usr/lib/systemd/system/'' @ service_name @ ''.service'');
     if \<not> there then enable_present_services env mnt services
     else do {
       ok \<leftarrow> enable_systemd_service env service_name mnt;
       enable_present_services env mnt services
     }
   }"

fun enable_all_services :: "'m sysenv \<Rightarrow> string \<Rightarrow> string list \<Rightarrow> ('m, unit) io" where
  "enable_all_services env mnt [] = ret ()"
| "enable_all_services env mnt (service_name # services) = do {
     ok \<leftarrow> enable_systemd_service env service_name mnt;
     enable_all_services env mnt services
   }"

definition finish_zfs :: "'m sysenv \<Rightarrow> string \<Rightarrow> ('m, unit) io" where
  "finish_zfs env mnt = do {
     u \<leftarrow> enable_all_services env mnt zfs_services;
     out \<leftarrow> exec env (''zpool set cachefile=/etc/zfs/zpool.cache $(findmnt '' @ mnt @ '' -lno SOURCE | awk -F / '' @ squote
        @ ''{print $1}'' @ squote @ '') 2>>/tmp/cachyos-install.log'') True;
     out \<leftarrow> exec env (''cp /etc/zfs/zpool.cache '' @ mnt @ ''/etc/zfs/zpool.cache 2>>/tmp/cachyos-install.log'') True;
     ret ()
   }"

fun pick_greeter :: "string list \<Rightarrow> string option" where
  "pick_greeter [] = None"
| "pick_greeter (temp # names) =
     (if \<not> starts_with temp ''lightdm-'' \<and> \<not> ends_with temp ''-greeter'' then pick_greeter names
      else if temp = ''lightdm-gtk-greeter'' then pick_greeter names
      else Some temp)"

definition set_lightdm_greeter :: "'m sysenv \<Rightarrow> string \<Rightarrow> ('m, unit) io" where
  "set_lightdm_greeter env mnt = do {
     let xgreeters_path = (mnt @ ''/usr/share/xgreeters'');
     there \<leftarrow> path_exists env xgreeters_path;
     if \<not> there then ret ()
     else do {
       names \<leftarrow> inspect [] (dir_entries env xgreeters_path);
       case pick_greeter names of
         None \<Rightarrow> ret ()
       | Some temp \<Rightarrow> do {
           out \<leftarrow> exec env (''sed -i -e '' @ squote @ ''s/^.*greeter-session=.*/greeter-session='' @ temp @ ''/'' @ squote @ '' '' @ mnt
        @ ''/etc/lightdm/lightdm.conf'') False;
           ret ()
         }
     }
   }"

fun enable_display_manager :: "'m sysenv \<Rightarrow> string \<Rightarrow> string list \<Rightarrow> ('m, unit) io" where
  "enable_display_manager env mnt [] = ret ()"
| "enable_display_manager env mnt (dm # dms) = do {
     there \<leftarrow> exec_checked env (''arch-chroot '' @ mnt @ '' pacman -Qq '' @ dm @ '' &> /dev/null'');
     if there then do {
       u \<leftarrow> (if dm = ''lightdm'' then set_lightdm_greeter env mnt else ret ());
       ok \<leftarrow> enable_systemd_service env dm mnt;
       ret ()
     }
     else enable_display_manager env mnt dms
   }"

definition enable_services :: "'m sysenv \<Rightarrow> ('m, unit) app" where
  "enable_services env =
     (if ndevenv env then do {
        mnt \<leftarrow> cfg_str ''MOUNTPOINT'';
        zfs \<leftarrow> cfg_int ''ZFS'';
        u \<leftarrow> lift_io (enable_present_services env mnt standard_services);
        u \<leftarrow> utils_arch_chroot env ''systemctl disable pacman-init'' False;
        u \<leftarrow> lift_io (enable_display_manager env mnt [''lightdm'', ''sddm'', ''gdm'', ''lxdm'', ''ly'']);
        if zfs = 0 then ret () else lift_io (finish_zfs env mnt)
      }
      else ret ())"

definition install_desktop ::
  "'m sysenv \<Rightarrow> (string \<Rightarrow> (string \<times> toml) list option) \<Rightarrow> string \<Rightarrow> ('m, profile_error + unit) app" where
  "install_desktop env toml_parse desktop = do {
     pkg_list \<leftarrow> utils_get_pkglist_desktop env toml_parse desktop;
     case pkg_list of
       Inl e \<Rightarrow> ret (Inl e)
     | Inr pkgs \<Rightarrow> do {
         ok \<leftarrow> install_from_pkglist env (join pkgs space_char);
         u \<leftarrow> cfg_set ''DE'' (CStr desktop);
         u \<leftarrow> enable_services env;
         ret (Inr ())
       }
   }"

subsection \<open>Looking at the machine\<close>

definition list_mounted :: "'m sysenv \<Rightarrow> ('m, string) io" where
  "list_mounted env = do {
     out \<leftarrow> exec env (''lsblk -l | awk '' @ squote @ ''$7 ~ /mnt/ {print $1}'' @ squote @ '' > /tmp/.mounted'') False;
     exec env ''echo /dev/* /dev/mapper/* | xargs -n1 2>/dev/null | grep -f /tmp/.mounted'' False
   }"

definition list_containing_crypt :: "'m sysenv \<Rightarrow> ('m, string) io" where
  "list_containing_crypt env = exec env (''blkid | awk '' @ squote @ ''/TYPE=\"crypto_LUKS\"/{print $1}'' @ squote @ '' | sed '' @ squote @ ''s/.$//''
        @ squote) False"

definition list_non_crypt :: "'m sysenv \<Rightarrow> ('m, string) io" where
  "list_non_crypt env = exec env (''blkid | awk '' @ squote @ ''!/TYPE=\"crypto_LUKS\"/{print $1}'' @ squote @ '' | sed '' @ squote @ ''s/.$//''
        @ squote) False"

definition check_mount :: "'m sysenv \<Rightarrow> ('m, bool) app" where
  "check_mount env =
     (if ndevenv env then do {
        mountpoint_info \<leftarrow> cfg_str ''MOUNTPOINT'';
        out \<leftarrow> lift_io (exec env (''findmnt -nl '' @ mountpoint_info) False);
        if out = '''' then ret False else ret True
      }
      else ret True)"

definition check_base :: "'m sysenv \<Rightarrow> ('m, bool) app" where
  "check_base env =
     (if ndevenv env then do {
        mounted \<leftarrow> check_mount env;
        if \<not> mounted then ret False
        else do {
          there \<leftarrow> lift_io (path_exists env ''/mnt/usr/bin/pacman'');
          if \<not> there then do { u \<leftarrow> notice ''\<newline>The CachyOS base must be installed first.\<newline>''; ret False }
          else ret True
        }
      }
      else ret True)"

abbreviation efi_path :: string where "efi_path \<equiv> ''/sys/firmware/efi/''"

text \<open>The EFI variables are mounted where they are not yet; failing to ends the process.\<close>

definition mount_efivarfs :: "'m sysenv \<Rightarrow> ('m, unit) io" where
  "mount_efivarfs env = do {
     mount_out \<leftarrow> exec env ''mount | grep /sys/firmware/efi/efivars'' False;
     if mount_out = '''' then do {
       rc \<leftarrow> sys_mount env ''efivarfs'' ''/sys/firmware/efi/efivars'' ''efivarfs'';
       if rc \<noteq> 0 then halt (Exited 1) else ret ()
     }
     else ret ()
   }"

definition id_system :: "'m sysenv \<Rightarrow> ('m, unit) app" where
  "id_system env = do {
     sys_vendor \<leftarrow> lift_io (exec env ''cat /sys/class/dmi/id/sys_vendor'' False);
     out \<leftarrow> lift_io (if sys_vendor = ''Apple Inc.'' \<or> sys_vendor = ''Apple Computer, Inc.''
       then exec env ''modprobe -r -q efivars || true'' False
       else exec env ''modprobe -q efivarfs'' False);
     efi \<leftarrow> lift_io (inspect False (dir_exists env efi_path));
     u \<leftarrow> (if efi then do {
         u \<leftarrow> lift_io (mount_efivarfs env);
         cfg_set ''SYSTEM'' (CStr ''UEFI'')
       }
       else ret ());
     init_sys \<leftarrow> lift_io (exec env ''cat /proc/1/comm'' False);
     h_init \<leftarrow> cfg_str ''H_INIT'';
     u \<leftarrow> (if init_sys = ''systemd'' then cfg_set ''H_INIT'' (CStr ''systemd'') else ret ());
     let h_init = (if init_sys = ''systemd'' then ''systemd'' else h_init);
     if h_init = ''systemd'' then do {
       active \<leftarrow> lift_io (exec env ''systemctl is-active NetworkManager'' False);
       if active = ''active'' then cfg_set ''NW_CMD'' (CStr ''nmtui'') else ret ()
     }
     else ret ()
   }"

definition install_cachyos_repo :: "'m sysenv \<Rightarrow> cpu \<Rightarrow> 32 word \<Rightarrow> ('m, unit) io" where
  "install_cachyos_repo env processor g_cpu_features = do {
     repo_list \<leftarrow> get_repo_list ''/etc/pacman.conf'';
     if ndevenv env then do { ok \<leftarrow> install_cachyos_repos env processor g_cpu_features; ret () } else ret ()
   }"

text \<open>
  The question whether to connect by wifi is a line of the terminal; an answer that is no text is the end of the input.  What has
  the right length is the character it is, everything else the null character.  After the text on \<^verbatim>\<open>iwctl\<close> the installer
  waits for a key, whose value is not looked at.  \<open>time_waited\<close> counts the seconds slept.
\<close>

definition escape :: "string \<Rightarrow> string" where
  "escape code = CHR 0x1B # ''['' @ code"

definition RED :: string where "RED = escape ''31m''"

definition RESET :: string where "RESET = escape ''0m''"

definition prompt_char :: "string \<Rightarrow> string \<Rightarrow> ('m, char option) io" where
  "prompt_char prompt color = do {
     a \<leftarrow> ask (color @ prompt @ RESET) [];
     ret (case a of Enter tmp \<Rightarrow> Some (if length tmp = 1 then tmp ! 0 else CHR 0x00) | _ \<Rightarrow> None)
   }"

definition iwctl_msg :: string where
  "iwctl_msg = ''iwctl is a wireless configuration utility.'' @ [newline_char] @
     ''To connect to a wireless network:'' @ [newline_char] @
     ''1. List devices: iwctl device list'' @ [newline_char] @
     ''2. Scan for networks: iwctl station <device> scan'' @ [newline_char] @
     ''3. List networks: iwctl station <device> get-networks'' @ [newline_char] @
     ''4. Connect: iwctl station <device> connect <network>'' @ [newline_char] @ [newline_char] @
     ''Press any key to continue...'' @ [newline_char]"

definition show_iwctl :: "('m, unit) io" where
  "show_iwctl = do {
     u \<leftarrow> perform (Shown iwctl_msg) () (\<lambda>h. ((), h));
     key \<leftarrow> ask '''' [];
     ret ()
   }"

definition wifi_prompt :: string where
  "wifi_prompt = ''An active network connection could not be detected, do you want to connect using wifi? [y/n]''"

definition offer_wifi :: "('m, unit) io" where
  "offer_wifi = do {
     answer \<leftarrow> prompt_char wifi_prompt RED;
     case answer of None \<Rightarrow> ret () | Some typed \<Rightarrow> if typed \<noteq> CHR ''n'' then show_iwctl else ret ()
   }"

definition CONNECTION_TIMEOUT :: nat where "CONNECTION_TIMEOUT = 15"

function wait_connection :: "'m sysenv \<Rightarrow> nat \<Rightarrow> ('m, bool) io" where
  "wait_connection env time_waited = do {
     connected \<leftarrow> is_connected env;
     if connected then ret True
     else if time_waited \<ge> CONNECTION_TIMEOUT then ret False
     else wait_connection env (time_waited + 1)
   }"
  by pat_completeness auto

termination
  by (relation "measure (\<lambda>(env, time_waited). CONNECTION_TIMEOUT - time_waited)") auto

declare wait_connection.simps [simp del]

definition handle_connection :: "'m sysenv \<Rightarrow> cpu \<Rightarrow> 32 word \<Rightarrow> ('m, bool) io" where
  "handle_connection env processor g_cpu_features = do {
     connected \<leftarrow> is_connected env;
     if ndevenv env then do {
       connected \<leftarrow> (if \<not> connected then do {
           connected \<leftarrow> wait_connection env 0;
           if \<not> connected then do { u \<leftarrow> offer_wifi; is_connected env } else ret connected
         }
         else ret connected);
       if connected then do {
         u \<leftarrow> install_cachyos_repo env processor g_cpu_features;
         out \<leftarrow> exec env ''yes | pacman -Sy --noconfirm'' True;
         ret connected
       }
       else ret connected
     }
     else do {
       u \<leftarrow> install_cachyos_repo env processor g_cpu_features;
       ret connected
     }
   }"

definition setup_luks_keyfile :: "'m sysenv \<Rightarrow> ('m, unit) io" where
  "setup_luks_keyfile env = do {
     root_name \<leftarrow> exec env (''mount | awk '' @ squote @ ''/'' @ backslash @ ''/mnt / {print $1}'' @ squote
        @ '' | sed s~/dev/mapper/~~g | sed s~/dev/~~g'') False;
     root_part \<leftarrow> exec env (''lsblk -i | tac | sed -r '' @ squote @ ''s/^[^[:alnum:]]+//'' @ squote @ '' | sed -n -e '' @ squote @ ''/''
        @ root_name @ ''/,/part/p'' @ squote @ '' | awk '' @ squote @ ''/part/ {print $1}'' @ squote
        @ '' | tr -cd '' @ squote @ ''[:alnum:]'' @ squote) False;
     let part = (''/dev/'' @ root_part);
     out \<leftarrow> exec env (''cryptsetup luksDump '' @ squote @ part @ squote @ '' | grep '' @ squote @ ''ENABLED'' @ squote
        @ '' | wc -l'') False;
     if to_int out < 4 \<and> ndevenv env then do {
       ok \<leftarrow> luks1_setup_keyfile env ''/mnt/crypto_keyfile.bin'' ''/mnt'' part ''--pbkdf-force-iterations 200000'';
       ret ()
     }
     else ret ()
   }"

text \<open>The checklist of \<^verbatim>\<open>final_check\<close>: one line for each thing that is missing.\<close>

definition check_line :: "bool \<Rightarrow> string \<Rightarrow> string" where
  "check_line missing line = (if missing then line @ [newline_char] else '''')"

definition final_checklist :: "'m sysenv \<Rightarrow> string \<Rightarrow> string \<Rightarrow> ('m, string) io" where
  "final_checklist env system_info mnt = do {
     boot_ok \<leftarrow> (if system_info = ''BIOS''
       then exec_checked env (''arch-chroot '' @ mnt @ '' pacman -Qq grub &> /dev/null'') else ret True);
     fstab_ok \<leftarrow> exec_checked env (''grep -qv '' @ squote @ ''^#'' @ squote @ '' '' @ mnt @ ''/etc/fstab 2>/dev/null'');
     locales \<leftarrow> exec env (''arch-chroot '' @ mnt @ '' locale -a | wc -l'') False;
     no_password \<leftarrow> exec_checked env (''arch-chroot '' @ mnt @ '' passwd --status root | cut -d'' @ squote @ '' '' @ squote @ '' -f2 | grep -q ''
        @ squote @ ''NP'' @ squote);
     home \<leftarrow> path_exists env ''/mnt/home'';
     ret (check_line (\<not> boot_ok) ''- Bootloader is not installed''
       @ check_line (\<not> fstab_ok) ''- Fstab has not been generated''
       @ check_line (to_int locales < 3) ''- Locales have not been generated''
       @ check_line no_password ''- Root password is not set''
       @ check_line (\<not> home) ''- No user accounts have been generated'')
   }"

definition final_check :: "'m sysenv \<Rightarrow> ('m, unit) app" where
  "final_check env = do {
     u \<leftarrow> cfg_set ''CHECKLIST'' (CStr '''');
     base \<leftarrow> lift_io (path_exists env ''/mnt/.base_installed'');
     if \<not> base then cfg_set ''CHECKLIST'' (CStr (check_line True ''- Base is not installed''))
     else do {
       system_info \<leftarrow> cfg_str ''SYSTEM'';
       mnt \<leftarrow> cfg_str ''MOUNTPOINT'';
       checklist \<leftarrow> lift_io (final_checklist env system_info mnt);
       cfg_set ''CHECKLIST'' (CStr checklist)
     }
   }"

subsection \<open>Lemmas\<close>

abbreviation probe :: event where "probe \<equiv> HttpGet ''https://cachyos.org''"

text \<open>A machine on which the probe of the network fails and changes nothing.\<close>

definition offline :: "'m sysenv \<Rightarrow> bool" where
  "offline env \<longleftrightarrow> (\<forall>h. \<exists>code content. http_get env ''https://cachyos.org'' h = ((code, content), h) \<and>
     \<not> http_success env code \<and> \<not> http_redirect env code)"

lemma run_is_connected_offline:
  assumes "ndevenv env" "offline env" "status w = Running"
  shows "run_state (is_connected env) w = (False, w\<lparr>trace := trace w @ [probe]\<rparr>)"
proof -
  obtain code content where g: "http_get env ''https://cachyos.org'' (host w) = ((code, content), host w)"
      and no: "\<not> http_success env code" "\<not> http_redirect env code"
    using assms(2) unfolding offline_def by blast
  with assms(1,3) show ?thesis
    by (simp add: is_connected_def http_request_def perform_def)
qed

lemma run_wait_connection_offline:
  assumes "ndevenv env" "offline env"
  shows "status w = Running \<Longrightarrow> time_waited \<le> CONNECTION_TIMEOUT \<Longrightarrow>
    run_state (wait_connection env time_waited) w =
      (False, w\<lparr>trace := trace w @ replicate (CONNECTION_TIMEOUT + 1 - time_waited) probe\<rparr>)"
proof (induction "CONNECTION_TIMEOUT - time_waited" arbitrary: time_waited w)
  case 0
  then have "time_waited = CONNECTION_TIMEOUT" by simp
  with "0.prems" show ?case
    by (subst wait_connection.simps) (simp add: run_is_connected_offline [OF assms])
next
  case (Suc k)
  then have "k = CONNECTION_TIMEOUT - (time_waited + 1)" "time_waited + 1 \<le> CONNECTION_TIMEOUT" by auto
  from Suc.hyps(1) [OF this(1) _ this(2), of "w\<lparr>trace := trace w @ [probe]\<rparr>"] this(2) Suc.prems
  show ?case
    by (subst wait_connection.simps)
      (simp add: run_is_connected_offline [OF assms] Suc_diff_le Suc_diff_Suc [symmetric] del: replicate.simps(2),
       simp add: replicate_app_Cons_same)
qed

subsection \<open>Properties\<close>

lemma run_offer_wifi:
  assumes "status w = Running" "user_answers w = Enter line # key # later"
  shows "run_state offer_wifi w = ((), if line = ''n''
    then w\<lparr>user_answers := key # later, trace := trace w @ [Asked (RED @ wifi_prompt @ RESET) [] (Enter line)]\<rparr>
    else w\<lparr>user_answers := later,
      trace := trace w @ [Asked (RED @ wifi_prompt @ RESET) [] (Enter line), Shown iwctl_msg, Asked '''' [] key]\<rparr>)"
proof -
  have "length line = 1 \<Longrightarrow> line \<noteq> ''n'' \<Longrightarrow> line ! 0 \<noteq> CHR ''n''" by (cases line) auto
  with assms show ?thesis
    by (auto simp: offer_wifi_def prompt_char_def show_iwctl_def perform_def run_ask [OF assms]
        run_ask [where a = key and later = later])
qed

text \<open>C20. Without a network the installer probes seventeen times - once, then sixteen times with a second between them -, asks
  whether to connect by wifi, where anything but a lone n, the empty line too, counts as yes and leads to the text on
  \<^verbatim>\<open>iwctl\<close> and a wait for a key, probes once more and gives up without having changed anything.\<close>

theorem handle_connection_gives_up:
  assumes "ndevenv env" "offline env" "status w = Running" "user_answers w = Enter line # key # later"
  shows "run_state (handle_connection env processor features) w = (False, if line = ''n''
    then w\<lparr>user_answers := key # later,
      trace := trace w @ replicate 17 probe @ [Asked (RED @ wifi_prompt @ RESET) [] (Enter line), probe]\<rparr>
    else w\<lparr>user_answers := later,
      trace := trace w @ replicate 17 probe @ [Asked (RED @ wifi_prompt @ RESET) [] (Enter line), Shown iwctl_msg, Asked '''' [] key, probe]\<rparr>)"
proof -
  have "replicate 17 probe = probe # probe # replicate CONNECTION_TIMEOUT probe"
    by (simp add: CONNECTION_TIMEOUT_def numeral_eq_Suc)
  with assms show ?thesis
    by (simp add: handle_connection_def run_is_connected_offline [OF assms(1,2)] run_wait_connection_offline [OF assms(1,2)]
        run_offer_wifi [where line = line and key = key and later = later])
qed

definition plain_cpu :: cpu where
  "plain_cpu = \<lparr>cpu_id = (\<lambda>leaf subleaf. \<lparr>reg_eax = 0, reg_ebx = 0, reg_ecx = 0, reg_edx = 0\<rparr>),
     cpu_xgetbv = (0, 0), cpu_amd64 = True, cpu_machine = ''x86_64''\<rparr>"

theorem handle_connection_gives_up_witness:
  "run_state (handle_connection (quiet_env\<lparr>http_get := (\<lambda>u h. ((0, ''''), h))\<rparr>) plain_cpu 0)
      ((world_of [])\<lparr>user_answers := [Enter ''n'', Back]\<rparr>) =
    (False, (world_of [])\<lparr>user_answers := [Back],
      trace := replicate 17 probe @ [Asked (RED @ wifi_prompt @ RESET) [] (Enter ''n''), probe]\<rparr>)"
  using handle_connection_gives_up
    [of "quiet_env\<lparr>http_get := (\<lambda>u h. ((0, ''''), h))\<rparr>" "(world_of [])\<lparr>user_answers := [Enter ''n'', Back]\<rparr>" "''n''" Back "[]" plain_cpu 0]
  by (simp add: offline_def quiet_env_def del: replicate.simps)

end
