(* ===== verification/Settings.thy ===== *)
theory Settings
  imports Installer Block_Devices
begin

section \<open>The settings file (src/utils.cpp, parse\_config)\<close>

text \<open>
  Reading \<^verbatim>\<open>settings.json\<close> into the table.  In headless mode every field that the installation needs must
  be there, else the installer refuses to go on; a field of another type than
  expected fails an assertion.  The JSON parser is the parameter \<open>json_parse\<close> of \<open>Block_Devices\<close>.
  The outcome of a step is whether the installer goes on.
\<close>

abbreviation has_member :: "(string \<times> json) list \<Rightarrow> string \<Rightarrow> bool" where
  "has_member doc field \<equiv> map_of doc field \<noteq> None"

definition set_string_field :: "string \<Rightarrow> json \<Rightarrow> ('m, bool) app" where
  "set_string_field key val =
     (case val of
        JString s \<Rightarrow> do { u \<leftarrow> cfg_set key (CStr (c_string s)); ret True }
      | _ \<Rightarrow> lift_io (terminate False))"

definition require_string :: "(string \<times> json) list \<Rightarrow> int \<Rightarrow> string \<Rightarrow> string \<Rightarrow> ('m, bool) app" where
  "require_string doc headless_mode field key =
     (case map_of doc field of
        Some val \<Rightarrow> set_string_field key val
      | None \<Rightarrow> if headless_mode \<noteq> 0 then ret False else ret True)"

definition optional_string :: "(string \<times> json) list \<Rightarrow> string \<Rightarrow> string \<Rightarrow> ('m, bool) app" where
  "optional_string doc field key =
     (case map_of doc field of Some val \<Rightarrow> set_string_field key val | None \<Rightarrow> ret True)"

definition optional_bool :: "(string \<times> json) list \<Rightarrow> string \<Rightarrow> string \<Rightarrow> ('m, bool) app" where
  "optional_bool doc field key =
     (case map_of doc field of
        Some (JBool b) \<Rightarrow> do { u \<leftarrow> cfg_set key (CInt (if b then 1 else 0)); ret True }
      | Some _ \<Rightarrow> lift_io (terminate False)
      | None \<Rightarrow> ret True)"

definition set_menus :: "(string \<times> json) list \<Rightarrow> ('m, bool) app" where
  "set_menus doc =
     (case map_of doc ''menus'' of
        Some (JInt i) \<Rightarrow>
          if - (2 ^ 31) \<le> i \<and> i < 2 ^ 31 then do { u \<leftarrow> cfg_set ''menus'' (CInt i); ret True }
          else lift_io (terminate False)
      | _ \<Rightarrow> lift_io (terminate False))"

subsection \<open>The partitions\<close>

datatype settings_error = AssertionFailed | Refused

definition valid_types :: "string list" where
  "valid_types = [''root'', ''boot'', ''additional'']"

definition ready_partition :: "string \<Rightarrow> string \<Rightarrow> string \<Rightarrow> string \<Rightarrow> string \<Rightarrow> string" where
  "ready_partition name mnt psize fs_name part_type =
     name @ [tab_char] @ mnt @ [tab_char] @ psize @ [tab_char] @ fs_name @ [tab_char] @ part_type"

definition read_partition :: "string \<Rightarrow> json \<Rightarrow> settings_error + string" where
  "read_partition root_fstype partition_map =
     (case partition_map of
        JObject part_obj \<Rightarrow>
          (case (map_of part_obj ''name'', map_of part_obj ''mountpoint'', map_of part_obj ''size'', map_of part_obj ''type'') of
             (Some (JString name), Some (JString mnt), Some (JString psize), Some (JString type_text)) \<Rightarrow>
               (let part_type = c_string type_text in
                if part_type \<notin> set valid_types then Inl Refused
                else if \<not> has_member part_obj ''fs_name'' \<and>
                  (part_type \<noteq> ''root'' \<or> (root_fstype = '''' \<and> part_type = ''root'')) then Inl Refused
                else (case map_of part_obj ''fs_name'' of
                        None \<Rightarrow> Inr (ready_partition (c_string name) (c_string mnt) (c_string psize) root_fstype part_type)
                      | Some (JString fs) \<Rightarrow>
                          Inr (ready_partition (c_string name) (c_string mnt) (c_string psize) (c_string fs) part_type)
                      | Some _ \<Rightarrow> Inl AssertionFailed))
           | _ \<Rightarrow> Inl AssertionFailed)
      | _ \<Rightarrow> Inl AssertionFailed)"

fun read_partitions :: "string \<Rightarrow> json list \<Rightarrow> string list \<Rightarrow> settings_error + string list" where
  "read_partitions root_fstype [] ready_parts = Inr ready_parts"
| "read_partitions root_fstype (partition_map # rest) ready_parts =
     (case read_partition root_fstype partition_map of
        Inl e \<Rightarrow> Inl e
      | Inr part_data \<Rightarrow> read_partitions root_fstype rest (ready_parts @ [part_data]))"

definition require_partitions :: "(string \<times> json) list \<Rightarrow> int \<Rightarrow> string \<Rightarrow> ('m, bool) app" where
  "require_partitions doc headless_mode root_fstype =
     (case map_of doc ''partitions'' of
        Some (JArray parts) \<Rightarrow>
          (case read_partitions root_fstype parts [] of
             Inl AssertionFailed \<Rightarrow> lift_io (terminate False)
           | Inl Refused \<Rightarrow> ret False
           | Inr ready_parts \<Rightarrow> do { u \<leftarrow> cfg_set ''READY_PARTITIONS'' (CStrs ready_parts); ret True })
      | Some _ \<Rightarrow> lift_io (terminate False)
      | None \<Rightarrow> if headless_mode \<noteq> 0 then ret False else ret True)"

definition require_user :: "(string \<times> json) list \<Rightarrow> int \<Rightarrow> ('m, bool) app" where
  "require_user doc headless_mode =
     (case (map_of doc ''user_name'', map_of doc ''user_pass'', map_of doc ''user_shell'') of
        (Some name, Some pass, Some user_shell) \<Rightarrow>
          (case (name, pass, user_shell) of
             (JString a, JString b, JString s) \<Rightarrow> do {
               u \<leftarrow> cfg_set ''USER_NAME'' (CStr (c_string a));
               u \<leftarrow> cfg_set ''USER_PASS'' (CStr (c_string b));
               u \<leftarrow> cfg_set ''USER_SHELL'' (CStr (c_string s));
               ret True
             }
           | _ \<Rightarrow> lift_io (terminate False))
      | _ \<Rightarrow> if headless_mode \<noteq> 0 then ret False else ret True)"

subsection \<open>The file\<close>

text \<open>The steps in order, up to the first that says not to go on.\<close>

fun go_on :: "('m, bool) app list \<Rightarrow> ('m, bool) app" where
  "go_on [] = ret True"
| "go_on (step # steps) = do { ok \<leftarrow> step; if \<not> ok then ret False else go_on steps }"

definition later_fields :: "(string \<times> json) list \<Rightarrow> int \<Rightarrow> ('m, bool) app list" where
  "later_fields doc headless_mode =
     [optional_string doc ''mount_opts'' ''MOUNT_OPTS'',
      require_string doc headless_mode ''hostname'' ''HOSTNAME'',
      require_string doc headless_mode ''locale'' ''LOCALE'',
      require_string doc headless_mode ''xkbmap'' ''XKBMAP'',
      require_string doc headless_mode ''timezone'' ''TIMEZONE'',
      require_user doc headless_mode,
      require_string doc headless_mode ''root_pass'' ''ROOT_PASS'',
      require_string doc headless_mode ''kernel'' ''KERNEL'',
      require_string doc headless_mode ''desktop'' ''DE'',
      require_string doc headless_mode ''bootloader'' ''BOOTLOADER'',
      optional_string doc ''post_install'' ''POST_INSTALL'']"

definition required_settings :: "(string \<times> json) list \<Rightarrow> int \<Rightarrow> ('m, bool) app" where
  "required_settings doc headless_mode = do {
     server_before \<leftarrow> cfg_int ''SERVER_MODE'';
     server_ok \<leftarrow> optional_bool doc ''server_mode'' ''SERVER_MODE'';
     server_mode \<leftarrow> cfg_int ''SERVER_MODE'';
     ok \<leftarrow> go_on [require_string doc headless_mode ''device'' ''DEVICE'',
       require_string doc headless_mode ''fs_name'' ''FILESYSTEM_NAME''];
     if \<not> ok then ret False
     else do {
       root_fstype \<leftarrow> cfg_str ''FILESYSTEM_NAME'';
       go_on (require_partitions doc headless_mode root_fstype # later_fields doc headless_mode)
     }
   }"

definition read_settings :: "(string \<times> json) list \<Rightarrow> ('m, bool) app" where
  "read_settings doc = do {
     menus_ok \<leftarrow> set_menus doc;
     headless_before \<leftarrow> cfg_int ''HEADLESS_MODE'';
     headless_ok \<leftarrow> optional_bool doc ''headless_mode'' ''HEADLESS_MODE'';
     headless_mode \<leftarrow> cfg_int ''HEADLESS_MODE'';
     required_settings doc headless_mode
   }"

definition parse_config :: "(string \<Rightarrow> json option) \<Rightarrow> ('m, bool) app" where
  "parse_config json_parse = do {
     system_info \<leftarrow> cfg_str ''SYSTEM'';
     content \<leftarrow> lift_io (inspect None (\<lambda>h. files h ''settings.json''));
     case content of
       None \<Rightarrow> ret True
     | Some text \<Rightarrow>
         (case json_parse text of
            Some (JObject doc) \<Rightarrow> read_settings doc
          | _ \<Rightarrow> lift_io (terminate False))
   }"

subsection \<open>What a step fills in\<close>

definition filled :: "config \<Rightarrow> string \<Rightarrow> bool" where
  "filled c key \<longleftrightarrow>
     (if key = ''READY_PARTITIONS'' then \<exists>ss. c key = Some (CStrs ss) else \<exists>s. c key = Some (CStr s))"

definition fills :: "('m, bool) app \<Rightarrow> string set \<Rightarrow> bool" where
  "fills step keys \<longleftrightarrow>
     (\<forall>w c w' c'. run_state step (w, c) = (True, (w', c')) \<longrightarrow> status w' = Running \<longrightarrow>
        status w = Running \<and> (\<forall>key\<in>keys. filled c' key) \<and> (\<forall>key. filled c key \<longrightarrow> filled c' key))"

lemma fillsD:
  assumes "fills step keys" "run_state step (w, c) = (True, (w', c'))" "status w' = Running"
  shows "status w = Running" "key \<in> keys \<Longrightarrow> filled c' key" "filled c key \<Longrightarrow> filled c' key"
  using assms unfolding fills_def by blast+

lemma fills_ret [simp]: "fills (ret True) {}"
  by (simp add: fills_def)

lemma fills_refuse [simp]: "fills (ret False) keys"
  by (simp add: fills_def)

lemma fills_terminate [simp]: "fills (lift_io (terminate False)) keys"
  by (simp add: fills_def run_lift_io terminate_def halt_def)

lemma fills_set:
  assumes "key \<noteq> ''READY_PARTITIONS'' \<Longrightarrow> \<exists>s. v = CStr s" "key = ''READY_PARTITIONS'' \<Longrightarrow> \<exists>ss. v = CStrs ss"
  shows "fills (do { u \<leftarrow> cfg_set key v; ret True }) {key}"
  using assms by (auto simp: fills_def cfg_set_def filled_def)

lemma fills_subset: "fills step keys \<Longrightarrow> keys' \<subseteq> keys \<Longrightarrow> fills step keys'"
  unfolding fills_def by blast

lemma fills_then:
  assumes "fills a ks" "fills b ls"
  shows "fills (do { ok \<leftarrow> a; if \<not> ok then ret False else b }) (ks \<union> ls)"
  unfolding fills_def
proof (intro allI impI)
  fix w c w' c'
  assume run: "run_state (do { ok \<leftarrow> a; if \<not> ok then ret False else b }) (w, c) = (True, (w', c'))"
    and alive: "status w' = Running"
  obtain ok w1 c1 where a: "run_state a (w, c) = (ok, (w1, c1))" by (metis surj_pair)
  with run have "ok" and b: "run_state b (w1, c1) = (True, (w', c'))" by (auto split: if_splits)
  with a have a: "run_state a (w, c) = (True, (w1, c1))" by simp
  note B = fillsD [OF assms(2) b alive]
  note A = fillsD [OF assms(1) a B(1)]
  show "status w = Running \<and> (\<forall>key\<in>ks \<union> ls. filled c' key) \<and> (\<forall>key. filled c key \<longrightarrow> filled c' key)"
    using A B by blast
qed

lemma fills_go_on:
  "list_all2 fills steps keys \<Longrightarrow> fills (go_on steps) (\<Union> (set keys))"
proof (induction rule: list_all2_induct)
  case (Cons step steps ks keys)
  then show ?case using fills_then [of step ks "go_on steps" "\<Union> (set keys)"] by simp
qed simp

lemma fills_string_field: "key \<noteq> ''READY_PARTITIONS'' \<Longrightarrow> fills (set_string_field key v) {key}"
  by (cases v) (simp_all add: set_string_field_def fills_set)

text \<open>What is demanded in headless mode only.\<close>

definition if_headless :: "int \<Rightarrow> string set \<Rightarrow> string set" where
  "if_headless headless_mode keys = (if headless_mode = 0 then {} else keys)"

lemma fills_weaken: "fills step keys \<Longrightarrow> fills step (if_headless headless_mode keys)"
  by (auto simp: if_headless_def intro: fills_subset)

lemma fills_unless: "fills (if headless_mode \<noteq> 0 then ret False else ret True) (if_headless headless_mode keys)"
  by (simp add: if_headless_def)

lemmas headless_intros = fills_unless fills_weaken fills_set fills_terminate fills_refuse

lemma fills_require_string:
  "key \<noteq> ''READY_PARTITIONS'' \<Longrightarrow>
   fills (require_string doc headless_mode field key) (if_headless headless_mode {key})"
  unfolding require_string_def
  by (split option.split, intro conjI allI impI headless_intros fills_string_field) assumption

lemma fills_optional_string: "key \<noteq> ''READY_PARTITIONS'' \<Longrightarrow> fills (optional_string doc field key) {}"
  using fills_subset [OF fills_string_field, of key "{}"] by (auto simp: optional_string_def split: option.splits)

lemma fills_require_partitions:
  "fills (require_partitions doc headless_mode root_fstype) (if_headless headless_mode {''READY_PARTITIONS''})"
  unfolding require_partitions_def
  by (split option.split json.split sum.split settings_error.split)+
    (intro conjI allI impI headless_intros; simp)

lemma fills_set_user:
  "fills (do { u \<leftarrow> cfg_set ''USER_NAME'' (CStr a); u \<leftarrow> cfg_set ''USER_PASS'' (CStr b);
     u \<leftarrow> cfg_set ''USER_SHELL'' (CStr s); ret True }) {''USER_NAME'', ''USER_PASS'', ''USER_SHELL''}"
  by (auto simp: fills_def cfg_set_def filled_def split: if_splits)

lemma fills_require_user:
  "fills (require_user doc headless_mode) (if_headless headless_mode {''USER_NAME'', ''USER_PASS'', ''USER_SHELL''})"
  unfolding require_user_def prod.case
  by (split option.split json.split)+ (intro conjI allI impI headless_intros fills_set_user; simp)

definition headless_keys :: "string list" where
  "headless_keys =
     [''DEVICE'', ''FILESYSTEM_NAME'', ''READY_PARTITIONS'', ''HOSTNAME'', ''LOCALE'', ''XKBMAP'', ''TIMEZONE'',
      ''USER_NAME'', ''USER_PASS'', ''USER_SHELL'', ''ROOT_PASS'', ''KERNEL'', ''DE'', ''BOOTLOADER'']"

lemma fills_later_fields:
  "fills (go_on (later_fields doc headless_mode)) (if_headless headless_mode
    {''HOSTNAME'', ''LOCALE'', ''XKBMAP'', ''TIMEZONE'', ''USER_NAME'', ''USER_PASS'', ''USER_SHELL'', ''ROOT_PASS'', ''KERNEL'',
     ''DE'', ''BOOTLOADER''})"
proof -
  have "list_all2 fills (later_fields doc headless_mode)
      [{}, if_headless headless_mode {''HOSTNAME''}, if_headless headless_mode {''LOCALE''},
       if_headless headless_mode {''XKBMAP''}, if_headless headless_mode {''TIMEZONE''},
       if_headless headless_mode {''USER_NAME'', ''USER_PASS'', ''USER_SHELL''},
       if_headless headless_mode {''ROOT_PASS''}, if_headless headless_mode {''KERNEL''},
       if_headless headless_mode {''DE''}, if_headless headless_mode {''BOOTLOADER''}, {}]"
    unfolding later_fields_def by (simp add: fills_require_string fills_optional_string fills_require_user)
  from fills_go_on [OF this] show ?thesis by (rule fills_subset) (auto simp: if_headless_def)
qed

lemma fills_cfg_str:
  assumes "\<And>s. fills (f s) keys"
  shows "fills (do { s \<leftarrow> cfg_str key; f s }) keys"
  unfolding fills_def
proof (intro allI impI)
  fix w c w' c'
  assume run: "run_state (do { s \<leftarrow> cfg_str key; f s }) (w, c) = (True, (w', c'))" and alive: "status w' = Running"
  obtain s w1 c1 where a: "run_state (cfg_str key) (w, c) = (s, (w1, c1))" by (metis surj_pair)
  with run have f: "run_state (f s) (w1, c1) = (True, (w', c'))" by simp
  note F = fillsD [OF assms f alive]
  have "status w = Running \<and> (c1 = c \<or> (c key = None \<and> c1 = c(key \<mapsto> CStr '''')))"
    using a F(1) by (auto simp: cfg_str_def cfg_value_def run_lift_io terminate_def halt_def
        split: if_splits option.splits config_value.splits)
  then have run: "status w = Running" and keep: "filled c k \<Longrightarrow> filled c1 k" for k
    by (auto simp: filled_def split: if_splits)
  show "status w = Running \<and> (\<forall>key\<in>keys. filled c' key) \<and> (\<forall>key. filled c key \<longrightarrow> filled c' key)"
    using F run keep by blast
qed

text \<open>What is true at the end of every run that goes on; an operation that leaves a running process began with one.\<close>

definition alive :: "('m, 'a) app \<Rightarrow> bool" where
  "alive act \<longleftrightarrow> (\<forall>w c r w' c'. run_state act (w, c) = (r, (w', c')) \<longrightarrow> status w' = Running \<longrightarrow> status w = Running)"

definition demands :: "('m, bool) app \<Rightarrow> string set \<Rightarrow> bool" where
  "demands act keys \<longleftrightarrow>
     (\<forall>w c w' c'. run_state act (w, c) = (True, (w', c')) \<longrightarrow> status w' = Running \<longrightarrow>
        status w = Running \<and> (\<forall>key\<in>keys. filled c' key))"

lemma demands_fills: "fills act keys \<Longrightarrow> demands act keys"
  unfolding fills_def demands_def by blast

lemma demandsD:
  "demands act keys \<Longrightarrow> run_state act (w, c) = (True, (w', c')) \<Longrightarrow> status w' = Running \<Longrightarrow> key \<in> keys \<Longrightarrow>
   filled c' key"
  unfolding demands_def by blast

lemma demands_less: "demands act keys \<Longrightarrow> demands act {}"
  unfolding demands_def by blast

lemma demands_bind:
  assumes "alive act" "\<And>x. demands (f x) keys"
  shows "demands (do { x \<leftarrow> act; f x }) keys"
  unfolding demands_def
proof (intro allI impI)
  fix w c w' c'
  assume run: "run_state (do { x \<leftarrow> act; f x }) (w, c) = (True, (w', c'))" and al: "status w' = Running"
  obtain x w1 c1 where a: "run_state act (w, c) = (x, (w1, c1))" by (metis surj_pair)
  with run have "run_state (f x) (w1, c1) = (True, (w', c'))" by simp
  with assms(2) al have "status w1 = Running \<and> (\<forall>key\<in>keys. filled c' key)" unfolding demands_def by blast
  with assms(1) a show "status w = Running \<and> (\<forall>key\<in>keys. filled c' key)" unfolding alive_def by blast
qed

lemma alive_cfg_int: "alive (cfg_int key)"
  by (auto simp: alive_def cfg_int_def cfg_value_def run_lift_io terminate_def halt_def
      split: if_splits option.splits config_value.splits)

lemma alive_optional_bool: "alive (optional_bool doc field key)"
  by (auto simp: alive_def optional_bool_def cfg_set_def run_lift_io terminate_def halt_def
      split: if_splits option.splits json.splits)

lemma alive_set_menus: "alive (set_menus doc)"
  by (auto simp: alive_def set_menus_def cfg_set_def run_lift_io terminate_def halt_def
      split: if_splits option.splits json.splits)

lemma demands_required_settings:
  "demands (required_settings doc headless_mode) (if_headless headless_mode (set headless_keys))"
proof -
  have "fills (go_on (require_partitions doc headless_mode root # later_fields doc headless_mode))
      (if_headless headless_mode (set headless_keys - {''DEVICE'', ''FILESYSTEM_NAME''}))" for root
    unfolding go_on.simps
    by (rule fills_subset [OF fills_then [OF fills_require_partitions fills_later_fields]])
      (auto simp: if_headless_def headless_keys_def)
  note tail = fills_cfg_str [of _ _ "''FILESYSTEM_NAME''", OF this]
  have "list_all2 fills [require_string doc headless_mode ''device'' ''DEVICE'',
      require_string doc headless_mode ''fs_name'' ''FILESYSTEM_NAME'']
      [if_headless headless_mode {''DEVICE''}, if_headless headless_mode {''FILESYSTEM_NAME''}]"
    by (simp add: fills_require_string)
  note front = fills_go_on [OF this]
  show ?thesis
    unfolding required_settings_def
    by (intro demands_bind alive_optional_bool alive_cfg_int demands_fills,
        rule fills_subset [OF fills_then [OF front tail]]) (auto simp: if_headless_def)
qed

text \<open>C10. In headless mode the installer goes on only when every setting that the installation needs is in the table,
  the partitions as a list and the others as texts.\<close>

theorem headless_settings_complete:
  assumes "status w = Running" "c ''SYSTEM'' = Some (CStr sys)" "files (host w) ''settings.json'' = Some content"
    and "json_parse content = Some (JObject doc)" "map_of doc ''headless_mode'' = Some (JBool True)"
    and "run_state (parse_config json_parse) (w, c) = (True, (w', c'))" "status w' = Running"
  shows "list_all (filled c') headless_keys"
proof -
  have run: "run_state (read_settings doc) (w, c) = (True, (w', c'))"
    using assms(1-4,6) by (simp add: parse_config_def run_cfg_str run_lift_io inspect_def)
  obtain m w0 c0 where menus: "run_state (set_menus doc) (w, c) = (m, (w0, c0))" by (metis surj_pair)
  obtain h w1 c1 where before: "run_state (cfg_int ''HEADLESS_MODE'') (w0, c0) = (h, (w1, c1))" by (metis surj_pair)
  let ?tail = "do { headless_ok \<leftarrow> optional_bool doc ''headless_mode'' ''HEADLESS_MODE'';
    headless_mode \<leftarrow> cfg_int ''HEADLESS_MODE''; required_settings doc headless_mode }"
  have tail: "run_state ?tail (w1, c1) = (True, (w', c'))"
    using run menus before by (simp add: read_settings_def)
  have "demands ?tail {}"
    by (intro demands_bind alive_optional_bool alive_cfg_int demands_less [OF demands_required_settings])
  with tail assms(7) have "status w1 = Running" by (auto simp: demands_def)
  then have "run_state (required_settings doc 1) (w1, c1(''HEADLESS_MODE'' \<mapsto> CInt 1)) = (True, (w', c'))"
    using tail assms(5) by (simp add: optional_bool_def run_cfg_set run_cfg_int)
  from demandsD [OF demands_required_settings this assms(7)] show ?thesis
    by (simp add: list_all_iff if_headless_def)
qed

definition sample_settings :: "(string \<times> json) list" where
  "sample_settings =
     [(''menus'', JInt 1), (''headless_mode'', JBool True), (''device'', JString ''/dev/sda''), (''fs_name'', JString ''ext4''),
      (''partitions'', JArray [JObject [(''name'', JString ''/dev/sda1''), (''mountpoint'', JString ''/''),
        (''size'', JString ''20G''), (''type'', JString ''root'')]]),
      (''hostname'', JString ''cachyos''), (''locale'', JString ''en_US''), (''xkbmap'', JString ''us''),
      (''timezone'', JString ''Europe/Berlin''), (''user_name'', JString ''u''), (''user_pass'', JString ''p''),
      (''user_shell'', JString ''/bin/bash''), (''root_pass'', JString ''r''), (''kernel'', JString ''linux-cachyos''),
      (''desktop'', JString ''kde''), (''bootloader'', JString ''grub'')]"

abbreviation settings_world :: "unit world" where "settings_world \<equiv> world_of [(''settings.json'', ''{}'')]"

lemma read_sample_settings:
  "\<exists>c'. run_state (parse_config (\<lambda>s. Some (JObject sample_settings))) (settings_world, initial_config False) =
    (True, (settings_world, c'))"
  by (simp add: parse_config_def read_settings_def required_settings_def sample_settings_def set_menus_def optional_bool_def require_string_def
      set_string_field_def optional_string_def require_partitions_def read_partition_def valid_types_def later_fields_def
      require_user_def app_simps inspect_def Let_def c_string_def)

theorem headless_settings_complete_witness:
  "\<exists>c'. run_state (parse_config (\<lambda>s. Some (JObject sample_settings))) (settings_world, initial_config False) =
     (True, (settings_world, c')) \<and> list_all (filled c') headless_keys"
proof -
  obtain c' where run: "run_state (parse_config (\<lambda>s. Some (JObject sample_settings))) (settings_world, initial_config False) =
      (True, (settings_world, c'))"
    using read_sample_settings by blast
  have f: "files (host settings_world) ''settings.json'' = Some ''{}''" by simp
  have d: "(\<lambda>s. Some (JObject sample_settings)) ''{}'' = Some (JObject sample_settings)"
    "map_of sample_settings ''headless_mode'' = Some (JBool True)"
    by (simp_all add: sample_settings_def)
  from headless_settings_complete [OF world_of_simps(1) initial_config_simps(1) f d run world_of_simps(1)] run
  show ?thesis by blast
qed

subsection \<open>Prepared partitions\<close>

lemma tab_free_split:
  "tab_char \<notin> set a \<Longrightarrow> make_multiline (a @ tab_char # b) False tab_char =
   (if a = [] then [] else [a]) @ make_multiline b False tab_char"
  by (simp add: make_multiline_def make_split_view_append_delim make_split_view_delim_free)

text \<open>The prepared partitions are written with five fields and read back at the tabs: fields that are not empty come back as
  they were, an empty one is lost, so that the five fields are there exactly when none is empty.\<close>

theorem ready_partition_round_trip:
  assumes "list_all (\<lambda>f. tab_char \<notin> set f) [name, mnt, psize, fs_name, part_type]"
  shows "make_multiline (ready_partition name mnt psize fs_name part_type) False tab_char =
      filter (\<lambda>f. f \<noteq> []) [name, mnt, psize, fs_name, part_type]"
  using assms
  by (simp add: ready_partition_def tab_free_split)
    (simp add: make_multiline_def make_split_view_delim_free)

theorem ready_partition_round_trip_witness:
  "make_multiline (ready_partition ''/dev/sda1'' ''/'' ''20G'' ''ext4'' ''root'') False tab_char =
     [''/dev/sda1'', ''/'', ''20G'', ''ext4'', ''root''] \<and>
   make_multiline (ready_partition ''/dev/sda1'' '''' ''20G'' ''ext4'' ''root'') False tab_char =
     [''/dev/sda1'', ''20G'', ''ext4'', ''root'']"
  using ready_partition_round_trip [of "''/dev/sda1''" "''/''" "''20G''" "''ext4''" "''root''"]
    ready_partition_round_trip [of "''/dev/sda1''" "[]" "''20G''" "''ext4''" "''root''"] by simp

end
