(* ===== verification/Conf_Refinement.thy ===== *)
theory Conf_Refinement
  imports Initcpio
begin

section \<open>Refinement of the lists of mkinitcpio.conf\<close>

text \<open>
  What a sequence of editing operations of \<open>Initcpio\<close> makes of the lists in the file, as pure functions on these lists.
\<close>

subsection \<open>The lists of the configuration\<close>

text \<open>
  The abstract view of the hooks: pure functions on the lists that the file holds.  An operation refines such a function if it takes a
  machine whose file holds some lists to one whose file holds the function's value, and touches no other file.
\<close>

definition plain_conf :: "initcpio \<Rightarrow> bool" where
  "plain_conf ic \<longleftrightarrow> list_all plain_word (ic_modules ic) \<and> list_all plain_word (ic_files ic) \<and> list_all plain_word (ic_hooks ic)"

definition conf_refines ::
  "'m sysenv \<Rightarrow> (initcpio \<Rightarrow> ('m, initcpio) io) \<Rightarrow> (initcpio \<Rightarrow> initcpio) \<Rightarrow> bool" where
  "conf_refines env act f \<longleftrightarrow>
     (\<forall>w ic ic0. holds_conf env w ic \<longrightarrow> plain_conf ic \<longrightarrow> ic_file_path ic0 = ic_file_path ic \<longrightarrow>
        (\<exists>ic1 w'. run_state (act ic0) w = (ic1, w') \<and> ic_file_path ic1 = ic_file_path ic \<and>
           ic_file_path (f ic) = ic_file_path ic \<and> holds_conf env w' (f ic) \<and> plain_conf (f ic) \<and>
           (\<forall>p. p \<noteq> ic_file_path ic \<longrightarrow> files (host w') p = files (host w) p)))"

lemma conf_refinesD:
  assumes "conf_refines env act f" "holds_conf env w ic" "plain_conf ic" "ic_file_path ic0 = ic_file_path ic"
  obtains ic1 w' where "run_state (act ic0) w = (ic1, w')" "ic_file_path ic1 = ic_file_path ic"
    "ic_file_path (f ic) = ic_file_path ic" "holds_conf env w' (f ic)" "plain_conf (f ic)"
    "\<And>p. p \<noteq> ic_file_path ic \<Longrightarrow> files (host w') p = files (host w) p"
proof -
  have "\<exists>ic1 w'. run_state (act ic0) w = (ic1, w') \<and> ic_file_path ic1 = ic_file_path ic \<and>
      ic_file_path (f ic) = ic_file_path ic \<and> holds_conf env w' (f ic) \<and> plain_conf (f ic) \<and>
      (\<forall>p. p \<noteq> ic_file_path ic \<longrightarrow> files (host w') p = files (host w) p)"
    by (rule assms(1) [unfolded conf_refines_def, rule_format, OF assms(2-4)])
  then show thesis by (elim exE conjE) (rule that, assumption+, simp)
qed

lemma conf_refines_run:
  assumes "conf_refines env act f" "holds_conf env w ic" "plain_conf ic" "ic_file_path ic0 = ic_file_path ic"
  shows "\<exists>ic1 w'. run_state (act ic0) w = (ic1, w') \<and> holds_conf env w' (f ic) \<and>
    (\<forall>p. p \<noteq> ic_file_path ic \<longrightarrow> files (host w') p = files (host w) p)"
  by (rule conf_refinesD [OF assms]) (intro exI conjI allI impI)

lemma plain_words_list:
  assumes "list_all plain_word ws"
  shows "word_list ws"
proof -
  have "\<forall>w\<in>set ws. w \<noteq> [] \<and> (\<forall>c\<in>set w. c \<notin> {CHR '' '', CHR ''('', CHR '')'', newline_char})"
    using assms unfolding list_all_iff plain_word_def .
  then show ?thesis unfolding word_list_def by force
qed

lemma plain_conf_words_ok: "plain_conf ic \<Longrightarrow> words_ok ic"
  unfolding plain_conf_def words_ok_def by (simp only: plain_words_list conj_assoc)

lemma conf_refines_ret: "conf_refines env (\<lambda>ic. ret ic) (fold edited [])"
  by (simp add: conf_refines_def)

lemma conf_refines_if:
  assumes "c \<Longrightarrow> conf_refines env a (fold edited es)" "\<not> c \<Longrightarrow> conf_refines env b (fold edited es')"
  shows "conf_refines env (\<lambda>ic. if c then a ic else b ic) (fold edited (if c then es else es'))"
  using assms by (cases c) simp_all

lemma conf_refines_bind:
  assumes "conf_refines env a f" "conf_refines env b g"
  shows "conf_refines env (\<lambda>ic. do { ic \<leftarrow> a ic; b ic }) (\<lambda>ic. g (f ic))"
  unfolding conf_refines_def
proof (intro allI impI)
  fix w and ic ic0 :: initcpio
  assume h: "holds_conf env w ic" "plain_conf ic" "ic_file_path ic0 = ic_file_path ic"
  obtain ic1 w1 where 1: "run_state (a ic0) w = (ic1, w1)" "ic_file_path ic1 = ic_file_path ic"
      "ic_file_path (f ic) = ic_file_path ic" "holds_conf env w1 (f ic)" "plain_conf (f ic)"
      "\<And>p. p \<noteq> ic_file_path ic \<Longrightarrow> files (host w1) p = files (host w) p"
    using conf_refinesD [OF assms(1) h] by blast
  have "ic_file_path ic1 = ic_file_path (f ic)" using 1 by simp
  from conf_refinesD [OF assms(2) 1(4,5) this] obtain ic2 w2 where
    2: "run_state (b ic1) w1 = (ic2, w2)" "ic_file_path ic2 = ic_file_path (f ic)"
      "ic_file_path (g (f ic)) = ic_file_path (f ic)" "holds_conf env w2 (g (f ic))" "plain_conf (g (f ic))"
      "\<And>p. p \<noteq> ic_file_path (f ic) \<Longrightarrow> files (host w2) p = files (host w1) p"
    by metis
  show "\<exists>ic1 w'. run_state (do { ic \<leftarrow> a ic0; b ic }) w = (ic1, w') \<and> ic_file_path ic1 = ic_file_path ic \<and>
      ic_file_path (g (f ic)) = ic_file_path ic \<and> holds_conf env w' (g (f ic)) \<and> plain_conf (g (f ic)) \<and>
      (\<forall>p. p \<noteq> ic_file_path ic \<longrightarrow> files (host w') p = files (host w) p)"
    using 1 2 by auto
qed

context initcpio_edit
begin

lemma refines_edited:
  assumes "\<And>ic. plain_conf ic \<Longrightarrow> plain_conf (edited edit ic)"
  shows "conf_refines env (\<lambda>ic0. do { (ok, ic) \<leftarrow> operation ic0; ret ic }) (edited edit)"
  unfolding conf_refines_def
proof (intro allI impI)
  fix w and ic ic0 :: initcpio
  assume h: "holds_conf env w ic" "plain_conf ic" "ic_file_path ic0 = ic_file_path ic"
  have path: "ic_file_path (edited edit ic) = ic_file_path ic"
    using keeps_path by (simp add: edited_def split: option.splits)
  from edits [OF h(1,3) plain_conf_words_ok [OF assms [OF h(2)]]] assms [OF h(2)] path
  show "\<exists>ic1 w'. run_state (do { (ok, ic) \<leftarrow> operation ic0; ret ic }) w = (ic1, w') \<and>
      ic_file_path ic1 = ic_file_path ic \<and> ic_file_path (edited edit ic) = ic_file_path ic \<and>
      holds_conf env w' (edited edit ic) \<and> plain_conf (edited edit ic) \<and>
      (\<forall>p. p \<noteq> ic_file_path ic \<longrightarrow> files (host w') p = files (host w) p)"
    by auto
qed

lemma refines_then:
  assumes "\<And>ic. plain_conf ic \<Longrightarrow> plain_conf (edited edit ic)" "conf_refines env b (fold edited es)"
  shows "conf_refines env (\<lambda>ic0. do { (ok, ic) \<leftarrow> operation ic0; b ic }) (fold edited (edit # es))"
proof -
  have "(\<lambda>ic0. do { (ok, ic) \<leftarrow> operation ic0; b ic }) =
      (\<lambda>ic0. do { ic \<leftarrow> do { (ok, ic) \<leftarrow> operation ic0; ret ic }; b ic })"
    by (intro ext state_ext) (simp split: prod.splits)
  then show ?thesis using conf_refines_bind [OF refines_edited [OF assms(1)] assms(2)] by (simp add: comp_def)
qed

end

subsection \<open>The edits\<close>

lemma list_all_insert_before: "list_all P (insert_before needle new xs) \<longleftrightarrow> list_all P new \<and> list_all P xs"
proof (cases "find_index (\<lambda>x. x = needle) xs")
  case (Some i)
  have "list_all P xs \<longleftrightarrow> list_all P (take i xs) \<and> list_all P (drop i xs)"
    by (metis append_take_drop_id list_all_append)
  with Some show ?thesis by (auto simp: insert_before_def)
qed (auto simp: insert_before_def)

lemma list_all_filter: "list_all P xs \<Longrightarrow> list_all P (filter Q xs)"
  by (auto simp: list_all_iff)

lemma list_all_remove1: "list_all P xs \<Longrightarrow> list_all P (remove1 x xs)"
  using set_remove1_subset [of x xs] by (auto simp: list_all_iff)

lemmas plain_intros = list_all_insert_before list_all_filter list_all_remove1

lemma plain_append_module: "plain_word m \<Longrightarrow> plain_conf ic \<Longrightarrow> plain_conf (edited (append_module_edit m) ic)"
  by (simp add: edited_def append_module_edit_def plain_conf_def)

lemma plain_append_file: "plain_word f \<Longrightarrow> plain_conf ic \<Longrightarrow> plain_conf (edited (append_file_edit f) ic)"
  by (simp add: edited_def append_file_edit_def plain_conf_def)

lemma plain_append_hooks: "list_all plain_word hs \<Longrightarrow> plain_conf ic \<Longrightarrow> plain_conf (edited (append_hooks_edit hs) ic)"
  by (simp add: edited_def append_hooks_edit_def plain_conf_def Let_def plain_intros)

lemma plain_insert_hook: "plain_word h \<Longrightarrow> plain_conf ic \<Longrightarrow> plain_conf (edited (insert_hook_edit n h) ic)"
  by (simp add: edited_def insert_hook_edit_def plain_conf_def plain_intros)

lemma plain_insert_hooks: "list_all plain_word hs \<Longrightarrow> plain_conf ic \<Longrightarrow> plain_conf (edited (insert_hooks_edit n hs) ic)"
  by (simp add: edited_def insert_hooks_edit_def plain_conf_def Let_def plain_intros)

lemma plain_remove_hook: "plain_conf ic \<Longrightarrow> plain_conf (edited (remove_hook_edit h) ic)"
  by (simp add: edited_def remove_hook_edit_def plain_conf_def plain_intros)

lemmas conf_refines_intros =
  append_module_op.refines_then [OF plain_append_module] append_file_op.refines_then [OF plain_append_file]
  append_hooks_op.refines_then [OF plain_append_hooks] insert_hook_op.refines_then [OF plain_insert_hook]
  insert_hooks_op.refines_then [OF plain_insert_hooks] remove_hook_op.refines_then [OF plain_remove_hook]
  conf_refines_ret

end
