(* ===== verification/Storage_Hooks.thy ===== *)
theory Storage_Hooks
  imports Conf_Refinement
begin

section \<open>Hooks for the storage that is used (src/utils.cpp, install\_base)\<close>

text \<open>
  The parts of \<^verbatim>\<open>install_base\<close> that edit \<^verbatim>\<open>mkinitcpio.conf\<close>: for the file system of the root, for RAID, and
  for logical volumes and encryption.
\<close>

definition standard_hooks :: "string list" where
  "standard_hooks =
     [''base'', ''udev'', ''autodetect'', ''modconf'', ''block'', ''filesystems'', ''keyboard'', ''fsck'']"

definition add_root_hooks :: "'m sysenv \<Rightarrow> string \<Rightarrow> initcpio \<Rightarrow> ('m, initcpio) io" where
  "add_root_hooks env filesystem_type ic =
     (if filesystem_type = ''btrfs'' then do {
        (ok, ic) \<leftarrow> remove_hook env ''fsck'' ic;
        (ok, ic) \<leftarrow> append_module env ''btrfs'' ic;
        ret ic
      }
      else if filesystem_type = ''zfs'' then do {
        (ok, ic) \<leftarrow> remove_hook env ''fsck'' ic;
        (ok, ic) \<leftarrow> insert_hook env ''filesystems'' ''zfs'' ic;
        (ok, ic) \<leftarrow> append_file env ''\"/usr/lib/libgcc_s.so.1\"'' ic;
        ret ic
      }
      else ret ic)"

definition add_raid_hooks :: "'m sysenv \<Rightarrow> bool \<Rightarrow> initcpio \<Rightarrow> ('m, initcpio) io" where
  "add_raid_hooks env raid_used ic =
     (if raid_used then do {
        (ok, ic) \<leftarrow> insert_hook env ''block'' ''mdadm_udev'' ic;
        (ok, ic) \<leftarrow> append_module env ''raid0'' ic;
        (ok, ic) \<leftarrow> append_module env ''raid1'' ic;
        ret ic
      }
      else ret ic)"

definition add_crypt_hooks :: "'m sysenv \<Rightarrow> int \<Rightarrow> int \<Rightarrow> initcpio \<Rightarrow> ('m, initcpio) io" where
  "add_crypt_hooks env lvm luks ic =
     (if lvm = 1 \<and> luks = 0 then do {
        (ok, ic) \<leftarrow> insert_hook env ''filesystems'' ''lvm2'' ic;
        ret ic
      }
      else if lvm = 0 \<and> luks = 1 then do {
        (ok, ic) \<leftarrow> insert_hooks env ''keyboard'' [''consolefont'', ''keymap''] ic;
        (ok, ic) \<leftarrow> insert_hook env ''filesystems'' ''encrypt'' ic;
        ret ic
      }
      else if lvm = 1 \<and> luks = 1 then do {
        (ok, ic) \<leftarrow> insert_hooks env ''keyboard'' [''consolefont'', ''keymap''] ic;
        (ok, ic) \<leftarrow> insert_hooks env ''filesystems'' [''encrypt'', ''lvm2''] ic;
        ret ic
      }
      else ret ic)"

subsection \<open>The hooks as edits of the lists\<close>

definition root_edits :: "string \<Rightarrow> (initcpio \<Rightarrow> initcpio option) list" where
  "root_edits filesystem_type =
     (if filesystem_type = ''btrfs'' then [remove_hook_edit ''fsck'', append_module_edit ''btrfs'']
      else if filesystem_type = ''zfs'' then
        [remove_hook_edit ''fsck'', insert_hook_edit ''filesystems'' ''zfs'', append_file_edit ''\"/usr/lib/libgcc_s.so.1\"'']
      else [])"

definition raid_edits :: "bool \<Rightarrow> (initcpio \<Rightarrow> initcpio option) list" where
  "raid_edits raid_used =
     (if raid_used then [insert_hook_edit ''block'' ''mdadm_udev'', append_module_edit ''raid0'', append_module_edit ''raid1'']
      else [])"

definition crypt_edits :: "int \<Rightarrow> int \<Rightarrow> (initcpio \<Rightarrow> initcpio option) list" where
  "crypt_edits lvm luks =
     (if lvm = 1 \<and> luks = 0 then [insert_hook_edit ''filesystems'' ''lvm2'']
      else if lvm = 0 \<and> luks = 1 then
        [insert_hooks_edit ''keyboard'' [''consolefont'', ''keymap''], insert_hook_edit ''filesystems'' ''encrypt'']
      else if lvm = 1 \<and> luks = 1 then
        [insert_hooks_edit ''keyboard'' [''consolefont'', ''keymap''], insert_hooks_edit ''filesystems'' [''encrypt'', ''lvm2'']]
      else [])"

lemma add_root_hooks_refines:
  "conf_refines env (\<lambda>ic. add_root_hooks env filesystem_type ic) (fold edited (root_edits filesystem_type))"
  unfolding add_root_hooks_def root_edits_def
  by (intro conf_refines_if conf_refines_intros) (simp_all add: plain_word_def)

lemma add_raid_hooks_refines:
  "conf_refines env (\<lambda>ic. add_raid_hooks env raid_used ic) (fold edited (raid_edits raid_used))"
  unfolding add_raid_hooks_def raid_edits_def
  by (intro conf_refines_if conf_refines_intros) (simp_all add: plain_word_def)

lemma add_crypt_hooks_refines:
  "conf_refines env (\<lambda>ic. add_crypt_hooks env lvm luks ic) (fold edited (crypt_edits lvm luks))"
  unfolding add_crypt_hooks_def crypt_edits_def
  by (intro conf_refines_if conf_refines_intros) (simp_all add: plain_word_def)

subsection \<open>Order of hooks\<close>

text \<open>The first occurrence of one hook comes before an occurrence of another.\<close>

fun precedes :: "string \<Rightarrow> string \<Rightarrow> string list \<Rightarrow> bool" where
  "precedes x y [] \<longleftrightarrow> False"
| "precedes x y (h # hooks) \<longleftrightarrow> (if h = x then y \<in> set hooks else h \<noteq> y \<and> precedes x y hooks)"

lemma precedes_skip: "x \<notin> set a \<Longrightarrow> y \<notin> set a \<Longrightarrow> precedes x y (a @ b) \<longleftrightarrow> precedes x y b"
  by (induction a) auto

lemma insert_before_at: "x \<notin> set a \<Longrightarrow> insert_before x new (a @ x # b) = a @ new @ x # b"
  by (simp add: insert_before_def find_index_append_None find_index_mem)

text \<open>Two hooks of a list without duplicates, in one of the two orders.\<close>

lemma two_hooks:
  assumes "distinct xs" "x \<in> set xs" "y \<in> set xs" "x \<noteq> y"
  obtains a b c where "xs = a @ x # b @ y # c" "x \<notin> set a" "y \<notin> set a" "x \<notin> set b" "y \<notin> set b"
  | a b c where "xs = a @ y # b @ x # c" "x \<notin> set a" "y \<notin> set a" "x \<notin> set b" "y \<notin> set b"
proof -
  obtain p q where xs: "xs = p @ x # q" using assms(2) by (meson split_list)
  show thesis
  proof (cases "y \<in> set p")
    case True
    then obtain a b where "p = a @ y # b" by (meson split_list)
    with xs assms that(2) [of a b q] show thesis by auto
  next
    case False
    with xs assms have "y \<in> set q" by auto
    then obtain b c where "q = b @ y # c" by (meson split_list)
    with xs assms that(1) [of p b c] show thesis by auto
  qed
qed

lemmas hook_order_simps = precedes_skip insert_before_at edited_def insert_hook_edit_def
  insert_hooks_edit_def crypt_edits_def Let_def

text \<open>The lists that result when the two hooks that the edits look for are there and the new ones are not.\<close>

definition crypt_names :: "int \<Rightarrow> string list" where
  "crypt_names lvm = (if lvm = 1 then [''encrypt'', ''lvm2''] else [''encrypt''])"

lemma crypt_hooks_keyboard_first:
  assumes "ic_hooks ic = a @ ''keyboard'' # b @ ''filesystems'' # c"
    and "set (ic_hooks ic) \<inter> {''encrypt'', ''lvm2'', ''consolefont'', ''keymap''} = {}"
    and "''keyboard'' \<notin> set a" "''filesystems'' \<notin> set a \<union> set b" "lvm = 0 \<or> lvm = 1"
  shows "ic_hooks (fold edited (crypt_edits lvm 1) ic) =
    a @ [''consolefont'', ''keymap'', ''keyboard''] @ b @ crypt_names lvm @ ''filesystems'' # c"
proof -
  let ?front = "a @ [''consolefont'', ''keymap'', ''keyboard''] @ b"
  have "insert_before ''filesystems'' new (?front @ ''filesystems'' # c) = ?front @ new @ ''filesystems'' # c" for new
    by (rule insert_before_at) (use assms(4) in auto)
  with assms show ?thesis by (auto simp: hook_order_simps crypt_names_def)
qed

lemma crypt_hooks_filesystems_first:
  assumes "ic_hooks ic = a @ ''filesystems'' # b @ ''keyboard'' # c"
    and "set (ic_hooks ic) \<inter> {''encrypt'', ''lvm2'', ''consolefont'', ''keymap''} = {}"
    and "''keyboard'' \<notin> set a \<union> set b" "''filesystems'' \<notin> set a" "lvm = 0 \<or> lvm = 1"
  shows "ic_hooks (fold edited (crypt_edits lvm 1) ic) =
    a @ crypt_names lvm @ ''filesystems'' # b @ [''consolefont'', ''keymap'', ''keyboard''] @ c"
proof -
  let ?front = "a @ ''filesystems'' # b"
  have "insert_before ''keyboard'' new (?front @ ''keyboard'' # c) = ?front @ new @ ''keyboard'' # c" for new
    by (rule insert_before_at) (use assms(3) in auto)
  with assms show ?thesis by (auto simp: hook_order_simps crypt_names_def)
qed

lemma passphrase_edits_order:
  assumes "distinct (ic_hooks ic)" "''keyboard'' \<in> set (ic_hooks ic)" "''filesystems'' \<in> set (ic_hooks ic)"
    and "set (ic_hooks ic) \<inter> {''encrypt'', ''lvm2'', ''consolefont'', ''keymap''} = {}" "lvm = 0 \<or> lvm = 1"
  defines "hooks \<equiv> ic_hooks (fold edited (crypt_edits lvm 1) ic)"
  shows "precedes ''encrypt'' ''filesystems'' hooks \<and> (lvm = 1 \<longrightarrow> precedes ''encrypt'' ''lvm2'' hooks) \<and>
    precedes ''keymap'' ''keyboard'' hooks \<and>
    (precedes ''keymap'' ''encrypt'' hooks \<longleftrightarrow> precedes ''keyboard'' ''filesystems'' (ic_hooks ic))"
proof -
  have "''keyboard'' \<noteq> ''filesystems''" by simp
  from assms(1-3) this show ?thesis
  proof (cases rule: two_hooks)
    case (1 a b c)
    have h: "hooks = a @ [''consolefont'', ''keymap'', ''keyboard''] @ b @ crypt_names lvm @ ''filesystems'' # c"
      unfolding hooks_def using 1 assms(4,5) by (intro crypt_hooks_keyboard_first) auto
    show ?thesis using 1 assms(4,5) by (auto simp: h precedes_skip crypt_names_def)
  next
    case (2 a b c)
    have h: "hooks = a @ crypt_names lvm @ ''filesystems'' # b @ [''consolefont'', ''keymap'', ''keyboard''] @ c"
      unfolding hooks_def using 2 assms(4,5) by (intro crypt_hooks_filesystems_first) auto
    show ?thesis using 2 assms(4,5) by (auto simp: h precedes_skip crypt_names_def)
  qed
qed

subsection \<open>Properties\<close>

text \<open>The machine on which the witnesses run.\<close>

definition hooks_conf :: string where
  "hooks_conf = ''MODULES=()\<newline>FILES=()\<newline>HOOKS=(base udev autodetect modconf block filesystems keyboard fsck)\<newline>''"

definition hooks_conf_ic :: initcpio where
  "hooks_conf_ic = \<lparr>ic_modules = [], ic_files = [], ic_hooks = standard_hooks, ic_file_path = ''/mnt/etc/mkinitcpio.conf''\<rparr>"

abbreviation hooks_world :: "unit world" where
  "hooks_world \<equiv> world_of [(''/mnt/etc/mkinitcpio.conf'', hooks_conf)]"

lemma parse_hooks_conf: "parse_initcpio hooks_conf ic0 = hooks_conf_ic\<lparr>ic_file_path := ic_file_path ic0\<rparr>"
proof -
  have lines: "make_split_view hooks_conf newline_char = [''MODULES=()'', ''FILES=()'',
      ''HOOKS=(base udev autodetect modconf block filesystems keyboard fsck)'']" by code_simp
  have "parse_initcpio_line ''MODULES=()'' = []" "parse_initcpio_line ''FILES=()'' = []"
    "parse_initcpio_line ''HOOKS=(base udev autodetect modconf block filesystems keyboard fsck)'' = standard_hooks"
    by code_simp+
  then show ?thesis
    by (simp add: parse_initcpio_def lines hooks_conf_ic_def)
qed

lemma hooks_world_holds: "holds_conf quiet_env hooks_world hooks_conf_ic" "plain_conf hooks_conf_ic"
proof -
  have "has_field_lines hooks_conf" by (simp add: has_field_lines_def hooks_conf_def views_split_def)
  moreover have "files (host hooks_world) (ic_file_path hooks_conf_ic) = Some hooks_conf" by (simp add: hooks_conf_ic_def)
  moreover have "ic_file_path ic0 = ic_file_path hooks_conf_ic \<longrightarrow> parse_initcpio hooks_conf ic0 = hooks_conf_ic" for ic0
    by (simp add: parse_hooks_conf)
  moreover have "status hooks_world = Running" "\<forall>h. can_open_out quiet_env (ic_file_path hooks_conf_ic) h"
    by (rule world_of_simps(1)) (simp add: quiet_env_def)
  ultimately show "holds_conf quiet_env hooks_world hooks_conf_ic"
    unfolding holds_conf_def by blast
  show "plain_conf hooks_conf_ic" by (simp add: plain_conf_def hooks_conf_ic_def standard_hooks_def plain_word_def)
qed

text \<open>C7. Refinement: the installer's edits of the configuration for the file system of the root, for RAID and for logical volumes and
  encryption, one after the other, leave a file that holds the lists that the pure edits make, whatever object they go through, and
  touch no other file.\<close>

theorem storage_hooks_refinement:
  assumes "holds_conf env w ic" "plain_conf ic" "ic_file_path ic0 = ic_file_path ic"
  shows "\<exists>ic1 w'. run_state (do { ic \<leftarrow> add_root_hooks env filesystem_type ic0; ic \<leftarrow> add_raid_hooks env raid_used ic;
      add_crypt_hooks env lvm luks ic }) w = (ic1, w') \<and>
    holds_conf env w' (fold edited (root_edits filesystem_type @ raid_edits raid_used @ crypt_edits lvm luks) ic) \<and>
    (\<forall>p. p \<noteq> ic_file_path ic \<longrightarrow> files (host w') p = files (host w) p)"
proof -
  have "conf_refines env (\<lambda>ic. do { ic \<leftarrow> add_root_hooks env filesystem_type ic; ic \<leftarrow> add_raid_hooks env raid_used ic;
      add_crypt_hooks env lvm luks ic })
    (\<lambda>ic. fold edited (crypt_edits lvm luks) (fold edited (raid_edits raid_used) (fold edited (root_edits filesystem_type) ic)))"
    by (rule conf_refines_bind [OF add_root_hooks_refines conf_refines_bind [OF add_raid_hooks_refines add_crypt_hooks_refines]])
  from conf_refines_run [OF this assms] show ?thesis
    unfolding fold_append comp_apply .
qed

theorem storage_hooks_refinement_witness:
  "\<exists>ic1 w'. run_state (do { ic \<leftarrow> add_root_hooks quiet_env ''btrfs'' hooks_conf_ic; ic \<leftarrow> add_raid_hooks quiet_env True ic;
      add_crypt_hooks quiet_env 1 1 ic }) hooks_world = (ic1, w') \<and>
    holds_conf quiet_env w' (hooks_conf_ic\<lparr>ic_modules := [''btrfs'', ''raid0'', ''raid1''],
      ic_hooks := [''base'', ''udev'', ''autodetect'', ''modconf'', ''mdadm_udev'', ''block'', ''encrypt'', ''lvm2'',
        ''filesystems'', ''consolefont'', ''keymap'', ''keyboard'']\<rparr>)"
proof -
  have "fold edited (root_edits ''btrfs'' @ raid_edits True @ crypt_edits 1 1) hooks_conf_ic =
      hooks_conf_ic\<lparr>ic_modules := [''btrfs'', ''raid0'', ''raid1''],
        ic_hooks := [''base'', ''udev'', ''autodetect'', ''modconf'', ''mdadm_udev'', ''block'', ''encrypt'', ''lvm2'',
          ''filesystems'', ''consolefont'', ''keymap'', ''keyboard'']\<rparr>"
    by code_simp
  with storage_hooks_refinement [OF hooks_world_holds refl, of "''btrfs''" True 1 1] show ?thesis by auto
qed

text \<open>C8. The configuration file holds the settings that are edited, which are plain; its hooks are distinct, \<^verbatim>\<open>keyboard\<close>
  and \<^verbatim>\<open>filesystems\<close> are among them, and none of \<^verbatim>\<open>encrypt\<close>, \<^verbatim>\<open>lvm2\<close>, \<^verbatim>\<open>consolefont\<close> and \<^verbatim>\<open>keymap\<close> is.  Then,
  with an encrypted root, and whether logical volumes are used or not, the hook that asks for the passphrase comes before
  the file systems are mounted and before logical volumes are looked for, and the layout comes before the keyboard; but the keyboard layout is loaded
  before the passphrase is asked for only if the keyboard was listed before the file systems.\<close>

theorem passphrase_hook_order:
  assumes "holds_conf env w ic" "plain_conf ic" "ic_file_path ic0 = ic_file_path ic" "lvm = 0 \<or> lvm = 1"
    and "distinct (ic_hooks ic)" "''keyboard'' \<in> set (ic_hooks ic)" "''filesystems'' \<in> set (ic_hooks ic)"
    and "set (ic_hooks ic) \<inter> {''encrypt'', ''lvm2'', ''consolefont'', ''keymap''} = {}"
  shows "\<exists>ic1 w' ic'. run_state (add_crypt_hooks env lvm 1 ic0) w = (ic1, w') \<and> holds_conf env w' ic' \<and>
    precedes ''encrypt'' ''filesystems'' (ic_hooks ic') \<and> (lvm = 1 \<longrightarrow> precedes ''encrypt'' ''lvm2'' (ic_hooks ic')) \<and>
    precedes ''keymap'' ''keyboard'' (ic_hooks ic') \<and>
    (precedes ''keymap'' ''encrypt'' (ic_hooks ic') \<longleftrightarrow> precedes ''keyboard'' ''filesystems'' (ic_hooks ic))"
proof -
  obtain ic1 w' where run: "run_state (add_crypt_hooks env lvm 1 ic0) w = (ic1, w')"
      and holds: "holds_conf env w' (fold edited (crypt_edits lvm 1) ic)"
    using conf_refines_run [OF add_crypt_hooks_refines assms(1-3), of lvm 1] by (elim exE conjE)
  show ?thesis
    by (intro exI) (rule conjI [OF run conjI [OF holds passphrase_edits_order [OF assms(5-8,4)]]])
qed

text \<open>In the order of hooks that the installer itself gives the layout is loaded too late.\<close>

theorem passphrase_hook_order_witness:
  "\<exists>ic1 w' ic'. run_state (add_crypt_hooks quiet_env 0 1 hooks_conf_ic) hooks_world = (ic1, w') \<and> holds_conf quiet_env w' ic' \<and>
    precedes ''encrypt'' ''filesystems'' (ic_hooks ic') \<and> \<not> precedes ''keymap'' ''encrypt'' (ic_hooks ic')"
proof -
  have h: "distinct (ic_hooks hooks_conf_ic)" "''keyboard'' \<in> set (ic_hooks hooks_conf_ic)" "''filesystems'' \<in> set (ic_hooks hooks_conf_ic)"
    "set (ic_hooks hooks_conf_ic) \<inter> {''encrypt'', ''lvm2'', ''consolefont'', ''keymap''} = {}"
    "\<not> precedes ''keyboard'' ''filesystems'' (ic_hooks hooks_conf_ic)"
    by (simp_all add: hooks_conf_ic_def standard_hooks_def)
  from passphrase_hook_order [OF hooks_world_holds refl _ h(1-4), of 0] h(5) show ?thesis by auto
qed

end
