(* ===== verification/Install_Base.thy ===== *)
theory Install_Base
  imports Installer Storage_Hooks
begin

section \<open>Installing the base system (src/utils.cpp, install\_base)\<close>

text \<open>
  The base packages, the hooks and modules of the initial ram disk for the storage that is used (\<open>Storage_Hooks\<close>), the fstab and the drivers.
  The object that edits \<^verbatim>\<open>mkinitcpio.conf\<close> reads the file again at every call, so what counts is the file;
  \<open>holds_conf\<close> of \<open>Initcpio\<close> says which lists it holds.
\<close>

definition root_name_cmd :: string where
  "root_name_cmd = (''mount | awk '' @ squote @ ''/'' @ backslash @ ''/mnt / {print $1}'' @ squote
        @ '' | sed s~/dev/mapper/~~g | sed s~/dev/~~g'')"

definition crypt_boot_cmd :: string where
  "crypt_boot_cmd = (''lsblk | grep '' @ squote @ ''/mnt/boot'' @ squote @ '' | grep -q '' @ squote @ ''crypt'' @ squote)"

definition crypt_root_cmd :: string where
  "crypt_root_cmd = (''lsblk | grep '' @ squote @ ''/mnt$'' @ squote @ '' | grep -q '' @ squote @ ''crypt'' @ squote)"

definition boot_part_cmd :: string where
  "boot_part_cmd = (''lsblk | grep -q '' @ squote @ ''/mnt/boot$'' @ squote)"

definition crypt_below_cmd :: "string \<Rightarrow> string" where
  "crypt_below_cmd name =
     (''lsblk -i | tac | sed -r '' @ squote @ ''s/^[^[:alnum:]]+//'' @ squote @ '' | sed -n -e '' @ squote @ ''/''
        @ name @ ''/,/disk/p'' @ squote @ '' | awk '' @ squote @ ''{print $6}'' @ squote
        @ '' | grep -q crypt'')"

definition recheck_luks :: "'m sysenv \<Rightarrow> ('m, unit) app" where
  "recheck_luks env = do {
     root_name \<leftarrow> lift_io (exec env root_name_cmd False);
     encrypted \<leftarrow> lift_io (do {
       crypt_boot \<leftarrow> exec_checked env crypt_boot_cmd;
       if crypt_boot then ret True
       else do {
         crypt_root \<leftarrow> exec_checked env crypt_root_cmd;
         no_boot \<leftarrow> (if crypt_root then do { boot \<leftarrow> exec_checked env boot_part_cmd; ret (\<not> boot) } else ret False);
         if crypt_root \<and> no_boot then ret True
         else do {
           crypt_boot \<leftarrow> exec_checked env crypt_boot_cmd;
           if crypt_boot then exec_checked env (crypt_below_cmd root_name) else ret False
         }
       }
     });
     if encrypted then cfg_set ''LUKS'' (CInt 1) else ret ()
   }"

definition raid_diagnostics :: "'m sysenv \<Rightarrow> ('m, unit) io" where
  "raid_diagnostics env = do {
     out \<leftarrow> exec env ''cat /proc/mdstat >> /tmp/cachyos-install.log'' True;
     out \<leftarrow> exec env ''mdadm --detail --scan >> /tmp/cachyos-install.log'' True;
     out \<leftarrow> exec env ''pvs >> /tmp/cachyos-install.log'' True;
     out \<leftarrow> exec env ''vgs >> /tmp/cachyos-install.log'' True;
     out \<leftarrow> exec env ''lvs >> /tmp/cachyos-install.log'' True;
     out \<leftarrow> exec env ''grep mdadm_udev /mnt/etc/mkinitcpio.conf >> /tmp/cachyos-install.log'' True;
     ret ()
   }"

text \<open>The RAID flag: a value of another type counts as no.\<close>

definition raid_flag :: "('m, bool) app" where
  "raid_flag = do { v \<leftarrow> cfg_value ''RAID''; ret (case v of CInt i \<Rightarrow> i = 1 | _ \<Rightarrow> False) }"

definition setup_base ::
  "'m sysenv \<Rightarrow> string \<Rightarrow> string \<Rightarrow> int \<Rightarrow> ('m, unit) app" where
  "setup_base env base_pkgs mnt zfs = do {
     (ok, ic) \<leftarrow> lift_io (append_hooks env standard_hooks (new_initcpio (mnt @ ''/etc/mkinitcpio.conf'')));
     ok \<leftarrow> install_from_pkglist env base_pkgs;
     copied \<leftarrow> lift_io (copy_file env ''/etc/pacman.conf'' (mnt @ ''/etc/pacman.conf''));
     u \<leftarrow> (if copied then ret () else lift_io (halt Terminated));
     opened \<leftarrow> lift_io (create_file_for_overwrite env ''/mnt/.base_installed'' '''');
     filesystem_type \<leftarrow> lift_io (get_mountpoint_fs env mnt);
     ic \<leftarrow> lift_io (add_root_hooks env filesystem_type ic);
     u \<leftarrow> recheck_luks env;
     lvm \<leftarrow> cfg_int ''LVM'';
     luks \<leftarrow> cfg_int ''LUKS'';
     raid_used \<leftarrow> raid_flag;
     ic \<leftarrow> lift_io (add_raid_hooks env raid_used ic);
     u \<leftarrow> (if raid_used \<and> lvm = 1 then lift_io (raid_diagnostics env) else ret ());
     ic \<leftarrow> lift_io (add_crypt_hooks env lvm luks ic);
     u \<leftarrow> (if raid_used then lift_io (do {
         out \<leftarrow> exec env ''mkdir -p /mnt/etc'' True;
         out \<leftarrow> exec env ''cp /etc/mdadm.conf /mnt/etc/mdadm.conf 2>/dev/null'' True;
         ret ()
       })
       else ret ());
     (parsed, ic) \<leftarrow> lift_io (parse_file env ic);
     written \<leftarrow> (if parsed then lift_io (write_initcpio env ic) else ret False);
     u \<leftarrow> (if lvm + luks + (if filesystem_type = ''btrfs'' then 1 else 0) + (if filesystem_type = ''zfs'' then 1 else 0) > 0
       then utils_arch_chroot env ''mkinitcpio -P'' True else ret ());
     u \<leftarrow> utils_generate_fstab env;
     ok \<leftarrow> lift_io (install_available_profiles env mnt);
     if zfs = 0 then ret () else lift_io (finish_zfs env mnt)
   }"

definition install_base ::
  "'m sysenv \<Rightarrow> (nat \<Rightarrow> nat) \<Rightarrow> (string \<Rightarrow> (string \<times> toml) list option) \<Rightarrow> string \<Rightarrow> ('m, profile_error + unit) app" where
  "install_base env grow toml_parse packages = do {
     pkg_list \<leftarrow> utils_get_pkglist_base env grow toml_parse packages;
     case pkg_list of
       Inl e \<Rightarrow> ret (Inl e)
     | Inr pkgs \<Rightarrow>
         if ndevenv env then do {
           mnt \<leftarrow> cfg_str ''MOUNTPOINT'';
           zfs \<leftarrow> cfg_int ''ZFS'';
           u \<leftarrow> setup_base env (join pkgs space_char) mnt zfs;
           ret (Inr ())
         }
         else ret (Inr ())
   }"

end
