(* ===== verification/Boot_Setup.thy ===== *)
theory Boot_Setup
  imports Installer Install_Base Bootloader
begin

section \<open>Installing the boot loader (src/utils.cpp, src/kernel\_params.cpp)\<close>

text \<open>
  What the installer does before and after it calls the boot loader operations of \<^verbatim>\<open>gucc\<close>: finding out whether the
  root and the boot partition are encrypted, the kernel command line of the installer, and the records that are handed to the library.
  Operations with the name of a library operation carry the prefix \<open>utils\<close>.
\<close>

subsection \<open>Encrypted root and boot\<close>

definition boot_name_cmd :: string where
  "boot_name_cmd = (''mount | awk '' @ squote @ ''/'' @ backslash @ ''/mnt'' @ backslash @ ''/boot / {print $1}'' @ squote
        @ '' | sed s~/dev/mapper/~~g | sed s~/dev/~~g'')"

definition root_is_crypt_cmd :: string where
  "root_is_crypt_cmd = (''lsblk | sed -r '' @ squote @ ''s/^[^[:alnum:]]+//'' @ squote @ '' | awk '' @ squote @ ''/'' @ backslash
        @ ''/mnt$/ {print $6}'' @ squote @ '' | grep -q crypt'')"

definition root_below_crypt_cmd :: string where
  "root_below_crypt_cmd =
     (''lsblk -i | tac | sed -r '' @ squote @ ''s/^[^[:alnum:]]+//'' @ squote @ '' | sed -n -e '' @ squote @ ''/''
        @ backslash @ ''/mnt$/,/part/p'' @ squote @ '' | awk '' @ squote @ ''{print $6}'' @ squote
        @ '' | grep -q crypt'')"

definition crypt_at_mnt_cmd :: string where
  "crypt_at_mnt_cmd = (''lsblk -i | grep -q -e '' @ squote @ ''crypt /mnt'' @ squote)"

definition crypt_above_root_cmd :: string where
  "crypt_above_root_cmd =
     (''lsblk -i | tac | sed -r '' @ squote @ ''s/^[^[:alnum:]]+//'' @ squote @ '' | sed -n -e '' @ squote @ ''/''
        @ backslash @ ''/mnt$/,/crypt/p'' @ squote @ '' | awk '' @ squote @ ''/crypt/ {print $1}'' @ squote)"

definition luks_on_lvm_cmd :: string where
  "luks_on_lvm_cmd =
     (''lsblk -lno NAME,FSTYPE,TYPE,MOUNTPOINT | grep \"lvm\" | grep \"/mnt$\" | grep -i \"crypto_luks\" | uniq | awk ''
        @ squote @ ''{print \"/dev/mapper/\"$1}'' @ squote)"

definition lvm_on_luks_cmd :: string where
  "lvm_on_luks_cmd =
     (''lsblk -lno NAME,FSTYPE,TYPE | grep \" crypt$\" | grep -i \"LVM2_member\" | uniq | awk '' @ squote
        @ ''{print \"/dev/mapper/\"$1}'' @ squote)"

definition luks_alone_cmd :: string where
  "luks_alone_cmd =
     (''lsblk -lno NAME,FSTYPE,TYPE,MOUNTPOINT | grep \"/mnt$\" | grep \"part\" | grep -i \"crypto_luks\" | uniq | awk ''
        @ squote @ ''{print \"/dev/\"$1}'' @ squote)"

definition root_luks_uuid_cmd :: string where
  "root_luks_uuid_cmd =
     (''lsblk -ino NAME,FSTYPE,TYPE,MOUNTPOINT,UUID | tac | sed -r '' @ squote @ ''s/^[^[:alnum:]]+//'' @ squote
        @ '' | sed -n -e \"/'' @ backslash @ ''/mnt /,/part/p\" | awk '' @ squote
        @ ''/crypto_LUKS/ {print $4}'' @ squote)"

definition part_luks_uuid_cmd :: "string \<Rightarrow> string" where
  "part_luks_uuid_cmd cryptpart =
     (''lsblk -lno UUID,TYPE,FSTYPE '' @ cryptpart @ '' | grep '' @ squote @ ''part'' @ squote @ '' | grep -i ''
        @ squote @ ''crypto_luks'' @ squote @ '' | awk '' @ squote @ ''{print $1}'' @ squote)"

definition names_luks_cmd :: "string \<Rightarrow> string \<Rightarrow> string" where
  "names_luks_cmd cryptpart luks_name = (''lsblk -lno NAME '' @ cryptpart @ '' | grep -q '' @ squote @ luks_name @ squote)"

text \<open>Every device that shows the name, in order: the functor of the last one is what remains.\<close>

fun utils_check_cryptparts ::
  "'m sysenv \<Rightarrow> string \<Rightarrow> (string \<Rightarrow> ('m, unit) app) \<Rightarrow> string list \<Rightarrow> ('m, unit) app" where
  "utils_check_cryptparts env luks_name functor [] = ret ()"
| "utils_check_cryptparts env luks_name functor (cryptpart # cryptparts) = do {
     found \<leftarrow> lift_io (exec_checked env (names_luks_cmd cryptpart luks_name));
     u \<leftarrow> (if found then functor cryptpart else ret ());
     utils_check_cryptparts env luks_name functor cryptparts
   }"

definition found_luks_on_lvm :: "string \<Rightarrow> string \<Rightarrow> ('m, unit) app" where
  "found_luks_on_lvm luks_name cryptpart = do {
     u \<leftarrow> cfg_set ''LUKS_DEV'' (CStr (''cryptdevice='' @ cryptpart @ '':'' @ luks_name));
     cfg_set ''LVM'' (CInt 1)
   }"

definition found_lvm_on_luks :: "'m sysenv \<Rightarrow> string \<Rightarrow> string \<Rightarrow> ('m, unit) app" where
  "found_lvm_on_luks env luks_name cryptpart = do {
     before \<leftarrow> cfg_str ''LUKS_UUID'';
     luks_uuid \<leftarrow> lift_io (exec env root_luks_uuid_cmd False);
     u \<leftarrow> cfg_set ''LUKS_UUID'' (CStr luks_uuid);
     u \<leftarrow> cfg_set ''LUKS_DEV'' (CStr (''cryptdevice=UUID='' @ luks_uuid @ '':'' @ luks_name));
     cfg_set ''LVM'' (CInt 1)
   }"

definition found_luks_alone :: "'m sysenv \<Rightarrow> string \<Rightarrow> string \<Rightarrow> ('m, unit) app" where
  "found_luks_alone env luks_name cryptpart = do {
     before \<leftarrow> cfg_str ''LUKS_UUID'';
     luks_uuid \<leftarrow> lift_io (exec env (part_luks_uuid_cmd cryptpart) False);
     u \<leftarrow> cfg_set ''LUKS_UUID'' (CStr luks_uuid);
     cfg_set ''LUKS_DEV'' (CStr (''cryptdevice=UUID='' @ luks_uuid @ '':'' @ luks_name))
   }"

definition find_cryptdevice :: "'m sysenv \<Rightarrow> string \<Rightarrow> ('m, unit) app" where
  "find_cryptdevice env luks_name = do {
     on_lvm \<leftarrow> lift_io (exec env luks_on_lvm_cmd False);
     if on_lvm \<noteq> '''' then
       utils_check_cryptparts env luks_name (found_luks_on_lvm luks_name) (make_multiline on_lvm False newline_char)
     else do {
       on_luks \<leftarrow> lift_io (exec env lvm_on_luks_cmd False);
       if on_luks \<noteq> '''' then
         utils_check_cryptparts env luks_name (found_lvm_on_luks env luks_name) (make_multiline on_luks False newline_char)
       else do {
         alone \<leftarrow> lift_io (exec env luks_alone_cmd False);
         if alone \<noteq> '''' then
           utils_check_cryptparts env luks_name (found_luks_alone env luks_name) (make_multiline alone False newline_char)
         else ret ()
       }
     }
   }"

definition get_cryptroot :: "'m sysenv \<Rightarrow> ('m, unit) app" where
  "get_cryptroot env = do {
     is_crypt \<leftarrow> lift_io (exec_checked env root_is_crypt_cmd);
     below_crypt \<leftarrow> (if is_crypt then lift_io (exec_checked env root_below_crypt_cmd) else ret False);
     if \<not> is_crypt \<or> \<not> below_crypt then ret ()
     else do {
       u \<leftarrow> cfg_set ''LUKS'' (CInt 1);
       before \<leftarrow> cfg_str ''LUKS_ROOT_NAME'';
       luks_name \<leftarrow> lift_io (exec env root_name_cmd False);
       u \<leftarrow> cfg_set ''LUKS_ROOT_NAME'' (CStr luks_name);
       direct \<leftarrow> lift_io (exec_checked env crypt_at_mnt_cmd);
       luks_name \<leftarrow> (if direct then ret luks_name
         else do {
           above \<leftarrow> lift_io (exec env crypt_above_root_cmd False);
           u \<leftarrow> cfg_set ''LUKS_ROOT_NAME'' (CStr above);
           ret above
         });
       find_cryptdevice env luks_name
     }
   }"

definition boot_is_crypt_cmd :: string where
  "boot_is_crypt_cmd = (''lsblk | sed -r '' @ squote @ ''s/^[^[:alnum:]]+//'' @ squote @ '' | awk '' @ squote @ ''/'' @ backslash
        @ ''/mnt'' @ backslash @ ''/boot$/ {print $6}'' @ squote @ '' | grep -q crypt'')"

definition boot_below_crypt_cmd :: string where
  "boot_below_crypt_cmd =
     (''lsblk -i | tac | sed -r '' @ squote @ ''s/^[^[:alnum:]]+//'' @ squote @ '' | sed -n -e '' @ squote @ ''/''
        @ backslash @ ''/mnt'' @ backslash @ ''/boot$/,/part/p'' @ squote @ '' | awk '' @ squote
        @ ''{print $6}'' @ squote @ '' | grep -q crypt'')"

definition boot_uuid_cmd :: string where
  "boot_uuid_cmd = (''lsblk -lno UUID,MOUNTPOINT | awk '' @ squote @ ''/'' @ backslash @ ''mnt'' @ backslash
        @ ''/boot$/ {print $1}'' @ squote)"

definition crypt_above_boot_cmd :: string where
  "crypt_above_boot_cmd =
     (''lsblk -i | tac | sed -r '' @ squote @ ''s/^[^[:alnum:]]+//'' @ squote @ '' | sed -n -e '' @ squote @ ''/''
        @ backslash @ ''/mnt'' @ backslash @ ''/boot$/,/crypt/p'' @ squote @ '' | awk '' @ squote
        @ ''/crypt/ {print $1}'' @ squote)"

definition boot_luks_uuid_cmd :: string where
  "boot_luks_uuid_cmd =
     (''lsblk -ino NAME,FSTYPE,TYPE,MOUNTPOINT,UUID | tac | sed -r '' @ squote @ ''s/^[^[:alnum:]]+//'' @ squote
        @ '' | sed -n -e '' @ squote @ ''/'' @ backslash @ ''/mnt'' @ backslash @ ''/boot /,/part/p'' @ squote
        @ '' | awk '' @ squote @ ''/crypto_LUKS/ {print $4}'' @ squote)"

definition boot_on_lvm_cmd :: string where
  "boot_on_lvm_cmd = (''lsblk -lno TYPE,MOUNTPOINT | grep '' @ squote @ ''/mnt/boot$'' @ squote @ '' | grep -q lvm'')"

text \<open>The empty text is found nowhere: \<^verbatim>\<open>std::ranges::search\<close> gives an empty range for it.\<close>

definition add_cryptdevice :: "string \<Rightarrow> string \<Rightarrow> string \<Rightarrow> string" where
  "add_cryptdevice luks_dev boot_uuid boot_name =
     (if boot_uuid = '''' \<or> \<not> contains luks_dev boot_uuid
      then (luks_dev @ '' cryptdevice=UUID='' @ boot_uuid @ '':'' @ boot_name)
      else luks_dev)"

definition get_cryptboot :: "'m sysenv \<Rightarrow> ('m, unit) app" where
  "get_cryptboot env = do {
     is_crypt \<leftarrow> lift_io (exec_checked env boot_is_crypt_cmd);
     below_crypt \<leftarrow> (if is_crypt then lift_io (exec_checked env boot_below_crypt_cmd) else ret False);
     if \<not> is_crypt \<or> \<not> below_crypt then ret ()
     else do {
       u \<leftarrow> cfg_set ''LUKS'' (CInt 1);
       boot_name \<leftarrow> lift_io (exec env boot_name_cmd False);
       boot_uuid \<leftarrow> lift_io (exec env boot_uuid_cmd False);
       direct \<leftarrow> lift_io (exec_checked env crypt_at_mnt_cmd);
       boot_name \<leftarrow> (if direct then ret boot_name else lift_io (exec env crypt_above_boot_cmd False));
       boot_uuid \<leftarrow> (if direct then ret boot_uuid else lift_io (exec env boot_luks_uuid_cmd False));
       on_lvm \<leftarrow> lift_io (exec_checked env boot_on_lvm_cmd);
       u \<leftarrow> (if on_lvm then cfg_set ''LVM'' (CInt 1) else ret ());
       luks_dev \<leftarrow> cfg_str ''LUKS_DEV'';
       cfg_set ''LUKS_DEV'' (CStr (add_cryptdevice luks_dev boot_uuid boot_name))
     }
   }"

definition mapper_is_crypt_cmd :: "string \<Rightarrow> string" where
  "mapper_is_crypt_cmd name = (''lsblk '' @ squote @ ''/dev/mapper/'' @ name @ squote @ '' | grep -q '' @ squote @ ''crypt'' @ squote)"

text \<open>The first command that succeeds ends the search.\<close>

fun any_checked :: "'m sysenv \<Rightarrow> string list \<Rightarrow> ('m, bool) io" where
  "any_checked env [] = ret False"
| "any_checked env (cmd # cmds) = do { ok \<leftarrow> exec_checked env cmd; if ok then ret True else any_checked env cmds }"

definition boot_encrypted_setting :: "'m sysenv \<Rightarrow> ('m, unit) app" where
  "boot_encrypted_setting env = do {
     u \<leftarrow> cfg_set ''fde'' (CInt 0);
     separate \<leftarrow> lift_io (exec_checked env boot_part_cmd);
     encrypted \<leftarrow> (if \<not> separate then do {
         root_name \<leftarrow> lift_io (exec env root_name_cmd False);
         luks \<leftarrow> cfg_int ''LUKS'';
         if luks = 1 then ret True
         else lift_io (any_checked env [mapper_is_crypt_cmd root_name, crypt_root_cmd, crypt_below_cmd root_name])
       }
       else do {
         boot_name \<leftarrow> lift_io (exec env boot_name_cmd False);
         lift_io (any_checked env [crypt_boot_cmd, crypt_below_cmd boot_name, mapper_is_crypt_cmd boot_name])
       });
     if encrypted then do {
       u \<leftarrow> cfg_set ''fde'' (CInt 1);
       lift_io (setup_luks_keyfile env)
     }
     else ret ()
   }"

subsection \<open>The installer's own kernel command line\<close>

definition is_root_entry :: "string \<Rightarrow> bool" where
  "is_root_entry part \<longleftrightarrow>
     contains part ''/ '' \<or> contains part ''/ ext'' \<or> contains part ''/ btrfs'' \<or> contains part ''/ xfs''"

definition find_root_device :: "string list \<Rightarrow> string" where
  "find_root_device partitions =
     (case find is_root_entry partitions of
        None \<Rightarrow> ''''
      | Some part \<Rightarrow> takeWhile (\<lambda>ch. ch \<noteq> space_char) part)"

definition utils_get_kernel_params :: "('m, string list option) app" where
  "utils_get_kernel_params = do {
     luks \<leftarrow> cfg_int ''LUKS'';
     lvm \<leftarrow> cfg_int ''LVM'';
     raid \<leftarrow> cfg_int ''RAID'';
     partitions \<leftarrow> cfg_strs ''PARTITIONS'';
     crypt_params \<leftarrow> (if luks = 1 then do {
         luks_dev \<leftarrow> cfg_str ''LUKS_DEV'';
         luks_root_name \<leftarrow> cfg_str ''LUKS_ROOT_NAME'';
         ret [(''cryptdevice='' @ luks_dev @ '':'' @ luks_root_name)]
       }
       else ret []);
     let root_device = find_root_device partitions;
     root_params \<leftarrow> (if root_device = '''' then ret []
       else if lvm = 1 then do {
         lvm_group \<leftarrow> cfg_str ''LVM_GROUP'';
         ret [(''root=/dev/'' @ lvm_group @ ''/root'')]
       }
       else if luks = 1 then do {
         luks_root_name \<leftarrow> cfg_str ''LUKS_ROOT_NAME'';
         ret [(''root=/dev/mapper/'' @ luks_root_name)]
       }
       else ret [(''root='' @ root_device)]);
     ret (Some (crypt_params @ root_params @ [''rw'', ''quiet''] @ (if raid = 1 then [''rd.auto=1''] else [])))
   }"

subsection \<open>Boot loaders\<close>

definition is_volume_removable :: "'m sysenv \<Rightarrow> ('m, bool) io" where
  "is_volume_removable env = do {
     root_name \<leftarrow> exec env root_name_cmd False;
     root_device \<leftarrow> exec env
       (''lsblk -i | tac | sed -r '' @ squote @ ''s/^[^[:alnum:]]+//'' @ squote @ '' | sed -n -e '' @ squote @ ''/''
        @ root_name @ ''/,/disk/p'' @ squote @ '' | awk '' @ squote @ ''/disk/ {print $1}'' @ squote) False;
     removable \<leftarrow> exec env (''cat /sys/block/'' @ root_device @ ''/removable'') False;
     ret (to_int removable = 1)
   }"

definition ignored :: "('m, 'a) io \<Rightarrow> ('m, unit) io" where
  "ignored act = do { r \<leftarrow> act; ret () }"

text \<open>A call whose failure throws.\<close>

definition must :: "('m, bool) io \<Rightarrow> ('m, unit) io" where
  "must act = do { ok \<leftarrow> act; if ok then ret () else halt Terminated }"

definition grub_installer_script :: "string \<Rightarrow> string" where
  "grub_installer_script packages =
     ''#!/bin/bash'' @ [newline_char] @ ''ln -s /hostlvm /run/lvm'' @ [newline_char]
     @ ''pacman -S --noconfirm --needed '' @ packages @ [newline_char]"

definition add_zroot :: "string \<Rightarrow> grub_config \<Rightarrow> grub_config" where
  "add_zroot mountpoint_source c =
     (let zroot_var = (''zfs='' @ mountpoint_source @ '' rw'')
      in c\<lparr>cmdline_linux_default := cmdline_linux_default c @ '' '' @ zroot_var,
           cmdline_linux := cmdline_linux c @ '' '' @ zroot_var\<rparr>)"

text \<open>The UEFI code always resets \<^verbatim>\<open>GRUB_SAVEDEFAULT\<close> here; the BIOS code tests for btrfs inside the zfs case, so it never does.\<close>

definition zfs_grub :: "'m sysenv \<Rightarrow> string \<Rightarrow> bool \<Rightarrow> string \<Rightarrow> grub_config \<Rightarrow> ('m, grub_config) io" where
  "zfs_grub env mnt always_reset root_part_fs c = do {
     out \<leftarrow> exec env (''echo '' @ squote @ ''ZPOOL_VDEV_NAME_PATH=YES'' @ squote @ '' >> '' @ mnt @ ''/etc/environment'') False;
     let c' = (if always_reset \<or> root_part_fs = ''btrfs'' then c\<lparr>savedefault := None\<rparr> else c);
     mountpoint_source \<leftarrow> get_mountpoint_source env mnt;
     ret (add_zroot mountpoint_source c')
   }"

definition root_lvm_cmd :: string where
  "root_lvm_cmd = (''lsblk -ino TYPE,MOUNTPOINT | grep '' @ squote @ '' /$'' @ squote @ '' | grep -q lvm'')"

definition no_savedefault :: "'m sysenv \<Rightarrow> string \<Rightarrow> grub_config \<Rightarrow> ('m, grub_config) io" where
  "no_savedefault env root_part_fs c = do {
     is_root_lvm \<leftarrow> exec_checked env root_lvm_cmd;
     ret (if is_root_lvm \<or> root_part_fs = ''btrfs'' then c\<lparr>savedefault := None\<rparr> else c)
   }"

definition drop_grub_btrfs :: "'m sysenv \<Rightarrow> string \<Rightarrow> ('m, unit) io" where
  "drop_grub_btrfs env grub_installer_path = do {
     is_btrfs_subvol \<leftarrow> exec_checked env
       (''mount | awk '' @ squote @ ''$3 == \"/mnt\" {print $0}'' @ squote @ '' | grep btrfs | grep -qv subvolid=5'');
     if \<not> is_btrfs_subvol then ignored (exec env (''sed -e '' @ squote @ ''s/ grub-btrfs//g'' @ squote @ '' -i '' @ grub_installer_path) False)
     else ret ()
   }"

definition add_luks :: "'m sysenv \<Rightarrow> string \<Rightarrow> grub_config \<Rightarrow> ('m, grub_config) io" where
  "add_luks env luks_dev c =
     (if luks_dev = '''' then ret c
      else do {
        luks_dev_formatted \<leftarrow> exec env (''echo '' @ squote @ luks_dev @ squote @ '' | awk '' @ squote @ ''{print $1}'' @ squote) False;
        ret (c\<lparr>cmdline_linux := luks_dev_formatted @ '' '' @ cmdline_linux c\<rparr>)
      })"

definition add_fde :: "grub_config \<Rightarrow> ('m, grub_config) app" where
  "add_fde c = do {
     fde \<leftarrow> cfg_int ''fde'';
     ret (if fde = 1 then c\<lparr>enable_cryptodisk := Some True\<rparr> else c)
   }"

definition unmount_hostlvm :: "'m sysenv \<Rightarrow> ('m, unit) io" where
  "unmount_hostlvm env = do {
     rc \<leftarrow> sys_umount env ''/mnt/hostlvm'';
     ok \<leftarrow> remove_path env ''/mnt/hostlvm'';
     ret ()
   }"

definition uefi_grub_config ::
  "'m sysenv \<Rightarrow> string \<Rightarrow> string \<Rightarrow> string \<Rightarrow> ('m, grub_config \<times> bool) io" where
  "uefi_grub_config env mnt grub_installer_path root_part_fs =
     (if root_part_fs = ''zfs'' then do {
        c \<leftarrow> zfs_grub env mnt True root_part_fs default_grub_config;
        opened \<leftarrow> create_file_for_overwrite env grub_installer_path
          (grub_installer_script ''grub efibootmgr dosfstools'');
        ret (c, True)
      }
      else do {
        c \<leftarrow> no_savedefault env root_part_fs default_grub_config;
        opened \<leftarrow> create_file_for_overwrite env grub_installer_path
          (grub_installer_script ''grub efibootmgr dosfstools grub-btrfs grub-hook'');
        ret (c, False)
      })"

definition copy_default_efi :: "'m sysenv \<Rightarrow> string \<Rightarrow> ('m, unit) io" where
  "copy_default_efi env boot_mountpoint = do {
     ok \<leftarrow> create_directories env (boot_mountpoint @ ''/EFI/boot'');
     must (copy_file env (boot_mountpoint @ ''/EFI/cachyos/grubx64.efi'') (boot_mountpoint @ ''/EFI/boot/bootx64.efi''))
   }"

definition install_grub_uefi :: "'m sysenv \<Rightarrow> string \<Rightarrow> bool \<Rightarrow> ('m, unit) app" where
  "install_grub_uefi env bootid as_default = do {
     u \<leftarrow> lift_io (if ndevenv env then do {
         u \<leftarrow> must (create_directory env ''/mnt/hostlvm'');
         ignored (exec env ''mount --bind /run/lvm /mnt/hostlvm'' False)
       }
       else ret ());
     root_name \<leftarrow> lift_io (exec env root_name_cmd False);
     root_device \<leftarrow> lift_io (exec env
       (''lsblk -i | tac | sed -r '' @ squote @ ''s/^[^[:alnum:]]+//'' @ squote @ '' | sed -n -e '' @ squote @ ''/''
        @ root_name @ ''/,/disk/p'' @ squote @ '' | awk '' @ squote @ ''/disk/ {print $1}'' @ squote) False);
     root_part \<leftarrow> lift_io (exec env
       (''lsblk -i | tac | sed -r '' @ squote @ ''s/^[^[:alnum:]]+//'' @ squote @ '' | sed -n -e '' @ squote @ ''/''
        @ root_name @ ''/,/part/p'' @ squote @ '' | awk '' @ squote @ ''/part/ {print $1}'' @ squote
        @ '' | tr -cd '' @ squote @ ''[:alnum:]'' @ squote) False);
     if \<not> ndevenv env then ret ()
     else do {
       u \<leftarrow> boot_encrypted_setting env;
       uefi_mount \<leftarrow> cfg_str ''UEFI_MOUNT'';
       mnt \<leftarrow> cfg_str ''MOUNTPOINT'';
       luks_dev \<leftarrow> cfg_str ''LUKS_DEV'';
       let grub_installer_path = (mnt @ ''/usr/bin/grub_installer.sh'');
       root_part_fs \<leftarrow> lift_io (get_mountpoint_fs env mnt);
       (c, on_zfs) \<leftarrow> lift_io (uefi_grub_config env mnt grub_installer_path root_part_fs);
       u \<leftarrow> lift_io (must (set_permissions env grub_installer_path));
       removable \<leftarrow> lift_io (is_volume_removable env);
       u \<leftarrow> lift_io (drop_grub_btrfs env grub_installer_path);
       c \<leftarrow> lift_io (add_luks env luks_dev c);
       c \<leftarrow> add_fde c;
       u \<leftarrow> utils_arch_chroot env ''grub_installer.sh'' True;
       installed \<leftarrow> lift_io (install_grub env c
         \<lparr>gi_is_efi = True, gi_do_recheck = True, gi_is_removable = removable, gi_is_root_on_zfs = on_zfs,
          gi_device = None, gi_efi_directory = Some uefi_mount, gi_bootloader_id = Some bootid\<rparr> mnt);
       u \<leftarrow> lift_io (unmount_hostlvm env);
       if \<not> installed then notice ''\<newline>Failed to install grub\<newline>''
       else if as_default then lift_io (copy_default_efi env (mnt @ uefi_mount)) else ret ()
     }
   }"

definition utils_install_refind :: "'m sysenv \<Rightarrow> ('m, unit) app" where
  "utils_install_refind env =
     (if ndevenv env then do {
        mnt \<leftarrow> cfg_str ''MOUNTPOINT'';
        uefi_mount \<leftarrow> cfg_str ''UEFI_MOUNT'';
        u \<leftarrow> inst_needed env ''refind'';
        kernel_params \<leftarrow> utils_get_kernel_params;
        case kernel_params of
          None \<Rightarrow> ret ()
        | Some params \<Rightarrow> do {
            removable \<leftarrow> lift_io (is_volume_removable env);
            installed \<leftarrow> lift_io (install_refind env
              \<lparr>ri_is_removable = removable, ri_root_mountpoint = mnt, ri_boot_mountpoint = mnt @ uefi_mount,
               ri_extra_kernel_versions = [], ri_kernel_params = params\<rparr>);
            if \<not> installed then ret ()
            else do { ok \<leftarrow> install_from_pkglist env ''refind-theme-nord''; ret () }
          }
      }
      else ret ())"

definition utils_install_systemd_boot :: "'m sysenv \<Rightarrow> ('m, unit) app" where
  "utils_install_systemd_boot env =
     (if ndevenv env then do {
        mnt \<leftarrow> cfg_str ''MOUNTPOINT'';
        uefi_mount \<leftarrow> cfg_str ''UEFI_MOUNT'';
        ok \<leftarrow> install_from_pkglist env ''systemd-boot-manager'';
        removable \<leftarrow> lift_io (is_volume_removable env);
        installed \<leftarrow> lift_io (install_systemd_boot env mnt uefi_mount removable);
        ret ()
      }
      else ret ())"

definition utils_install_limine :: "'m sysenv \<Rightarrow> ('m, unit) app" where
  "utils_install_limine env =
     (if ndevenv env then do {
        mnt \<leftarrow> cfg_str ''MOUNTPOINT'';
        uefi_mount \<leftarrow> cfg_str ''UEFI_MOUNT'';
        let boot_mountpoint = mnt @ uefi_mount;
        kernel_params \<leftarrow> utils_get_kernel_params;
        case kernel_params of
          None \<Rightarrow> ret ()
        | Some params \<Rightarrow> do {
            removable \<leftarrow> lift_io (is_volume_removable env);
            ok \<leftarrow> install_from_pkglist env ''limine-mkinitcpio-hook'';
            u \<leftarrow> inst_needed env ''cachyos-wallpapers'';
            u \<leftarrow> lift_io (must (copy_file env ''/usr/share/wallpapers/cachyos-wallpapers/limine-splash.png''
              (boot_mountpoint @ ''/limine-splash.png'')));
            installed \<leftarrow> lift_io (install_limine env
              \<lparr>li_is_removable = removable, li_root_mountpoint = mnt, li_boot_mountpoint = boot_mountpoint,
               li_kernel_params = params\<rparr>);
            if \<not> installed then ret ()
            else do {
              filesystem_type \<leftarrow> lift_io (get_mountpoint_fs env mnt);
              if filesystem_type = ''btrfs''
              then do { ok \<leftarrow> install_from_pkglist env ''cachyos-snapper-support limine-snapper-sync''; ret () }
              else ret ()
            }
          }
      }
      else ret ())"

definition uefi_bootloader :: "'m sysenv \<Rightarrow> string \<Rightarrow> ('m, unit) app" where
  "uefi_bootloader env bootloader = do {
     u \<leftarrow> lift_io (if ndevenv env then do {
         efi \<leftarrow> inspect False (dir_exists env efi_path);
         if efi then mount_efivarfs env else ret ()
       }
       else ret ());
     if bootloader = ''grub'' then install_grub_uefi env ''cachyos'' True
     else if bootloader = ''refind'' then utils_install_refind env
     else if bootloader = ''systemd-boot'' then utils_install_systemd_boot env
     else if bootloader = ''limine'' then utils_install_limine env
     else ret ()
   }"

definition lvm_grub :: "int \<Rightarrow> int \<Rightarrow> string \<Rightarrow> grub_config \<Rightarrow> grub_config" where
  "lvm_grub lvm lvm_sep_boot root_part_fs c0 =
     (let c1 = (if (lvm = 1 \<and> lvm_sep_boot = 0) \<or> lvm_sep_boot = 2
                then c0\<lparr>preload_modules := ''lvm '' @ preload_modules c0, savedefault := None\<rparr> else c0);
          c2 = (if root_part_fs = ''btrfs'' then c1\<lparr>savedefault := None\<rparr> else c1);
          c3 = (if lvm = 1 then c2\<lparr>savedefault := None\<rparr> else c2)
      in c3\<lparr>disable_os_prober := Some False\<rparr>)"

definition bios_grub_config ::
  "'m sysenv \<Rightarrow> string \<Rightarrow> string \<Rightarrow> string \<Rightarrow> grub_config \<Rightarrow> ('m, grub_config) io" where
  "bios_grub_config env mnt grub_installer_path root_part_fs c0 =
     (if root_part_fs = ''zfs'' then do {
        c \<leftarrow> zfs_grub env mnt False root_part_fs c0;
        opened \<leftarrow> create_file_for_overwrite env grub_installer_path (grub_installer_script ''grub os-prober'');
        ret c
      }
      else do {
        c \<leftarrow> no_savedefault env root_part_fs c0;
        opened \<leftarrow> create_file_for_overwrite env grub_installer_path
          (grub_installer_script ''grub os-prober grub-btrfs grub-hook'');
        ret c
      })"

definition bios_bootloader :: "'m sysenv \<Rightarrow> string \<Rightarrow> ('m, unit) app" where
  "bios_bootloader env bootloader =
     (if ndevenv env then do {
        u \<leftarrow> boot_encrypted_setting env;
        lvm \<leftarrow> cfg_int ''LVM'';
        lvm_sep_boot \<leftarrow> cfg_int ''LVM_SEP_BOOT'';
        luks_dev \<leftarrow> cfg_str ''LUKS_DEV'';
        mnt \<leftarrow> cfg_str ''MOUNTPOINT'';
        device_info \<leftarrow> cfg_str ''DEVICE'';
        root_part_fs \<leftarrow> lift_io (get_mountpoint_fs env mnt);
        let grub_installer_path = (mnt @ ''/usr/bin/grub_installer.sh'');
        c \<leftarrow> lift_io (bios_grub_config env mnt grub_installer_path root_part_fs
          (lvm_grub lvm lvm_sep_boot root_part_fs default_grub_config));
        u \<leftarrow> lift_io (drop_grub_btrfs env grub_installer_path);
        c \<leftarrow> lift_io (add_luks env luks_dev c);
        c \<leftarrow> add_fde c;
        u \<leftarrow> notice ''\<newline>Please wait...\<newline>'';
        out \<leftarrow> lift_io (exec env (''dd if=/dev/zero of='' @ device_info @ '' seek=1 count=2047'') False);
        ok \<leftarrow> lift_io (create_directory env ''/mnt/hostlvm'');
        out \<leftarrow> lift_io (exec env ''mount --bind /run/lvm /mnt/hostlvm'' False);
        u \<leftarrow> utils_arch_chroot env ''grub_installer.sh'' True;
        ok \<leftarrow> lift_io (remove_path env grub_installer_path);
        u \<leftarrow> lift_io (unmount_hostlvm env);
        installed \<leftarrow> lift_io (install_grub env c
          \<lparr>gi_is_efi = False, gi_do_recheck = True, gi_is_removable = False, gi_is_root_on_zfs = False,
           gi_device = Some device_info, gi_efi_directory = None, gi_bootloader_id = None\<rparr> mnt);
        if \<not> installed then notice ''\<newline>Failed to install grub\<newline>'' else ret ()
      }
      else ret ())"

definition install_bootloader :: "'m sysenv \<Rightarrow> string \<Rightarrow> ('m, unit) app" where
  "install_bootloader env bootloader = do {
     base \<leftarrow> check_base env;
     if \<not> base then ret ()
     else do {
       system_info \<leftarrow> cfg_str ''SYSTEM'';
       if system_info = ''BIOS'' then bios_bootloader env bootloader else uefi_bootloader env bootloader
     }
   }"

subsection \<open>Lemmas\<close>

lemma contains_blank_after_slash:
  assumes "space_char \<notin> set dev" "\<not> ends_with dev ''/''" "space_char \<notin> set psize"
  shows "\<not> contains (dev @ '' '' @ psize) ''/ ''"
proof
  assume "contains (dev @ '' '' @ psize) ''/ ''"
  then obtain a b where eq: "dev @ space_char # psize = (a @ ''/'') @ space_char # b"
    by (auto simp: contains_iff_sublist sublist_def)
  from append_Cons_eq_iff [of space_char dev psize "a @ ''/''" b] eq assms(1,3)
  have "dev = a @ ''/''" by simp
  with assms(2) show False by (auto simp: ends_with_def)
qed

text \<open>The entries that \<^verbatim>\<open>find_partitions\<close> puts in the table: a device and its size.\<close>

definition partition_entry :: "string \<Rightarrow> bool" where
  "partition_entry p \<longleftrightarrow> (\<exists>dev psize. p = dev @ '' '' @ psize \<and> space_char \<notin> set dev \<and> space_char \<notin> set psize \<and>
     \<not> ends_with dev ''/'')"

lemma contains_prefix: "contains s (a @ b) \<Longrightarrow> contains s a"
  by (auto simp: contains_iff_sublist sublist_def)

lemma partition_entry_no_root: "partition_entry p \<Longrightarrow> \<not> is_root_entry p"
  using contains_blank_after_slash contains_prefix [of p "''/ ''" "''ext''"] contains_prefix [of p "''/ ''" "''btrfs''"]
    contains_prefix [of p "''/ ''" "''xfs''"]
  by (auto simp: partition_entry_def is_root_entry_def)

lemma find_root_device_entries: "list_all partition_entry ps \<Longrightarrow> find_root_device ps = ''''"
  by (induction ps) (auto simp: find_root_device_def partition_entry_no_root split: option.splits)

subsection \<open>Properties\<close>

text \<open>C24. When the settings LUKS, LVM and RAID are numbers and PARTITIONS lists entries of a device and its size, the kernel command line that
  the installer makes for rEFInd and Limine is: on an encrypted system the word \<^verbatim>\<open>cryptdevice=\<close> followed by the setting LUKS_DEV, a colon
  and the setting LUKS_ROOT_NAME, then \<^verbatim>\<open>rw\<close> and \<^verbatim>\<open>quiet\<close>, and with RAID \<^verbatim>\<open>rd.auto=1\<close>.  So, encrypted
  or not and whatever these settings hold, no word names the root device: it is searched for by a mount point in entries that hold
  devices and sizes.  And LUKS_DEV is given behind a second \<^verbatim>\<open>cryptdevice=\<close>, though the installer
  stores it with that word and the mapper name already in it.\<close>

theorem installer_kernel_params:
  assumes "status w = Running" "c ''LUKS'' = Some (CInt luks)" "c ''LVM'' = Some (CInt lvm)" "c ''RAID'' = Some (CInt raid)"
    and "c ''PARTITIONS'' = Some (CStrs ps)" "list_all partition_entry ps"
    and "luks = 1 \<longrightarrow> c ''LUKS_DEV'' = Some (CStr luks_dev) \<and> c ''LUKS_ROOT_NAME'' = Some (CStr name)"
  shows "\<exists>params. run_state utils_get_kernel_params (w, c) = (Some params, (w, c)) \<and>
    params = (if luks = 1 then [''cryptdevice='' @ luks_dev @ '':'' @ name] else []) @ [''rw'', ''quiet''] @
      (if raid = 1 then [''rd.auto=1''] else []) \<and>
    (\<forall>word\<in>set params. \<not> starts_with word ''root='') \<and>
    (luks = 1 \<and> luks_dev = ''cryptdevice=UUID='' @ uuid @ '':'' @ name \<longrightarrow>
       hd params = ''cryptdevice=cryptdevice=UUID='' @ uuid @ '':'' @ name @ '':'' @ name)"
proof -
  let ?params = "(if luks = 1 then [''cryptdevice='' @ luks_dev @ '':'' @ name] else []) @ [''rw'', ''quiet''] @
      (if raid = 1 then [''rd.auto=1''] else [])"
  have "run_state utils_get_kernel_params (w, c) = (Some ?params, (w, c))"
    using assms by (cases "luks = 1") (simp_all add: utils_get_kernel_params_def run_cfg_int run_cfg_strs run_cfg_str find_root_device_entries)
  moreover have "\<forall>word\<in>set ?params. \<not> starts_with word ''root=''" by (auto simp: starts_with_def)
  ultimately show ?thesis by (intro exI [of _ ?params]) simp
qed

abbreviation crypt_config :: config where
  "crypt_config \<equiv> (initial_config False)(''LUKS'' \<mapsto> CInt 1, ''PARTITIONS'' \<mapsto> CStrs [''/dev/sda1 512M'', ''/dev/sda2 20G''],
     ''LUKS_DEV'' \<mapsto> CStr ''cryptdevice=UUID=42:cryptroot'', ''LUKS_ROOT_NAME'' \<mapsto> CStr ''cryptroot'')"

theorem installer_kernel_params_witness:
  "run_state utils_get_kernel_params (world_of [], crypt_config) =
    (Some [''cryptdevice=cryptdevice=UUID=42:cryptroot:cryptroot'', ''rw'', ''quiet''], (world_of [], crypt_config))"
proof -
  have "partition_entry ''/dev/sda1 512M''" "partition_entry ''/dev/sda2 20G''"
    unfolding partition_entry_def
    by (rule exI [of _ "''/dev/sda1''"], rule exI [of _ "''512M''"], simp add: ends_with_def suffix_def)
      (rule exI [of _ "''/dev/sda2''"], rule exI [of _ "''20G''"], simp add: ends_with_def suffix_def)
  then have e: "list_all partition_entry [''/dev/sda1 512M'', ''/dev/sda2 20G'']" by simp
  show ?thesis
    using installer_kernel_params [of "world_of []" crypt_config 1 0 0 "[''/dev/sda1 512M'', ''/dev/sda2 20G'']"
        "''cryptdevice=UUID=42:cryptroot''" "''cryptroot''" "''42''"] e
    by simp
qed

text \<open>C25. Whatever the commands answer, after the check for an encrypted boot the flag for full disk encryption is an
  integer, 0 or 1, so that reading it later cannot throw, and nothing else in the table has changed.\<close>

theorem fde_flag_defined:
  assumes "status w = Running" "c ''LUKS'' = Some (CInt luks)"
    and "run_state (boot_encrypted_setting env) (w, c) = (u, (w', c'))"
  shows "(c' ''fde'' = Some (CInt 0) \<or> c' ''fde'' = Some (CInt 1)) \<and> (\<forall>key. key \<noteq> ''fde'' \<longrightarrow> c' key = c key)"
proof -
  have "c' = c(''fde'' \<mapsto> CInt 0) \<or> c' = c(''fde'' \<mapsto> CInt 0, ''fde'' \<mapsto> CInt 1)"
    using assms unfolding boot_encrypted_setting_def
    by (auto simp: run_lift_io cfg_set_def cfg_int_def cfg_value_def terminate_def halt_def split: if_splits option.splits)
  then show ?thesis by auto
qed

theorem fde_flag_defined_witness:
  "\<exists>u w' c'. run_state (boot_encrypted_setting quiet_env) (world_of [], initial_config False) = (u, (w', c')) \<and>
    (c' ''fde'' = Some (CInt 0) \<or> c' ''fde'' = Some (CInt 1))"
proof -
  obtain u w' c' where run: "run_state (boot_encrypted_setting quiet_env) (world_of [], initial_config False) = (u, (w', c'))"
    by (metis surj_pair)
  from fde_flag_defined [OF world_of_simps(1) initial_config_simps(5) run] run show ?thesis by blast
qed

end
