(* ===== verification/Advance.thy ===== *)
theory Advance
  imports Dialog
begin

section \<open>What no operation does\<close>

text \<open>
  Whatever an operation does, the trace of requests only grows, the user's answers are used up from the front, and a
  process that has stopped changes nothing any more.  The invariant is stated once, as a relation between worlds that is reflexive
  and transitive, and is proved for operations by going over their text with the rules collected in
  \<open>advancing\<close>; the projection leads from the state of the monad to the world.
\<close>

definition later_world :: "'m world \<Rightarrow> 'm world \<Rightarrow> bool" where
  "later_world w w' \<longleftrightarrow>
     prefix (trace w) (trace w') \<and> suffix (user_answers w') (user_answers w) \<and> (status w \<noteq> Running \<longrightarrow> w' = w)"

definition advances :: "('s \<Rightarrow> 'm world) \<Rightarrow> ('s, 'a) state \<Rightarrow> bool" where
  "advances proj act \<longleftrightarrow> (\<forall>s. later_world (proj s) (proj (snd (run_state act s))))"

named_theorems advancing \<open>operations that only advance the world\<close>

lemma later_world_refl: "later_world w w"
  by (simp add: later_world_def)

lemma later_world_trans: "later_world u v \<Longrightarrow> later_world v w \<Longrightarrow> later_world u w"
  unfolding later_world_def by (metis prefix_order.trans suffix_order.trans)

subsection \<open>Structure of operations\<close>

lemma advances_bind [advancing]:
  assumes "advances proj m" "\<And>x. advances proj (f x)"
  shows "advances proj (State_Monad.bind m f)"
  unfolding advances_def
proof
  fix s
  obtain r s' where r: "run_state m s = (r, s')" by force
  have "later_world (proj s) (proj s')" using assms(1) r unfolding advances_def by (metis snd_conv)
  moreover have "later_world (proj s') (proj (snd (run_state (f r) s')))" using assms(2) unfolding advances_def by blast
  ultimately show "later_world (proj s) (proj (snd (run_state (State_Monad.bind m f) s)))"
    using r by (simp add: later_world_trans)
qed

lemma advances_return [advancing]: "advances proj (ret x)"
  by (simp add: advances_def later_world_refl)

lemma advances_if [advancing]: "advances proj a \<Longrightarrow> advances proj b \<Longrightarrow> advances proj (if c then a else b)"
  by simp

lemma advances_let [advancing]: "advances proj (f t) \<Longrightarrow> advances proj (Let t f)"
  by simp

lemma advances_option [advancing]:
  "advances proj a \<Longrightarrow> (\<And>x. advances proj (f x)) \<Longrightarrow> advances proj (case x of None \<Rightarrow> a | Some x \<Rightarrow> f x)"
  by (cases x) simp_all

lemma advances_nat [advancing]:
  "advances proj a \<Longrightarrow> (\<And>n. advances proj (f n)) \<Longrightarrow> advances proj (case n of 0 \<Rightarrow> a | Suc n \<Rightarrow> f n)"
  by (cases n) simp_all

lemma advances_list [advancing]:
  "advances proj a \<Longrightarrow> (\<And>x xs. advances proj (f x xs)) \<Longrightarrow> advances proj (case xs of [] \<Rightarrow> a | x # xs \<Rightarrow> f x xs)"
  by (cases xs) simp_all

lemma advances_prod [advancing]: "(\<And>a b. advances proj (f a b)) \<Longrightarrow> advances proj (case p of (a, b) \<Rightarrow> f a b)"
  by (cases p) simp

lemma advances_sum [advancing]:
  "(\<And>x. advances proj (f x)) \<Longrightarrow> (\<And>x. advances proj (g x)) \<Longrightarrow> advances proj (case x of Inl x \<Rightarrow> f x | Inr x \<Rightarrow> g x)"
  by (cases x) simp_all

lemma advances_config_value [advancing]:
  "(\<And>x. advances proj (f x)) \<Longrightarrow> (\<And>x. advances proj (g x)) \<Longrightarrow> (\<And>x. advances proj (h x)) \<Longrightarrow> (\<And>x. advances proj (k x)) \<Longrightarrow>
   advances proj (case v of CStr x \<Rightarrow> f x | CInt x \<Rightarrow> g x | CStrs x \<Rightarrow> h x | CZfs x \<Rightarrow> k x)"
  by (cases v) simp_all

lemma advances_lift_io [advancing]: "advances id act \<Longrightarrow> advances fst (lift_io act)"
  by (simp add: advances_def run_lift_io split_paired_all)

subsection \<open>Effects\<close>

lemma advances_perform [advancing]: "advances id (perform ev dflt act)"
  by (auto simp: advances_def perform_def later_world_def split: prod.splits)

lemma advances_inspect [advancing]: "advances id (inspect dflt f)"
  by (simp add: advances_def inspect_def later_world_refl)

lemma advances_halt [advancing]: "advances id (halt st)"
  by (simp add: advances_def halt_def later_world_def)

lemma advances_ask [advancing]: "advances id (ask content entries)"
  by (auto simp: advances_def ask_def later_world_def suffix_Cons split: list.splits)

lemma advances_cfg_value [advancing]: "advances fst (cfg_value key)"
  by (auto simp: advances_def cfg_value_def later_world_refl split: option.splits)

lemma advances_cfg_set [advancing]: "advances fst (cfg_set key v)"
  by (simp add: advances_def cfg_set_def later_world_refl)

lemma advances_terminate [advancing]: "advances id (terminate dflt)"
  unfolding terminate_def by (intro advancing)

lemma advances_exec [advancing]: "advances id (exec env command interactive)"
  unfolding exec_def run_system_def run_popen_def by (intro advancing)

lemma advances_exec_checked [advancing]: "advances id (exec_checked env command)"
  unfolding exec_checked_def by (intro advancing)

lemma advances_arch_chroot [advancing]: "advances id (arch_chroot env command mnt interactive)"
  unfolding arch_chroot_def by (intro advancing)

lemma advances_arch_chroot_checked [advancing]: "advances id (arch_chroot_checked env command mnt)"
  unfolding arch_chroot_checked_def by (intro advancing)

lemma advances_files [advancing]:
  "advances id (path_exists env path)" "advances id (read_whole_file path)" "advances id (create_file_for_overwrite env path data)"
  "advances id (write_to_file env data path)" "advances id (create_directories env path)" "advances id (set_permissions env path)"
  "advances id (copy_file env path dest)" "advances id (rename_file env path dest)" "advances id (create_directory env path)"
  "advances id (remove_path env path)" "advances id (sys_mount env dev path ty)" "advances id (sys_umount env path)"
  "advances id (http_request env url)"
  unfolding path_exists_def read_whole_file_def create_file_for_overwrite_def write_to_file_def create_directories_def
    set_permissions_def copy_file_def rename_file_def create_directory_def remove_path_def sys_mount_def sys_umount_def http_request_def
  by (intro advancing)+

lemma advances_all_checked [advancing]: "(\<And>x. advances id (f x)) \<Longrightarrow> advances id (all_checked f xs)"
proof (induction xs)
  case Nil
  show ?case unfolding all_checked.simps by (intro advancing)
next
  case (Cons x xs)
  show ?case unfolding all_checked.simps by (intro advancing Cons)
qed

lemma advances_dev_checked [advancing]: "advances id (dev_checked env command)"
  unfolding dev_checked_def by (intro advancing)

lemma advances_cfg [advancing]: "advances fst (cfg_str key)" "advances fst (cfg_int key)" "advances fst (cfg_strs key)"
  unfolding cfg_str_def cfg_int_def cfg_strs_def by (intro advancing)+

text \<open>Every plan advances, and so does every operation that has one.\<close>

lemma advances_run_plan [advancing]: "advances id (run_plan env steps)"
  unfolding advances_def
proof (intro allI)
  fix w :: "'a world"
  show "later_world (id w) (id (snd (run_state (run_plan env steps) w)))"
  proof (cases "status w = Running")
    case True
    then show ?thesis by (auto simp: run_plan_outcome later_world_def split: prod.splits)
  next
    case False
    have "snd (run_state (run_plan env steps) w) = w"
      using False
    proof (induction steps)
      case (Cons s steps)
      have "snd (run_state (step_action env s) w) = w"
        using Cons.prems by (cases s) (simp_all add: io_prims exec_checked_def split: prod.splits)
      then show ?case using Cons by (auto split: prod.splits)
    qed simp
    then show ?thesis by (simp add: later_world_refl)
  qed
qed

context planned_op
begin

lemma advances_operation: "advances id operation"
  unfolding refines by (rule advances_run_plan)

end

subsection \<open>Screens\<close>

lemma advances_widgets [advancing]:
  "advances fst (notice content)" "advances fst (inputbox val content)" "advances fst (yesno content)"
  "advances fst (menu entries content)" "advances fst (checklist entries content)" "advances fst (entry_at entries i)"
  "advances fst (first_word src)"
  unfolding notice_def inputbox_def yesno_def menu_def checklist_def entry_at_def first_word_def by (intro advancing)+

lemma advances_pick [advancing]: "advances fst (pick_entry entries content)" "advances fst (pick_word entries content)"
  unfolding pick_entry_def pick_word_def by (intro advancing)+

lemma advances_dialog_loop: "(\<And>s. advances fst (body s)) \<Longrightarrow> advances fst (dialog_loop n body dflt s)"
proof (induction n arbitrary: s)
  case 0
  show ?case unfolding dialog_loop.simps by (intro advancing)
next
  case (Suc n)
  show ?case unfolding dialog_loop.simps by (intro advancing Suc)
qed

lemma advances_repeat_dialog [advancing]: "(\<And>s. advances fst (body s)) \<Longrightarrow> advances fst (repeat_dialog body dflt s)"
  using advances_dialog_loop [of body] unfolding advances_def
  by (simp add: run_repeat_dialog split_paired_all del: dialog_loop.simps)

lemma advances_menu_loop [advancing]: "(\<And>i. advances fst (callback i)) \<Longrightarrow> advances fst (menu_loop entries content callback)"
  unfolding menu_loop_def menu_body_def by (intro advancing)

subsection \<open>Rounds of a menu\<close>

lemma advances_length:
  "advances fst act \<Longrightarrow> run_state act (w, c) = (r, (w', c')) \<Longrightarrow> length (user_answers w') \<le> length (user_answers w)"
  unfolding advances_def later_world_def by (metis fst_conv snd_conv suffix_length_le)

lemma advances_le:
  "advances fst act \<Longrightarrow> run_state act s = (r, s') \<Longrightarrow> length (user_answers (fst s')) \<le> length (user_answers (fst s))"
  using advances_length [of act "fst s" "snd s" r "fst s'" "snd s'"] by simp

lemma run_bind_obtain:
  assumes "run_state (State_Monad.bind m f) s = (r, s')"
  obtains x t where "run_state m s = (x, t)" "run_state (f x) t = (r, s')"
  using assms by (auto split: prod.splits)

lemma menu_uses_answer:
  "run_state (menu entries content) (w, c) = (Some i, (w', c')) \<Longrightarrow> Suc (length (user_answers w')) = length (user_answers w)"
  by (auto simp: menu_def run_lift_io ask_def split: list.splits if_splits)

lemma inputbox_uses_answer:
  "run_state (inputbox val content) (w, c) = (Some s, (w', c')) \<Longrightarrow> Suc (length (user_answers w')) = length (user_answers w)"
  by (auto simp: inputbox_def run_lift_io ask_def split: list.splits if_splits)

text \<open>
  \<open>one_round\<close> is the law of the locale \<open>dialogue\<close> for one operation; it is passed on from the end of an operation to
  its front, where a question whose answer is at hand settles it.
\<close>

definition one_round :: "('m world \<times> config, 's + 'a) state \<Rightarrow> bool" where
  "one_round act \<longleftrightarrow> (\<forall>s x s'. run_state act s = (Inl x, s') \<longrightarrow> length (user_answers (fst s')) < length (user_answers (fst s)))"

lemma dialogue_one_round: "(\<And>s. one_round (body s)) \<Longrightarrow> dialogue body"
  unfolding one_round_def by unfold_locales fastforce

lemma one_round_done: "one_round (ret (Inr a))"
  by (simp add: one_round_def)

lemma one_round_bind:
  assumes "advances fst m" "\<And>x. one_round (f x)"
  shows "one_round (State_Monad.bind m f)"
  unfolding one_round_def
proof (intro allI impI)
  fix s x s' assume "run_state (State_Monad.bind m f) s = (Inl x, s')"
  then obtain y t where m: "run_state m s = (y, t)" and f: "run_state (f y) t = (Inl x, s')" by (rule run_bind_obtain)
  have "length (user_answers (fst s')) < length (user_answers (fst t))" using assms(2) f unfolding one_round_def by blast
  with advances_le [OF assms(1) m] show "length (user_answers (fst s')) < length (user_answers (fst s))" by linarith
qed

lemma one_round_if: "(c \<Longrightarrow> one_round a) \<Longrightarrow> (\<not> c \<Longrightarrow> one_round b) \<Longrightarrow> one_round (if c then a else b)"
  by simp

lemma one_round_asked:
  assumes asks: "\<And>s x s'. run_state m s = (Some x, s') \<Longrightarrow> length (user_answers (fst s')) < length (user_answers (fst s))"
    and "advances fst m" "one_round (f None)" "\<And>x. advances fst (f (Some x))"
  shows "one_round (State_Monad.bind m f)"
  unfolding one_round_def
proof (intro allI impI)
  fix s x s' assume "run_state (State_Monad.bind m f) s = (Inl x, s')"
  then obtain y t where m: "run_state m s = (y, t)" and f: "run_state (f y) t = (Inl x, s')" by (rule run_bind_obtain)
  show "length (user_answers (fst s')) < length (user_answers (fst s))"
  proof (cases y)
    case None
    then have "length (user_answers (fst s')) < length (user_answers (fst t))" using assms(3) f unfolding one_round_def by blast
    with advances_le [OF assms(2) m] show ?thesis by linarith
  next
    case (Some z)
    then show ?thesis using asks [OF m [unfolded Some]] advances_le [OF assms(4) f [unfolded Some]] by linarith
  qed
qed

lemma asked_shortens:
  "run_state (inputbox val content) s = (Some x, s') \<Longrightarrow> length (user_answers (fst s')) < length (user_answers (fst s))"
  "run_state (menu entries content) s = (Some i, s') \<Longrightarrow> length (user_answers (fst s')) < length (user_answers (fst s))"
  using inputbox_uses_answer [of val content "fst s" "snd s" x "fst s'" "snd s'"]
    menu_uses_answer [of entries content "fst s" "snd s" i "fst s'" "snd s'"] by simp_all

lemma one_round_inputbox:
  "one_round (f None) \<Longrightarrow> (\<And>x. advances fst (f (Some x))) \<Longrightarrow> one_round (State_Monad.bind (inputbox val content) f)"
  by (rule one_round_asked [OF asked_shortens(1) advances_widgets(2)])

lemma one_round_menu:
  "one_round (f None) \<Longrightarrow> (\<And>x. advances fst (f (Some x))) \<Longrightarrow> one_round (State_Monad.bind (menu entries content) f)"
  by (rule one_round_asked [OF asked_shortens(2) advances_widgets(4)])

lemma pick_word_uses_answer:
  assumes "run_state (pick_word entries content) s = (Some x, s')"
  shows "length (user_answers (fst s')) < length (user_answers (fst s))"
proof -
  obtain w c where s: "s = (w, c)" by force
  obtain sel t where m: "run_state (pick_entry entries content) s = (sel, t)"
      and k: "run_state (case sel of None \<Rightarrow> ret None | Some src \<Rightarrow> do { line \<leftarrow> first_word src; ret (Some line) }) t = (Some x, s')"
    using assms unfolding pick_word_def by (rule run_bind_obtain)
  obtain src where src: "sel = Some src" using k by (cases sel) simp_all
  obtain i u where n: "run_state (menu entries content) s = (i, u)"
      and e: "run_state (case i of None \<Rightarrow> ret None | Some i \<Rightarrow> do { entry \<leftarrow> entry_at entries i; ret (Some entry) }) u = (Some src, t)"
    using m [unfolded src pick_entry_def] by (rule run_bind_obtain)
  obtain j where j: "i = Some j" using e by (cases i) simp_all
  obtain w1 c1 where u: "u = (w1, c1)" by force
  have q: "Suc (length (user_answers w1)) = length (user_answers w)" using menu_uses_answer n j s u by blast
  have "advances fst (case i of None \<Rightarrow> ret None | Some i \<Rightarrow> do { entry \<leftarrow> entry_at entries i; ret (Some entry) })"
      "advances fst (case sel of None \<Rightarrow> ret None | Some src \<Rightarrow> do { line \<leftarrow> first_word src; ret (Some line) })"
    by (intro advancing)+
  then have "length (user_answers (fst t)) \<le> length (user_answers w1)" "length (user_answers (fst s')) \<le> length (user_answers (fst t))"
    using advances_le [OF _ e] advances_le [OF _ k] u by auto
  with q s show ?thesis by simp
qed

lemma one_round_pick_word:
  "one_round (f None) \<Longrightarrow> (\<And>x. advances fst (f (Some x))) \<Longrightarrow> one_round (State_Monad.bind (pick_word entries content) f)"
  by (rule one_round_asked [OF pick_word_uses_answer advances_pick(2)])

text \<open>A menu whose entries only advance the world is a dialogue, so it stays open as long as the user keeps choosing.\<close>

lemma menu_dialogue: "(\<And>i. advances fst (callback i)) \<Longrightarrow> dialogue (menu_body entries content callback)"
  unfolding menu_body_def
  by (intro dialogue_one_round one_round_menu advancing) (simp_all add: one_round_done)

subsection \<open>Operations that need the user\<close>

text \<open>An operation that does not come to its end when there is no answer left: it stops in a question at the latest.\<close>

definition needs_user :: "('m, 'a) app \<Rightarrow> bool" where
  "needs_user act \<longleftrightarrow> (\<forall>w c. user_answers w = [] \<longrightarrow> status (fst (snd (run_state act (w, c)))) \<noteq> Running)"

named_theorems needing \<open>operations that need the user\<close>

lemma needs_user_after:
  assumes "advances fst m" "\<And>x. needs_user (f x)"
  shows "needs_user (State_Monad.bind m f)"
  unfolding needs_user_def
proof (intro allI impI)
  fix w :: "'a world" and c :: config
  assume none: "user_answers w = []"
  obtain r w' c' where r: "run_state m (w, c) = (r, (w', c'))" by (metis surj_pair)
  then have "later_world w w'" using assms(1) unfolding advances_def by (metis fst_conv snd_conv)
  with none have "user_answers w' = []" by (simp add: later_world_def)
  with assms(2) show "status (fst (snd (run_state (State_Monad.bind m f) (w, c)))) \<noteq> Running"
    unfolding needs_user_def by (simp add: r)
qed

lemma needs_user_first:
  assumes "needs_user m" "\<And>x. advances fst (f x)"
  shows "needs_user (State_Monad.bind m f)"
  unfolding needs_user_def
proof (intro allI impI)
  fix w :: "'a world" and c :: config
  assume none: "user_answers w = []"
  obtain r w' c' where r: "run_state m (w, c) = (r, (w', c'))" by (metis surj_pair)
  then have stopped: "status w' \<noteq> Running" using assms(1) none unfolding needs_user_def by (metis fst_conv snd_conv)
  have "later_world w' (fst (snd (run_state (f r) (w', c'))))" using assms(2) unfolding advances_def by (metis fst_conv)
  with stopped show "status (fst (snd (run_state (State_Monad.bind m f) (w, c)))) \<noteq> Running"
    unfolding later_world_def by (simp add: r)
qed

lemma needs_user_if [needing]: "needs_user a \<Longrightarrow> needs_user b \<Longrightarrow> needs_user (if c then a else b)"
  by simp

lemma needs_user_let [needing]: "needs_user (f t) \<Longrightarrow> needs_user (Let t f)"
  by simp

lemma needs_user_dialogues [needing]:
  "needs_user (yesno content)" "needs_user (inputbox val content)" "needs_user (menu entries content)"
  "needs_user (checklist entries content)"
  by (auto simp: needs_user_def yesno_def inputbox_def menu_def checklist_def run_lift_io ask_def)

subsection \<open>Operations that only ask\<close>

text \<open>The requests of a trace are what is left when the screens are taken out.\<close>

fun is_screen :: "event \<Rightarrow> bool" where
  "is_screen (Shown content) = True"
| "is_screen (Asked content entries a) = True"
| "is_screen ev = False"

definition requests :: "'m world \<Rightarrow> event list" where
  "requests w = filter (\<lambda>ev. \<not> is_screen ev) (trace w)"

definition only_asks :: "('m world \<times> config, 'a) state \<Rightarrow> bool" where
  "only_asks act \<longleftrightarrow> (\<forall>w c. \<exists>x w'. run_state act (w, c) = (x, (w', c)) \<and> requests w' = requests w \<and> host w' = host w)"

named_theorems asking \<open>operations that only ask\<close>

lemma only_asks_bind [asking]:
  assumes "only_asks m" "\<And>x. only_asks (f x)"
  shows "only_asks (State_Monad.bind m f)"
  unfolding only_asks_def
proof (intro allI)
  fix w c
  obtain x w1 where m: "run_state m (w, c) = (x, (w1, c))" "requests w1 = requests w" "host w1 = host w"
    using assms(1) unfolding only_asks_def by blast
  obtain y w2 where f: "run_state (f x) (w1, c) = (y, (w2, c))" "requests w2 = requests w1" "host w2 = host w1"
    using assms(2) unfolding only_asks_def by blast
  show "\<exists>x w'. run_state (State_Monad.bind m f) (w, c) = (x, (w', c)) \<and> requests w' = requests w \<and> host w' = host w"
    using m f by simp
qed

lemma only_asks_return [asking]: "only_asks (ret x)"
  by (simp add: only_asks_def)

lemma only_asks_if [asking]: "only_asks a \<Longrightarrow> only_asks b \<Longrightarrow> only_asks (if b' then a else b)"
  by simp

lemma only_asks_option [asking]: "only_asks a \<Longrightarrow> (\<And>x. only_asks (f x)) \<Longrightarrow> only_asks (case v of None \<Rightarrow> a | Some x \<Rightarrow> f x)"
  by (cases v) simp_all

lemma only_asks_sum [asking]:
  "(\<And>x. only_asks (f x)) \<Longrightarrow> (\<And>x. only_asks (g x)) \<Longrightarrow> only_asks (case v of Inl x \<Rightarrow> f x | Inr x \<Rightarrow> g x)"
  by (cases v) simp_all

lemma only_asks_ask [asking]: "only_asks (lift_io (ask content entries))"
  by (auto simp: only_asks_def run_lift_io ask_def requests_def split: list.splits)

lemma only_asks_halt [asking]: "only_asks (lift_io (halt st))"
  by (auto simp: only_asks_def run_lift_io halt_def requests_def)

lemma only_asks_notice [asking]: "only_asks (notice content)"
  by (auto simp: only_asks_def notice_def run_lift_io perform_def requests_def)

lemma only_asks_widgets [asking]:
  "only_asks (inputbox val content)" "only_asks (yesno content)" "only_asks (menu entries content)"
  "only_asks (checklist entries content)"
  unfolding inputbox_def yesno_def menu_def checklist_def by (intro asking)+

lemma only_asks_dialog_loop: "(\<And>s. only_asks (body s)) \<Longrightarrow> only_asks (dialog_loop n body dflt s)"
proof (induction n arbitrary: s)
  case 0
  show ?case unfolding dialog_loop.simps by (intro asking)
next
  case (Suc n)
  show ?case unfolding dialog_loop.simps by (intro asking Suc)
qed

lemma only_asks_repeat_dialog [asking]: "(\<And>s. only_asks (body s)) \<Longrightarrow> only_asks (repeat_dialog body dflt s)"
  using only_asks_dialog_loop [of body] unfolding only_asks_def
  by (simp add: run_repeat_dialog del: dialog_loop.simps)

lemma only_asks_obtain:
  assumes "only_asks m"
  obtains x w' where "run_state m (w, c) = (x, (w', c))" "requests w' = requests w" "host w' = host w"
  using assms unfolding only_asks_def by blast

text \<open>A dialogue ends with a value that one of its rounds ends with, or with the one it starts from.\<close>

lemma dialog_loop_result:
  assumes "\<And>s t x t'. run_state (body s) t = (Inr x, t') \<Longrightarrow> Q x" "Q dflt"
  shows "Q (fst (run_state (dialog_loop n body dflt s) t))"
proof (induction n arbitrary: s t)
  case (Suc n)
  obtain r t' where r: "run_state (body s) t = (r, t')" by (metis surj_pair)
  show ?case
  proof (cases r)
    case (Inr x)
    then show ?thesis using assms(1) [OF r [unfolded Inr]] by (simp add: r)
  qed (simp add: r Suc)
qed (simp add: assms(2) split: prod.splits)

lemma repeat_dialog_result:
  assumes "\<And>s t x t'. run_state (body s) t = (Inr x, t') \<Longrightarrow> Q x" "Q dflt" "run_state (repeat_dialog body dflt s) t = (x, t')"
  shows "Q x"
  using dialog_loop_result [of body Q dflt "Suc (length (user_answers (fst t)))" s t] assms
  by (cases t) (simp add: run_repeat_dialog del: dialog_loop.simps)

text \<open>What single requests and answers leave in the trace.\<close>

lemma run_exec_system:
  "status w = Running \<Longrightarrow> run_state (exec env c True) w =
     (show_int (fst (system_call env c (host w))), w\<lparr>host := snd (system_call env c (host w)), trace := trace w @ [System c]\<rparr>)"
  by (simp add: io_prims split: prod.splits)

lemma run_listing:
  obtains x w' listed where "run_state (lift_io (exec env cmd False)) (w, c) = (x, (w', c))"
    "requests w' = requests w @ listed" "set listed \<subseteq> {Popen cmd}"
proof (cases "status w = Running")
  case True
  obtain out h where "popen_call env cmd (host w) = (out, h)" by force
  from run_exec [OF True this] have "run_state (lift_io (exec env cmd False)) (w, c) =
      (case out of None \<Rightarrow> ''-1'' | Some s \<Rightarrow> drop_final_newline s, (w\<lparr>host := h, trace := trace w @ [Popen cmd]\<rparr>, c))"
    by (simp add: run_lift_io)
  then show ?thesis by (rule that [of _ _ "[Popen cmd]"]) (simp_all add: requests_def)
next
  case False
  then show ?thesis by (intro that [of _ w "[]"]) (simp_all add: run_lift_io io_prims)
qed

lemma agreed:
  assumes "run_state (yesno content) (w, c) = (True, (w', c'))"
  shows "status w' = Running" "trace w' = trace w @ [Asked content [] Agree]" "c' = c"
  using assms by (auto simp: yesno_def run_lift_io ask_def split: list.splits if_splits)

lemma advances_prefix: "advances fst act \<Longrightarrow> run_state act (w, c) = (r, (w', c')) \<Longrightarrow> prefix (trace w) (trace w')"
  unfolding advances_def later_world_def by (metis fst_conv snd_conv)

lemma only_asks_terminate [asking]: "only_asks (lift_io (terminate dflt))"
  by (auto simp: only_asks_def run_lift_io terminate_def halt_def requests_def)

end
