(* ===== verification/Advance_Library.thy ===== *)
theory Advance_Library
  imports Advance Partitioning Mtab Fstab Crypttab Initcpio Bootloader Btrfs Zfs Luks Accounts System_Setup Repos Packages
    Block_Devices
begin

section \<open>The operations of the library only advance the world\<close>

text \<open>The invariant of \<open>Advance\<close> for every operation of the directory \<^verbatim>\<open>gucc\<close>, one fact per source file.\<close>

lemma advances_Partitioning [advancing]:
  "advances id (run_sfdisk_part env a1 a2)" "advances id (erase_disk env b1)"
  "advances id (make_clean_partschema env c1 c2 c3 c4)"
  unfolding run_sfdisk_part_def erase_disk_def make_clean_partschema_def
  by (intro advancing)+

lemma advances_umount_entries [advancing]: "advances id (umount_entries env es)"
proof (induction es)
  case Nil
  show ?case unfolding umount_entries.simps by (intro advancing)
next
  case (Cons x xs)
  show ?case unfolding umount_entries.simps by (intro advancing Cons)
qed

lemma advances_export_zpools [advancing]: "advances id (export_zpools env ps)"
proof (induction ps)
  case Nil
  show ?case unfolding export_zpools.simps by (intro advancing)
next
  case (Cons x xs)
  show ?case unfolding export_zpools.simps by (intro advancing Cons)
qed

lemma advances_Mtab [advancing]:
  "advances id (read_mtab a0)" "advances id (parse_mtab b0 b1)" "advances id (umount_partitions env c1 c2 c3)"
  "advances id (umount_and_export env d1 d2)"
  unfolding read_mtab_def parse_mtab_def umount_partitions_def umount_and_export_def
  by (intro advancing)+

lemma advances_comment_zfs_sources [advancing]: "advances id (comment_zfs_sources env p srcs)"
proof (induction srcs)
  case Nil
  show ?case unfolding comment_zfs_sources.simps by (intro advancing)
next
  case (Cons x xs)
  show ?case unfolding comment_zfs_sources.simps by (intro advancing Cons)
qed

lemma advances_Fstab [advancing]:
  "advances id (generate_fstab env a1 a2)" "advances id (run_genfstab_on_mount env b1)"
  unfolding generate_fstab_def run_genfstab_on_mount_def
  by (intro advancing)+

lemma advances_Crypttab [advancing]:
  "advances id (generate_crypttab env a1 a2 a3 a4)"
  unfolding generate_crypttab_def
  by (intro advancing)+

lemma advances_Initcpio [advancing]:
  "advances id (write_initcpio env a1)" "advances id (parse_file env b1)" "advances id (append_module env c1 c2)"
  "advances id (append_file env d1 d2)" "advances id (append_hook env g1 g2)" "advances id (append_hooks env i1 i2)"
  "advances id (insert_hook env j1 j2 j3)" "advances id (insert_hooks env k1 k2 k3)" "advances id (remove_module env l1 l2)"
  "advances id (remove_hook env m1 m2)" "advances id (edit_initcpio env o1 o2)"
  unfolding write_initcpio_def parse_file_def append_module_def append_file_def append_hook_def append_hooks_def
    insert_hook_def insert_hooks_def remove_module_def remove_hook_def edit_initcpio_def
  by (intro advancing)+

lemma advances_Bootloader [advancing]:
  "advances id (write_grub_config env a1 a2)" "advances id (install_grub env b1 b2 b3)" "advances id (drop_autodetect env c1)"
  "advances id (install_systemd_boot env d1 d2 d3)" "advances id (refind_write_extra_kern_strings env g1 g2)"
  "advances id (install_refind env i1)" "advances id (install_limine env j1)"
  unfolding write_grub_config_def install_grub_def drop_autodetect_def install_systemd_boot_def
    refind_write_extra_kern_strings_def install_refind_def install_limine_def
  by (intro advancing)+

lemma advances_Btrfs [advancing]:
  "advances id (btrfs_create_subvol env a1 a2)" "advances id (btrfs_mount_subvols env b1 b2 b3 b4)"
  "advances id (btrfs_create_subvols env c1 c2 c3 c4)"
  unfolding btrfs_create_subvol_def btrfs_mount_subvols_def btrfs_create_subvols_def
  by (intro advancing)+

lemma advances_list_device_names [advancing]: "advances id (list_device_names env devs names)"
proof (induction devs arbitrary: names)
  case Nil
  show ?case unfolding list_device_names.simps by (intro advancing)
next
  case (Cons x xs)
  show ?case unfolding list_device_names.simps by (intro advancing Cons)
qed

lemma advances_Zfs [advancing]:
  "advances id (zfs_create_zvol env a1 a2)" "advances id (zfs_create_dataset env b1 b2)"
  "advances id (zfs_create_datasets env c1)" "advances id (zfs_destroy_dataset env d1)" "advances id (zfs_list_pools env)"
  "advances id (zfs_list_devs env)" "advances id (zfs_list_datasets env j1)" "advances id (zfs_set_property env k1 k2)"
  "advances id (zpool_set_property env l1 l2)" "advances id (zfs_create_zpool env m1 m2 m3 m4)"
  "advances id (zfs_create_with_config env o1 o2)"
  unfolding zfs_create_zvol_def zfs_create_dataset_def zfs_create_datasets_def zfs_destroy_dataset_def zfs_list_pools_def
    zfs_list_devs_def zfs_list_datasets_def zfs_set_property_def zpool_set_property_def zfs_create_zpool_def
    zfs_create_with_config_def
  by (intro advancing)+

lemma advances_Luks [advancing]:
  "advances id (luks1_open env a1 a2 a3)" "advances id (luks1_format env b1 b2 b3)" "advances id (luks1_add_key env c1 c2 c3)"
  "advances id (install_keyfile env d1 d2 d3 d4)" "advances id (luks1_setup_keyfile env g1 g2 g3 g4)"
  unfolding luks1_open_def luks1_format_def luks1_add_key_def install_keyfile_def luks1_setup_keyfile_def
  by (intro advancing)+

lemma advances_Accounts [advancing]:
  "advances id (create_group env a1 a2 a3)" "advances id (set_user_password env b1 b2 b3)"
  "advances id (set_root_password env c1 c2)" "advances id (setup_sudoers env d1 d2)"
  "advances id (create_new_user env g1 g2 g3)" "advances id (set_hosts env i1 i2)" "advances id (set_hostname env j1 j2)"
  "advances id (enable_autologin env k1 k2 k3)"
  unfolding create_group_def set_user_password_def set_root_password_def setup_sudoers_def create_new_user_def set_hosts_def
    set_hostname_def enable_autologin_def
  by (intro advancing)+

lemma advances_query_cryptparts [advancing]: 
  "(\<And>c i. advances id (f c i)) \<Longrightarrow> advances id (check_cryptparts env name f parts info)"
proof (induction parts)
  case Nil
  show ?case unfolding check_cryptparts.simps by (intro advancing)
next
  case (Cons x xs)
  show ?case unfolding check_cryptparts.simps by (intro advancing Cons)
qed

lemma advances_System_Setup [advancing]:
  "advances id (make_swapfile env a1 a2)" "advances id (make_swap_partition env b1)" "advances id (set_hwclock_utc env c1)"
  "advances id (set_hwclock_localtime env d1)" "advances id (enable_systemd_service env g1 g2)"
  "advances id (get_all_profile_names env)" "advances id (get_available_profile_names env)"
  "advances id (install_available_profiles env k1)" "advances id (prepare_locale_set env l1 l2)"
  "advances id (set_locale env m1 m2)" "advances id (get_possible_locales env)" "advances id (get_mountpoint_fs env p1)"
  "advances id (get_mountpoint_source env q1)" "advances id (get_device_uuid env r1)" "advances id (zfs_mount_all env)"
  "advances id (mount_partition env u1 u2 u3)" "advances id (note_lvm v0 v1)" "advances id (note_luks_uuid env w1 w2)"
  "advances id (query_partition env x1 x2)"
  unfolding make_swapfile_def make_swap_partition_def set_hwclock_utc_def set_hwclock_localtime_def enable_systemd_service_def
    get_all_profile_names_def get_available_profile_names_def install_available_profiles_def prepare_locale_set_def
    set_locale_def get_possible_locales_def get_mountpoint_fs_def get_mountpoint_source_def get_device_uuid_def
    zfs_mount_all_def mount_partition_def note_lvm_def note_luks_uuid_def query_partition_def
  by (intro advancing)+

lemma advances_Repos [advancing]:
  "advances id (push_repos_front env a1 a2)" "advances id (get_repo_list b0)"
  "advances id (add_arch_specific_repo env c1 c2 c3 c4)" "advances id (check_supported_znver45 env)"
  "advances id (install_isa_repos env g1)" "advances id (install_cachyos_repos env i1 i2)"
  unfolding push_repos_front_def get_repo_list_def add_arch_specific_repo_def check_supported_znver45_def install_isa_repos_def
    install_cachyos_repos_def
  by (intro advancing)+

lemma advances_Packages [advancing]:
  "advances id (fetch_file env a1)" "advances id (fetch_file_from_url env b1 b2)"
  "advances id (get_pkglist_base env c1 c2 c3 c4 c5 c6)" "advances id (get_pkglist_desktop env d1 d2 d3)"
  unfolding fetch_file_def fetch_file_from_url_def get_pkglist_base_def get_pkglist_desktop_def
  by (intro advancing)+

lemma advances_Block_Devices [advancing]:
  "advances id (list_block_devices env a1)"
  unfolding list_block_devices_def
  by (intro advancing)+

end
