(* ===== verification/Disk.thy ===== *)
theory Disk
  imports Installer Btrfs Zfs Block_Devices Dialog
begin

section \<open>Disks of the installer (src/disk.cpp)\<close>

text \<open>
  Subvolumes, pools, file systems and mounts.  The partition scheme that the functions of the source change through a reference
  is an argument and the result here.  \<open>srt\<close> stands for \<^verbatim>\<open>std::ranges::sort\<close>.
  Operations with the name of a library operation carry the prefix \<open>disk\<close>.
\<close>

subsection \<open>Btrfs subvolumes\<close>

definition default_subvolumes :: "btrfs_subvolume list" where
  "default_subvolumes =
     [\<lparr>sv_subvolume = ''/@'', sv_mountpoint = ''/''\<rparr>,
      \<lparr>sv_subvolume = ''/@home'', sv_mountpoint = ''/home''\<rparr>,
      \<lparr>sv_subvolume = ''/@cache'', sv_mountpoint = ''/var/cache''\<rparr>]"

definition save_mount_options_cmd :: string where
  "save_mount_options_cmd = (''mount | grep '' @ squote @ ''on /mnt '' @ squote @ '' | grep -Po '' @ squote @ ''(?<='' @ backslash
        @ ''().*(?='' @ backslash @ ''))'' @ squote @ '' > /tmp/.root_mount_options'')"

definition ask_mountpoint_text :: "string \<Rightarrow> string" where
  "ask_mountpoint_text subvol =
     [newline_char] @ ''Input mountpoint of'' @ [newline_char] @ ''the subvolume '' @ subvol @ [newline_char]
     @ ''as it would appear'' @ [newline_char] @ ''in installed system'' @ [newline_char]
     @ ''(without prepending /mnt).'' @ [newline_char]"

fun ask_mountpoints :: "string \<Rightarrow> string list \<Rightarrow> ('m, btrfs_subvolume list option) app" where
  "ask_mountpoints mnt [] = ret (Some [])"
| "ask_mountpoints mnt (subvol # subvol_list) = do {
     entered \<leftarrow> inputbox mnt (ask_mountpoint_text subvol);
     case entered of
       None \<Rightarrow> ret None
     | Some val \<Rightarrow> do {
         others \<leftarrow> ask_mountpoints mnt subvol_list;
         ret (map_option (Cons \<lparr>sv_subvolume = subvol, sv_mountpoint = val\<rparr>) others)
       }
   }"

text \<open>
  Adding the subvolumes and looking for the root once more; a root that has been lost is dereferenced all the same.
\<close>

definition append_and_find ::
  "fs_partition sorter \<Rightarrow> fs_partition list \<Rightarrow> btrfs_subvolume list \<Rightarrow> ('m, fs_partition list) io" where
  "append_and_find srt partitions subvolumes =
     (case btrfs_append_subvolumes srt partitions subvolumes of
        Inl RootLost \<Rightarrow> terminate partitions
      | Inl NoRootPartition \<Rightarrow> ret partitions
      | Inr partitions' \<Rightarrow>
          if find_root_btrfs_part partitions' = None then terminate partitions' else ret partitions')"

definition create_and_append ::
  "'m sysenv \<Rightarrow> fs_partition sorter \<Rightarrow> fs_partition list \<Rightarrow> fs_partition \<Rightarrow> btrfs_subvolume list \<Rightarrow> ('m, fs_partition list) io" where
  "create_and_append env srt partitions root_part subvolumes = do {
     created \<leftarrow> btrfs_create_subvols env subvolumes (device root_part) ''/mnt'' (mount_opts root_part);
     append_and_find srt partitions subvolumes
   }"

definition subvols_body :: string where
  "subvols_body = [newline_char] @ ''Input names of the subvolumes separated by spaces.'' @ [newline_char]
     @ ''The first one will be used for mounting /.'' @ [newline_char]"

definition create_note :: string where
  "create_note = [newline_char] @ ''This creates subvolumes:'' @ [newline_char] @ ''/@ for /,'' @ [newline_char]
     @ ''/@home for /home,'' @ [newline_char] @ ''/@cache for /var/cache.'' @ [newline_char]"

definition manual_subvols ::
  "'m sysenv \<Rightarrow> fs_partition sorter \<Rightarrow> fs_partition list \<Rightarrow> fs_partition \<Rightarrow> ('m, fs_partition list) app" where
  "manual_subvols env srt partitions root_part = do {
     entered \<leftarrow> inputbox ''/@ /@home /@cache'' subvols_body;
     case entered of
       None \<Rightarrow> ret partitions
     | Some subvols \<Rightarrow>
         (case make_multiline subvols False space_char of
            [] \<Rightarrow> lift_io (terminate partitions)
          | first # subvol_list \<Rightarrow> do {
              others \<leftarrow> ask_mountpoints ''/home'' subvol_list;
              case others of
                None \<Rightarrow> ret partitions
              | Some others \<Rightarrow> lift_io (create_and_append env srt partitions root_part
                  (\<lparr>sv_subvolume = first, sv_mountpoint = ''/''\<rparr> # others))
            })
   }"

definition disk_btrfs_create_subvols ::
  "'m sysenv \<Rightarrow> fs_partition sorter \<Rightarrow> fs_partition list \<Rightarrow> string \<Rightarrow> bool \<Rightarrow> ('m, fs_partition list) app" where
  "disk_btrfs_create_subvols env srt partitions mode ignore_note =
     (if mode = '''' then ret partitions
      else case find_root_btrfs_part partitions of
        None \<Rightarrow> ret partitions
      | Some r \<Rightarrow>
          if \<not> ndevenv env then lift_io (append_and_find srt partitions default_subvolumes)
          else do {
            out \<leftarrow> lift_io (exec env save_mount_options_cmd False);
            if mode = ''manual'' then manual_subvols env srt partitions (partitions ! r)
            else do {
              do_create \<leftarrow> (if ignore_note then ret True else yesno create_note);
              if \<not> do_create then ret partitions
              else lift_io (create_and_append env srt partitions (partitions ! r) default_subvolumes)
            }
          })"

text \<open>Whether the disk below a device turns, asked of the kernel by name.\<close>

definition rotational_queue :: "'m sysenv \<Rightarrow> string \<Rightarrow> ('m, bool) io" where
  "rotational_queue env dev = do {
     part_dev_name \<leftarrow> exec env (''echo '' @ dev @ '' | rev | cut -d/ -f1 | rev'') False;
     device_name \<leftarrow> exec env
       (''lsblk -i | tac | sed -r '' @ squote @ ''s/^[^[:alnum:]]+//'' @ squote @ '' | sed -n -e '' @ squote @ ''/''
        @ part_dev_name @ ''/,/disk/p'' @ squote @ '' | awk '' @ squote @ ''/disk/ {print $1}'' @ squote) False;
     rotational \<leftarrow> exec env (''cat /sys/block/'' @ device_name @ ''/queue/rotational'') False;
     ret (rotational = ''1'')
   }"

definition mount_and_append ::
  "'m sysenv \<Rightarrow> fs_partition sorter \<Rightarrow> fs_partition list \<Rightarrow> fs_partition \<Rightarrow> string \<Rightarrow> btrfs_subvolume list \<Rightarrow>
   ('m, fs_partition list) io" where
  "mount_and_append env srt partitions root_part fs_opts subvolumes = do {
     mounted \<leftarrow> btrfs_mount_subvols env subvolumes (device root_part) ''/mnt'' fs_opts;
     append_and_find srt partitions subvolumes
   }"

definition mount_existing_subvols :: "'m sysenv \<Rightarrow> fs_partition sorter \<Rightarrow> fs_partition list \<Rightarrow> ('m, fs_partition list) app" where
  "mount_existing_subvols env srt partitions =
     (case find_root_btrfs_part partitions of
        None \<Rightarrow> ret partitions
      | Some r \<Rightarrow> do {
          turning \<leftarrow> lift_io (rotational_queue env (device (partitions ! r)));
          let fs_opts = (if turning then ''autodefrag,compress=zlib,noatime,nossd,commit=120''
            else ''compress=lzo,noatime,space_cache,ssd,commit=120'');
          if \<not> ndevenv env then ret partitions
          else do {
            subvols \<leftarrow> lift_io (do {
              out \<leftarrow> exec env (''btrfs subvolume list /mnt 2>/dev/null | cut -d'' @ squote @ '' '' @ squote @ '' -f9 > /tmp/.subvols'') True;
              unmounted \<leftarrow> exec_checked env ''umount -v /mnt &>>/tmp/cachyos-install.log'';
              exec env ''cat /tmp/.subvols'' False
            });
            asked \<leftarrow> ask_mountpoints ''/'' (make_multiline subvols False newline_char);
            case asked of
              None \<Rightarrow> ret partitions
            | Some subvolumes \<Rightarrow> lift_io (mount_and_append env srt partitions (partitions ! r) fs_opts subvolumes)
          }
        })"

subsection \<open>Logical volumes\<close>

definition vg_size_cmd :: "string \<Rightarrow> string" where
  "vg_size_cmd vg = (''vgdisplay '' @ vg @ '' | grep -i \"vg size\" | awk '' @ squote @ ''{print $3$4}'' @ squote)"

fun vg_sizes :: "'m sysenv \<Rightarrow> string list \<Rightarrow> ('m, string list) io" where
  "vg_sizes env [] = ret []"
| "vg_sizes env (vg # vg_list) = do {
     temp \<leftarrow> exec env (vg_size_cmd vg) False;
     res \<leftarrow> vg_sizes env vg_list;
     ret (temp # res)
   }"

definition list_vgs_cmd :: string where
  "list_vgs_cmd = (''lvs --noheadings | awk '' @ squote @ ''{print $2}'' @ squote @ '' | uniq'')"

definition lvm_show_vg :: "'m sysenv \<Rightarrow> ('m, string list) io" where
  "lvm_show_vg env = do {
     out \<leftarrow> exec env list_vgs_cmd False;
     vg_sizes env (make_multiline out False newline_char)
   }"

subsection \<open>ZFS\<close>

definition default_zpool_options :: string where
  "default_zpool_options =
     ''-f -o ashift=12 -o autotrim=on -O mountpoint=none -O acltype=posixacl -O atime=off -O relatime=off '' @
     ''-O xattr=sa -O normalization=formD -O dnodesize=auto''"

definition default_zfs_datasets :: "string \<Rightarrow> zfs_dataset list" where
  "default_zfs_datasets zfs_zpool_name =
     map (\<lambda>(path, mnt). \<lparr>zd_zpath = zfs_zpool_name @ path, zd_mountpoint = mnt\<rparr>)
       [(''/ROOT'', ''none''), (''/ROOT/cos'', ''none''), (''/ROOT/cos/root'', ''/''), (''/ROOT/cos/home'', ''/home''),
        (''/ROOT/cos/varcache'', ''/var/cache''), (''/ROOT/cos/varlog'', ''/var/log'')]"

definition default_zfs_setup :: "string \<Rightarrow> zfs_setup_config" where
  "default_zfs_setup zfs_zpool_name =
     \<lparr>zs_zpool_name = zfs_zpool_name, zs_zpool_options = default_zpool_options, zs_passphrase = None,
      zs_datasets = default_zfs_datasets zfs_zpool_name\<rparr>"

definition remember_zpool :: "string \<Rightarrow> ('m, unit) app" where
  "remember_zpool pool_name = do {
     zfs_zpool_names \<leftarrow> cfg_strs ''ZFS_ZPOOL_NAMES'';
     cfg_set ''ZFS_ZPOOL_NAMES'' (CStrs (zfs_zpool_names @ [pool_name]))
   }"

definition zfs_auto_pres :: "'m sysenv \<Rightarrow> string \<Rightarrow> string \<Rightarrow> ('m, bool) app" where
  "zfs_auto_pres env partition_path zfs_zpool_name = do {
     created \<leftarrow> (if ndevenv env
       then lift_io (zfs_create_with_config env partition_path (default_zfs_setup zfs_zpool_name)) else ret True);
     if \<not> created then ret False
     else do {
       u \<leftarrow> cfg_set ''ZFS'' (CInt 1);
       u \<leftarrow> cfg_set ''ZFS_SETUP_CONFIG'' (CZfs (default_zfs_setup zfs_zpool_name));
       u \<leftarrow> remember_zpool zfs_zpool_name;
       ret True
     }
   }"

definition disk_zfs_create_zpool :: "'m sysenv \<Rightarrow> string \<Rightarrow> string \<Rightarrow> ('m, bool) app" where
  "disk_zfs_create_zpool env partition_path pool_name = do {
     created \<leftarrow> (if ndevenv env
       then lift_io (do {
         partuuid \<leftarrow> exec env (''lsblk -lno PATH,PARTUUID | grep \"^'' @ partition_path @ ''\" | awk '' @ squote @ ''{print $2}'' @ squote) False;
         zfs_create_zpool env (if partuuid \<noteq> '''' then partuuid else partition_path) pool_name default_zpool_options None
       })
       else ret True);
     if \<not> created then ret False
     else do {
       u \<leftarrow> cfg_set ''ZFS'' (CInt 1);
       u \<leftarrow> (if ndevenv env
         then do {
           mnt \<leftarrow> cfg_str ''MOUNTPOINT'';
           lift_io (do {
             out \<leftarrow> exec env (''zpool export '' @ pool_name @ '' 2>>/tmp/cachyos-install.log'') True;
             out \<leftarrow> exec env (''zpool import -R '' @ mnt @ '' '' @ pool_name @ '' 2>>/tmp/cachyos-install.log'') True;
             ret ()
           })
         }
         else ret ());
       u \<leftarrow> remember_zpool (c_string pool_name);
       ret True
     }
   }"

subsection \<open>File systems\<close>

definition fs_table :: "(string \<times> string \<times> string list) list" where
  "fs_table =
     [(''btrfs'', ''mkfs.btrfs -f'',
       [''autodefrag'', ''compress=zlib'', ''compress=lzo'', ''compress=zstd'', ''compress=no'', ''compress-force=zlib'',
        ''compress-force=lzo'', ''compress-force=zstd'', ''discard'', ''noacl'', ''noatime'', ''nodatasum'', ''nospace_cache'',
        ''recovery'', ''skip_balance'', ''space_cache'', ''nossd'', ''ssd'', ''ssd_spread'', ''commit=120'']),
      (''ext4'', ''mkfs.ext4 -q'',
       [''data=journal'', ''data=writeback'', ''dealloc'', ''discard'', ''noacl'', ''noatime'', ''nobarrier'', ''nodelalloc'']),
      (''f2fs'', ''mkfs.f2fs -q'',
       [''data_flush'', ''disable_roll_forward'', ''disable_ext_identify'', ''discard'', ''fastboot'', ''flush_merge'', ''inline_xattr'',
        ''inline_data'', ''inline_dentry'', ''no_heap'', ''noacl'', ''nobarrier'', ''noextent_cache'', ''noinline_data'', ''norecovery'']),
      (''xfs'', ''mkfs.xfs -f'',
       [''discard'', ''filestreams'', ''ikeep'', ''largeio'', ''noalign'', ''nobarrier'', ''norecovery'', ''noquota'', ''wsync''])]"

definition select_filesystem :: "'m sysenv \<Rightarrow> string \<Rightarrow> ('m, unit) app" where
  "select_filesystem env file_sys = do {
     u \<leftarrow> cfg_set ''FILESYSTEM_NAME'' (CStr (c_string file_sys));
     case map_of fs_table file_sys of
       None \<Rightarrow> ret ()
     | Some (mkfs, options) \<Rightarrow> do {
         u \<leftarrow> cfg_set ''FILESYSTEM'' (CStr mkfs);
         u \<leftarrow> cfg_set ''fs_opts'' (CStrs options);
         if ndevenv env \<and> (file_sys = ''btrfs'' \<or> file_sys = ''f2fs'')
         then lift_io (do { out \<leftarrow> exec env (''modprobe '' @ file_sys) False; ret () })
         else ret ()
       }
   }"

subsection \<open>Mounting\<close>

definition store_crypt_info :: "crypt_info \<Rightarrow> ('m, unit) app" where
  "store_crypt_info info = do {
     u \<leftarrow> cfg_set ''LUKS'' (CInt (ci_is_luks info));
     u \<leftarrow> cfg_set ''LVM'' (CInt (ci_is_lvm info));
     u \<leftarrow> cfg_set ''LUKS_NAME'' (CStr (ci_luks_name info));
     u \<leftarrow> cfg_set ''LUKS_DEV'' (CStr (ci_luks_dev info));
     cfg_set ''LUKS_UUID'' (CStr (ci_luks_uuid info))
   }"

definition disk_mount_partition ::
  "'m sysenv \<Rightarrow> string \<Rightarrow> string \<Rightarrow> string \<Rightarrow> string \<Rightarrow> ('m, bool) app" where
  "disk_mount_partition env part mnt mount_dev opts = do {
     let mount_dir = mnt @ mount_dev;
     mounted \<leftarrow> lift_io (if ndevenv env then do {
         made \<leftarrow> create_directories env mount_dir;
         if \<not> made then ret False else mount_partition env part mount_dir opts
       }
       else ret True);
     if \<not> mounted then ret False
     else do {
       luks_name \<leftarrow> cfg_str ''LUKS_NAME'';
       luks_dev \<leftarrow> cfg_str ''LUKS_DEV'';
       luks_uuid \<leftarrow> cfg_str ''LUKS_UUID'';
       is_luks \<leftarrow> cfg_int ''LUKS'';
       is_lvm \<leftarrow> cfg_int ''LVM'';
       mounted_device \<leftarrow> lift_io (exec env (''findmnt -n -o SOURCE '' @ mount_dir) False);
       (queried, info) \<leftarrow> lift_io (query_partition env (if mounted_device = '''' then part else mounted_device)
         \<lparr>ci_is_luks = is_luks, ci_is_lvm = is_lvm, ci_luks_name = luks_name, ci_luks_dev = luks_dev, ci_luks_uuid = luks_uuid\<rparr>);
       u \<leftarrow> store_crypt_info info;
       ret queried
     }
   }"

subsection \<open>Properties\<close>

text \<open>The datasets of the default layout, parents before what is below them.\<close>

definition default_layout :: "string \<Rightarrow> (string \<times> string) list" where
  "default_layout pool =
     [(pool @ ''/ROOT'', ''none''), (pool @ ''/ROOT/cos'', ''none''), (pool @ ''/ROOT/cos/root'', ''/''),
      (pool @ ''/ROOT/cos/home'', ''/home''), (pool @ ''/ROOT/cos/varcache'', ''/var/cache''),
      (pool @ ''/ROOT/cos/varlog'', ''/var/log'')]"

definition auto_requests :: "string \<Rightarrow> string \<Rightarrow> string list" where
  "auto_requests dev pool =
     zpool_create_cmd dev pool default_zpool_options None
     # map (\<lambda>(path, mnt). create_dataset_cmd path mnt) (default_layout pool)
     @ [zpool_set_cmd (''bootfs='' @ pool @ ''/ROOT/cos/root'') pool, zpool_export pool]"

lemma default_setup_events:
  "ndevenv env \<Longrightarrow> map step_event (zfs_setup_plan env dev (default_zfs_setup pool)) = map System (auto_requests dev pool)"
  by (simp add: zfs_setup_plan_def default_zfs_setup_def default_zfs_datasets_def find_rootfs_def dev_steps_def
      auto_requests_def default_layout_def)

definition pool_recorded :: "string \<Rightarrow> string list \<Rightarrow> config \<Rightarrow> config" where
  "pool_recorded pool names c =
     c(''ZFS'' \<mapsto> CInt 1, ''ZFS_SETUP_CONFIG'' \<mapsto> CZfs (default_zfs_setup pool), ''ZFS_ZPOOL_NAMES'' \<mapsto> CStrs (names @ [pool]))"

text \<open>The automatic setup of a pool: the requests are the start of the nine of the default layout, all of them exactly when it
  succeeds; only then the table records the pool, behind the ones it knows, and the configuration it was made from;
  after a failure the table is what it was.\<close>

theorem zfs_auto_recorded:
  assumes "status w = Running" "ndevenv env" "c ''ZFS_ZPOOL_NAMES'' = Some (CStrs names)"
    and "run_state (zfs_auto_pres env dev pool) (w, c) = (ok, (w', c'))"
  shows "\<exists>evs. trace w' = trace w @ evs \<and> prefix evs (map System (auto_requests dev pool)) \<and>
      (ok \<longrightarrow> evs = map System (auto_requests dev pool)) \<and>
      (ok \<longleftrightarrow> fst (exec_steps env (zfs_setup_plan env dev (default_zfs_setup pool)) (host w))) \<and>
      status w' = Running \<and> c' = (if ok then pool_recorded pool names c else c)"
proof -
  obtain evs h created where ex: "exec_steps env (zfs_setup_plan env dev (default_zfs_setup pool)) (host w) = (created, evs, h)"
    by (metis surj_pair)
  have run: "run_state (zfs_create_with_config env dev (default_zfs_setup pool)) w =
      (created, w\<lparr>host := h, trace := trace w @ evs\<rparr>)"
    using zfs_setup.outcome [OF assms(1), of env dev "default_zfs_setup pool"] ex by simp
  have res: "ok = created" "w' = w\<lparr>host := h, trace := trace w @ evs\<rparr>"
      "c' = (if created then pool_recorded pool names c else c)"
    using assms(1-3) assms(4) run
    by (auto simp: zfs_auto_pres_def app_simps remember_zpool_def pool_recorded_def split: if_splits)
  show ?thesis
    using exec_steps_events [OF ex] res ex assms(1) unfolding default_setup_events [OF assms(2)] by auto
qed

theorem zfs_auto_recorded_witness:
  "\<exists>evs. trace (fst (snd (run_state (zfs_auto_pres quiet_env ''/dev/sda2'' ''zpcachyos'') (world_of [], initial_config False)))) = evs \<and>
     prefix evs (map System (auto_requests ''/dev/sda2'' ''zpcachyos''))"
proof -
  have names: "initial_config False ''ZFS_ZPOOL_NAMES'' = Some (CStrs [])" by (simp add: initial_config_def)
  obtain ok w' c' where
    run: "run_state (zfs_auto_pres quiet_env ''/dev/sda2'' ''zpcachyos'') (world_of [], initial_config False) = (ok, (w', c'))"
    by (metis surj_pair)
  have "ndevenv quiet_env" by (simp add: quiet_env_def)
  from zfs_auto_recorded [OF world_of_simps(1) this names run] show ?thesis by (auto simp: run)
qed

end
