(* ===== verification/Tui_Disks.thy ===== *)
theory Tui_Disks
  imports Disk
begin

section \<open>Device, partitioning and LVM screens (src/tui.cpp)\<close>

text \<open>
  Choosing the device, partitioning it, and the volume groups.  Operations with the name of an operation of
  \<^verbatim>\<open>utils\<close> carry the prefix \<open>tui\<close>.  Pauses of the process have no effect on a world.
\<close>

subsection \<open>Devices\<close>

definition list_disks_cmd :: string where
  "list_disks_cmd = (''lsblk -lno NAME,SIZE,TYPE | grep '' @ squote @ ''disk'' @ squote @ '' | awk '' @ squote
        @ ''{print \"/dev/\" $1 \" \" $2}'' @ squote @ '' | sort -u'')"

definition select_device :: "'m sysenv \<Rightarrow> ('m, bool) app" where
  "select_device env = do {
     devices \<leftarrow> lift_io (exec env list_disks_cmd False);
     picked \<leftarrow> pick_word (make_multiline devices False newline_char) '''';
     case picked of
       None \<Rightarrow> ret False
     | Some dev \<Rightarrow> do { u \<leftarrow> cfg_set ''DEVICE'' (CStr dev); ret True }
   }"

definition show_devices :: "'m sysenv \<Rightarrow> ('m, unit) app" where
  "show_devices env = do {
     lsblk \<leftarrow> lift_io (exec env
       (''lsblk -o NAME,MODEL,TYPE,FSTYPE,SIZE,MOUNTPOINT | grep \"disk'' @ backslash @ ''|part'' @ backslash
        @ ''|lvm'' @ backslash @ ''|crypt'' @ backslash @ ''|NAME'' @ backslash @ ''|MODEL'' @ backslash
        @ ''|TYPE'' @ backslash @ ''|FSTYPE'' @ backslash @ ''|SIZE'' @ backslash @ ''|MOUNTPOINT\"'') False);
     notice lsblk
   }"

subsection \<open>Partitioning\<close>

definition tui_auto_partition :: "'m sysenv \<Rightarrow> fs_partition sorter \<Rightarrow> ('m, unit) app" where
  "tui_auto_partition env sort_parts = do {
     device_info \<leftarrow> cfg_str ''DEVICE'';
     system_info \<leftarrow> cfg_str ''SYSTEM'';
     u \<leftarrow> auto_partition env sort_parts;
     device_info \<leftarrow> cfg_str ''DEVICE'';
     disk_list \<leftarrow> lift_io (exec env (''lsblk '' @ device_info @ '' -o NAME,TYPE,FSTYPE,SIZE'') False);
     notice disk_list
   }"

definition partition_tools :: "string list" where
  "partition_tools =
     [''Securely Wipe Device (optional)'', ''Automatic Partitioning'', ''cfdisk'', ''cgdisk'', ''fdisk'', ''gdisk'', ''parted'']"

definition create_partitions :: "'m sysenv \<Rightarrow> fs_partition sorter \<Rightarrow> ('m, unit) app" where
  "create_partitions env sort_parts = do {
     selected_entry \<leftarrow> pick_entry partition_tools '''';
     case selected_entry of
       None \<Rightarrow> ret ()
     | Some tool \<Rightarrow>
         if tool \<noteq> ''Securely Wipe Device (optional)'' \<and> tool \<noteq> ''Automatic Partitioning'' then do {
           device_info \<leftarrow> cfg_str ''DEVICE'';
           lift_io (if ndevenv env then do { out \<leftarrow> exec env (tool @ '' '' @ device_info) True; ret () } else ret ())
         }
         else if tool = ''Securely Wipe Device (optional)'' then secure_wipe env
         else tui_auto_partition env sort_parts
   }"

text \<open>Looking for partitions from the screens: too few of them lead to the screen above.\<close>

definition search_partitions :: "'m sysenv \<Rightarrow> fs_partition sorter \<Rightarrow> ('m, unit) app" where
  "search_partitions env sort_parts = find_partitions env (create_partitions env sort_parts)"

subsection \<open>Logical volumes\<close>

definition tui_lvm_detect :: "'m sysenv \<Rightarrow> ('m, unit) app" where
  "tui_lvm_detect env = lvm_detect env (Some (notice
     ''\<newline>Existing Logical Volume Management (LVM) detected.\<newline>Activating. Please Wait...\<newline>''))"

definition del_vg_body :: string where
  "del_vg_body = ''\<newline>Select Volume Group to delete.\<newline>All Logical Volumes within will also be deleted.\<newline>''"

definition confirm_del_body :: string where
  "confirm_del_body = ''\<newline>Confirm deletion of Volume Group(s) and Logical Volume(s).\<newline>''"

definition vgremove_cmd :: "string \<Rightarrow> string" where
  "vgremove_cmd sel_vg = ''vgremove -f '' @ sel_vg @ '' 2>/dev/null''"

definition lvm_del_vg :: "'m sysenv \<Rightarrow> ('m, unit) app" where
  "lvm_del_vg env = do {
     vg_list \<leftarrow> lift_io (lvm_show_vg env);
     if vg_list = [] then notice ''\<newline>No Volume Groups found.\<newline>''
     else do {
       picked \<leftarrow> pick_entry vg_list del_vg_body;
       case picked of
         None \<Rightarrow> ret ()
       | Some sel_vg \<Rightarrow>
           if sel_vg = '''' then ret ()
           else do {
             do_action \<leftarrow> yesno confirm_del_body;
             if \<not> do_action \<or> \<not> ndevenv env then ret ()
             else do { out \<leftarrow> lift_io (exec env (vgremove_cmd sel_vg) True); ret () }
           }
     }
   }"

definition lvm_menu_entries :: "string list" where
  "lvm_menu_entries = [''Create VG and LV(s)'', ''Delete Volume Groups'', ''Delete *ALL* VGs, LVs, PVs'', ''Back'']"

definition lvm_menu_body :: string where
  "lvm_menu_body = (''\<newline>Logical Volume Management (LVM) allows '' @ squote @ ''virtual'' @ squote
        @ '' hard drives (Volume Groups)\<newline>and partitions (Logical Volumes) to be created from existing ''
        @ ''drives\<newline>and partitions. A Volume Group must be created first, then one or more\<newline>''
        @ ''Logical Volumes in it.\<newline> \<newline>LVM can also be used with an encrypted partition ''
        @ ''to create multiple logical\<newline>volumes (e.g. root and home) in it.\<newline>'')"

text \<open>The first and the third entry do nothing.\<close>

definition lvm_menu_choice :: "'m sysenv \<Rightarrow> nat \<Rightarrow> ('m, bool) app" where
  "lvm_menu_choice env selected =
     (if selected = 1 then do { u \<leftarrow> lvm_del_vg env; ret False }
      else if selected = 0 \<or> selected = 2 then ret False
      else ret True)"

definition lvm_menu :: "'m sysenv \<Rightarrow> ('m, unit) app" where
  "lvm_menu env = do {
     u \<leftarrow> tui_lvm_detect env;
     menu_loop lvm_menu_entries lvm_menu_body (lvm_menu_choice env)
   }"

definition del_all_body :: string where
  "del_all_body = (''Are you sure you want to remove ALL LVM structures (LVs, VGs, PVs)?\<newline>\<newline>This ''
        @ ''action cannot be undone!'')"

text \<open>
  The call inside \<^verbatim>\<open>tui::lvm_del_all\<close> is found in the namespace \<^verbatim>\<open>tui\<close>: it is the function itself,
  not the one of \<^verbatim>\<open>utils\<close>.
\<close>

definition del_all_round :: "unit \<Rightarrow> ('m, unit + unit) app" where
  "del_all_round u = do {
     do_del_all \<leftarrow> yesno del_all_body;
     ret (if \<not> do_del_all then Inr () else Inl ())
   }"

definition tui_lvm_del_all :: "('m, unit) app" where
  "tui_lvm_del_all = repeat_dialog del_all_round () ()"

subsection \<open>Properties\<close>

lemma run_del_all_round:
  "status w = Running \<Longrightarrow> run_state (del_all_round u) (w, c) =
     (case user_answers w of
        [] \<Rightarrow> (Inr (), (w\<lparr>status := Waiting\<rparr>, c))
      | a # later \<Rightarrow> (if a = Agree then Inl () else Inr (),
          (w\<lparr>user_answers := later, trace := trace w @ [Asked del_all_body [] a]\<rparr>, c)))"
  by (simp add: del_all_round_def yesno_def run_lift_io ask_def split: list.splits)

lemma run_del_all_stopped: "status w \<noteq> Running \<Longrightarrow> run_state (del_all_round u) (w, c) = (Inr (), (w, c))"
  by (simp add: del_all_round_def yesno_def run_lift_io ask_def)

interpretation del_all: dialogue del_all_round
proof
  fix s s' :: unit and w w' :: "'a world" and c c'
  assume "run_state (del_all_round s) (w, c) = (Inl s', (w', c'))"
  then show "length (user_answers w') < length (user_answers w)"
    by (cases "status w = Running") (auto simp: run_del_all_round run_del_all_stopped split: list.splits if_splits)
qed

text \<open>C26. Deleting all LVM structures: the question is put again after every OK, until the user refuses or stops answering; nothing
  else is requested, and neither the host nor the table changes.\<close>

theorem lvm_del_all_only_asks:
  "status w = Running \<Longrightarrow>
   run_state tui_lvm_del_all (w, c) =
     (let yes = takeWhile (\<lambda>a. a = Agree) (user_answers w); others = dropWhile (\<lambda>a. a = Agree) (user_answers w)
      in ((), (w\<lparr>trace := trace w @ map (Asked del_all_body []) (yes @ take 1 others), user_answers := drop 1 others,
                 status := if others = [] then Waiting else Running\<rparr>, c)))"
proof (induction "user_answers w" arbitrary: w)
  case Nil
  then show ?case
    unfolding tui_lvm_del_all_def by (subst del_all.repeat_dialog_step) (simp add: run_del_all_round)
next
  case (Cons a later)
  let ?w = "w\<lparr>user_answers := later, trace := trace w @ [Asked del_all_body [] a]\<rparr>"
  have step: "run_state tui_lvm_del_all (w, c) =
      (if a = Agree then run_state tui_lvm_del_all (?w, c) else ((), (?w, c)))"
    unfolding tui_lvm_del_all_def
    using Cons.prems by (subst del_all.repeat_dialog_step) (simp add: run_del_all_round Cons.hyps(2) [symmetric])
  show ?case
    using Cons.hyps(1) [of ?w] Cons.prems step by (auto simp: Let_def Cons.hyps(2) [symmetric])
qed

theorem lvm_del_all_only_asks_witness:
  "run_state tui_lvm_del_all ((world_of [])\<lparr>user_answers := [Agree, Agree]\<rparr>, initial_config False) =
     ((), ((world_of [])\<lparr>trace := [Asked del_all_body [] Agree, Asked del_all_body [] Agree], status := Waiting\<rparr>, initial_config False))"
  using lvm_del_all_only_asks [of "(world_of [])\<lparr>user_answers := [Agree, Agree]\<rparr>" "initial_config False"] by (simp add: world_of_def)

lemma run_vg_sizes:
  "status w = Running \<Longrightarrow> (\<And>cmd h. popen_call env cmd h = (Some (out cmd), h)) \<Longrightarrow>
   run_state (vg_sizes env vgs) w =
     (map (\<lambda>vg. drop_final_newline (out (vg_size_cmd vg))) vgs,
      w\<lparr>trace := trace w @ map (\<lambda>vg. Popen (vg_size_cmd vg)) vgs\<rparr>)"
  by (induction vgs arbitrary: w) (simp_all add: run_exec)

text \<open>Deleting a volume group, on a machine whose commands answer the same at every time: the command that removes it is given the size that
  was displayed for the chosen group, not the name.\<close>

theorem vgremove_takes_size:
  assumes "status w = Running" "ndevenv env" and out: "\<And>cmd h. popen_call env cmd h = (Some (out cmd), h)"
    and "vgs = make_multiline (drop_final_newline (out list_vgs_cmd)) False newline_char"
    and "user_answers w = Pick i # Agree # later" "i < length vgs"
    and "sz = drop_final_newline (out (vg_size_cmd (vgs ! i)))" "sz \<noteq> ''''"
  shows "\<exists>before. trace (fst (snd (run_state (lvm_del_vg env) (w, c)))) =
    trace w @ before @ [Asked confirm_del_body [] Agree, System (vgremove_cmd sz)]"
proof -
  let ?evs = "Popen list_vgs_cmd # map (\<lambda>vg. Popen (vg_size_cmd vg)) vgs"
  let ?w = "w\<lparr>trace := trace w @ ?evs\<rparr>"
  let ?sizes = "map (\<lambda>vg. drop_final_newline (out (vg_size_cmd vg))) vgs"
  have "vgs \<noteq> []" "min i (length vgs - Suc 0) = i" using assms(6) by auto
  moreover have "run_state (lvm_show_vg env) w = (?sizes, ?w)"
    using assms(1,4) by (simp add: lvm_show_vg_def run_exec out run_vg_sizes [OF _ out])
  ultimately show ?thesis
    using assms(1,2,5,6,7,8)
    by (auto simp: lvm_del_vg_def run_lift_io pick_entry_def menu_def ask_def entry_at_def yesno_def io_prims
        split: prod.splits)
qed

definition one_vg_output :: "string \<Rightarrow> string" where
  "one_vg_output cmd = (if cmd = list_vgs_cmd then ''vg0'' else if cmd = vg_size_cmd ''vg0'' then ''10.00GiB'' else '''')"

definition one_vg_env :: "unit sysenv" where
  "one_vg_env = quiet_env\<lparr>popen_call := (\<lambda>cmd h. (Some (one_vg_output cmd), h))\<rparr>"

theorem vgremove_takes_size_witness:
  "\<exists>before. trace (fst (snd (run_state (lvm_del_vg one_vg_env)
      ((world_of [])\<lparr>user_answers := [Pick 0, Agree]\<rparr>, initial_config False)))) =
    before @ [Asked confirm_del_body [] Agree, System (vgremove_cmd ''10.00GiB'')]"
proof -
  have env: "ndevenv one_vg_env" "popen_call one_vg_env cmd h = (Some (one_vg_output cmd), h)" for cmd h
    by (simp_all add: one_vg_env_def quiet_env_def)
  have vgs: "[''vg0''] = make_multiline (drop_final_newline (one_vg_output list_vgs_cmd)) False newline_char"
    and sz: "''10.00GiB'' = drop_final_newline (one_vg_output (vg_size_cmd ([''vg0''] ! 0)))" by code_simp+
  have run: "status ((world_of [])\<lparr>user_answers := [Pick 0, Agree]\<rparr>) = Running"
    and answers: "user_answers ((world_of [])\<lparr>user_answers := [Pick 0, Agree]\<rparr>) = Pick 0 # Agree # []" by simp_all
  show ?thesis
    using vgremove_takes_size [OF run env vgs answers _ sz] by simp
qed

end
