(* ===== verification/Crypto.thy ===== *)
theory Crypto
  imports Tui_Disks
begin

section \<open>Encryption screens (src/crypto.cpp)\<close>

text \<open>Opening and creating LUKS containers.\<close>

definition luks_menu_body :: string where
  "luks_menu_body = (''Devices and volumes encrypted using dm_crypt cannot be accessed or\<newline>even seen without ''
        @ ''being unlocked via a key or password.'')"

definition luks_menu_body2 :: string where
  "luks_menu_body2 = (''A seperate boot partition without encryption or logical volume management\<newline>(LVM - unless ''
        @ ''using BIOS Grub) is required.'')"

definition luks_menu_body3 :: string where
  "luks_menu_body3 = (''The Automatic option uses default encryption settings,\<newline>and is recommended for beginners.\<newline>''
        @ ''Otherwise, it is possible to specify cypher and key size parameters manually.'')"

definition select_crypt_partition :: "string \<Rightarrow> ('m, bool) app" where
  "select_crypt_partition content = do {
     partitions \<leftarrow> cfg_strs ''PARTITIONS'';
     picked \<leftarrow> pick_word partitions ([newline_char] @ content @ [newline_char]);
     case picked of
       None \<Rightarrow> ret False
     | Some part \<Rightarrow> do { u \<leftarrow> cfg_set ''PARTITION'' (CStr part); ret True }
   }"

definition luks_cryptname_body :: string where
  "luks_cryptname_body = (''\<newline>Specify a name for the encrypted block device.\<newline> \<newline>It is not necessary ''
        @ ''to prefix it with /dev/mapper/.\<newline>An example has been provided.\<newline>'')"

definition get_cryptname :: "('m, bool) app" where
  "get_cryptname = do {
     entered \<leftarrow> inputbox ''cryptroot'' luks_cryptname_body;
     case entered of
       None \<Rightarrow> ret False
     | Some val \<Rightarrow> do { u \<leftarrow> cfg_set ''LUKS_ROOT_NAME'' (CStr val); ret True }
   }"

definition luks_pass_body :: string where
  "luks_pass_body = (''\<newline>Enter a password to un/encrypt the partition.\<newline> \<newline>This should not ''
        @ ''be the same as\<newline>the Root account or user account passwords.\<newline>'')"

definition get_crypt_password :: "('m, bool) app" where
  "get_crypt_password = do {
     entered \<leftarrow> inputbox '''' luks_pass_body;
     case entered of
       None \<Rightarrow> ret False
     | Some val \<Rightarrow> do { u \<leftarrow> cfg_set ''PASSWD'' (CStr val); ret True }
   }"

text \<open>The name and the password are asked for in this order, into the table; the table is read before, so that the settings exist.\<close>

definition ask_credentials :: "('m, bool) app" where
  "ask_credentials = do {
     luks_root_name \<leftarrow> cfg_str ''LUKS_ROOT_NAME'';
     luks_password \<leftarrow> cfg_str ''PASSWD'';
     named \<leftarrow> get_cryptname;
     if \<not> named then ret False
     else do {
       given \<leftarrow> get_crypt_password;
       if \<not> given then ret False else ret True
     }
   }"

definition crypt_devices_cmd :: "string \<Rightarrow> string" where
  "crypt_devices_cmd part = (''lsblk -o NAME,TYPE,FSTYPE,SIZE,MOUNTPOINT '' @ part @ '' | grep \"crypt'' @ backslash @ ''|NAME''
        @ backslash @ ''|MODEL'' @ backslash @ ''|TYPE'' @ backslash @ ''|FSTYPE'' @ backslash @ ''|SIZE\"'')"

definition open_selected :: "'m sysenv \<Rightarrow> ('m, bool) app" where
  "open_selected env = do {
     part \<leftarrow> cfg_str ''PARTITION'';
     asked \<leftarrow> ask_credentials;
     if \<not> asked then ret False
     else do {
       luks_root_name \<leftarrow> cfg_str ''LUKS_ROOT_NAME'';
       luks_password \<leftarrow> cfg_str ''PASSWD'';
       u \<leftarrow> notice ''\<newline>Please wait...\<newline>'';
       opened \<leftarrow> (if ndevenv env then lift_io (luks1_open env luks_password part luks_root_name) else ret True);
       if \<not> opened then do { u \<leftarrow> notice ''\<newline>Failed to open luks1 partition\<newline>''; ret False }
       else do {
         devlist \<leftarrow> lift_io (exec env (crypt_devices_cmd part) False);
         u \<leftarrow> notice devlist;
         ret True
       }
     }
   }"

definition luks_open :: "'m sysenv \<Rightarrow> mtab_entry sorter \<Rightarrow> fs_partition sorter \<Rightarrow> ('m, bool) app" where
  "luks_open env sort_mtab sort_parts = do {
     u \<leftarrow> cfg_set ''LUKS_ROOT_NAME'' (CStr '''');
     u \<leftarrow> cfg_set ''INCLUDE_PART'' (CStr (''part'' @ backslash @ ''|crypt'' @ backslash @ ''|lvm''));
     u \<leftarrow> utils_umount_partitions env sort_mtab;
     u \<leftarrow> search_partitions env sort_parts;
     partitions \<leftarrow> cfg_strs ''PARTITIONS'';
     if partitions = [] then do { u \<leftarrow> notice ''\<newline>No LUKS-encrypted partition found.\<newline>''; ret False }
     else do {
       chosen \<leftarrow> select_crypt_partition luks_menu_body;
       if \<not> chosen then ret False else open_selected env
     }
   }"

definition luks_setup :: "'m sysenv \<Rightarrow> mtab_entry sorter \<Rightarrow> fs_partition sorter \<Rightarrow> ('m, bool) app" where
  "luks_setup env sort_mtab sort_parts = do {
     u \<leftarrow> (if ndevenv env then lift_io (do { out \<leftarrow> exec env ''modprobe -a dm-mod dm_crypt'' False; ret () }) else ret ());
     u \<leftarrow> cfg_set ''INCLUDE_PART'' (CStr (''part'' @ backslash @ ''|lvm''));
     u \<leftarrow> utils_umount_partitions env sort_mtab;
     u \<leftarrow> search_partitions env sort_parts;
     chosen \<leftarrow> select_crypt_partition ''Select a partition to encrypt.'';
     if \<not> chosen then ret False else ask_credentials
   }"

definition luks_encrypt :: "'m sysenv \<Rightarrow> string \<Rightarrow> ('m, unit) app" where
  "luks_encrypt env flags = do {
     u \<leftarrow> notice ''\<newline>Please wait...\<newline>'';
     if ndevenv env then do {
       part \<leftarrow> cfg_str ''PARTITION'';
       luks_root_name \<leftarrow> cfg_str ''LUKS_ROOT_NAME'';
       luks_password \<leftarrow> cfg_str ''PASSWD'';
       formatted \<leftarrow> lift_io (luks1_format env luks_password part flags);
       u \<leftarrow> (if \<not> formatted then notice ''\<newline>Failed to format luks1 partition\<newline>'' else ret ());
       opened \<leftarrow> lift_io (luks1_open env luks_password part luks_root_name);
       if \<not> opened then notice ''\<newline>Failed to open luks1 partition\<newline>'' else ret ()
     }
     else ret ()
   }"

definition luks_default :: "'m sysenv \<Rightarrow> ('m, unit) app" where
  "luks_default env = luks_encrypt env ''''"

definition luks_cipher_key :: string where
  "luks_cipher_key = (''\<newline>Once the specified flags have been amended,\<newline>they will automatically be used ''
        @ ''with the '' @ squote @ ''cryptsetup -q luksFormat /dev/...'' @ squote
        @ '' command.\<newline> \<newline>NOTE: Key files are not supported;\<newline>they can be added ''
        @ ''manually post-installation.\<newline>Do not specify any additional flags such as -v (--verbose) ''
        @ ''or -y (--verify-passphrase).'')"

definition luks_key_define :: "'m sysenv \<Rightarrow> ('m, bool) app" where
  "luks_key_define env = do {
     entered \<leftarrow> inputbox ''-s 512 -c aes-xts-plain64'' luks_cipher_key;
     case entered of
       None \<Rightarrow> ret False
     | Some val \<Rightarrow> do { u \<leftarrow> luks_encrypt env val; ret True }
   }"

definition luks_express :: "'m sysenv \<Rightarrow> ('m, unit) app" where
  "luks_express env = luks_encrypt env ''--pbkdf-force-iterations 200000''"

definition list_devices_cmd :: string where
  "list_devices_cmd = (''lsblk -o NAME,TYPE,FSTYPE,SIZE | grep \"part'' @ backslash @ ''|crypt'' @ backslash @ ''|NAME'' @ backslash
        @ ''|TYPE'' @ backslash @ ''|FSTYPE'' @ backslash @ ''|SIZE\"'')"

definition luks_show :: "'m sysenv \<Rightarrow> ('m, unit) app" where
  "luks_show env = do {
     lsblk \<leftarrow> lift_io (exec env list_devices_cmd False);
     notice (''\<newline>Done!\<newline> \<newline>'' @ lsblk)
   }"

definition luks_menu_entries :: "string list" where
  "luks_menu_entries =
     [''Open Encrypted Partition'', ''Automatic LUKS Encryption'', ''Define Key-Size and Cypher'', ''Express LUKS'', ''Back'']"

definition luks_menu_content :: string where
  "luks_menu_content = (''\<newline>'' @ luks_menu_body @ ''\<newline> \<newline>'' @ luks_menu_body2 @ ''\<newline> \<newline>''
        @ luks_menu_body3 @ ''\<newline>'')"

text \<open>The condition of the third entry is the one of the source: the key is defined only if the setup was given up.\<close>

definition luks_menu_choice :: "'m sysenv \<Rightarrow> mtab_entry sorter \<Rightarrow> fs_partition sorter \<Rightarrow> nat \<Rightarrow> ('m, unit) app" where
  "luks_menu_choice env sort_mtab sort_parts selected =
     (if selected = 0 then do { ok \<leftarrow> luks_open env sort_mtab sort_parts; ret () }
      else if selected = 1 then do {
        ok \<leftarrow> luks_setup env sort_mtab sort_parts;
        if \<not> ok then ret ()
        else do { u \<leftarrow> luks_default env; luks_show env }
      }
      else if selected = 2 then do {
        ok \<leftarrow> luks_setup env sort_mtab sort_parts;
        defined \<leftarrow> (if \<not> ok then luks_key_define env else ret True);
        if \<not> ok \<and> \<not> defined then ret () else luks_show env
      }
      else if selected = 3 then do {
        ok \<leftarrow> luks_setup env sort_mtab sort_parts;
        if \<not> ok then ret ()
        else do { u \<leftarrow> luks_express env; luks_show env }
      }
      else ret ())"

definition luks_menu_advanced :: "'m sysenv \<Rightarrow> mtab_entry sorter \<Rightarrow> fs_partition sorter \<Rightarrow> ('m, unit) app" where
  "luks_menu_advanced env sort_mtab sort_parts = do {
     selected \<leftarrow> menu luks_menu_entries luks_menu_content;
     case selected of
       None \<Rightarrow> ret ()
     | Some i \<Rightarrow> luks_menu_choice env sort_mtab sort_parts i
   }"

subsection \<open>Properties\<close>

lemma trace_luks_show:
  "status v = Running \<Longrightarrow> \<exists>devices. trace (fst (snd (run_state (luks_show env) (v, c)))) = trace v @ [Popen list_devices_cmd, Shown devices]"
  by (simp add: luks_show_def run_lift_io run_exec [OF _ surjective_pairing] app_simps)

lemma trace_luks_encrypt:
  assumes "status v = Running" "ndevenv env"
    and "c ''PARTITION'' = Some (CStr part)" "c ''PASSWD'' = Some (CStr pass)" "c ''LUKS_ROOT_NAME'' = Some (CStr name)"
  shows "\<exists>v' shown shown'. run_state (luks_encrypt env flags) (v, c) = ((), (v', c)) \<and> status v' = Running \<and>
      set (shown @ shown') \<subseteq> range Shown \<and> trace v' = trace v @
        [Shown ''\<newline>Please wait...\<newline>'', System (luks1_format_cmd pass part flags)] @ shown @
        [System (luks1_open_cmd pass part name)] @ shown'"
proof -
  let ?f = "Shown ''\<newline>Failed to format luks1 partition\<newline>''" and ?o = "Shown ''\<newline>Failed to open luks1 partition\<newline>''"
  have "\<exists>v' formatted opened. run_state (luks_encrypt env flags) (v, c) = ((), (v', c)) \<and> status v' = Running \<and>
      trace v' = trace v @ [Shown ''\<newline>Please wait...\<newline>'', System (luks1_format_cmd pass part flags)] @
        (if formatted then [] else [?f]) @ [System (luks1_open_cmd pass part name)] @ (if opened then [] else [?o])"
    using assms
    by (simp add: luks_encrypt_def app_simps luks1_format_def luks1_open_def run_exec_checked [OF _ surjective_pairing]) fastforce
  then obtain v' formatted opened where v: "run_state (luks_encrypt env flags) (v, c) = ((), (v', c))" "status v' = Running"
      "trace v' = trace v @ [Shown ''\<newline>Please wait...\<newline>'', System (luks1_format_cmd pass part flags)] @
        (if formatted then [] else [?f]) @ [System (luks1_open_cmd pass part name)] @ (if opened then [] else [?o])" by blast
  show ?thesis
    by (rule exI [of _ v'], rule exI [of _ "if formatted then [] else [?f]"], rule exI [of _ "if opened then [] else [?o]"])
      (use v in auto)
qed

text \<open>C35. The entry for defining key size and cypher does the opposite of what it is for: after a complete setup nothing is encrypted, the only request left is the one for the list
  that is shown as the result; after a setup that the user gave up, the flags are asked for, and the partition that the table still names is
  formatted with them and opened.  The hypotheses: the development mode is off, the process is still running after the setup, the settings of the partition, the
  password and the mapper name have their types, and the next answer of the user is a text, the flags.\<close>

theorem key_size_entry:
  assumes "ndevenv env"
    and "run_state (luks_setup env sort_mtab sort_parts) (w, c) = (complete, (w1, c1))" "status w1 = Running"
    and "c1 ''PARTITION'' = Some (CStr part)" "c1 ''PASSWD'' = Some (CStr pass)" "c1 ''LUKS_ROOT_NAME'' = Some (CStr name)"
    and "user_answers w1 = Enter flags # later"
  shows "\<exists>devices shown shown'. set (shown @ shown') \<subseteq> range Shown \<and>
    trace (fst (snd (run_state (luks_menu_choice env sort_mtab sort_parts 2) (w, c)))) = trace w1 @
      (if complete then []
       else [Asked luks_cipher_key [''-s 512 -c aes-xts-plain64''] (Enter flags), Shown ''\<newline>Please wait...\<newline>'',
             System (luks1_format_cmd pass part flags)] @ shown @ [System (luks1_open_cmd pass part name)] @ shown') @
      [Popen list_devices_cmd, Shown devices]"
proof (cases complete)
  case True
  with trace_luks_show [OF assms(3), of env c1] assms(2) show ?thesis
    by (auto simp: luks_menu_choice_def intro: exI [of _ "[]"])
next
  case False
  let ?w = "w1\<lparr>user_answers := later, trace := trace w1 @ [Asked luks_cipher_key [''-s 512 -c aes-xts-plain64''] (Enter flags)]\<rparr>"
  obtain v' shown shown' where v: "run_state (luks_encrypt env flags) (?w, c1) = ((), (v', c1))" "status v' = Running"
      "set (shown @ shown') \<subseteq> range Shown" "trace v' = trace ?w @
        [Shown ''\<newline>Please wait...\<newline>'', System (luks1_format_cmd pass part flags)] @ shown @
        [System (luks1_open_cmd pass part name)] @ shown'"
    using trace_luks_encrypt [of ?w env c1 part pass name flags] assms by auto
  obtain devices where d: "trace (fst (snd (run_state (luks_show env) (v', c1)))) = trace v' @ [Popen list_devices_cmd, Shown devices]"
    using trace_luks_show [OF v(2), of env c1] by blast
  have "run_state (luks_menu_choice env sort_mtab sort_parts 2) (w, c) = run_state (luks_show env) (v', c1)"
    using False assms(2,3,7) v(1) by (simp add: luks_menu_choice_def luks_key_define_def run_inputbox)
  with False d v(3,4) show ?thesis by auto
qed

text \<open>The witness runs on a machine with two partitions, listed in reverse order; the user goes back, and then enters
  flags.\<close>

definition two_parts_env :: "unit sysenv" where
  "two_parts_env = quiet_env\<lparr>popen_call := (\<lambda>cmd h. (Some (if cmd = raid_partitions_cmd then '''' else
     ''/dev/sda1 1G\<newline>/dev/sda2 20G''), h))\<rparr>"

abbreviation crypt_world :: "answer list \<Rightarrow> unit world" where
  "crypt_world answers \<equiv> (world_of [(''/etc/mtab'', '''')])\<lparr>user_answers := answers\<rparr>"

abbreviation previous_choice :: config where
  "previous_choice \<equiv> (initial_config False)(''PARTITION'' \<mapsto> CStr ''/dev/sda1'', ''PASSWD'' \<mapsto> CStr ''pw'',
     ''LUKS_ROOT_NAME'' \<mapsto> CStr ''root'')"

text \<open>The screen for creating partitions is not reached, so its term may be any.\<close>

abbreviation given_up_setup :: "(bool \<times> (unit world \<times> config))" where
  "given_up_setup \<equiv>
     run_state (luks_setup two_parts_env insertion_sort insertion_sort) (crypt_world [Back, Enter ''-s 256''], previous_choice)"

lemma setup_given_up:
  "fst given_up_setup = False" "status (fst (snd given_up_setup)) = Running"
  "snd (snd given_up_setup) ''PARTITION'' = Some (CStr ''/dev/sda1'')" "snd (snd given_up_setup) ''PASSWD'' = Some (CStr ''pw'')"
  "snd (snd given_up_setup) ''LUKS_ROOT_NAME'' = Some (CStr ''root'')"
  "user_answers (fst (snd given_up_setup)) = [Enter ''-s 256'']"
proof -
  obtain X where X: "create_partitions two_parts_env insertion_sort = X" by blast
  show "fst given_up_setup = False" "status (fst (snd given_up_setup)) = Running"
      "snd (snd given_up_setup) ''PARTITION'' = Some (CStr ''/dev/sda1'')" "snd (snd given_up_setup) ''PASSWD'' = Some (CStr ''pw'')"
      "snd (snd given_up_setup) ''LUKS_ROOT_NAME'' = Some (CStr ''root'')"
      "user_answers (fst (snd given_up_setup)) = [Enter ''-s 256'']"
    unfolding luks_setup_def search_partitions_def X by code_simp+
qed

theorem key_size_entry_witness:
  "\<exists>devices shown shown'. set (shown @ shown') \<subseteq> range Shown \<and>
    trace (fst (snd (run_state (luks_menu_choice two_parts_env insertion_sort insertion_sort 2)
      (crypt_world [Back, Enter ''-s 256''], previous_choice)))) = trace (fst (snd given_up_setup)) @
      [Asked luks_cipher_key [''-s 512 -c aes-xts-plain64''] (Enter ''-s 256''), Shown ''\<newline>Please wait...\<newline>'',
       System (luks1_format_cmd ''pw'' ''/dev/sda1'' ''-s 256'')] @ shown @ [System (luks1_open_cmd ''pw'' ''/dev/sda1'' ''root'')] @ shown' @
      [Popen list_devices_cmd, Shown devices]"
proof -
  have env: "ndevenv two_parts_env" by (simp add: two_parts_env_def quiet_env_def)
  obtain r w1 c1 where s: "run_state (luks_setup two_parts_env insertion_sort insertion_sort)
      (crypt_world [Back, Enter ''-s 256''], previous_choice) = (r, (w1, c1))" by (metis surj_pair)
  have o1: "\<not> r" "status w1 = Running" "c1 ''PARTITION'' = Some (CStr ''/dev/sda1'')" "c1 ''PASSWD'' = Some (CStr ''pw'')"
      "c1 ''LUKS_ROOT_NAME'' = Some (CStr ''root'')" "user_answers w1 = [Enter ''-s 256'']"
    using setup_given_up unfolding s by simp_all
  show ?thesis
    using key_size_entry [OF env s o1(2-6)] o1(1) by (simp only: s if_False simp_thms append_assoc fst_conv snd_conv)
qed

end
