(* ===== verification/Advance_Installer.thy ===== *)
theory Advance_Installer
  imports Advance_Library Settings Install_Base Crypto Boot_Setup
begin

section \<open>The operations of the installer only advance the world\<close>

text \<open>The invariant of \<open>Advance\<close> for the operations of \<^verbatim>\<open>src\<close>, one fact per theory.\<close>

lemma advances_json [advancing]:
  "advances proj f1 \<Longrightarrow> (\<And>x. advances proj (f2 x)) \<Longrightarrow> (\<And>x. advances proj (f3 x)) \<Longrightarrow> advances proj f4 \<Longrightarrow>
   (\<And>x. advances proj (f5 x)) \<Longrightarrow> (\<And>x. advances proj (f6 x)) \<Longrightarrow> (\<And>x. advances proj (f7 x)) \<Longrightarrow>
   advances proj (case v of JNull \<Rightarrow> f1 | JBool x \<Rightarrow> f2 x | JInt x \<Rightarrow> f3 x | JDouble \<Rightarrow> f4 | JString x \<Rightarrow> f5 x
     | JArray x \<Rightarrow> f6 x | JObject x \<Rightarrow> f7 x)"
  by (cases v) simp_all

lemma advances_append_error [advancing]:
  "advances proj a \<Longrightarrow> advances proj b \<Longrightarrow> advances proj (case e of NoRootPartition \<Rightarrow> a | RootLost \<Rightarrow> b)"
  by (cases e) simp_all

lemma advances_settings_error [advancing]:
  "advances proj a \<Longrightarrow> advances proj b \<Longrightarrow> advances proj (case e of AssertionFailed \<Rightarrow> a | Refused \<Rightarrow> b)"
  by (cases e) simp_all

lemma advances_Storage_Hooks [advancing]:
  "advances id (add_root_hooks env a1 a2)" "advances id (add_raid_hooks env b1 b2)" "advances id (add_crypt_hooks env c1 c2 c3)"
  unfolding add_root_hooks_def add_raid_hooks_def add_crypt_hooks_def
  by (intro advancing)+

lemma advances_set_lightdm_greeter [advancing]: "advances id (set_lightdm_greeter env mnt)"
  unfolding set_lightdm_greeter_def by (intro advancing)

lemma advances_enable_present_services [advancing]: "advances id (enable_present_services env mnt services)"
proof (induction services)
  case Nil
  show ?case unfolding enable_present_services.simps by (intro advancing)
next
  case (Cons x xs)
  show ?case unfolding enable_present_services.simps by (intro advancing Cons)
qed

lemma advances_enable_all_services [advancing]: "advances id (enable_all_services env mnt services)"
proof (induction services)
  case Nil
  show ?case unfolding enable_all_services.simps by (intro advancing)
next
  case (Cons x xs)
  show ?case unfolding enable_all_services.simps by (intro advancing Cons)
qed

lemma advances_enable_display_manager [advancing]: "advances id (enable_display_manager env mnt dms)"
proof (induction dms)
  case Nil
  show ?case unfolding enable_display_manager.simps by (intro advancing)
next
  case (Cons x xs)
  show ?case unfolding enable_display_manager.simps by (intro advancing Cons)
qed

lemma advances_is_connected [advancing]: "advances id (is_connected env)"
  unfolding is_connected_def by (intro advancing)

lemma advances_wait_connection [advancing]: "advances id (wait_connection env t)"
proof (induction env t rule: wait_connection.induct)
  case (1 env t)
  have go_on: "\<not> CONNECTION_TIMEOUT \<le> t \<Longrightarrow> advances id (wait_connection env (t + 1))" by (rule 1) simp_all
  show ?case
    by (subst wait_connection.simps) (cases "CONNECTION_TIMEOUT \<le> t"; simp only: if_True if_False; intro advancing go_on; simp)
qed

lemma advances_offer_wifi [advancing]: "advances id offer_wifi"
  unfolding offer_wifi_def prompt_char_def show_iwctl_def by (intro advancing)

lemma advances_callbacks [advancing]:
  "(\<And>m. advances id (f m)) \<Longrightarrow> advances fst (on_mountpoint env f)"
  "advances fst act \<Longrightarrow> advances fst (find_partitions env act)"
  "advances fst act \<Longrightarrow> advances fst (lvm_detect env (Some act))"
  "advances fst (lvm_detect env None)"
  unfolding on_mountpoint_def find_partitions_def lvm_detect_def option.case by (intro advancing; assumption)+

lemma advances_Installer [advancing]:
  "advances id (follow_process_log_widget env a1)" "advances id (run_or_follow env b1 b2)" "advances id (check_root env)"
  "advances fst (utils_arch_chroot env d1 d2)" "advances fst (inst_needed env g1)"
  "advances fst (utils_umount_partitions env i1)" "advances fst (auto_partition env j1)" "advances fst (secure_wipe env)"
  "advances fst (utils_generate_fstab env)" "advances id (lvm_del_all env)" "advances fst (utils_set_hostname env o1)"
  "advances fst (utils_set_locale env p1)" "advances fst (set_xkbmap env q1)" "advances fst (select_keymap r0)"
  "advances fst (load_keymap env)" "advances fst (set_timezone env u1)" "advances fst (set_hw_clock env v1)"
  "advances fst (utils_create_new_user env w1 w2 w3)" "advances fst (utils_set_root_password env x1)"
  "advances fst (utils_enable_autologin env y1 y2)" "advances fst (grub_mkconfig env)"
  "advances fst (utils_get_pkglist_base env A1 A2 A3)" "advances fst (utils_get_pkglist_desktop env B1 B2)"
  "advances fst (install_from_pkglist env C1)" "advances fst (remove_pkgs env D1)" "advances id (finish_zfs env F1)"
  "advances fst (enable_services env)" "advances fst (install_desktop env H1 H2)" "advances id (list_mounted env)"
  "advances id (list_containing_crypt env)" "advances id (list_non_crypt env)" "advances fst (check_mount env)"
  "advances fst (check_base env)" "advances id (mount_efivarfs env)" "advances fst (id_system env)"
  "advances id (install_cachyos_repo env P1 P2)" "advances id (handle_connection env Q1 Q2)"
  "advances id (setup_luks_keyfile env)" "advances id (final_checklist env S1 S2)" "advances fst (final_check env)"
  unfolding follow_process_log_widget_def run_or_follow_def check_root_def utils_arch_chroot_def inst_needed_def
    utils_umount_partitions_def auto_partition_def secure_wipe_def utils_generate_fstab_def lvm_del_all_def
    utils_set_hostname_def utils_set_locale_def set_xkbmap_def select_keymap_def load_keymap_def set_timezone_def
    set_hw_clock_def utils_create_new_user_def utils_set_root_password_def utils_enable_autologin_def grub_mkconfig_def
    utils_get_pkglist_base_def utils_get_pkglist_desktop_def install_from_pkglist_def remove_pkgs_def finish_zfs_def
    enable_services_def install_desktop_def list_mounted_def list_containing_crypt_def list_non_crypt_def check_mount_def
    check_base_def mount_efivarfs_def id_system_def install_cachyos_repo_def handle_connection_def setup_luks_keyfile_def
    final_checklist_def final_check_def
  by (intro advancing)+

lemma advances_Settings [advancing]:
  "advances fst (set_string_field a0 a1)" "advances fst (require_string b0 b1 b2 b3)" "advances fst (optional_string c0 c1 c2)"
  "advances fst (optional_bool d0 d1 d2)" "advances fst (set_menus g0)" "advances fst (require_partitions i0 i1 i2)"
  "advances fst (require_user j0 j1)"
  unfolding set_string_field_def require_string_def optional_string_def optional_bool_def set_menus_def require_partitions_def
    require_user_def
  by (intro advancing)+

lemma advances_go_on: "(\<And>a. a \<in> set acts \<Longrightarrow> advances fst a) \<Longrightarrow> advances fst (go_on acts)"
proof (induction acts)
  case Nil
  show ?case unfolding go_on.simps by (intro advancing)
next
  case (Cons x xs)
  show ?case unfolding go_on.simps by (intro advancing Cons) (use Cons.prems in auto)
qed

lemma advances_parse_config [advancing]: "advances fst (parse_config parse_json)"
  unfolding parse_config_def read_settings_def required_settings_def later_fields_def
  by (intro advancing advances_go_on) (auto intro!: advances_Settings)

lemma advances_Install_Base [advancing]:
  "advances fst (recheck_luks env)" "advances id (raid_diagnostics env)" "advances fst (raid_flag)"
  "advances fst (setup_base env d1 d2 d3)" "advances fst (install_base env g1 g2 g3)"
  unfolding recheck_luks_def raid_diagnostics_def raid_flag_def setup_base_def install_base_def
  by (intro advancing)+

lemma advances_boot_cryptparts [advancing]: 
  "(\<And>c. advances fst (f c)) \<Longrightarrow> advances fst (utils_check_cryptparts env name f parts)"
proof (induction parts)
  case Nil
  show ?case unfolding utils_check_cryptparts.simps by (intro advancing)
next
  case (Cons x xs)
  show ?case unfolding utils_check_cryptparts.simps by (intro advancing Cons)
qed

lemma advances_ignored [advancing]:
  "advances id act \<Longrightarrow> advances id (ignored act)" "advances id cond \<Longrightarrow> advances id (must cond)"
  unfolding ignored_def must_def by (intro advancing; assumption)+

lemma advances_any_checked [advancing]: "advances id (any_checked env cmds)"
proof (induction cmds)
  case Nil
  show ?case unfolding any_checked.simps by (intro advancing)
next
  case (Cons x xs)
  show ?case unfolding any_checked.simps by (intro advancing Cons)
qed

lemma advances_Boot_Setup [advancing]:
  "advances fst (found_luks_on_lvm a0 a1)" "advances fst (found_lvm_on_luks env b1 b2)"
  "advances fst (found_luks_alone env c1 c2)" "advances fst (find_cryptdevice env d1)" "advances fst (get_cryptroot env)"
  "advances fst (get_cryptboot env)" "advances fst (boot_encrypted_setting env)" "advances fst (utils_get_kernel_params)"
  "advances id (is_volume_removable env)" "advances id (zfs_grub env m1 m2 m3 m4)" "advances id (no_savedefault env o1 o2)"
  "advances id (drop_grub_btrfs env p1)" "advances id (add_luks env q1 q2)" "advances fst (add_fde r0)"
  "advances id (unmount_hostlvm env)" "advances id (uefi_grub_config env u1 u2 u3)" "advances id (copy_default_efi env v1)"
  "advances fst (install_grub_uefi env w1 w2)" "advances fst (utils_install_refind env)"
  "advances fst (utils_install_systemd_boot env)" "advances fst (utils_install_limine env)"
  "advances fst (uefi_bootloader env A1)" "advances id (bios_grub_config env B1 B2 B3 B4)"
  "advances fst (bios_bootloader env C1)" "advances fst (install_bootloader env D1)"
  unfolding found_luks_on_lvm_def found_lvm_on_luks_def found_luks_alone_def find_cryptdevice_def get_cryptroot_def
    get_cryptboot_def boot_encrypted_setting_def utils_get_kernel_params_def is_volume_removable_def zfs_grub_def
    no_savedefault_def drop_grub_btrfs_def add_luks_def add_fde_def unmount_hostlvm_def uefi_grub_config_def
    copy_default_efi_def install_grub_uefi_def utils_install_refind_def utils_install_systemd_boot_def utils_install_limine_def
    uefi_bootloader_def bios_grub_config_def bios_bootloader_def install_bootloader_def
  by (intro advancing)+

lemma advances_ask_mountpoints [advancing]: "advances fst (ask_mountpoints mnt subvols)"
proof (induction subvols)
  case Nil
  show ?case unfolding ask_mountpoints.simps by (intro advancing)
next
  case (Cons x xs)
  show ?case unfolding ask_mountpoints.simps by (intro advancing Cons)
qed

lemma advances_vg_sizes [advancing]: "advances id (vg_sizes env vgs)"
proof (induction vgs)
  case Nil
  show ?case unfolding vg_sizes.simps by (intro advancing)
next
  case (Cons x xs)
  show ?case unfolding vg_sizes.simps by (intro advancing Cons)
qed

lemma advances_Disk [advancing]:
  "advances id (append_and_find a0 a1 a2)" "advances id (create_and_append env b1 b2 b3 b4)"
  "advances fst (manual_subvols env c1 c2 c3)" "advances fst (disk_btrfs_create_subvols env d1 d2 d3 d4)"
  "advances id (rotational_queue env g1)" "advances id (mount_and_append env i1 i2 i3 i4 i5)"
  "advances fst (mount_existing_subvols env j1 j2)" "advances id (lvm_show_vg env)" "advances fst (remember_zpool l0)"
  "advances fst (zfs_auto_pres env m1 m2)" "advances fst (disk_zfs_create_zpool env o1 o2)"
  "advances fst (select_filesystem env p1)" "advances fst (store_crypt_info q0)"
  "advances fst (disk_mount_partition env r1 r2 r3 r4)"
  unfolding append_and_find_def create_and_append_def manual_subvols_def disk_btrfs_create_subvols_def rotational_queue_def
    mount_and_append_def mount_existing_subvols_def lvm_show_vg_def remember_zpool_def zfs_auto_pres_def
    disk_zfs_create_zpool_def select_filesystem_def store_crypt_info_def disk_mount_partition_def
  by (intro advancing)+

lemma advances_Tui_Disks [advancing]:
  "advances fst (select_device env)" "advances fst (show_devices env)" "advances fst (tui_auto_partition env c1)"
  "advances fst (create_partitions env d1)" "advances fst (search_partitions env g1)" "advances fst (tui_lvm_detect env)"
  "advances fst (lvm_del_vg env)" "advances fst (lvm_menu_choice env k1)" "advances fst (lvm_menu env)"
  "advances fst (del_all_round m0)" "advances fst (tui_lvm_del_all)"
  unfolding select_device_def show_devices_def tui_auto_partition_def create_partitions_def search_partitions_def
    tui_lvm_detect_def lvm_del_vg_def lvm_menu_choice_def lvm_menu_def del_all_round_def tui_lvm_del_all_def
  by (intro advancing)+

lemma advances_Crypto [advancing]:
  "advances fst (select_crypt_partition a0)" "advances fst (get_cryptname)" "advances fst (get_crypt_password)"
  "advances fst (ask_credentials)" "advances fst (open_selected env)" "advances fst (luks_open env i1 i2)"
  "advances fst (luks_setup env j1 j2)" "advances fst (luks_encrypt env k1)" "advances fst (luks_default env)"
  "advances fst (luks_key_define env)" "advances fst (luks_express env)" "advances fst (luks_show env)"
  "advances fst (luks_menu_choice env q1 q2 q3)" "advances fst (luks_menu_advanced env r1 r2)"
  unfolding select_crypt_partition_def get_cryptname_def get_crypt_password_def ask_credentials_def open_selected_def
    luks_open_def luks_setup_def luks_encrypt_def luks_default_def luks_key_define_def luks_express_def luks_show_def
    luks_menu_choice_def luks_menu_advanced_def
  by (intro advancing)+

end
