(* ===== verification/Tui_Mount.thy ===== *)
theory Tui_Mount
  imports Advance_Installer
begin

section \<open>File system and mount screens (src/tui.cpp, src/misc.cpp)\<close>

text \<open>
  Choosing file systems and mount options, and mounting the root, swap, boot and further partitions of the advanced
  installation.  A scheme changed through a reference is an argument and a result.  What the standard library leaves in a
  string that was moved away is the parameter \<open>moved\<close>.
\<close>

subsection \<open>After mounting (misc.cpp)\<close>

definition forget_partition :: "string list \<Rightarrow> string \<Rightarrow> string list" where
  "forget_partition partitions part = filter (\<lambda>x. \<not> contains x part) partitions"

definition is_mounted_cmd :: "string \<Rightarrow> string" where
  "is_mounted_cmd part_user = ''mount | grep -q '' @ part_user"

definition confirm_mount :: "'m sysenv \<Rightarrow> string \<Rightarrow> bool \<Rightarrow> ('m, bool) app" where
  "confirm_mount env part_user quite = do {
     is_mounted \<leftarrow> (if ndevenv env then lift_io (exec_checked env (is_mounted_cmd part_user)) else ret True);
     if \<not> quite \<and> \<not> is_mounted then do { u \<leftarrow> notice ''\<newline>Mount Failed!\<newline>''; ret False }
     else do {
       part \<leftarrow> cfg_str ''PARTITION'';
       partitions \<leftarrow> cfg_strs ''PARTITIONS'';
       number_partitions \<leftarrow> cfg_int ''NUMBER_PARTITIONS'';
       u \<leftarrow> (if \<not> quite then notice ''\<newline>Mount Successful!\<newline>'' else ret ());
       u \<leftarrow> cfg_set ''PARTITIONS'' (CStrs (forget_partition partitions part));
       u \<leftarrow> cfg_set ''NUMBER_PARTITIONS'' (CInt (number_partitions - 1));
       ret True
     }
   }"

subsection \<open>File systems and mount options\<close>

definition btrfsvols_body :: string where
  "btrfsvols_body = (''\<newline>Automatic mode\<newline>is designed to allow integration\<newline>with snapper, non-recursive ''
        @ ''snapshots,\<newline>separating system and user data and\<newline>restoring snapshots without ''
        @ ''losing data.\<newline>'')"

definition btrfs_subvolumes :: "'m sysenv \<Rightarrow> fs_partition sorter \<Rightarrow> fs_partition list \<Rightarrow> ('m, fs_partition list) app" where
  "btrfs_subvolumes env srt partitions = do {
     btrfsvols_mode \<leftarrow> pick_entry [''automatic'', ''manual''] btrfsvols_body;
     case btrfsvols_mode of
       None \<Rightarrow> ret partitions
     | Some mode \<Rightarrow> disk_btrfs_create_subvols env srt partitions mode False
   }"

definition fs_entries :: "(string \<times> string) list" where
  "fs_entries =
     [(''skip'', ''Do not format -''), (''btrfs'', ''btrfs mkfs.btrfs -f''), (''ext4'', ''ext4 mkfs.ext4 -q''),
      (''f2fs'', ''f2fs mkfs.f2fs -q''), (''xfs'', ''xfs mkfs.xfs -f'')]"

definition select_fs_and_cmd :: "('m, (string \<times> string) option) app" where
  "select_fs_and_cmd = do {
     selected \<leftarrow> menu (map snd fs_entries) '''';
     ret (map_option (\<lambda>i. case fs_entries ! i of (fs_name, mkfs_command) \<Rightarrow>
            (fs_name, if fs_name = ''skip'' then '''' else mkfs_command)) selected)
   }"

definition tui_select_filesystem :: "'m sysenv \<Rightarrow> ('m, bool) app" where
  "tui_select_filesystem env = do {
     u \<leftarrow> cfg_set ''fs_opts'' (CStrs []);
     fs_selection \<leftarrow> select_fs_and_cmd;
     case fs_selection of
       None \<Rightarrow> ret False
     | Some (fs_name, mkfs_command) \<Rightarrow>
         if fs_name = ''skip'' then ret True
         else do {
           u \<leftarrow> select_filesystem env fs_name;
           file_sys \<leftarrow> cfg_str ''FILESYSTEM'';
           part \<leftarrow> cfg_str ''PARTITION'';
           do_mount \<leftarrow> yesno (''\<newline>Mount '' @ file_sys @ ''\<newline> \<newline>! Data on '' @ part @ '' will be lost !\<newline>'');
           u \<leftarrow> (if do_mount \<and> ndevenv env
             then lift_io (do { out \<leftarrow> exec env (file_sys @ '' '' @ part) False; ret () }) else ret ());
           ret True
         }
   }"

definition default_opt :: "bool \<Rightarrow> string \<Rightarrow> bool" where
  "default_opt rotational fs_opt \<longleftrightarrow>
     (if rotational then fs_opt = ''autodefrag'' \<or> fs_opt = ''compress=zlip'' \<or> fs_opt = ''nossd''
      else fs_opt = ''compress=lzo'' \<or> fs_opt = ''space_cache'' \<or> fs_opt = ''commit=120'' \<or> fs_opt = ''ssd'') \<or>
     fs_opt = ''noatime''"

definition cleanup_mount_opts :: "'m sysenv \<Rightarrow> string \<Rightarrow> ('m, string) io" where
  "cleanup_mount_opts env opts_info = do {
     opts_info \<leftarrow> exec env (''echo '' @ squote @ opts_info @ squote @ '' | sed '' @ squote @ ''s/ /,/g'' @ squote) False;
     exec env (''echo '' @ squote @ opts_info @ squote @ '' | sed '' @ squote @ ''$s/,$//'' @ squote) False
   }"

definition mount_options_body :: string where
  "mount_options_body = (''\<newline>Use [Space] to de/select the desired mount\<newline>options and review carefully. ''
        @ ''Please do not\<newline>select multiple versions of the same option.\<newline>'')"

definition select_mount_opts :: "'m sysenv \<Rightarrow> string \<Rightarrow> string \<Rightarrow> bool \<Rightarrow> ('m, string) app" where
  "select_mount_opts env part fs_name force = do {
     fs_opts \<leftarrow> cfg_strs ''fs_opts'';
     if fs_opts = [] then ret ''''
     else do {
       rotational \<leftarrow> lift_io (rotational_queue env part);
       let fs_opts_state = map (default_opt rotational) fs_opts;
       if force then lift_io (cleanup_mount_opts env (from_checklist_string fs_opts fs_opts_state))
       else do {
         file_sys_formatted \<leftarrow> lift_io (exec env (''echo '' @ fs_name @ '' | sed '' @ squote @ ''s/.*'' @ backslash @ ''.//g;s/-.*//g'' @ squote) False);
         marks \<leftarrow> checklist fs_opts mount_options_body;
         mount_opts_info \<leftarrow> lift_io (cleanup_mount_opts env
           (case marks of None \<Rightarrow> '''' | Some state \<Rightarrow> from_checklist_string fs_opts state));
         if mount_opts_info = '''' then ret ''''
         else do {
           do_mount \<leftarrow> yesno (''Confirm the following mount options:'' @ mount_opts_info);
           ret (if \<not> do_mount then '''' else mount_opts_info)
         }
       }
     }
   }"

definition tui_mount_opts :: "'m sysenv \<Rightarrow> bool \<Rightarrow> ('m, unit) app" where
  "tui_mount_opts env force = do {
     file_sys \<leftarrow> cfg_str ''FILESYSTEM'';
     part \<leftarrow> cfg_str ''PARTITION'';
     old \<leftarrow> cfg_str ''MOUNT_OPTS'';
     mount_opts_info \<leftarrow> select_mount_opts env part file_sys force;
     cfg_set ''MOUNT_OPTS'' (CStr mount_opts_info)
   }"

definition mount_current_partition :: "'m sysenv \<Rightarrow> bool \<Rightarrow> ('m, bool) app" where
  "mount_current_partition env force = do {
     mnt \<leftarrow> cfg_str ''MOUNTPOINT'';
     part \<leftarrow> cfg_str ''PARTITION'';
     mount_dev \<leftarrow> cfg_str ''MOUNT'';
     u \<leftarrow> cfg_set ''MOUNT_OPTS'' (CStr '''');
     fs_opts \<leftarrow> cfg_strs ''fs_opts'';
     u \<leftarrow> (if fs_opts \<noteq> [] then tui_mount_opts env force else ret ());
     opts \<leftarrow> cfg_str ''MOUNT_OPTS'';
     mounted \<leftarrow> disk_mount_partition env part mnt mount_dev opts;
     confirm_mount env (mnt @ mount_dev) force
   }"

subsection \<open>Swap\<close>

definition sel_swap_body :: string where
  "sel_swap_body = (''\<newline>Select SWAP Partition.\<newline>If using a Swapfile, it will initially set the same ''
        @ ''size as your RAM.\<newline>'')"

definition swap_entries :: "'m sysenv \<Rightarrow> string \<Rightarrow> ('m, string list) app" where
  "swap_entries env mountpoint_info = do {
     root_filesystem \<leftarrow> lift_io (get_mountpoint_fs env mountpoint_info);
     partitions \<leftarrow> cfg_strs ''PARTITIONS'';
     ret (''None -'' # (if root_filesystem = ''zfs'' \<or> root_filesystem = ''btrfs'' then [] else [''Swapfile -'']) @ partitions)
   }"

definition size_unit_cmd :: "string \<Rightarrow> string" where
  "size_unit_cmd val = (''echo '' @ squote @ val @ squote @ '' | grep -q '' @ squote @ ''M'' @ backslash @ ''|G'' @ squote)"

definition swapfile_size_round :: "'m sysenv \<Rightarrow> string \<Rightarrow> string \<Rightarrow> ('m, string + string option) app" where
  "swapfile_size_round env total_memory val = do {
     valid \<leftarrow> lift_io (exec_checked env (size_unit_cmd val));
     if valid then ret (Inr (Some val))
     else do {
       u \<leftarrow> notice ''\<newline>Swapfile Error: M = MB, G = GB\<newline>'';
       entered \<leftarrow> inputbox (total_memory @ ''M'') ''\<newline>M = MB, G = GB\<newline>'';
       ret (case entered of None \<Rightarrow> Inr None | Some val \<Rightarrow> Inl val)
     }
   }"

definition ask_swapfile_size :: "'m sysenv \<Rightarrow> ('m, string option) app" where
  "ask_swapfile_size env = do {
     total_memory \<leftarrow> lift_io (exec env (''grep MemTotal /proc/meminfo | awk '' @ squote @ ''{print $2/1024}'' @ squote @ '' | sed '' @ squote @ ''s/''
        @ backslash @ ''..*//'' @ squote) False);
     entered \<leftarrow> inputbox (total_memory @ ''M'') ''\<newline>M = MB, G = GB\<newline>'';
     case entered of
       None \<Rightarrow> ret None
     | Some val \<Rightarrow> repeat_dialog (swapfile_size_round env total_memory) None val
   }"

definition use_swapfile :: "'m sysenv \<Rightarrow> string \<Rightarrow> ('m, unit) app" where
  "use_swapfile env mountpoint_info = do {
     sz \<leftarrow> ask_swapfile_size env;
     case sz of
       None \<Rightarrow> ret ()
     | Some val \<Rightarrow>
         if ndevenv env then do {
           made \<leftarrow> lift_io (make_swapfile env mountpoint_info val);
           if \<not> made then ret () else cfg_set ''SWAP_DEVICE'' (CStr (mountpoint_info @ ''/swapfile''))
         }
         else ret ()
   }"

definition use_swap_partition :: "'m sysenv \<Rightarrow> string \<Rightarrow> fs_partition list \<Rightarrow> ('m, fs_partition list) app" where
  "use_swap_partition env part partition_schema = do {
     partitions \<leftarrow> cfg_strs ''PARTITIONS'';
     number_partitions \<leftarrow> cfg_int ''NUMBER_PARTITIONS'';
     let swap_partition = empty_partition\<lparr>fstype := ''linuxswap'', device := part, mount_opts := ''defaults''\<rparr>;
     swap_part \<leftarrow> lift_io (exec env (''lsblk '' @ part @ '' -o FSTYPE | grep -i '' @ squote @ ''swap'' @ squote) False);
     do_swap \<leftarrow> (if swap_part \<noteq> ''swap'' then yesno (''\<newline>mkswap '' @ part @ ''\<newline>'') else ret True);
     if \<not> do_swap then ret partition_schema
     else do {
       made \<leftarrow> (if ndevenv env then lift_io (make_swap_partition env swap_partition) else ret True);
       if \<not> made then ret partition_schema
       else do {
         u \<leftarrow> (if ndevenv env then cfg_set ''SWAP_DEVICE'' (CStr part) else ret ());
         part_uuid \<leftarrow> lift_io (get_device_uuid env part);
         u \<leftarrow> cfg_set ''PARTITIONS'' (CStrs (forget_partition partitions part));
         u \<leftarrow> cfg_set ''NUMBER_PARTITIONS'' (CInt (number_partitions - 1));
         ret (partition_schema @ [swap_partition\<lparr>uuid_str := part_uuid\<rparr>])
       }
     }
   }"

definition make_swap :: "'m sysenv \<Rightarrow> fs_partition list \<Rightarrow> ('m, fs_partition list) app" where
  "make_swap env partition_schema = do {
     mountpoint_info \<leftarrow> cfg_str ''MOUNTPOINT'';
     entries \<leftarrow> swap_entries env mountpoint_info;
     picked \<leftarrow> pick_word entries sel_swap_body;
     case picked of
       None \<Rightarrow> ret partition_schema
     | Some answer \<Rightarrow> do {
         old \<leftarrow> cfg_str ''PARTITION'';
         if answer = ''None'' then ret partition_schema
         else do {
           u \<leftarrow> cfg_set ''PARTITION'' (CStr answer);
           if answer = ''Swapfile'' then do { u \<leftarrow> use_swapfile env mountpoint_info; ret partition_schema }
           else use_swap_partition env answer partition_schema
         }
       }
   }"

subsection \<open>The boot partition\<close>

definition esp_part_body :: string where
  "esp_part_body = ''\<newline>Select BOOT partition.\<newline>''"

definition is_fat_cmd :: "string \<Rightarrow> string" where
  "is_fat_cmd part = ''fsck -N '' @ part @ '' | grep -q fat''"

definition mkfs_vfat_cmd :: "string \<Rightarrow> string" where
  "mkfs_vfat_cmd part = ''mkfs.vfat -F32 '' @ part @ '' &>/dev/null''"

definition reformat_esp :: "'m sysenv \<Rightarrow> string \<Rightarrow> ('m, unit) app" where
  "reformat_esp env part = do {
     is_fat_part \<leftarrow> lift_io (exec_checked env (is_fat_cmd part));
     do_boot_partition \<leftarrow> (if \<not> is_fat_part
       then yesno (''\<newline>The UEFI partition '' @ part
        @ '' has already been formatted.\<newline> \<newline>Reformat? Doing so will erase ALL data already ''
        @ ''on that partition.\<newline>'')
       else ret False);
     lift_io (if do_boot_partition \<and> ndevenv env then do { out \<leftarrow> exec env (mkfs_vfat_cmd part) False; ret () } else ret ())
   }"

definition mount_esp_at :: "'m sysenv \<Rightarrow> string \<Rightarrow> string \<Rightarrow> ('m, unit) io" where
  "mount_esp_at env part part_mountpoint =
     (if ndevenv env then do {
        out \<leftarrow> exec env (''mkdir -p '' @ part_mountpoint) False;
        out \<leftarrow> exec env (''mount '' @ part @ '' '' @ part_mountpoint) False;
        ret ()
      }
      else ret ())"

definition esp_entry :: "'m sysenv \<Rightarrow> string \<Rightarrow> string \<Rightarrow> string \<Rightarrow> ('m, fs_partition) io" where
  "esp_entry env part uefi_mount part_mountpoint = do {
     part_fs \<leftarrow> get_mountpoint_fs env part_mountpoint;
     part_uuid \<leftarrow> get_device_uuid env part;
     ret (empty_partition\<lparr>fstype := part_fs, mountpoint := uefi_mount, uuid_str := part_uuid, device := part,
            mount_opts := ''defaults''\<rparr>)
   }"

definition mnt_uefi_body :: string where
  "mnt_uefi_body = (''\<newline>Select UEFI Mountpoint.\<newline> \<newline>/boot/efi is recommended for multiboot ''
        @ ''systems.\<newline>/boot is required for systemd-boot.\<newline>'')"

definition mnt_uefi_crypt :: string where
  "mnt_uefi_crypt = (''\<newline>Select UEFI Mountpoint.\<newline> \<newline>/boot/efi is recommended for multiboot ''
        @ ''systems and required for full disk encryption.\<newline>Encrypted /boot is supported only by ''
        @ ''grub and can lead to slow startup.\<newline> \<newline>/boot is required for systemd-boot and ''
        @ ''for refind when using encryption.\<newline>'')"

definition tui_make_esp :: "'m sysenv \<Rightarrow> fs_partition list \<Rightarrow> ('m, fs_partition list) app" where
  "tui_make_esp env partitions = do {
     sys_info \<leftarrow> cfg_str ''SYSTEM'';
     if sys_info \<noteq> ''UEFI'' then ret partitions
     else do {
       partitions_list \<leftarrow> cfg_strs ''PARTITIONS'';
       picked \<leftarrow> pick_word partitions_list esp_part_body;
       case picked of
         None \<Rightarrow> ret partitions
       | Some part \<Rightarrow> do {
           luks \<leftarrow> cfg_int ''LUKS'';
           old \<leftarrow> cfg_str ''PARTITION'';
           u \<leftarrow> cfg_set ''PARTITION'' (CStr part);
           u \<leftarrow> cfg_set ''UEFI_MOUNT'' (CStr '''');
           u \<leftarrow> cfg_set ''UEFI_PART'' (CStr part);
           u \<leftarrow> reformat_esp env part;
           answer \<leftarrow> pick_entry [''/boot/efi'', ''/boot''] (if luks = 0 then mnt_uefi_body else mnt_uefi_crypt);
           case answer of
             None \<Rightarrow> ret partitions
           | Some uefi_mount \<Rightarrow> do {
               mountpoint_info \<leftarrow> cfg_str ''MOUNTPOINT'';
               old \<leftarrow> cfg_str ''UEFI_MOUNT'';
               u \<leftarrow> cfg_set ''UEFI_MOUNT'' (CStr uefi_mount);
               u \<leftarrow> lift_io (mount_esp_at env part (mountpoint_info @ uefi_mount));
               confirmed \<leftarrow> confirm_mount env (mountpoint_info @ uefi_mount) False;
               boot_part \<leftarrow> lift_io (esp_entry env part uefi_mount (mountpoint_info @ uefi_mount));
               ret (partitions @ [boot_part])
             }
         }
     }
   }"

subsection \<open>The root partition\<close>

record root_partition_selection =
  rs_device :: string
  rs_fstype :: string
  rs_mkfs_command :: string
  rs_mount_opts :: string
  rs_format_requested :: bool

definition sel_root_body :: string where
  "sel_root_body = ''\<newline>Select ROOT Partition.\<newline>This is where CachyOS will be installed.\<newline>''"

definition select_root_partition_info :: "'m sysenv \<Rightarrow> ('m, root_partition_selection option) app" where
  "select_root_partition_info env = do {
     partitions_lines \<leftarrow> cfg_strs ''PARTITIONS'';
     picked \<leftarrow> pick_word partitions_lines sel_root_body;
     case picked of
       None \<Rightarrow> ret None
     | Some dev \<Rightarrow> do {
         u \<leftarrow> cfg_set ''PARTITION'' (CStr dev);
         u \<leftarrow> cfg_set ''ROOT_PART'' (CStr dev);
         u \<leftarrow> cfg_set ''MOUNT'' (CStr '''');
         fs_selection \<leftarrow> select_fs_and_cmd;
         case fs_selection of
           None \<Rightarrow> ret None
         | Some (fs_name, mkfs_cmd) \<Rightarrow> do {
             opts \<leftarrow> (if fs_name \<noteq> ''skip'' then select_mount_opts env dev fs_name False else ret ''defaults'');
             ret (Some \<lparr>rs_device = dev, rs_fstype = fs_name, rs_mkfs_command = mkfs_cmd, rs_mount_opts = opts,
                        rs_format_requested = (mkfs_cmd \<noteq> '''')\<rparr>)
           }
       }
   }"

definition format_warning :: "root_partition_selection \<Rightarrow> string" where
  "format_warning selection =
     (''\<newline>Format '' @ rs_device selection @ '' with '' @ rs_fstype selection
        @ ''?\<newline> \<newline>! WARNING: Data on '' @ rs_device selection @ '' will be lost !\<newline>'')"

definition format_cmd :: "root_partition_selection \<Rightarrow> string" where
  "format_cmd selection = rs_mkfs_command selection @ '' '' @ rs_device selection"

definition format_root :: "'m sysenv \<Rightarrow> root_partition_selection \<Rightarrow> ('m, bool) app" where
  "format_root env selection =
     (if \<not> rs_format_requested selection then ret True
      else do {
        do_format \<leftarrow> yesno (format_warning selection);
        if \<not> do_format then ret False
        else if ndevenv env then lift_io (exec_checked env (format_cmd selection)) else ret True
      })"

definition with_luks_info :: "string \<Rightarrow> string \<Rightarrow> fs_partition \<Rightarrow> fs_partition" where
  "with_luks_info name uuid part_struct =
     part_struct\<lparr>luks_mapper_name := (if name \<noteq> '''' then Some name else luks_mapper_name part_struct),
                 luks_uuid := (if uuid \<noteq> '''' then Some uuid else luks_uuid part_struct)\<rparr>"

definition root_entry :: "'m sysenv \<Rightarrow> root_partition_selection \<Rightarrow> string \<Rightarrow> ('m, fs_partition) app" where
  "root_entry env selection mountpoint_info = do {
     mount_fstype \<leftarrow> lift_io (get_mountpoint_fs env mountpoint_info);
     let part_fs = (if mount_fstype = '''' then (if rs_fstype selection = ''skip'' then ''unknown'' else rs_fstype selection)
           else mount_fstype);
     root_part_uuid \<leftarrow> lift_io (get_device_uuid env (rs_device selection));
     luks_name \<leftarrow> cfg_str ''LUKS_NAME'';
     luks_uuid \<leftarrow> cfg_str ''LUKS_UUID'';
     is_luks \<leftarrow> cfg_int ''LUKS'';
     let part_struct = empty_partition\<lparr>fstype := part_fs, mountpoint := ''/'', uuid_str := root_part_uuid,
           device := rs_device selection, mount_opts := rs_mount_opts selection\<rparr>;
     ret (if is_luks \<noteq> 0 then with_luks_info luks_name luks_uuid part_struct else part_struct)
   }"

definition list_subvols_cmd :: "string \<Rightarrow> string" where
  "list_subvols_cmd mount_dir = (''btrfs subvolume list '' @ squote @ mount_dir @ squote @ '' 2>/dev/null | cut -d'' @ squote @ '' '' @ squote
        @ '' -f9'')"

definition offer_subvolumes ::
  "'m sysenv \<Rightarrow> fs_partition sorter \<Rightarrow> string \<Rightarrow> fs_partition list \<Rightarrow> ('m, fs_partition list) app" where
  "offer_subvolumes env srt mountpoint_info partition_schema = do {
     subvolumes \<leftarrow> lift_io (exec env (list_subvols_cmd mountpoint_info) False);
     if subvolumes \<noteq> '''' then do {
       existing_subvolumes \<leftarrow> yesno (''\<newline>Found subvolumes '' @ subvolumes
        @ ''\<newline> \<newline>Would you like to mount them?\<newline> '');
       if existing_subvolumes then mount_existing_subvols env srt partition_schema else ret partition_schema
     }
     else do {
       create_subvolumes \<leftarrow> yesno ''\<newline>Would you like to create subvolumes in it? \<newline>'';
       if create_subvolumes then btrfs_subvolumes env srt partition_schema else ret partition_schema
     }
   }"

text \<open>The file system is looked at after the entry has been moved into the scheme.\<close>

definition apply_root_partition_actions ::
  "'m sysenv \<Rightarrow> fs_partition sorter \<Rightarrow> (string \<Rightarrow> string) \<Rightarrow> root_partition_selection \<Rightarrow> fs_partition list \<Rightarrow>
   ('m, bool \<times> fs_partition list) app" where
  "apply_root_partition_actions env srt moved selection partition_schema = do {
     mountpoint_info \<leftarrow> cfg_str ''MOUNTPOINT'';
     formatted \<leftarrow> format_root env selection;
     if \<not> formatted then ret (False, partition_schema)
     else do {
       luks_name \<leftarrow> cfg_str ''LUKS_NAME'';
       luks_dev \<leftarrow> cfg_str ''LUKS_DEV'';
       luks_uuid \<leftarrow> cfg_str ''LUKS_UUID'';
       is_luks \<leftarrow> cfg_int ''LUKS'';
       is_lvm \<leftarrow> cfg_int ''LVM'';
       u \<leftarrow> cfg_set ''LUKS_NAME'' (CStr '''');
       u \<leftarrow> cfg_set ''LUKS_DEV'' (CStr '''');
       u \<leftarrow> cfg_set ''LUKS_UUID'' (CStr '''');
       u \<leftarrow> cfg_set ''LUKS'' (CInt 0);
       u \<leftarrow> cfg_set ''LVM'' (CInt 0);
       mounted \<leftarrow> disk_mount_partition env (rs_device selection) mountpoint_info mountpoint_info (rs_mount_opts selection);
       root_part \<leftarrow> root_entry env selection mountpoint_info;
       if moved (fstype root_part) = ''btrfs'' then do {
         schema \<leftarrow> offer_subvolumes env srt mountpoint_info (partition_schema @ [root_part]);
         ret (True, schema)
       }
       else ret (True, partition_schema @ [root_part])
     }
   }"

definition zfs_import_cmd :: "string \<Rightarrow> string \<Rightarrow> string" where
  "zfs_import_cmd mountpoint_info zfs_zpool_name =
     ''zfs import -N -R '' @ mountpoint_info @ '' '' @ zfs_zpool_name @ '' &>>/tmp/cachyos-install.log''"

definition choose_root ::
  "'m sysenv \<Rightarrow> fs_partition sorter \<Rightarrow> (string \<Rightarrow> string) \<Rightarrow> fs_partition list \<Rightarrow> ('m, bool \<times> fs_partition list) app" where
  "choose_root env srt moved partitions = do {
     selection_opt \<leftarrow> select_root_partition_info env;
     case selection_opt of
       None \<Rightarrow> ret (False, partitions)
     | Some selection \<Rightarrow> apply_root_partition_actions env srt moved selection partitions
   }"

definition mount_root_partition ::
  "'m sysenv \<Rightarrow> fs_partition sorter \<Rightarrow> (string \<Rightarrow> string) \<Rightarrow> fs_partition list \<Rightarrow> ('m, bool \<times> fs_partition list) app" where
  "mount_root_partition env srt moved partitions = do {
     mountpoint_info \<leftarrow> cfg_str ''MOUNTPOINT'';
     zfs_zpool_names \<leftarrow> cfg_strs ''ZFS_ZPOOL_NAMES'';
     case zfs_zpool_names of
       zfs_zpool_name # others \<Rightarrow>
         if ndevenv env then do {
           imported \<leftarrow> lift_io (exec_checked env (zfs_import_cmd mountpoint_info zfs_zpool_name));
           u \<leftarrow> (if \<not> imported
             then notice (''\<newline>Failed to import ZFS pool '' @ zfs_zpool_name @ ''.\<newline>Check logs for details.\<newline>'') else ret ());
           ret (imported, partitions)
         }
         else ret (True, partitions)
     | [] \<Rightarrow> do {
         mounted_fs \<leftarrow> lift_io (get_mountpoint_fs env mountpoint_info);
         if mounted_fs = ''zfs'' then do { u \<leftarrow> notice (''\<newline>Using ZFS root on '' @ squote @ ''/'' @ squote @ ''\<newline>''); ret (True, partitions) }
         else choose_root env srt moved partitions
       }
   }"

subsection \<open>All partitions\<close>

definition mount_warning :: string where
  "mount_warning = (''\<newline>IMPORTANT: Partitions can be mounted without formatting them\<newline>by selecting '' @ ''the ''
        @ squote @ ''Do not format'' @ squote
        @ '' option listed at the top of\<newline>the file system menu.\<newline> \<newline>Ensure the ''
        @ ''correct choices for mounting and formatting\<newline>are made as no warnings will be provided, ''
        @ ''with the exception of\<newline>the UEFI boot partition.\<newline>'')"

definition extra_part_body :: string where
  "extra_part_body = (''\<newline>Select additional partitions in any order, or '' @ squote @ ''Done'' @ squote
        @ '' to finish.\<newline>'')"

definition extra_part_body1 :: "string \<Rightarrow> string" where
  "extra_part_body1 system_info = (''\<newline>Specify partition mountpoint. Ensure\<newline>the name begins with a forward slash ''
        @ ''(/).\<newline>Examples include:\<newline>''
        @ (if system_info = ''UEFI'' then ''/home\<newline>/var'' else ''/boot\<newline>/home\<newline>/var'')
        @ ''\<newline>'')"

definition bad_mount_dev :: "string \<Rightarrow> bool" where
  "bad_mount_dev mount_dev \<longleftrightarrow> length mount_dev \<le> 1 \<or> mount_dev ! 0 \<noteq> CHR ''/'' \<or> contains mount_dev '' ''"

definition mount_dev_round :: "string \<Rightarrow> string \<Rightarrow> ('m, string + bool) app" where
  "mount_dev_round system_info mount_dev = do {
     u \<leftarrow> cfg_set ''MOUNT'' (CStr mount_dev);
     if \<not> bad_mount_dev mount_dev then ret (Inr True)
     else do {
       u \<leftarrow> notice (''\<newline>Partition cannot be mounted due to a problem with the mountpoint name.\<newline>A ''
        @ ''name must be given after a forward slash.\<newline>'');
       entered \<leftarrow> inputbox ''/'' (extra_part_body1 system_info);
       ret (case entered of None \<Rightarrow> Inr False | Some val \<Rightarrow> Inl val)
     }
   }"

definition ask_mount_dev :: "string \<Rightarrow> ('m, bool) app" where
  "ask_mount_dev system_info = do {
     entered \<leftarrow> inputbox ''/'' (extra_part_body1 system_info);
     case entered of
       None \<Rightarrow> ret False
     | Some val \<Rightarrow> repeat_dialog (mount_dev_round system_info) False val
   }"

definition note_separate_boot :: "'m sysenv \<Rightarrow> string \<Rightarrow> string \<Rightarrow> ('m, unit) app" where
  "note_separate_boot env mount_dev lvm_cmd =
     (if mount_dev = ''/boot'' then do {
        u \<leftarrow> cfg_set ''LVM_SEP_BOOT'' (CInt 1);
        is_boot_lvm \<leftarrow> lift_io (exec_checked env lvm_cmd);
        if is_boot_lvm then cfg_set ''LVM_SEP_BOOT'' (CInt 2) else ret ()
      }
      else ret ())"

definition extra_partition :: "'m sysenv \<Rightarrow> string \<Rightarrow> ('m, fs_partition) app" where
  "extra_partition env part = do {
     confirmed \<leftarrow> mount_current_partition env False;
     mountpoint_info \<leftarrow> cfg_str ''MOUNTPOINT'';
     mount_dev \<leftarrow> cfg_str ''MOUNT'';
     mount_opts_info \<leftarrow> cfg_str ''MOUNT_OPTS'';
     part_fs \<leftarrow> lift_io (get_mountpoint_fs env (mountpoint_info @ mount_dev));
     part_uuid \<leftarrow> lift_io (get_device_uuid env part);
     luks_name \<leftarrow> cfg_str ''LUKS_NAME'';
     luks_uuid \<leftarrow> cfg_str ''LUKS_UUID'';
     u \<leftarrow> note_separate_boot env mount_dev (''lsblk -lno TYPE '' @ part @ '' | grep -q lvm'');
     ret (with_luks_info luks_name luks_uuid (empty_partition\<lparr>fstype := part_fs, mountpoint := mount_dev, uuid_str := part_uuid,
            device := part, mount_opts := mount_opts_info\<rparr>))
   }"

definition finish_partitions :: "'m sysenv \<Rightarrow> fs_partition list \<Rightarrow> ('m, fs_partition list) app" where
  "finish_partitions env partitions = do {
     partitions \<leftarrow> tui_make_esp env partitions;
     u \<leftarrow> get_cryptroot env;
     u \<leftarrow> get_cryptboot env;
     ret partitions
   }"

text \<open>A round of the loop over further partitions: \<open>Inl\<close> goes on with the scheme.\<close>

definition extra_round :: "'m sysenv \<Rightarrow> fs_partition list \<Rightarrow> ('m, fs_partition list + fs_partition list) app" where
  "extra_round env partitions = do {
     number_partitions \<leftarrow> cfg_int ''NUMBER_PARTITIONS'';
     if number_partitions \<le> 0 then ret (Inr partitions)
     else do {
       partitions_lines \<leftarrow> cfg_strs ''PARTITIONS'';
       picked \<leftarrow> pick_word (''Done -'' # partitions_lines) extra_part_body;
       case picked of
         None \<Rightarrow> ret (Inr partitions)
       | Some part \<Rightarrow> do {
           u \<leftarrow> cfg_set ''PARTITION'' (CStr part);
           if part = ''Done'' then do { partitions \<leftarrow> finish_partitions env partitions; ret (Inr partitions) }
           else do {
             u \<leftarrow> cfg_set ''MOUNT'' (CStr '''');
             chosen \<leftarrow> tui_select_filesystem env;
             system_info \<leftarrow> cfg_str ''SYSTEM'';
             asked \<leftarrow> ask_mount_dev system_info;
             if \<not> asked then ret (Inr partitions)
             else do { part_struct \<leftarrow> extra_partition env part; ret (Inl (partitions @ [part_struct])) }
           }
         }
     }
   }"

definition mount_partitions ::
  "'m sysenv \<Rightarrow> mtab_entry sorter \<Rightarrow> fs_partition sorter \<Rightarrow> (string \<Rightarrow> string) \<Rightarrow> ('m, fs_partition list) app" where
  "mount_partitions env sort_mtab srt moved = do {
     u \<leftarrow> notice mount_warning;
     u \<leftarrow> tui_lvm_detect env;
     u \<leftarrow> cfg_set ''INCLUDE_PART'' (CStr (''part'' @ backslash @ ''|lvm'' @ backslash @ ''|crypt''));
     u \<leftarrow> utils_umount_partitions env sort_mtab;
     u \<leftarrow> lift_io (zfs_mount_all env);
     u \<leftarrow> search_partitions env srt;
     mounted \<leftarrow> lift_io (list_mounted env);
     devs \<leftarrow> lift_io (zfs_list_devs env);
     crypt \<leftarrow> lift_io (list_containing_crypt env);
     (root_ok, partitions) \<leftarrow> mount_root_partition env srt moved [];
     if \<not> root_ok then ret partitions
     else do {
       partitions \<leftarrow> make_swap env partitions;
       system_info \<leftarrow> cfg_str ''SYSTEM'';
       part \<leftarrow> cfg_str ''PARTITION'';
       repeat_dialog (extra_round env) partitions partitions
     }
   }"

subsection \<open>The screens only advance the world\<close>

lemma advances_Tui_Mount [advancing]:
  "advances fst (confirm_mount env a1 a2)" "advances fst (btrfs_subvolumes env b1 b2)" "advances fst (select_fs_and_cmd)"
  "advances fst (tui_select_filesystem env)" "advances id (cleanup_mount_opts env g1)"
  "advances fst (select_mount_opts env i1 i2 i3)" "advances fst (tui_mount_opts env j1)"
  "advances fst (mount_current_partition env k1)" "advances fst (swap_entries env l1)"
  "advances fst (swapfile_size_round env m1 m2)" "advances fst (ask_swapfile_size env)" "advances fst (use_swapfile env p1)"
  "advances fst (use_swap_partition env q1 q2)" "advances fst (make_swap env r1)" "advances fst (reformat_esp env t1)"
  "advances id (mount_esp_at env u1 u2)" "advances id (esp_entry env v1 v2 v3)" "advances fst (tui_make_esp env w1)"
  "advances fst (select_root_partition_info env)" "advances fst (format_root env y1)" "advances fst (root_entry env z1 z2)"
  "advances fst (offer_subvolumes env A1 A2 A3)" "advances fst (apply_root_partition_actions env B1 B2 B3 B4)"
  "advances fst (choose_root env C1 C2 C3)" "advances fst (mount_root_partition env D1 D2 D3)"
  "advances fst (mount_dev_round F0 F1)" "advances fst (ask_mount_dev G0)" "advances fst (note_separate_boot env H1 H2)"
  "advances fst (extra_partition env I1)" "advances fst (finish_partitions env J1)" "advances fst (extra_round env K1)"
  "advances fst (mount_partitions env L1 L2 L3)"
  unfolding confirm_mount_def btrfs_subvolumes_def select_fs_and_cmd_def tui_select_filesystem_def cleanup_mount_opts_def
    select_mount_opts_def tui_mount_opts_def mount_current_partition_def swap_entries_def swapfile_size_round_def
    ask_swapfile_size_def use_swapfile_def use_swap_partition_def make_swap_def reformat_esp_def mount_esp_at_def esp_entry_def
    tui_make_esp_def select_root_partition_info_def format_root_def root_entry_def offer_subvolumes_def
    apply_root_partition_actions_def choose_root_def mount_root_partition_def mount_dev_round_def ask_mount_dev_def
    note_separate_boot_def extra_partition_def finish_partitions_def extra_round_def mount_partitions_def
  by (intro advancing)+

interpretation swapfile_size: dialogue "swapfile_size_round env total_memory" for env total_memory
  unfolding swapfile_size_round_def
  by (intro dialogue_one_round one_round_bind [of "lift_io m" for m] one_round_if one_round_done one_round_bind [of "notice t" for t]
      one_round_inputbox advancing) (simp_all add: one_round_done)

interpretation mount_dev: dialogue "mount_dev_round system_info" for system_info
  unfolding mount_dev_round_def
  by (intro dialogue_one_round one_round_bind [of "cfg_set k v" for k v] one_round_if one_round_done one_round_bind [of "notice t" for t]
      one_round_inputbox advancing) (simp_all add: one_round_done)

interpretation extra: dialogue "extra_round env" for env
  unfolding extra_round_def
  by (intro dialogue_one_round one_round_bind [of "cfg_int k" for k] one_round_bind [of "cfg_strs k" for k] one_round_if one_round_done
      one_round_pick_word advancing) (simp_all add: one_round_done)

subsection \<open>Formatting the root\<close>

lemma run_pick_word:
  assumes "status w = Running" "user_answers w = Pick i # later" "min i (length entries - 1) < length entries"
    "make_multiline (entries ! min i (length entries - 1)) False space_char = line # lines"
  shows "run_state (pick_word entries content) (w, c) =
    (Some line, (w\<lparr>user_answers := later, trace := trace w @ [Asked content entries (Pick i)]\<rparr>, c))"
  using assms by (simp add: pick_word_def pick_entry_def run_menu entry_at_def first_word_def)

lemma chosen_fs:
  assumes "run_state select_fs_and_cmd s = (Some (fs_name, cmd), s')"
  shows "fs_name = ''skip'' \<and> cmd = '''' \<or>
    fs_name \<in> {''btrfs'', ''ext4'', ''f2fs'', ''xfs''} \<and> (\<exists>args \<in> {''-f'', ''-q''}. cmd = fs_name @ '' mkfs.'' @ fs_name @ '' '' @ args)"
proof -
  obtain sel t where m: "run_state (menu (map snd fs_entries) '''') s = (sel, t)"
      and k: "map_option (\<lambda>i. case fs_entries ! i of (fs_name, mkfs_command) \<Rightarrow>
            (fs_name, if fs_name = ''skip'' then '''' else mkfs_command)) sel = Some (fs_name, cmd)"
    using assms unfolding select_fs_and_cmd_def by (rule run_bind_obtain) simp
  then obtain i where i: "sel = Some i" "i \<le> 4"
    by (cases s) (auto simp: menu_def run_lift_io fs_entries_def split: answer.splits)
  then have "i = 0 \<or> i = 1 \<or> i = 2 \<or> i = 3 \<or> i = 4" by arith
  with i k show ?thesis by (auto simp: fs_entries_def)
qed

text \<open>What is known of a selection.\<close>

definition sound_selection :: "root_partition_selection \<Rightarrow> bool" where
  "sound_selection selection \<longleftrightarrow> (rs_format_requested selection \<longrightarrow>
     (\<exists>fs \<in> {''btrfs'', ''ext4'', ''f2fs'', ''xfs''}. \<exists>args \<in> {''-f'', ''-q''}. rs_fstype selection = fs \<and>
        rs_mkfs_command selection = fs @ '' mkfs.'' @ fs @ '' '' @ args))"

lemma selection_sound:
  assumes "run_state (select_root_partition_info env) s = (Some selection, s')"
  shows "sound_selection selection"
proof -
  obtain lines t1 where k1: "run_state (do { picked \<leftarrow> pick_word lines sel_root_body;
     case picked of
       None \<Rightarrow> ret None
     | Some dev \<Rightarrow> do {
         u \<leftarrow> cfg_set ''PARTITION'' (CStr dev);
         u \<leftarrow> cfg_set ''ROOT_PART'' (CStr dev);
         u \<leftarrow> cfg_set ''MOUNT'' (CStr '''');
         fs_selection \<leftarrow> select_fs_and_cmd;
         case fs_selection of
           None \<Rightarrow> ret None
         | Some (fs_name, mkfs_cmd) \<Rightarrow> do {
             opts \<leftarrow> (if fs_name \<noteq> ''skip'' then select_mount_opts env dev fs_name False else ret ''defaults'');
             ret (Some \<lparr>rs_device = dev, rs_fstype = fs_name, rs_mkfs_command = mkfs_cmd, rs_mount_opts = opts,
                        rs_format_requested = (mkfs_cmd \<noteq> '''')\<rparr>)
           }
       } }) t1 = (Some selection, s')"
    using assms unfolding select_root_partition_info_def by (rule run_bind_obtain)
  then show ?thesis
    by (elim run_bind_obtain) (auto simp: sound_selection_def split: option.splits prod.splits elim!: run_bind_obtain dest!: chosen_fs)
qed

text \<open>C32. Whatever was selected for the root, formatting asks first and requests nothing unless the user agrees to the text that names
  the partition; and then the program of the command is the name of the file system, with the mkfs tool as its argument.\<close>

theorem root_format_request:
  assumes "run_state (select_root_partition_info env) s = (Some selection, (w, c))"
  shows "\<exists>b w'. run_state (format_root env selection) (w, c) = (b, (w', c)) \<and>
    (requests w' = requests w \<or>
     (\<exists>fs \<in> {''btrfs'', ''ext4'', ''f2fs'', ''xfs''}. \<exists>args \<in> {''-f'', ''-q''}. trace w' = trace w @
       [Asked (format_warning selection) [] Agree,
        System (fs @ '' mkfs.'' @ fs @ '' '' @ args @ '' '' @ rs_device selection)]))"
proof (cases "rs_format_requested selection")
  case True
  obtain fs args where fs: "fs \<in> {''btrfs'', ''ext4'', ''f2fs'', ''xfs''}" "args \<in> {''-f'', ''-q''}"
      "rs_mkfs_command selection = fs @ '' mkfs.'' @ fs @ '' '' @ args"
    using selection_sound [OF assms] True unfolding sound_selection_def by blast
  obtain b w1 where b: "run_state (yesno (format_warning selection)) (w, c) = (b, (w1, c))" "requests w1 = requests w"
    by (rule only_asks_obtain [OF only_asks_widgets(2)])
  show ?thesis
  proof (cases "b \<and> ndevenv env")
    case agree: True
    then have bt: "run_state (yesno (format_warning selection)) (w, c) = (True, (w1, c))" using b(1) by simp
    obtain rc h where call: "system_call env (format_cmd selection) (host w1) = (rc, h)" by force
    show ?thesis
      using True agree bt run_exec_checked [OF agreed(1) [OF bt] call] agreed(2) [OF bt] fs
      by (intro exI [of _ "rc = 0"] exI [of _ "w1\<lparr>host := h, trace := trace w1 @ [System (format_cmd selection)]\<rparr>"] conjI disjI2
          bexI [of _ fs] bexI [of _ args]) (simp_all add: format_root_def run_lift_io format_cmd_def)
  next
    case False
    with True b show ?thesis by (intro exI [of _ b] exI [of _ w1]) (auto simp: format_root_def)
  qed
qed (auto simp: format_root_def)

text \<open>The witness chooses to format the first partition with ext4; the options of a file system chosen before are in the table.\<close>

abbreviation mount_config :: config where
  "mount_config \<equiv> (initial_config False)(''PARTITIONS'' \<mapsto> CStrs [''/dev/sda1 20G''])"

abbreviation answered :: "answer list \<Rightarrow> unit world" where
  "answered answers \<equiv> (world_of [])\<lparr>user_answers := answers\<rparr>"

abbreviation ext4_selection :: root_partition_selection where
  "ext4_selection \<equiv> \<lparr>rs_device = ''/dev/sda1'', rs_fstype = ''ext4'', rs_mkfs_command = ''ext4 mkfs.ext4 -q'', rs_mount_opts = '''',
     rs_format_requested = True\<rparr>"

abbreviation ext4_answers :: "answer list" where
  "ext4_answers \<equiv> [Pick 0, Pick 2, Agree]"

lemma ext4_selected:
  "fst (run_state (select_root_partition_info quiet_env) (answered ext4_answers, mount_config(''fs_opts'' \<mapsto> CStrs []))) = Some ext4_selection"
  by code_simp

theorem root_format_request_witness:
  "\<exists>w c b w'. run_state (select_root_partition_info quiet_env) (answered ext4_answers, mount_config(''fs_opts'' \<mapsto> CStrs [])) =
      (Some ext4_selection, (w, c)) \<and> run_state (format_root quiet_env ext4_selection) (w, c) = (b, (w', c))"
proof -
  obtain w c where s: "run_state (select_root_partition_info quiet_env) (answered ext4_answers, mount_config(''fs_opts'' \<mapsto> CStrs [])) =
      (Some ext4_selection, (w, c))"
    using ext4_selected by (metis prod.collapse)
  from root_format_request [OF s] s show ?thesis by metis
qed

subsection \<open>The first file system\<close>

text \<open>C31. Before any file system has been chosen elsewhere, as at the start, the options of the file systems are not in the table.  Then
  choosing to format the root ends the process: nothing is formatted or mounted.\<close>

theorem root_file_system_ends:
  assumes "status w = Running" "c ''fs_opts'' = None" "c ''PARTITIONS'' = Some (CStrs lines)"
    and "min i (length lines - 1) < length lines" "make_multiline (lines ! min i (length lines - 1)) False space_char = dev # words"
    and "user_answers w = Pick i # Pick (Suc j) # later"
  shows "status (fst (snd (run_state (choose_root env srt moved partitions) (w, c)))) = Terminated \<and>
    requests (fst (snd (run_state (choose_root env srt moved partitions) (w, c)))) = requests w"
proof -
  obtain w1 where w1: "run_state (pick_word lines sel_root_body) (w, c) = (Some dev, (w1, c))" "status w1 = Running"
      "user_answers w1 = Pick (Suc j) # later" "requests w1 = requests w"
    using run_pick_word [OF assms(1,6,4,5)] assms(1) by (simp add: requests_def)
  let ?c = "c(''PARTITION'' \<mapsto> CStr dev, ''ROOT_PART'' \<mapsto> CStr dev, ''MOUNT'' \<mapsto> CStr '''')"
  have len: "length fs_entries = 5" by (simp add: fs_entries_def)
  have kk: "min (Suc j) 4 \<in> {1, 2, 3, 4}" by auto
  obtain k w2 where w2: "run_state (menu (map snd fs_entries) '''') (w1, ?c) = (Some k, (w2, ?c))" "status w2 = Running"
      "requests w2 = requests w1" "k \<in> {1, 2, 3, 4}"
    using run_menu [OF w1(2,3), of "map snd fs_entries" "''''" ?c] w1(2) kk len
    by (intro that [of "min (Suc j) 4" "w1\<lparr>user_answers := later, trace := trace w1 @ [Asked '''' (map snd fs_entries) (Pick (Suc j))]\<rparr>"])
      (simp_all only: requests_def, simp_all)
  obtain fs_name cmd where e: "fs_entries ! k = (fs_name, cmd)" "fs_name \<noteq> ''skip''" using w2(4) by (auto simp: fs_entries_def)
  have "run_state (select_mount_opts env dev fs_name False) (w2, ?c) = ('''', (w2\<lparr>status := Terminated\<rparr>, ?c(''fs_opts'' \<mapsto> CStr [])))"
    using w2(2) assms(2) by (simp add: select_mount_opts_def cfg_strs_def cfg_value_def run_lift_io terminate_def halt_def)
  then obtain selection where sel: "run_state (select_root_partition_info env) (w, c) =
      (Some selection, (w2\<lparr>status := Terminated\<rparr>, ?c(''fs_opts'' \<mapsto> CStr [])))"
    using assms(1,3) w1 w2 e by (simp add: select_root_partition_info_def run_cfg_strs run_cfg_set select_fs_and_cmd_def)
  let ?rest = "apply_root_partition_actions env srt moved selection partitions"
  have "later_world (w2\<lparr>status := Terminated\<rparr>)
      (fst (snd (run_state ?rest (w2\<lparr>status := Terminated\<rparr>, ?c(''fs_opts'' \<mapsto> CStr [])))))"
    using advances_Tui_Mount(23) [of env srt moved selection partitions] unfolding advances_def by (metis fst_conv)
  then have "fst (snd (run_state (choose_root env srt moved partitions) (w, c))) = w2\<lparr>status := Terminated\<rparr>"
    using sel by (simp add: choose_root_def later_world_def)
  then show ?thesis using w1(4) w2(3) by (simp add: requests_def)
qed

theorem root_file_system_ends_witness:
  "status (fst (snd (run_state (choose_root quiet_env insertion_sort id []) (answered [Pick 0, Pick 1], mount_config)))) = Terminated \<and>
    requests (fst (snd (run_state (choose_root quiet_env insertion_sort id []) (answered [Pick 0, Pick 1], mount_config)))) = []"
proof -
  let ?w = "answered [Pick 0, Pick 1]"
  have w: "status ?w = Running" "user_answers ?w = [Pick 0, Pick 1]" "requests ?w = []" by (simp_all add: world_of_def requests_def)
  have c: "mount_config ''fs_opts'' = None" "mount_config ''PARTITIONS'' = Some (CStrs [''/dev/sda1 20G''])" by code_simp+
  have one: "make_multiline ''/dev/sda1 20G'' False space_char = [''/dev/sda1'', ''20G'']" by code_simp
  show ?thesis
    unfolding w(3) [symmetric]
    by (rule root_file_system_ends [OF w(1) c, of 0 "''/dev/sda1''" "[''20G'']" 0 "[]"]) (simp_all add: w one)
qed

subsection \<open>Where partitions are mounted\<close>

lemma mount_requests:
  assumes "ndevenv env" "status w = Running" "fst (mkdirs_call env (mnt @ dir) (host w))"
    "run_state (disk_mount_partition env part mnt dir opts) (w, c) = (mounted, (w', c'))"
  shows "prefix (trace w @ [CreateDirs (mnt @ dir), System (mount_cmd part (mnt @ dir) opts)]) (trace w')"
proof -
  obtain h where h: "mkdirs_call env (mnt @ dir) (host w) = (True, h)" using assms(3) by (metis prod.collapse)
  obtain rc h' where call: "system_call env (mount_cmd part (mnt @ dir) opts) h = (rc, h')" by force
  let ?w = "w\<lparr>host := h', trace := trace w @ [CreateDirs (mnt @ dir), System (mount_cmd part (mnt @ dir) opts)]\<rparr>"
  let ?mount = "lift_io (if ndevenv env then do {
         made \<leftarrow> create_directories env (mnt @ dir);
         if \<not> made then ret False else mount_partition env part (mnt @ dir) opts
       }
       else ret True)"
  have "run_state ?mount (w, c) = (rc = 0, (?w, c))"
    using assms(1,2) h run_exec_checked [of "w\<lparr>host := h, trace := trace w @ [CreateDirs (mnt @ dir)]\<rparr>" env _ rc h'] call
    by (simp add: run_lift_io create_directories_def perform_def mount_partition_def)
  with assms(4) show ?thesis
    unfolding disk_mount_partition_def Let_def
    by (elim run_bind_obtain) (auto dest!: advances_prefix [rotated, where w = ?w] intro!: advancing)
qed

text \<open>C33. The root is not mounted at the mount point of the installation: once the question of formatting it is settled, the directory
  that is made and mounted next is the mount point followed by the mount point (\<^verbatim>\<open>/mnt/mnt\<close>), since the caller gives the whole mount
  point where the path below it is expected.  The hypotheses: the development mode is off, formatting was agreed to and succeeded or was not
  asked for, the process is running, the settings of the mount point and of the encryption have their types, and the directory can be made.\<close>

theorem root_mounted_below_itself:
  assumes "ndevenv env" "run_state (format_root env selection) (w, c) = (True, (w1, c))" "status w = Running" "status w1 = Running"
    "c ''MOUNTPOINT'' = Some (CStr mnt)" "c ''LUKS_NAME'' = Some (CStr name)" "c ''LUKS_DEV'' = Some (CStr luks_dev)"
    "c ''LUKS_UUID'' = Some (CStr uuid)" "c ''LUKS'' = Some (CInt luks)" "c ''LVM'' = Some (CInt lvm)"
    "fst (mkdirs_call env (mnt @ mnt) (host w1))"
  shows "prefix (trace w1 @ [CreateDirs (mnt @ mnt), System (mount_cmd (rs_device selection) (mnt @ mnt) (rs_mount_opts selection))])
    (trace (fst (snd (run_state (apply_root_partition_actions env srt moved selection schema) (w, c)))))"
proof -
  let ?c = "c(''LUKS_NAME'' \<mapsto> CStr '''', ''LUKS_DEV'' \<mapsto> CStr '''', ''LUKS_UUID'' \<mapsto> CStr '''', ''LUKS'' \<mapsto> CInt 0, ''LVM'' \<mapsto> CInt 0)"
  let ?rest = "do {
       root_part \<leftarrow> root_entry env selection mnt;
       if moved (fstype root_part) = ''btrfs'' then do {
         schema \<leftarrow> offer_subvolumes env srt mnt (schema @ [root_part]);
         ret (True, schema)
       }
       else ret (True, schema @ [root_part])
     }"
  obtain mounted w2 c2 where d: "run_state (disk_mount_partition env (rs_device selection) mnt mnt (rs_mount_opts selection)) (w1, ?c) =
      (mounted, (w2, c2))" by (metis surj_pair)
  obtain r w3 c3 where rest: "run_state ?rest (w2, c2) = (r, (w3, c3))" by (rule prod_cases3)
  have "run_state (apply_root_partition_actions env srt moved selection schema) (w, c) = run_state (do {
       mounted \<leftarrow> disk_mount_partition env (rs_device selection) mnt mnt (rs_mount_opts selection); ?rest }) (w1, ?c)"
    using assms(2-10) by (simp add: apply_root_partition_actions_def run_cfg_str run_cfg_int run_cfg_set)
  then have "run_state (apply_root_partition_actions env srt moved selection schema) (w, c) = (r, (w3, c3))"
    unfolding State_Monad.bind_def [of "disk_mount_partition env (rs_device selection) mnt mnt (rs_mount_opts selection)"]
    by (simp only: state.sel d prod.case rest)
  moreover have "prefix (trace w2) (trace w3)" by (rule advances_prefix [OF _ rest]) (intro advancing)
  moreover have "prefix (trace w1 @ [CreateDirs (mnt @ mnt), System (mount_cmd (rs_device selection) (mnt @ mnt) (rs_mount_opts selection))])
      (trace w2)"
    by (rule mount_requests [OF assms(1,4,11) d])
  ultimately show ?thesis by (simp add: prefix_order.trans)
qed

theorem root_mounted_below_itself_witness:
  "prefix [CreateDirs ''/mnt/mnt'', System ''mount /dev/sda2 /mnt/mnt'']
    (trace (fst (snd (run_state (apply_root_partition_actions quiet_env insertion_sort id
      \<lparr>rs_device = ''/dev/sda2'', rs_fstype = ''skip'', rs_mkfs_command = '''', rs_mount_opts = '''', rs_format_requested = False\<rparr> [])
      (world_of [], initial_config False)))))"
proof -
  let ?s = "\<lparr>rs_device = ''/dev/sda2'', rs_fstype = ''skip'', rs_mkfs_command = '''', rs_mount_opts = '''', rs_format_requested = False\<rparr>"
  have "run_state (format_root quiet_env ?s) (world_of [], initial_config False) = (True, (world_of [], initial_config False))"
    by (simp add: format_root_def)
  from root_mounted_below_itself [where mnt = "''/mnt''", OF _ this, of "''''" "''''" "''''" 0 0 insertion_sort id "[]"]
  show ?thesis by (simp add: world_of_def quiet_env_def initial_config_def mount_cmd_def)
qed

end
