(* ===== verification/Tui_Setup.thy ===== *)
theory Tui_Setup
  imports Advance_Installer
begin

section \<open>Screens that configure the installed system (src/tui.cpp)\<close>

text \<open>
  The host name, locale, keymaps, time zone, clock, passwords, users and packages of the installed system, each asked for
  before the operation of utils.cpp is called; and the menus over them.
\<close>

subsection \<open>Settings\<close>

definition fstab_body :: string where
  "fstab_body = (''\<newline>The FSTAB file (File System TABle) sets what storage devices\<newline>and partitions ''
        @ ''are to be mounted, and how they are to be used.\<newline>\<newline>UUID (Universally Unique ''
        @ ''IDentifier) used.\<newline>'')"

definition tui_generate_fstab :: "'m sysenv \<Rightarrow> ('m, unit) app" where
  "tui_generate_fstab env = do {
     do_set_fstab \<leftarrow> yesno fstab_body;
     if \<not> do_set_fstab then ret () else utils_generate_fstab env
   }"

definition hostname_body :: string where
  "hostname_body = (''\<newline>The hostname is used to identify the system on a network.\<newline> \<newline>It ''
        @ ''is restricted to alphanumeric characters, can contain a hyphen\<newline>(-) - but not at the ''
        @ ''start or end - and must be no longer than 63 characters.\<newline>'')"

definition tui_set_hostname :: "'m sysenv \<Rightarrow> ('m, unit) app" where
  "tui_set_hostname env = do {
     entered \<leftarrow> inputbox ''cachyos'' hostname_body;
     case entered of
       None \<Rightarrow> ret ()
     | Some hostname \<Rightarrow> if hostname = '''' then ret () else utils_set_hostname env hostname
   }"

definition lang_body :: string where
  "lang_body = (''\<newline>Choose the system language.\<newline>\<newline>The format is language_COUNTRY (e.g. ''
        @ ''en_US is english, United States;\<newline>en_GB is english, Great Britain).\<newline>'')"

text \<open>An entry that was not chosen is the empty text.\<close>

definition pick_or_empty :: "string list \<Rightarrow> string \<Rightarrow> ('m, string) app" where
  "pick_or_empty entries content = do {
     picked \<leftarrow> pick_entry entries content;
     ret (case picked of None \<Rightarrow> '''' | Some entry \<Rightarrow> entry)
   }"

definition tui_set_locale :: "'m sysenv \<Rightarrow> ('m, unit) app" where
  "tui_set_locale env = do {
     locales \<leftarrow> lift_io (get_possible_locales env);
     chosen \<leftarrow> pick_or_empty locales lang_body;
     if chosen = '''' then ret () else utils_set_locale env chosen
   }"

definition keymaps_xkb :: string where
  "keymaps_xkb = (''af al am at az ba bd be bg br bt bw by ca cd ch cm cn cz de dk ee es et eu fi fo fr gb ge gh ''
        @ ''gn gr hr hu ie il in iq ir is it jp ke kg kh kr kz la lk lt lv ma md me mk ml mm mn mt mv ng ''
        @ ''nl no np pc ph pk pl pt ro rs ru se si sk sn sy tg th tj tm tr tw tz ua us uz vn za'')"

definition keymap_base_cmd :: "string \<Rightarrow> string" where
  "keymap_base_cmd keymap = (''echo '' @ squote @ keymap @ squote @ '' | sed '' @ squote @ ''s/_.*//'' @ squote)"

definition tui_set_xkbmap :: "'m sysenv \<Rightarrow> ('m, unit) app" where
  "tui_set_xkbmap env = do {
     let xkbmap_list = make_multiline keymaps_xkb False space_char;
     picked \<leftarrow> pick_entry xkbmap_list ''\<newline>Select Desktop Environment Keymap.\<newline>'';
     case picked of
       None \<Rightarrow> ret ()
     | Some keymap \<Rightarrow> do {
         xkbmap_choice \<leftarrow> lift_io (exec env (keymap_base_cmd keymap) False);
         set_xkbmap env xkbmap_choice
       }
   }"

definition list_keymaps_cmd :: string where
  "list_keymaps_cmd = (''ls -R /usr/share/kbd/keymaps | grep \"map.gz\" | sed '' @ squote @ ''s/'' @ backslash @ ''.map'' @ backslash
        @ ''.gz//g'' @ squote @ '' | sort'')"

definition vc_keymap_body :: string where
  "vc_keymap_body = (''\<newline>A virtual console is a shell prompt in a non-graphical environment.\<newline>Its ''
        @ ''keymap is independent of a desktop environment / terminal.\<newline>'')"

definition keymap_question :: "string \<Rightarrow> string" where
  "keymap_question current_keymap = (''\<newline> Currently configured keymap setting is:\<newline> \<newline>[ '' @ current_keymap
        @ '' ]\<newline>'')"

text \<open>The question asks whether to change the keymap; its name in the code says the opposite.\<close>

definition tui_select_keymap :: "'m sysenv \<Rightarrow> ('m, unit) app" where
  "tui_select_keymap env = do {
     current_keymap \<leftarrow> cfg_str ''KEYMAP'';
     keep_default \<leftarrow> yesno (keymap_question current_keymap);
     if \<not> keep_default then ret ()
     else do {
       out \<leftarrow> lift_io (exec env list_keymaps_cmd False);
       picked \<leftarrow> pick_entry (make_multiline out False newline_char) vc_keymap_body;
       case picked of None \<Rightarrow> ret () | Some selected_keymap \<Rightarrow> select_keymap selected_keymap
     }
   }"

definition list_zones_cmd :: string where
  "list_zones_cmd = (''cat /usr/share/zoneinfo/zone.tab | awk '' @ squote @ ''{print $3}'' @ squote @ '' | grep '' @ squote @ ''/''
        @ squote @ '' | sed '' @ squote @ ''s/'' @ backslash @ ''/.*//'' @ squote @ '' | sort -ud'')"

definition list_cities_cmd :: "string \<Rightarrow> string" where
  "list_cities_cmd zone = (''cat /usr/share/zoneinfo/zone.tab | awk '' @ squote @ ''{print $3}'' @ squote @ '' | grep \"'' @ zone
        @ ''/\" | sed \"s/'' @ zone @ backslash @ ''///g\" | sort -ud'')"

definition tui_set_timezone :: "'m sysenv \<Rightarrow> ('m, bool) app" where
  "tui_set_timezone env = do {
     zones \<leftarrow> lift_io (exec env list_zones_cmd False);
     zone \<leftarrow> pick_or_empty (make_multiline zones False newline_char) ''The time zone is used to correctly set your system clock.'';
     if zone = '''' then ret False
     else do {
       cities \<leftarrow> lift_io (exec env (list_cities_cmd zone) False);
       subzone \<leftarrow> pick_or_empty (make_multiline cities False newline_char) ''Select the city nearest to you.'';
       if subzone = '''' then ret False
       else do {
         do_set_timezone \<leftarrow> yesno (''\<newline>Set Time Zone: '' @ zone @ ''/'' @ subzone @ ''?\<newline>'');
         if \<not> do_set_timezone then ret False
         else do { u \<leftarrow> set_timezone env (zone @ ''/'' @ subzone); ret True }
       }
     }
   }"

definition hw_clock_body :: string where
  "hw_clock_body = ''UTC is the universal time standard,\<newline>and is recommended unless dual-booting with Windows.''"

definition tui_set_hw_clock :: "'m sysenv \<Rightarrow> ('m, unit) app" where
  "tui_set_hw_clock env = do {
     picked \<leftarrow> pick_entry [''utc'', ''localtime''] hw_clock_body;
     case picked of None \<Rightarrow> ret () | Some clock_type \<Rightarrow> set_hw_clock env clock_type
   }"

subsection \<open>Passwords and users\<close>

definition pass_err_body :: string where
  "pass_err_body = ''\<newline>The passwords entered do not match.\<newline>Please try again.\<newline>''"

text \<open>
  One call of the function, the call of itself being the parameter \<open>again\<close>: when the two entries differ the function calls
  itself, and afterwards goes on with its own entry.  A call that does so has used two answers, so the answers bound the depth of the calls;
  \<open>root_password_recursion\<close> below shows that the bound is never met.
\<close>

definition root_password_call :: "('m, unit) app \<Rightarrow> 'm sysenv \<Rightarrow> ('m, unit) app" where
  "root_password_call again env = do {
     entered \<leftarrow> inputbox '''' ''Enter Root password'';
     case entered of
       None \<Rightarrow> ret ()
     | Some pass \<Rightarrow> do {
         retyped \<leftarrow> inputbox '''' ''Re-enter Root password'';
         case retyped of
           None \<Rightarrow> ret ()
         | Some confirm \<Rightarrow> do {
             u \<leftarrow> (if pass \<noteq> confirm then do { u \<leftarrow> notice pass_err_body; again } else ret ());
             utils_set_root_password env pass
           }
       }
   }"

fun root_password_calls :: "nat \<Rightarrow> 'm sysenv \<Rightarrow> ('m, unit) app" where
  "root_password_calls 0 env = lift_io (halt Waiting)"
| "root_password_calls (Suc calls) env = root_password_call (root_password_calls calls env) env"

definition tui_set_root_password :: "'m sysenv \<Rightarrow> ('m, unit) app" where
  "tui_set_root_password env = State (\<lambda>(w, c). run_state (root_password_calls (Suc (length (user_answers w))) env) (w, c))"

definition is_upper :: "char \<Rightarrow> bool" where
  "is_upper ch \<longleftrightarrow> ch \<in> set ''ABCDEFGHIJKLMNOPQRSTUVWXYZ''"

definition bad_user_name :: "string \<Rightarrow> bool" where
  "bad_user_name user \<longleftrightarrow> user = '''' \<or> contains user '' '' \<or> list_ex is_upper user"

definition user_name_round :: "string \<Rightarrow> ('m, string + string option) app" where
  "user_name_round user =
     (if \<not> bad_user_name user then ret (Inr (Some user))
      else do {
        entered \<leftarrow> inputbox '''' ''An incorrect user name was entered. Please try again.'';
        ret (case entered of None \<Rightarrow> Inr None | Some user \<Rightarrow> Inl user)
      })"

definition ask_user_name :: "('m, string option) app" where
  "ask_user_name = do {
     entered \<leftarrow> inputbox '''' ''Enter the user name. Letters MUST be lower case.'';
     case entered of None \<Rightarrow> ret None | Some user \<Rightarrow> repeat_dialog user_name_round None user
   }"

definition shells_options_body :: string where
  "shells_options_body = (''\<newline>\<newline>Choose the default shell.\<newline>Use [Spacebar] to de/select options ''
        @ ''listed.\<newline>'')"

definition shell_paths :: "string list" where
  "shell_paths = [''/usr/bin/zsh'', ''/bin/bash'', ''/usr/bin/fish'']"

text \<open>Leaving the list of shells without an answer leaves the shell empty.\<close>

definition ask_shell :: "('m, string) app" where
  "ask_shell = do {
     selected \<leftarrow> menu [''zsh'', ''bash'', ''fish''] shells_options_body;
     ret (case selected of None \<Rightarrow> '''' | Some i \<Rightarrow> shell_paths ! i)
   }"

definition ask_twice :: "string \<Rightarrow> ('m, (string \<times> string) option) app" where
  "ask_twice content = do {
     entered \<leftarrow> inputbox '''' content;
     case entered of
       None \<Rightarrow> ret None
     | Some pass \<Rightarrow> do {
         again \<leftarrow> inputbox '''' ''Re-enter the password.'';
         ret (case again of None \<Rightarrow> None | Some confirm \<Rightarrow> Some (pass, confirm))
       }
   }"

definition user_pass_round :: "string \<Rightarrow> string \<times> string \<Rightarrow> ('m, string \<times> string + string option) app" where
  "user_pass_round content entries =
     (if fst entries = snd entries then ret (Inr (Some (fst entries)))
      else do {
        u \<leftarrow> notice pass_err_body;
        entered \<leftarrow> ask_twice content;
        ret (case entered of None \<Rightarrow> Inr None | Some entries \<Rightarrow> Inl entries)
      })"

definition ask_user_pass :: "string \<Rightarrow> ('m, string option) app" where
  "ask_user_pass user = do {
     entered \<leftarrow> ask_twice (''Enter password for '' @ user);
     case entered of None \<Rightarrow> ret None | Some entries \<Rightarrow> repeat_dialog (user_pass_round (''Enter password for '' @ user)) None entries
   }"

definition tui_create_new_user :: "'m sysenv \<Rightarrow> ('m, unit) app" where
  "tui_create_new_user env = do {
     named \<leftarrow> ask_user_name;
     case named of
       None \<Rightarrow> ret ()
     | Some user \<Rightarrow> do {
         user_shell \<leftarrow> ask_shell;
         given \<leftarrow> ask_user_pass user;
         case given of
           None \<Rightarrow> ret ()
         | Some pass \<Rightarrow> do {
             u \<leftarrow> notice ''\<newline>Creating User and setting groups...\<newline>'';
             utils_create_new_user env user pass user_shell
           }
       }
   }"

subsection \<open>Packages and the shell\<close>

definition cust_pkgs_body :: string where
  "cust_pkgs_body = (''\<newline>Type any extra packages you would like to add, separated by spaces.\<newline> \<newline>''
        @ ''For example, to install Firefox, MPV, FZF:\<newline>firefox mpv fzf\<newline>'')"

definition install_cust_pkgs :: "'m sysenv \<Rightarrow> ('m, unit) app" where
  "install_cust_pkgs env = do {
     entered \<leftarrow> inputbox '''' cust_pkgs_body;
     case entered of
       None \<Rightarrow> ret ()
     | Some packages \<Rightarrow>
         if packages = '''' then ret ()
         else if ndevenv env then do {
           mnt \<leftarrow> cfg_str ''MOUNTPOINT'';
           hostcache \<leftarrow> cfg_int ''hostcache'';
           followed \<leftarrow> lift_io (follow_process_log_widget env [''/bin/sh'', ''-c'', pacstrap_cmd hostcache mnt packages]);
           ret ()
         }
         else ret ()
   }"

definition remove_pkgs_body :: string where
  "remove_pkgs_body = (''\<newline>Type any packages you would like to remove, separated by spaces.\<newline> \<newline>''
        @ ''For example, to remove Firefox, MPV, FZF:\<newline>firefox mpv fzf\<newline>'')"

definition tui_remove_pkgs :: "'m sysenv \<Rightarrow> ('m, unit) app" where
  "tui_remove_pkgs env = do {
     entered \<leftarrow> inputbox '''' remove_pkgs_body;
     case entered of None \<Rightarrow> ret () | Some packages \<Rightarrow> remove_pkgs env packages
   }"

definition chroot_return :: string where
  "chroot_return = (''\<newline>You will now chroot into your installed system.\<newline>You can do changes almost ''
        @ ''as if you had booted into your installation.\<newline> \<newline>Type \"exit\" to exit chroot.\<newline>'')"

definition chroot_interactive :: "'m sysenv \<Rightarrow> ('m, unit) app" where
  "chroot_interactive env = do {
     u \<leftarrow> notice chroot_return;
     if ndevenv env then do {
       mnt \<leftarrow> cfg_str ''MOUNTPOINT'';
       out \<leftarrow> lift_io (exec env (''arch-chroot '' @ mnt @ '' bash'') True);
       ret ()
     }
     else do { out \<leftarrow> lift_io (exec env ''bash'' True); ret () }
   }"

subsection \<open>Menus\<close>

definition config_base_entries :: "string list" where
  "config_base_entries =
     [''Generate FSTAB'', ''Set Hostname'', ''Set System Locale'', ''Set Desktop Keyboard Layout'', ''Set Timezone and Clock'',
      ''Set Root Password'', ''Add New User(s)'', ''Back'']"

text \<open>The value of a choice says whether the menu closes.\<close>

definition config_base_choice :: "'m sysenv \<Rightarrow> nat \<Rightarrow> ('m, bool) app" where
  "config_base_choice env selected =
     (if selected = 0 then do { u \<leftarrow> tui_generate_fstab env; ret False }
      else if selected = 1 then do { u \<leftarrow> tui_set_hostname env; ret False }
      else if selected = 2 then do { u \<leftarrow> tui_set_locale env; ret False }
      else if selected = 3 then do { u \<leftarrow> tui_set_xkbmap env; ret False }
      else if selected = 4 then do {
        zoned \<leftarrow> tui_set_timezone env;
        if \<not> zoned then ret True else do { u \<leftarrow> tui_set_hw_clock env; ret False }
      }
      else if selected = 5 then do { u \<leftarrow> tui_set_root_password env; ret False }
      else if selected = 6 then do { u \<leftarrow> tui_create_new_user env; ret False }
      else ret True)"

definition config_base_menu :: "'m sysenv \<Rightarrow> ('m, unit) app" where
  "config_base_menu env = menu_loop config_base_entries ''Basic configuration of the base.'' (config_base_choice env)"

definition display_manager_cmd :: string where
  "display_manager_cmd = (''file /mnt/etc/systemd/system/display-manager.service 2>/dev/null | awk -F'' @ squote @ ''/'' @ squote
        @ '' '' @ squote @ ''{print $NF}'' @ squote @ '' | cut -d. -f1'')"

definition autologin_body :: "string \<Rightarrow> string" where
  "autologin_body dm = (''\<newline>This option enables autologin using '' @ dm @ ''.\<newline>\<newline>Proceed?\<newline>'')"

definition tui_enable_autologin :: "'m sysenv \<Rightarrow> ('m, unit) app" where
  "tui_enable_autologin env = do {
     dm \<leftarrow> lift_io (exec env display_manager_cmd False);
     proceed \<leftarrow> yesno (autologin_body dm);
     if \<not> proceed then ret ()
     else do {
       users \<leftarrow> lift_io (exec env ''echo /mnt/home/* | xargs -n1 | wc -l'' False);
       if users \<noteq> ''1'' then ret ()
       else do {
         autologin_user \<leftarrow> lift_io (exec env ''echo /mnt/home/* | cut -d/ -f4'' False);
         utils_enable_autologin env dm autologin_user
       }
     }
   }"

definition tweaks_choice :: "'m sysenv \<Rightarrow> nat \<Rightarrow> ('m, bool) app" where
  "tweaks_choice env selected = (if selected = 0 then do { u \<leftarrow> tui_enable_autologin env; ret False } else ret True)"

definition tweaks_menu :: "'m sysenv \<Rightarrow> ('m, unit) app" where
  "tweaks_menu env = menu_loop [''Enable Automatic Login'', ''Back''] ''Various configuration options'' (tweaks_choice env)"

subsection \<open>Leaving\<close>

definition close_inst_body :: string where
  "close_inst_body = ''\<newline>Close installer?\<newline>''"

definition target_cmd :: "string \<Rightarrow> string" where
  "target_cmd mnt = (''findmnt --list -o TARGET | grep '' @ mnt @ '' 2>/dev/null'')"

definition save_log_body :: "string \<Rightarrow> string" where
  "save_log_body mnt = (''\<newline>Would you like to save\<newline>the installation-log\<newline>to the installed system?\<newline>''
        @ ''It will be copied to\<newline> '' @ mnt @ ''/cachyos-install.log\<newline>'')"

text \<open>
  The command that is to list the mounted targets is only a text: it is never run, and being a text that is not empty it
  always counts as a mounted target.
\<close>

definition exit_done :: "'m sysenv \<Rightarrow> mtab_entry sorter \<Rightarrow> ('m, bool) app" where
  "exit_done env sort_mtab =
     (if ndevenv env then do {
        mnt \<leftarrow> cfg_str ''MOUNTPOINT'';
        let target_mnt = target_cmd mnt;
        if target_mnt \<noteq> '''' then do {
          u \<leftarrow> final_check env;
          checklist \<leftarrow> cfg_str ''CHECKLIST'';
          do_close \<leftarrow> yesno (close_inst_body @ checklist @ [newline_char]);
          if \<not> do_close then ret False
          else do {
            do_save_log \<leftarrow> yesno (save_log_body mnt);
            u \<leftarrow> lift_io (if do_save_log
              then must (copy_file env ''/tmp/cachyos-install.log'' (mnt @ ''/cachyos-install.log'')) else ret ());
            u \<leftarrow> utils_umount_partitions env sort_mtab;
            ret True
          }
        }
        else do {
          do_close \<leftarrow> yesno close_inst_body;
          if \<not> do_close then ret False
          else do { u \<leftarrow> utils_umount_partitions env sort_mtab; ret True }
        }
      }
      else ret True)"

subsection \<open>The screens only advance the world\<close>

lemma advances_root_password_calls: "advances fst (root_password_calls calls env)"
proof (induction calls)
  case 0
  show ?case unfolding root_password_calls.simps by (intro advancing)
next
  case (Suc calls)
  show ?case unfolding root_password_calls.simps root_password_call_def utils_set_root_password_def by (intro advancing Suc)
qed

lemma advances_Tui_Setup [advancing]:
  "advances fst (tui_generate_fstab env)" "advances fst (tui_set_hostname env)" "advances fst (pick_or_empty a1 a2)"
  "advances fst (tui_set_locale env)" "advances fst (tui_set_xkbmap env)" "advances fst (tui_select_keymap env)"
  "advances fst (tui_set_timezone env)" "advances fst (tui_set_hw_clock env)" "advances fst (user_name_round b1)"
  "advances fst ask_user_name" "advances fst ask_shell" "advances fst (ask_twice c1)" "advances fst (user_pass_round d1 d2)"
  "advances fst (ask_user_pass e1)" "advances fst (tui_create_new_user env)" "advances fst (install_cust_pkgs env)"
  "advances fst (tui_remove_pkgs env)" "advances fst (chroot_interactive env)" "advances fst (tui_enable_autologin env)"
  "advances fst (tweaks_choice env f1)" "advances fst (tweaks_menu env)" "advances fst (exit_done env g1)"
  unfolding tui_generate_fstab_def tui_set_hostname_def pick_or_empty_def tui_set_locale_def tui_set_xkbmap_def
    tui_select_keymap_def tui_set_timezone_def tui_set_hw_clock_def user_name_round_def ask_user_name_def ask_shell_def
    ask_twice_def user_pass_round_def ask_user_pass_def tui_create_new_user_def install_cust_pkgs_def tui_remove_pkgs_def
    chroot_interactive_def tui_enable_autologin_def tweaks_choice_def tweaks_menu_def exit_done_def
  by (intro advancing)+

lemma advances_tui_set_root_password [advancing]: "advances fst (tui_set_root_password env)"
  using advances_root_password_calls unfolding advances_def tui_set_root_password_def
  by (simp add: split_paired_all del: root_password_calls.simps) blast

lemma advances_config_base [advancing]: "advances fst (config_base_choice env a)" "advances fst (config_base_menu env)"
  unfolding config_base_choice_def config_base_menu_def by (intro advancing)+

interpretation user_name: dialogue user_name_round
  unfolding user_name_round_def
  by (intro dialogue_one_round one_round_if one_round_inputbox advancing) (simp_all add: one_round_done)

lemma ask_twice_uses_answer:
  assumes "run_state (ask_twice content) s = (Some x, s')"
  shows "length (user_answers (fst s')) < length (user_answers (fst s))"
proof -
  obtain e t where e: "run_state (inputbox '''' content) s = (e, t)"
      and k: "run_state (case e of None \<Rightarrow> ret None | Some pass \<Rightarrow> do {
         again \<leftarrow> inputbox '''' ''Re-enter the password.'';
         ret (case again of None \<Rightarrow> None | Some confirm \<Rightarrow> Some (pass, confirm)) }) t = (Some x, s')"
    using assms unfolding ask_twice_def by (rule run_bind_obtain)
  obtain pass where pass: "e = Some pass" using k by (cases e) simp_all
  have "length (user_answers (fst s')) \<le> length (user_answers (fst t))"
    using k unfolding pass option.case by (rule advances_le [rotated]) (intro advancing)
  then show ?thesis using asked_shortens(1) [OF e [unfolded pass]] by linarith
qed

interpretation user_pass: dialogue "user_pass_round content" for content
  unfolding user_pass_round_def
  by (intro dialogue_one_round one_round_if one_round_done one_round_bind [of "notice t" for t]
      one_round_asked [of "ask_twice t" for t, OF ask_twice_uses_answer] advancing) (simp_all add: one_round_done)

interpretation config_base: dialogue "menu_body config_base_entries ''Basic configuration of the base.'' (config_base_choice env)" for env
  by (intro menu_dialogue advancing)

interpretation tweaks: dialogue "menu_body [''Enable Automatic Login'', ''Back''] ''Various configuration options'' (tweaks_choice env)" for env
  by (intro menu_dialogue advancing)

subsection \<open>The root password\<close>

text \<open>Two values for the call of itself that agree whenever fewer answers are left give the same call.\<close>

lemma root_password_call_cong:
  assumes "\<And>w' c'. length (user_answers w') < length (user_answers w) \<Longrightarrow> run_state again (w', c') = run_state again' (w', c')"
  shows "run_state (root_password_call again env) (w, c) = run_state (root_password_call again' env) (w, c)"
proof -
  obtain e w1 c1 where e: "run_state (inputbox '''' ''Enter Root password'') (w, c) = (e, (w1, c1))" by (metis surj_pair)
  obtain r w2 c2 where r: "run_state (inputbox '''' ''Re-enter Root password'') (w1, c1) = (r, (w2, c2))" by (metis surj_pair)
  obtain u w3 c3 where u: "run_state (notice pass_err_body) (w2, c2) = (u, (w3, c3))" by (metis surj_pair)
  show ?thesis
  proof (cases e)
    case (Some pass)
    show ?thesis
    proof (cases r)
      case confirm: (Some confirm)
      have "length (user_answers w3) \<le> length (user_answers w2)" by (rule advances_length [OF advances_widgets(1) u])
      then have "length (user_answers w3) < length (user_answers w)"
        using inputbox_uses_answer [OF e [unfolded Some]] inputbox_uses_answer [OF r [unfolded confirm]] by linarith
      from assms [OF this, of c3] show ?thesis by (simp add: root_password_call_def e r u Some confirm)
    qed (simp add: root_password_call_def e r Some)
  qed (simp add: root_password_call_def e)
qed

lemma enough_root_password_calls:
  "length (user_answers w) < n \<Longrightarrow> length (user_answers w) < m \<Longrightarrow>
   run_state (root_password_calls n env) (w, c) = run_state (root_password_calls m env) (w, c)"
proof (induction n arbitrary: m w c)
  case (Suc n)
  then obtain m' where m: "m = Suc m'" by (cases m) auto
  show ?case
    unfolding m root_password_calls.simps
    using Suc.prems m by (intro root_password_call_cong Suc.IH) auto
qed simp

text \<open>The bound on the depth of the calls is never met: what is computed satisfies the recursion of the source.\<close>

theorem root_password_recursion:
  "tui_set_root_password env = root_password_call (tui_set_root_password env) env"
proof (rule state_ext)
  fix wc :: "'a world \<times> config"
  obtain w c where wc: "wc = (w, c)" by force
  have "run_state (root_password_call (root_password_calls (length (user_answers w)) env) env) (w, c) =
      run_state (root_password_call (tui_set_root_password env) env) (w, c)"
  proof (rule root_password_call_cong)
    fix w' :: "'a world" and c' assume "length (user_answers w') < length (user_answers w)"
    then show "run_state (root_password_calls (length (user_answers w)) env) (w', c') = run_state (tui_set_root_password env) (w', c')"
      using enough_root_password_calls [of w' "length (user_answers w)" "Suc (length (user_answers w'))" env c']
      by (simp add: tui_set_root_password_def del: root_password_calls.simps)
  qed
  then show "run_state (tui_set_root_password env) wc = run_state (root_password_call (tui_set_root_password env) env) wc"
    by (simp add: wc tui_set_root_password_def)
qed



text \<open>
  Any number of mistakes, each a password and something else retyped, and then an end: a password that is retyped correctly, or
  leaving one of the two boxes.
\<close>

definition mistake_answers :: "(string \<times> string) list \<Rightarrow> answer list" where
  "mistake_answers ms = concat (map (\<lambda>(pass, confirm). [Enter pass, Enter confirm]) ms)"

fun set_passwords :: "'m sysenv \<Rightarrow> string list \<Rightarrow> ('m, unit) app" where
  "set_passwords env [] = ret ()"
| "set_passwords env (pass # passes) = do { u \<leftarrow> utils_set_root_password env pass; set_passwords env passes }"

lemma set_passwords_snoc:
  "run_state (set_passwords env (passes @ [pass])) s =
     run_state (do { u \<leftarrow> set_passwords env passes; utils_set_root_password env pass }) s"
  by (induction passes arbitrary: s) (simp_all split: prod.splits)

lemma root_password_mistake:
  assumes "status w = Running" "user_answers w = Enter pass # Enter confirm # later" "pass \<noteq> confirm"
  shows "\<exists>w1. user_answers w1 = later \<and> status w1 = Running \<and> requests w1 = requests w \<and> host w1 = host w \<and>
    run_state (tui_set_root_password env) (w, c) =
      run_state (do { u \<leftarrow> tui_set_root_password env; utils_set_root_password env pass }) (w1, c)"
  using assms
  by (intro exI [of _ "w\<lparr>user_answers := later, trace := trace w @
      [Asked ''Enter Root password'' [''''] (Enter pass), Asked ''Re-enter Root password'' [''''] (Enter confirm), Shown pass_err_body]\<rparr>"])
    (subst root_password_recursion, simp add: root_password_call_def run_inputbox run_notice requests_def)

lemma root_password_end:
  assumes "status w = Running" "user_answers w = ending @ later"
    and "ending = [Enter pass, Enter pass] \<or> ending = [Back] \<or> ending = [Enter pass, Back]"
  shows "\<exists>w1. user_answers w1 = later \<and> status w1 = Running \<and> requests w1 = requests w \<and> host w1 = host w \<and>
    run_state (tui_set_root_password env) (w, c) =
      run_state (set_passwords env (if ending = [Enter pass, Enter pass] then [pass] else [])) (w1, c)"
  using assms(3)
proof (elim disjE)
  assume e: "ending = [Enter pass, Enter pass]"
  show ?thesis using assms(1,2) e
    by (intro exI [of _ "w\<lparr>user_answers := later, trace := trace w @
        [Asked ''Enter Root password'' [''''] (Enter pass), Asked ''Re-enter Root password'' [''''] (Enter pass)]\<rparr>"])
      (subst root_password_recursion, simp add: root_password_call_def run_inputbox requests_def split: prod.splits)
next
  assume e: "ending = [Back]"
  show ?thesis using assms(1,2) e
    by (intro exI [of _ "w\<lparr>user_answers := later, trace := trace w @ [Asked ''Enter Root password'' [''''] Back]\<rparr>"])
      (subst root_password_recursion, simp add: root_password_call_def run_inputbox requests_def)
next
  assume e: "ending = [Enter pass, Back]"
  show ?thesis using assms(1,2) e
    by (intro exI [of _ "w\<lparr>user_answers := later, trace := trace w @
        [Asked ''Enter Root password'' [''''] (Enter pass), Asked ''Re-enter Root password'' [''''] Back]\<rparr>"])
      (subst root_password_recursion, simp add: root_password_call_def run_inputbox requests_def)
qed

text \<open>C29. After any number of mistyped root passwords, leaving the dialog does not leave the password alone: every
  password that was mistyped is set all the same, the last one first, so that the very first mistake is the password in the end; and a password that is retyped
  correctly at last is set before all of them.  Nothing else is requested, and only without a mistake does leaving request nothing.  The
  answers are those of the mistakes followed by \<open>ending\<close>: a password entered twice, or leaving the first or the second box.\<close>

theorem root_password_after_mistakes:
  assumes "status w = Running" "list_all (\<lambda>(pass, confirm). pass \<noteq> confirm) ms"
    and "user_answers w = mistake_answers ms @ ending @ later"
    and "ending = [Enter pass, Enter pass] \<or> ending = [Back] \<or> ending = [Enter pass, Back]"
  shows "\<exists>w'. user_answers w' = later \<and> requests w' = requests w \<and> host w' = host w \<and>
    run_state (tui_set_root_password env) (w, c) =
      run_state (set_passwords env ((if ending = [Enter pass, Enter pass] then [pass] else []) @ rev (map fst ms))) (w', c)"
  using assms(1-3)
proof (induction ms arbitrary: w)
  case Nil
  then show ?case
    using root_password_end [of w ending later pass env c] assms(4) by (auto simp: mistake_answers_def)
next
  case (Cons m ms)
  obtain p q where m: "m = (p, q)" by force
  obtain w1 where w1: "user_answers w1 = mistake_answers ms @ ending @ later" "status w1 = Running" "requests w1 = requests w" "host w1 = host w"
      "run_state (tui_set_root_password env) (w, c) =
        run_state (do { u \<leftarrow> tui_set_root_password env; utils_set_root_password env p }) (w1, c)"
    using root_password_mistake [of w p q "mistake_answers ms @ ending @ later" env c] Cons.prems
    by (auto simp: m mistake_answers_def)
  let ?first = "(if ending = [Enter pass, Enter pass] then [pass] else []) @ rev (map fst ms)"
  obtain w' where w': "user_answers w' = later" "requests w' = requests w1" "host w' = host w1"
      "run_state (tui_set_root_password env) (w1, c) = run_state (set_passwords env ?first) (w', c)"
    using Cons.IH [of w1] Cons.prems(2) w1(1,2) by (auto simp: m)
  have "run_state (tui_set_root_password env) (w, c) = run_state (set_passwords env (?first @ [p])) (w', c)"
    unfolding set_passwords_snoc w1(5) by (simp add: w'(4))
  then show ?case using w' w1(3,4) by (intro exI [of _ w']) (simp add: m)
qed

theorem root_password_after_mistakes_witness:
  "\<exists>w' :: unit world. requests w' = [] \<and>
    run_state (tui_set_root_password quiet_env)
      ((world_of [])\<lparr>user_answers := [Enter ''sectet'', Enter ''secret'', Enter ''decret'', Enter ''secret'', Back]\<rparr>, initial_config False) =
    run_state (set_passwords quiet_env [''decret'', ''sectet'']) (w', initial_config False)"
  using root_password_after_mistakes [of "(world_of [])\<lparr>user_answers := [Enter ''sectet'', Enter ''secret'', Enter ''decret'', Enter ''secret'', Back]\<rparr>"
      "[(''sectet'', ''secret''), (''decret'', ''secret'')]" "[Back]" "[]" "''''" quiet_env "initial_config False"]
  by (auto simp: world_of_def mistake_answers_def requests_def)

subsection \<open>New users\<close>

lemma asking_Tui_Setup [asking]:
  "only_asks (user_name_round a1)" "only_asks ask_user_name" "only_asks ask_shell" "only_asks (ask_twice b1)"
  "only_asks (user_pass_round c1 c2)" "only_asks (ask_user_pass d1)"
  unfolding user_name_round_def ask_user_name_def ask_shell_def ask_twice_def user_pass_round_def ask_user_pass_def
  by (intro asking)+

lemma asked_user_name:
  assumes "run_state ask_user_name s = (Some user, s')"
  shows "\<not> bad_user_name user"
proof -
  obtain x t where x: "run_state (case x of None \<Rightarrow> ret None | Some user \<Rightarrow> repeat_dialog user_name_round None user) t = (Some user, s')"
    using assms unfolding ask_user_name_def by (rule run_bind_obtain)
  then obtain y where "run_state (repeat_dialog user_name_round None y) t = (Some user, s')" by (cases x) simp_all
  then have "case Some user of None \<Rightarrow> True | Some user \<Rightarrow> \<not> bad_user_name user"
    by (rule repeat_dialog_result [rotated 2]) (auto simp: user_name_round_def split: if_splits prod.splits option.splits)
  then show ?thesis by simp
qed

lemma asked_shell: "run_state ask_shell s = (sh, s') \<Longrightarrow> sh \<in> set ('''' # shell_paths)"
  by (auto simp: ask_shell_def menu_def run_lift_io shell_paths_def ask_def min_def nth_Cons split: if_splits prod.splits option.splits
      list.splits answer.splits nat.splits)

text \<open>C28. Whatever is answered, asking for a new user requests nothing but the creation of one user: with a name that is not empty and has
  no space and no capital, and with a shell of the list or none at all.\<close>

theorem new_user_checked:
  "\<exists>v. requests v = requests w \<and> host v = host w \<and>
    (run_state (tui_create_new_user env) (w, c) = ((), (v, c)) \<or>
     (\<exists>user pass sh. user \<noteq> '''' \<and> contains user '' '' = False \<and> list_all (\<lambda>ch. is_upper ch = False) user \<and>
        sh \<in> set ('''' # shell_paths) \<and>
        run_state (tui_create_new_user env) (w, c) = run_state (utils_create_new_user env user pass sh) (v, c)))"
proof -
  obtain n w1 where n: "run_state ask_user_name (w, c) = (n, (w1, c))" "requests w1 = requests w" "host w1 = host w"
    by (rule only_asks_obtain [OF asking_Tui_Setup(2)])
  obtain sh w2 where sh: "run_state ask_shell (w1, c) = (sh, (w2, c))" "requests w2 = requests w1" "host w2 = host w1"
    by (rule only_asks_obtain [OF asking_Tui_Setup(3)])
  show ?thesis
  proof (cases n)
    case None
    with n show ?thesis by (intro exI [of _ w1]) (simp add: tui_create_new_user_def)
  next
    case (Some user)
    obtain p w3 where p: "run_state (ask_user_pass user) (w2, c) = (p, (w3, c))" "requests w3 = requests w2" "host w3 = host w2"
      by (rule only_asks_obtain [OF asking_Tui_Setup(6)])
    show ?thesis
    proof (cases p)
      case None
      with n sh p Some show ?thesis by (intro exI [of _ w3]) (simp add: tui_create_new_user_def)
    next
      case given: (Some pass)
      obtain u w4 where u: "run_state (notice ''\<newline>Creating User and setting groups...\<newline>'') (w3, c) = (u, (w4, c))"
          "requests w4 = requests w3" "host w4 = host w3"
        by (rule only_asks_obtain [OF only_asks_notice])
      have "run_state (tui_create_new_user env) (w, c) = run_state (utils_create_new_user env user pass sh) (w4, c)"
        using n sh p u Some given by (simp add: tui_create_new_user_def)
      moreover have "user \<noteq> '''' \<and> contains user '' '' = False \<and> list_all (\<lambda>ch. is_upper ch = False) user"
        using asked_user_name [OF n(1) [unfolded Some]] unfolding bad_user_name_def by (auto simp: list_all_iff list_ex_iff)
      ultimately show ?thesis using asked_shell [OF sh(1)] n sh p u by (intro exI [of _ w4]) auto
    qed
  qed
qed

end

