(* ===== verification/Tui_Boot.thy ===== *)
theory Tui_Boot
  imports Advance_Installer
begin

section \<open>Base system, desktop and boot loader screens (src/tui.cpp)\<close>

text \<open>
  Installing the base system, a desktop and a boot loader from the menus of the advanced installation.
\<close>

subsection \<open>Boot loaders\<close>

definition set_boot_default_body :: "string \<Rightarrow> string" where
  "set_boot_default_body uefi_mount = (''\<newline>Some UEFI firmware may not detect the bootloader unless it is set\<newline>as default ''
        @ ''by copying its efi stub to '' @ uefi_mount
        @ ''/EFI/boot and renaming it to bootx64.efi.\<newline>\<newline>It is recommended to do so unless ''
        @ ''already using a default bootloader,\<newline>or where intending to use multiple bootloaders.\<newline>''
        @ ''\<newline>Set bootloader as default?\<newline>'')"

definition bootid_content :: string where
  "bootid_content = (''\<newline>Input the name identify your grub installation. Choosing an existing name overwrites ''
        @ ''it.\<newline>'')"

definition cachyos_entry_cmd :: string where
  "cachyos_entry_cmd = (''efibootmgr | cut -d'' @ backslash @ ''  -f2 | grep -q cachyos'')"

text \<open>The name of the boot entry is asked for only where one of the default name exists; \<open>None\<close> gives up.\<close>

definition ask_bootid :: "'m sysenv \<Rightarrow> ('m, string option) app" where
  "ask_bootid env = do {
     there \<leftarrow> lift_io (exec_checked env cachyos_entry_cmd);
     if there then inputbox ''cachyos'' bootid_content else ret (Some ''cachyos'')
   }"

definition tui_install_grub_uefi :: "'m sysenv \<Rightarrow> ('m, unit) app" where
  "tui_install_grub_uefi env = do {
     do_install_uefi \<leftarrow> yesno ''\<newline>Install UEFI Bootloader GRUB.\<newline>'';
     if \<not> do_install_uefi then ret ()
     else do {
       asked \<leftarrow> ask_bootid env;
       case asked of
         None \<Rightarrow> ret ()
       | Some bootid \<Rightarrow> do {
           uefi_mount \<leftarrow> cfg_str ''UEFI_MOUNT'';
           do_set_default_bootloader \<leftarrow> yesno (set_boot_default_body uefi_mount);
           u \<leftarrow> install_grub_uefi env bootid do_set_default_bootloader;
           if \<not> do_set_default_bootloader then ret ()
           else notice ''\<newline>Grub has been set as the default bootloader.\<newline>''
         }
     }
   }"

text \<open>The other boot loaders: a question, the installation and a note.\<close>

definition install_after_question :: "string \<Rightarrow> ('m, unit) app \<Rightarrow> string \<Rightarrow> ('m, unit) app" where
  "install_after_question content install note_text = do {
     do_install_uefi \<leftarrow> yesno content;
     if \<not> do_install_uefi then ret ()
     else do { u \<leftarrow> install; notice note_text }
   }"

definition refind_content :: string where
  "refind_content = (''\<newline>This installs refind and configures it to automatically detect your kernels.\<newline>''
        @ ''No support for encrypted /boot or intel microcode.\<newline>These require manual boot stanzas ''
        @ ''or using a different bootloader.\<newline>'')"

definition tui_install_refind :: "'m sysenv \<Rightarrow> ('m, unit) app" where
  "tui_install_refind env =
     install_after_question refind_content (utils_install_refind env) ''\<newline>Refind was succesfully installed\<newline>''"

definition limine_content :: string where
  "limine_content = (''\<newline>This installs Limine and configures it for Btrfs support.\<newline>No support for ''
        @ ''encrypted /boot.\<newline>'')"

definition tui_install_limine :: "'m sysenv \<Rightarrow> ('m, unit) app" where
  "tui_install_limine env =
     install_after_question limine_content (utils_install_limine env) ''\<newline>Limine was succesfully installed\<newline>''"

definition systemd_boot_content :: string where
  "systemd_boot_content = (''\<newline>This installs systemd-boot and generates boot entries\<newline>for the currently ''
        @ ''installed kernels.\<newline>This bootloader requires your kernels to be on the UEFI partition.\<newline>''
        @ ''This is achieved by mounting the UEFI partition to /boot.\<newline>'')"

definition tui_install_systemd_boot :: "'m sysenv \<Rightarrow> ('m, unit) app" where
  "tui_install_systemd_boot env =
     install_after_question systemd_boot_content (utils_install_systemd_boot env) ''\<newline>Systemd-boot was installed\<newline>''"

definition ensure_efivarfs :: "'m sysenv \<Rightarrow> ('m, unit) io" where
  "ensure_efivarfs env =
     (if ndevenv env then do {
        efi \<leftarrow> inspect False (dir_exists env efi_path);
        if efi then mount_efivarfs env else ret ()
      }
      else ret ())"

definition bootloader_info :: string where
  "bootloader_info = (''Refind can be used standalone or in conjunction with other bootloaders as a graphical bootmenu.\<newline>''
        @ ''It autodetects all bootable systems at boot time.\<newline>Grub supports encrypted /boot partition ''
        @ ''and detects all bootable systems when you update your kernels.\<newline>It supports booting ''
        @ ''.iso files from a harddrive and automatic boot entries for btrfs snapshots.\<newline>Systemd-boot ''
        @ ''is very light and simple and has little automation.\<newline>It autodetects windows, but is ''
        @ ''otherwise unsuited for multibooting.\<newline>Limine is lightweight bootloader with Btrfs snapshots ''
        @ ''loading support.'')"

definition uefi_bootloaders :: "string list" where
  "uefi_bootloaders = [''grub'', ''refind'', ''systemd-boot'', ''limine'']"

definition uefi_bootloader_choice :: "'m sysenv \<Rightarrow> nat \<Rightarrow> ('m, unit) app" where
  "uefi_bootloader_choice env selected = do {
     u \<leftarrow> cfg_set ''BOOTLOADER'' (CStr (uefi_bootloaders ! selected));
     if selected = 0 then tui_install_grub_uefi env
     else if selected = 1 then tui_install_refind env
     else if selected = 2 then tui_install_systemd_boot env
     else tui_install_limine env
   }"

definition tui_uefi_bootloader :: "'m sysenv \<Rightarrow> ('m, unit) app" where
  "tui_uefi_bootloader env = do {
     u \<leftarrow> lift_io (ensure_efivarfs env);
     selected \<leftarrow> menu uefi_bootloaders bootloader_info;
     case selected of None \<Rightarrow> ret () | Some i \<Rightarrow> uefi_bootloader_choice env i
   }"

definition tui_bios_bootloader :: "'m sysenv \<Rightarrow> ('m, unit) app" where
  "tui_bios_bootloader env = do {
     u \<leftarrow> lift_io (ensure_efivarfs env);
     picked \<leftarrow> pick_entry [''grub''] ''The installation device for GRUB can be selected in the next step.'';
     case picked of
       None \<Rightarrow> ret ()
     | Some selected_bootloader \<Rightarrow> do {
         selected \<leftarrow> select_device env;
         if \<not> selected then ret ()
         else do {
           u \<leftarrow> cfg_set ''BOOTLOADER'' (CStr selected_bootloader);
           bios_bootloader env selected_bootloader
         }
       }
   }"

definition tui_install_bootloader :: "'m sysenv \<Rightarrow> ('m, unit) app" where
  "tui_install_bootloader env = do {
     base \<leftarrow> check_base env;
     if \<not> base then ret ()
     else do {
       system_info \<leftarrow> cfg_str ''SYSTEM'';
       if system_info = ''BIOS'' then tui_bios_bootloader env else tui_uefi_bootloader env
     }
   }"

subsection \<open>Base system and desktop\<close>

text \<open>A list of packages that was reported not to be available is only logged; the other errors end the process.\<close>

definition after_profiles :: "profile_error + unit \<Rightarrow> ('m, unit) app" where
  "after_profiles r = (case r of Inr done \<Rightarrow> ret () | Inl e \<Rightarrow> if e = Reported then ret () else lift_io (halt Terminated))"

definition available_kernels :: "string list" where
  "available_kernels =
     [''linux-cachyos'', ''linux'', ''linux-zen'', ''linux-lts'', ''linux-cachyos-cacule'', ''linux-cachyos-bmq'',
      ''linux-cachyos-pds'', ''linux-cachyos-tt'', ''linux-cachyos-bore'']"

definition has_linux_cmd :: "string \<Rightarrow> string" where
  "has_linux_cmd packages = (''echo '' @ squote @ packages @ squote @ '' | grep -q '' @ squote @ ''linux'' @ squote)"

definition kernel_images_cmd :: "string \<Rightarrow> string" where
  "kernel_images_cmd mnt = (''ls '' @ mnt @ ''/boot/*.img >/dev/null 2>&1'')"

definition kernel_names_cmd :: "string \<Rightarrow> string" where
  "kernel_names_cmd mnt = (''ls '' @ mnt @ ''/boot/*.img | cut -d'' @ squote @ ''-'' @ squote @ '' -f2 | grep -v ucode.img | sort -u'')"

definition kernels_options_body :: string where
  "kernels_options_body = (''\<newline>\<newline>The base package group will be installed automatically.\<newline>The base-devel ''
        @ ''package group is required to use the Arch User Repository (AUR).\<newline>Use [Spacebar] to ''
        @ ''de/select options listed.\<newline>'')"

text \<open>One press of OK in the list of kernels; the list stays open when no kernel is chosen and none is installed.\<close>

definition kernels_round :: "'m sysenv \<Rightarrow> string \<Rightarrow> string \<Rightarrow> ('m, string + string) app" where
  "kernels_round env mnt packages = do {
     marks \<leftarrow> checklist available_kernels kernels_options_body;
     case marks of
       None \<Rightarrow> ret (Inr packages)
     | Some kernels_state \<Rightarrow> do {
         let packages = from_checklist_string available_kernels kernels_state;
         chosen \<leftarrow> lift_io (exec_checked env (has_linux_cmd packages));
         if chosen then ret (Inr packages)
         else do {
           images \<leftarrow> lift_io (exec_checked env (kernel_images_cmd mnt));
           if \<not> images then do { u \<leftarrow> notice ''\<newline>At least one kernel must be selected.\<newline>''; ret (Inl packages) }
           else do {
             names \<leftarrow> lift_io (exec env (kernel_names_cmd mnt) False);
             u \<leftarrow> notice (''\<newline>linux-'' @ names @ '' detected\<newline>'');
             ret (Inr packages)
           }
         }
       }
   }"

abbreviation base_installed :: string where "base_installed \<equiv> ''/mnt/.base_installed''"

definition confirm_reinstall :: "'m sysenv \<Rightarrow> ('m, bool) app" where
  "confirm_reinstall env = do {
     there \<leftarrow> lift_io (path_exists env base_installed);
     if there then do {
       do_reinstall \<leftarrow> yesno ''\<newline>A CachyOS Base has already been installed on this partition.\<newline>Proceed anyway?\<newline>'';
       if \<not> do_reinstall then ret False
       else do { removed \<leftarrow> lift_io (remove_path env base_installed); ret True }
     }
     else ret True
   }"

definition tui_install_base ::
  "'m sysenv \<Rightarrow> (nat \<Rightarrow> nat) \<Rightarrow> (string \<Rightarrow> (string \<times> toml) list option) \<Rightarrow> ('m, unit) app" where
  "tui_install_base env grow toml_parse = do {
     proceed \<leftarrow> confirm_reinstall env;
     if \<not> proceed then ret ()
     else do {
       mnt \<leftarrow> cfg_str ''MOUNTPOINT'';
       packages \<leftarrow> repeat_dialog (kernels_round env mnt) '''' '''';
       if packages = '''' then ret ()
       else do {
         u \<leftarrow> cfg_set ''KERNEL'' (CStr packages);
         r \<leftarrow> install_base env grow toml_parse packages;
         after_profiles r
       }
     }
   }"

definition available_des :: "string list" where
  "available_des =
     [''kde'', ''xfce'', ''sway'', ''wayfire'', ''i3wm'', ''gnome'', ''openbox'', ''bspwm'', ''lxqt'', ''cinnamon'', ''ukui'',
      ''qtile'', ''mate'', ''lxde'', ''hyprland'', ''budgie'']"

definition des_options_body :: string where
  "des_options_body = (''\<newline>\<newline>Please choose a desktop environment.\<newline>Use [Spacebar] to de/select ''
        @ ''options listed.\<newline>'')"

definition tui_install_desktop ::
  "'m sysenv \<Rightarrow> (string \<Rightarrow> (string \<times> toml) list option) \<Rightarrow> ('m, unit) app" where
  "tui_install_desktop env toml_parse = do {
     there \<leftarrow> (if ndevenv env then lift_io (path_exists env base_installed) else ret True);
     if \<not> there then notice ''\<newline>A CachyOS Base is not installed on this partition.\<newline>''
     else do {
       picked \<leftarrow> pick_entry available_des des_options_body;
       case picked of
         None \<Rightarrow> ret ()
       | Some desktop_env \<Rightarrow> do { r \<leftarrow> install_desktop env toml_parse desktop_env; after_profiles r }
     }
   }"

subsection \<open>The screens only advance the world\<close>

lemma advances_Tui_Boot [advancing]:
  "advances fst (ask_bootid env)" "advances fst (tui_install_grub_uefi env)" "advances fst (tui_install_refind env)"
  "advances fst (tui_install_limine env)" "advances fst (tui_install_systemd_boot env)" "advances id (ensure_efivarfs env)"
  "advances fst (uefi_bootloader_choice env a1)" "advances fst (tui_uefi_bootloader env)" "advances fst (tui_bios_bootloader env)"
  "advances fst (tui_install_bootloader env)" "advances fst (after_profiles b1)" "advances fst (kernels_round env c1 c2)"
  "advances fst (confirm_reinstall env)" "advances fst (tui_install_base env d1 d2)" "advances fst (tui_install_desktop env e1)"
  unfolding ask_bootid_def tui_install_grub_uefi_def tui_install_refind_def tui_install_limine_def tui_install_systemd_boot_def
    install_after_question_def ensure_efivarfs_def uefi_bootloader_choice_def tui_uefi_bootloader_def tui_bios_bootloader_def
    tui_install_bootloader_def after_profiles_def kernels_round_def confirm_reinstall_def tui_install_base_def tui_install_desktop_def
  by (intro advancing)+

lemma checklist_uses_answer:
  "run_state (checklist entries content) s = (Some marks, s') \<Longrightarrow> length (user_answers (fst s')) < length (user_answers (fst s))"
  by (cases s) (auto simp: checklist_def run_lift_io ask_def split: list.splits if_splits)

interpretation kernels: dialogue "kernels_round env mnt" for env mnt
  unfolding kernels_round_def
  by (intro dialogue_one_round one_round_asked [of "checklist entries content" for entries content, OF checklist_uses_answer]
      one_round_done advancing) (simp_all add: one_round_done)

end
