(* ===== verification/Tui_Edit.thy ===== *)
theory Tui_Edit
  imports Advance_Installer
begin

section \<open>Editing, logs and drivers (src/misc.cpp, src/drivers.cpp)\<close>

text \<open>
  The screens that open configuration files and logs of the installed system in an editor, the switches for the fsck hook and
  the package cache, and the installation of graphics drivers.
\<close>

subsection \<open>Configuration files\<close>

text \<open>Outside of a real installation the files edited are those of the running system.\<close>

definition edited_root :: "'m sysenv \<Rightarrow> ('m, string) app" where
  "edited_root env = (if ndevenv env then cfg_str ''MOUNTPOINT'' else ret ''/'')"

definition edit_then_ask :: "'m sysenv \<Rightarrow> string \<Rightarrow> string \<Rightarrow> ('m, unit) app \<Rightarrow> ('m, unit) app" where
  "edit_then_ask env path content action = do {
     mnt \<leftarrow> edited_root env;
     out \<leftarrow> lift_io (exec env (''vim \"'' @ mnt @ path @ ''\"'') True);
     agreed \<leftarrow> yesno content;
     if agreed then action else ret ()
   }"

definition edit_mkinitcpio :: "'m sysenv \<Rightarrow> ('m, unit) app" where
  "edit_mkinitcpio env =
     edit_then_ask env ''/etc/mkinitcpio.conf'' ''\<newline>Run mkinitcpio?\<newline>'' (utils_arch_chroot env ''mkinitcpio -P'' True)"

definition edit_grub :: "'m sysenv \<Rightarrow> ('m, unit) app" where
  "edit_grub env = edit_then_ask env ''/etc/default/grub'' ''\<newline>Update GRUB?\<newline>'' (grub_mkconfig env)"

datatype edit_target = Vim string | Grub_File | Initcpio_File

text \<open>The name of a file is what follows the last slash of its path.\<close>

definition path_filename :: "string \<Rightarrow> string" where
  "path_filename path = rev (takeWhile (\<lambda>ch. ch \<noteq> CHR ''/'') (rev path))"

text \<open>The entry of the menu for a file that there is, with what choosing it opens.\<close>

definition check_and_add :: "'m sysenv \<Rightarrow> string \<Rightarrow> string \<Rightarrow> edit_target \<Rightarrow> ('m, (string \<times> edit_target) list) io" where
  "check_and_add env file_path dir what = do {
     there \<leftarrow> path_exists env file_path;
     ret (if \<not> there then []
          else if dir = '''' then [(path_filename file_path, what)] else [(path_filename file_path @ '' '' @ dir, what)])
   }"

fun check_all :: "'m sysenv \<Rightarrow> (string \<times> string \<times> edit_target) list \<Rightarrow> ('m, (string \<times> edit_target) list) io" where
  "check_all env [] = ret []"
| "check_all env ((file_path, dir, what) # paths) = do {
     entry \<leftarrow> check_and_add env file_path dir what;
     entries \<leftarrow> check_all env paths;
     ret (entry @ entries)
   }"

definition home_files :: "string \<Rightarrow> string \<Rightarrow> (string \<times> string \<times> edit_target) list" where
  "home_files home_entry name =
     map (\<lambda>file. (home_entry @ ''/'' @ name @ ''/'' @ file, name, Vim (home_entry @ ''/'' @ name @ ''/'' @ file)))
       [''.extend.xinitrc'', ''.xinitrc'', ''.extend.Xresources'', ''.Xresources'']"

definition local_paths :: "string \<Rightarrow> string \<Rightarrow> string list" where
  "local_paths mnt uefi_mount =
     map (\<lambda>p. mnt @ p)
       [''/etc/crypttab'', ''/etc/fstab'', ''/boot/refind_linux.conf'', uefi_mount @ ''/EFI/refind/refind_linux.conf'',
        uefi_mount @ ''/loader/loader.conf'', ''/etc/hostname'', ''/etc/hosts'', ''/etc/systemd/journald.conf'',
        ''/etc/conf.d/keymaps'', ''/etc/locale.conf'', ''/etc/lightdm/lightdm.conf'', ''/etc/lxdm/lxdm.conf'', ''/etc/rc.conf'',
        ''/etc/pacman.conf'', ''/etc/makepkg.conf'', ''/etc/sddm.conf'', ''/etc/sudoers.conf'', ''/boot/syslinux/syslinux.cfg'',
        ''/etc/vconsole.conf'', ''/etc/default/grub'', ''/etc/mkinitcpio.conf'']"

definition editable_files :: "'m sysenv \<Rightarrow> string \<Rightarrow> string \<Rightarrow> ('m, (string \<times> edit_target) list) io" where
  "editable_files env mnt uefi_mount = do {
     there \<leftarrow> path_exists env (mnt @ ''/home'');
     homes \<leftarrow> (if there then do {
         is_dir \<leftarrow> inspect False (dir_exists env (mnt @ ''/home''));
         if \<not> is_dir then terminate []
         else do {
           names \<leftarrow> inspect [] (dir_entries env (mnt @ ''/home''));
           check_all env (concat (map (home_files (mnt @ ''/home'')) names))
         }
       }
       else ret []);
     let paths = local_paths mnt uefi_mount;
     others \<leftarrow> check_all env (map (\<lambda>p. (p, '''', Vim p)) (take (length paths - 2) paths));
     customs \<leftarrow> check_all env [(paths ! 19, '''', Grub_File), (paths ! 20, '''', Initcpio_File)];
     ret (homes @ others @ customs)
   }"

definition seeconf_body :: string where
  "seeconf_body = ''\<newline>Select any file listed below to be reviewed or amended.\<newline>''"

text \<open>Choosing from an empty list is an access out of range.\<close>

definition edit_choice :: "'m sysenv \<Rightarrow> (string \<times> edit_target) list \<Rightarrow> nat \<Rightarrow> ('m, bool) app" where
  "edit_choice env entries selected = do {
     u \<leftarrow> (if selected < length entries then
         (case snd (entries ! selected) of
            Vim filename \<Rightarrow> do { out \<leftarrow> lift_io (exec env (''vim '' @ filename) True); ret () }
          | Grub_File \<Rightarrow> edit_grub env
          | Initcpio_File \<Rightarrow> edit_mkinitcpio env)
       else lift_io (terminate ()));
     ret False
   }"

definition edit_configs :: "'m sysenv \<Rightarrow> ('m, unit) app" where
  "edit_configs env = do {
     uefi_mount \<leftarrow> cfg_str ''UEFI_MOUNT'';
     mnt \<leftarrow> edited_root env;
     entries \<leftarrow> lift_io (editable_files env mnt uefi_mount);
     menu_loop (map fst entries) seeconf_body (edit_choice env entries)
   }"

definition edit_pacman_conf :: "'m sysenv \<Rightarrow> ('m, unit) app" where
  "edit_pacman_conf env = do {
     out \<leftarrow> lift_io (exec env ''vim /etc/pacman.conf'' True);
     if ndevenv env then do {
       u \<leftarrow> notice ''\<newline>Updating database ...\<newline>'';
       out \<leftarrow> lift_io (exec env ''pacman -Syy'' True);
       ret ()
     }
     else ret ()
   }"

subsection \<open>Switches\<close>

definition set_fsck_hook :: "('m, unit) app" where
  "set_fsck_hook = do {
     do_sethook \<leftarrow> yesno ''\<newline>Do you want to use fsck hook?\<newline>'';
     cfg_set ''FSCK_HOOK'' (CInt (if do_sethook then 1 else 0))
   }"

definition set_cache_content :: string where
  "set_cache_content = (''\<newline>Do you want to use the pacman cache of the running system instead\<newline>of the ''
        @ ''installation target?\<newline>This can reduce the size of the required downloads in the installation.\<newline>'')"

definition set_cache :: "('m, unit) app" where
  "set_cache = do {
     use_host \<leftarrow> yesno set_cache_content;
     if \<not> use_host then do {
       u \<leftarrow> cfg_set ''hostcache'' (CInt 0);
       cfg_set ''cachepath'' (CStr ''/mnt/var/cache/pacman/pkg/'')
     }
     else do {
       u \<leftarrow> cfg_set ''hostcache'' (CInt 1);
       cfg_set ''cachepath'' (CStr ''/var/cache/pacman/pkg/'')
     }
   }"

subsection \<open>Logs\<close>

definition fzf :: string where
  "fzf = ''fzf --reverse --header=\"Exit by pressing esc\" --prompt=\"Type to filter log entries > \"''"

definition logs_choice :: "'m sysenv \<Rightarrow> string \<Rightarrow> nat \<Rightarrow> ('m, bool) app" where
  "logs_choice env mnt selected =
     (let show_log = (\<lambda>command. do { out \<leftarrow> lift_io (exec env command True); ret False })
      in if selected = 0 then show_log (''arch-chroot '' @ mnt @ '' dmesg | '' @ fzf)
         else if selected = 1 then show_log (fzf @ '' < '' @ mnt @ ''/var/log/pacman.log'')
         else if selected = 2 then show_log (fzf @ '' < '' @ mnt @ ''/var/log/Xorg.0.log'')
         else if selected = 3 then show_log (''arch-chroot '' @ mnt @ '' journalctl | '' @ fzf)
         else ret True)"

definition logs_menu :: "'m sysenv \<Rightarrow> ('m, unit) app" where
  "logs_menu env = do {
     mnt \<leftarrow> edited_root env;
     menu_loop [''Dmesg'', ''Pacman log'', ''Xorg log'', ''Journalctl'', ''Back''] '''' (logs_choice env mnt)
   }"

subsection \<open>Graphics drivers (drivers.cpp)\<close>

definition video_installed :: "'m sysenv \<Rightarrow> string \<Rightarrow> ('m, unit) io" where
  "video_installed env mnt = do { opened \<leftarrow> create_file_for_overwrite env (mnt @ ''/.video_installed'') ''''; ret () }"

definition chwd_cmd :: "string \<Rightarrow> string \<Rightarrow> string \<Rightarrow> string" where
  "chwd_cmd cachepath mnt driver =
     (''chwd --pmcachedir '' @ squote @ cachepath @ squote @ '' --pmroot '' @ mnt @ '' -f -i '' @ driver
        @ '' 2>>/tmp/cachyos-install.log 2>&1'')"

definition setup_graphics_card :: "'m sysenv \<Rightarrow> ('m, unit) app" where
  "setup_graphics_card env = do {
     profile_names \<leftarrow> lift_io (get_available_profile_names env);
     if profile_names = [] then ret ()
     else do {
       picked \<leftarrow> pick_entry profile_names ''\<newline>Use [Spacebar] to de/select options listed.\<newline>'';
       case picked of
         None \<Rightarrow> ret ()
       | Some driver \<Rightarrow>
           if driver = '''' then ret ()
           else do {
             mnt \<leftarrow> cfg_str ''MOUNTPOINT'';
             cachepath \<leftarrow> cfg_str ''cachepath'';
             if ndevenv env then lift_io (do {
               followed \<leftarrow> follow_process_log_widget env [''/bin/sh'', ''-c'', chwd_cmd cachepath mnt driver];
               video_installed env mnt
             })
             else ret ()
           }
     }
   }"

definition auto_install_drivers :: "'m sysenv \<Rightarrow> ('m, unit) app" where
  "auto_install_drivers env = do {
     mnt \<leftarrow> cfg_str ''MOUNTPOINT'';
     if ndevenv env then lift_io (do {
       installed \<leftarrow> install_available_profiles env mnt;
       if \<not> installed then ret () else video_installed env mnt
     })
     else ret ()
   }"

definition graphics_choice :: "'m sysenv \<Rightarrow> nat \<Rightarrow> ('m, bool) app" where
  "graphics_choice env selected =
     (if selected = 0 then do { u \<leftarrow> auto_install_drivers env; ret False }
      else if selected = 1 then do { u \<leftarrow> setup_graphics_card env; ret False }
      else ret True)"

definition install_graphics_menu :: "'m sysenv \<Rightarrow> ('m, unit) app" where
  "install_graphics_menu env = do {
     mnt \<leftarrow> cfg_str ''MOUNTPOINT'';
     menu_loop [''Auto-install drivers'', ''Select Display Driver'', ''Back''] '''' (graphics_choice env)
   }"

definition drivers_choice :: "'m sysenv \<Rightarrow> nat \<Rightarrow> ('m, bool) app" where
  "drivers_choice env selected = (if selected = 0 then do { u \<leftarrow> install_graphics_menu env; ret False } else ret True)"

definition install_drivers_menu :: "'m sysenv \<Rightarrow> ('m, unit) app" where
  "install_drivers_menu env = menu_loop [''Install Display Driver'', ''Back''] '''' (drivers_choice env)"

subsection \<open>The screens only advance the world\<close>

lemma advances_check_all [advancing]: "advances id (check_all env paths)"
proof (induction paths)
  case Nil
  show ?case unfolding check_all.simps by (intro advancing)
next
  case (Cons p paths)
  obtain file_path dir what where p: "p = (file_path, dir, what)" by (cases p) auto
  show ?case unfolding p check_all.simps check_and_add_def by (intro advancing Cons)
qed

lemma advances_edited [advancing]:
  "(\<And>x. advances proj (f x)) \<Longrightarrow> advances proj a \<Longrightarrow> advances proj b \<Longrightarrow>
   advances proj (case e of Vim x \<Rightarrow> f x | Grub_File \<Rightarrow> a | Initcpio_File \<Rightarrow> b)"
  by (cases e) simp_all

lemma advances_Tui_Edit [advancing]:
  "advances fst (edited_root env)" "advances fst (edit_mkinitcpio env)" "advances fst (edit_grub env)"
  "advances id (editable_files env a1 a2)" "advances fst (edit_choice env b1 b2)" "advances fst (edit_configs env)"
  "advances fst (edit_pacman_conf env)" "advances fst set_fsck_hook" "advances fst set_cache" "advances fst (logs_choice env c1 c2)"
  "advances fst (logs_menu env)" "advances id (video_installed env d1)" "advances fst (setup_graphics_card env)"
  "advances fst (auto_install_drivers env)" "advances fst (graphics_choice env e1)" "advances fst (install_graphics_menu env)"
  "advances fst (drivers_choice env f1)" "advances fst (install_drivers_menu env)"
  unfolding edited_root_def edit_mkinitcpio_def edit_grub_def edit_then_ask_def editable_files_def edit_choice_def edit_configs_def
    edit_pacman_conf_def set_fsck_hook_def set_cache_def logs_choice_def logs_menu_def video_installed_def setup_graphics_card_def
    auto_install_drivers_def graphics_choice_def install_graphics_menu_def drivers_choice_def install_drivers_menu_def
  by (intro advancing)+

interpretation edit_menu: dialogue "menu_body entries seeconf_body (edit_choice env files)" for env entries files
  by (intro menu_dialogue advancing)

interpretation logs: dialogue "menu_body [''Dmesg'', ''Pacman log'', ''Xorg log'', ''Journalctl'', ''Back''] '''' (logs_choice env mnt)"
  for env mnt
  by (intro menu_dialogue advancing)

interpretation graphics: dialogue "menu_body [''Auto-install drivers'', ''Select Display Driver'', ''Back''] '''' (graphics_choice env)" for env
  by (intro menu_dialogue advancing)

interpretation drivers: dialogue "menu_body [''Install Display Driver'', ''Back''] '''' (drivers_choice env)" for env
  by (intro menu_dialogue advancing)

end
