(* ===== verification/Tui_Raid.thy ===== *)
theory Tui_Raid
  imports Advance_Installer
begin

section \<open>RAID screens (src/tui.cpp)\<close>

text \<open>
  Creating, listing and removing the arrays of the Linux software RAID.  A box with only an OK button is a notice, whatever key
  closes it.
\<close>

subsection \<open>Names of arrays\<close>

text \<open>\<^verbatim>\<open>std::stoi\<close>: white space, a sign and digits, of which there must be one; a number too large for an int and no digits throw.\<close>

definition is_space :: "char \<Rightarrow> bool" where
  "is_space ch \<longleftrightarrow> (of_char ch :: nat) \<in> {9, 10, 11, 12, 13, 32}"

definition stoi :: "string \<Rightarrow> int option" where
  "stoi str =
     (let s = dropWhile is_space str;
          negative = (s \<noteq> [] \<and> hd s = CHR ''-'');
          digits = takeWhile is_digit (if s \<noteq> [] \<and> (hd s = CHR ''-'' \<or> hd s = CHR ''+'') then tl s else s);
          val = (if negative then - digits_value digits else digits_value digits)
      in if digits \<noteq> [] \<and> - (2 ^ 31) \<le> val \<and> val < 2 ^ 31 then Some val else None)"

text \<open>
  The name of the next array: the number of the first array listed, and one.  A list that is too short, and the largest
  int, leave the defined behaviour.
\<close>

definition next_raid_device :: "string \<Rightarrow> string option" where
  "next_raid_device existing_raids =
     (if existing_raids = '''' then Some ''/dev/md0''
      else if length existing_raids < 7 then None
      else (case stoi (drop 7 existing_raids) of
              None \<Rightarrow> None
            | Some num \<Rightarrow> if num + 1 < 2 ^ 31 then Some (''/dev/md'' @ show_int (num + 1)) else None))"

definition list_arrays_cmd :: string where
  "list_arrays_cmd = (''ls /dev/md* 2>/dev/null | grep -E '' @ squote @ ''^/dev/md[0-9]+$'' @ squote)"

subsection \<open>Creating an array\<close>

definition list_raid_disks_cmd :: string where
  "list_raid_disks_cmd = (''lsblk -dpno NAME,SIZE,TYPE | grep -E '' @ squote @ ''(disk|raid)'' @ squote @ '' | grep -v -E '' @ squote
        @ ''(SWAP|LVM)'' @ squote @ '' | awk '' @ squote @ ''{print $1 \" (\" $2 \")\"}'' @ squote)"

definition raid_level_entries :: "string list" where
  "raid_level_entries = [''RAID 0 (Striping)'', ''RAID 1 (Mirroring)'', ''Back'']"

definition ask_raid_level :: "('m, string) app" where
  "ask_raid_level = do {
     selected \<leftarrow> menu raid_level_entries ''\<newline>Select RAID level:\<newline>'';
     ret (case selected of None \<Rightarrow> '''' | Some i \<Rightarrow> if i = 0 then ''0'' else if i = 1 then ''1'' else '''')
   }"

definition disk_path :: "string \<Rightarrow> string" where
  "disk_path disk_entry = takeWhile (\<lambda>ch. ch \<noteq> space_char) disk_entry"

definition select_disks_body :: "string \<Rightarrow> string" where
  "select_disks_body raid_level = (''\<newline>Select disks for RAID '' @ raid_level @ '' (minimum 2):\<newline>'')"

text \<open>There is room for the marks of 32 disks; more disks are an access out of range.\<close>

definition ask_raid_disks :: "string list \<Rightarrow> string \<Rightarrow> ('m, string list) app" where
  "ask_raid_disks disk_list raid_level =
     (if length disk_list > 32 then lift_io (terminate [])
      else do {
        marks \<leftarrow> checklist disk_list (select_disks_body raid_level);
        ret (case marks of None \<Rightarrow> [] | Some disk_selections \<Rightarrow> map disk_path (ticked disk_list disk_selections))
      })"

definition confirm_raid :: "string \<Rightarrow> string \<Rightarrow> string list \<Rightarrow> string" where
  "confirm_raid raid_level raid_device selected_disks =
     (''\<newline>Create RAID '' @ raid_level @ '' array '' @ squote @ raid_device @ squote
        @ '' with disks:\<newline>'' @ join selected_disks newline_char
        @ ''\<newline>\<newline>This will destroy all data on selected disks!\<newline>'')"

definition stop_cmd :: "string \<Rightarrow> string" where
  "stop_cmd disk = ''mdadm --stop '' @ disk @ '' 2>/dev/null''"

definition zero_superblock_cmd :: "string \<Rightarrow> string" where
  "zero_superblock_cmd disk = ''mdadm --zero-superblock '' @ disk @ '' 2>/dev/null''"

fun release_disks :: "'m sysenv \<Rightarrow> string list \<Rightarrow> ('m, unit) io" where
  "release_disks env [] = ret ()"
| "release_disks env (disk # disks) = do {
     out \<leftarrow> exec env (stop_cmd disk) True;
     out \<leftarrow> exec env (zero_superblock_cmd disk) True;
     release_disks env disks
   }"

definition mdadm_create_cmd :: "string \<Rightarrow> string \<Rightarrow> string list \<Rightarrow> string" where
  "mdadm_create_cmd raid_device raid_level selected_disks =
     (''mdadm --create '' @ raid_device @ '' --level='' @ raid_level @ '' --raid-devices=''
        @ show_nat (length selected_disks) @ '' '' @ join selected_disks space_char @ '' --run'')"

definition save_mdadm_cmd :: string where
  "save_mdadm_cmd = ''mdadm --detail --scan >> /etc/mdadm.conf''"

definition make_array :: "'m sysenv \<Rightarrow> string \<Rightarrow> string \<Rightarrow> string list \<Rightarrow> ('m, unit) app" where
  "make_array env raid_level raid_device selected_disks = do {
     u \<leftarrow> lift_io (release_disks env selected_disks);
     u \<leftarrow> notice (''\<newline>Creating RAID '' @ raid_level @ '' array...\<newline>This may take some time.\<newline>'');
     created \<leftarrow> lift_io (exec_checked env (mdadm_create_cmd raid_device raid_level selected_disks));
     if \<not> created then notice ''\<newline>Failed to create RAID array.\<newline>Check /tmp/cachyos-install.log for details.\<newline>''
     else do {
       out \<leftarrow> lift_io (exec env save_mdadm_cmd True);
       u \<leftarrow> cfg_set ''RAID'' (CInt 1);
       notice (''\<newline>RAID array '' @ raid_device @ '' created successfully!\<newline>'')
     }
   }"

definition would_create :: "string \<Rightarrow> string \<Rightarrow> string list \<Rightarrow> string" where
  "would_create raid_level raid_device selected_disks =
     (''\<newline>[DEV MODE] Would create RAID '' @ raid_level @ '' array '' @ squote @ raid_device @ squote
        @ '' with disks:\<newline>'' @ join selected_disks newline_char @ ''\<newline>'')"

definition name_and_create :: "'m sysenv \<Rightarrow> string \<Rightarrow> string list \<Rightarrow> ('m, unit) app" where
  "name_and_create env raid_level selected_disks = do {
     existing_raids \<leftarrow> lift_io (exec env list_arrays_cmd False);
     case next_raid_device existing_raids of
       None \<Rightarrow> lift_io (halt Terminated)
     | Some raid_device \<Rightarrow> do {
         do_create \<leftarrow> yesno (confirm_raid raid_level raid_device selected_disks);
         if \<not> do_create then ret ()
         else if ndevenv env then make_array env raid_level raid_device selected_disks
         else notice (would_create raid_level raid_device selected_disks)
       }
   }"

definition raid_create_array :: "'m sysenv \<Rightarrow> ('m, unit) app" where
  "raid_create_array env = do {
     raid_level \<leftarrow> ask_raid_level;
     if raid_level = '''' then ret ()
     else do {
       available_disks \<leftarrow> lift_io (exec env list_raid_disks_cmd False);
       let disk_list = make_multiline available_disks False newline_char;
       if length disk_list < 2 then notice ''\<newline>At least 2 disks are required to create a RAID array.\<newline>''
       else do {
         selected_disks \<leftarrow> ask_raid_disks disk_list raid_level;
         if length selected_disks < 2 then notice ''\<newline>At least 2 disks must be selected.\<newline>''
         else name_and_create env raid_level selected_disks
       }
     }
   }"

subsection \<open>Listing and removing\<close>

definition list_mdstat_cmd :: string where
  "list_mdstat_cmd = (''cat /proc/mdstat 2>/dev/null | grep -E '' @ squote @ ''^md[0-9]+ :'' @ squote @ '' || echo '' @ squote
        @ ''No RAID arrays found'' @ squote)"

definition raid_list_arrays :: "'m sysenv \<Rightarrow> ('m, unit) app" where
  "raid_list_arrays env = do {
     raid_info \<leftarrow> lift_io (exec env list_mdstat_cmd False);
     notice (''\<newline>Current RAID Arrays:\<newline>\<newline>'' @ raid_info @ ''\<newline>'')
   }"

definition confirm_remove :: "string \<Rightarrow> string" where
  "confirm_remove selected_array = (''\<newline>Remove RAID array '' @ selected_array
        @ ''?\<newline>This will stop the array but preserve data on member disks.\<newline>'')"

definition forget_array_cmd :: "string \<Rightarrow> string" where
  "forget_array_cmd name = (''sed -i '' @ squote @ ''/'' @ name @ ''/d'' @ squote @ '' /etc/mdadm.conf 2>/dev/null'')"

text \<open>The name in the configuration is the path without its first five characters; a shorter path throws.\<close>

definition stop_array :: "'m sysenv \<Rightarrow> string \<Rightarrow> ('m, unit) app" where
  "stop_array env selected_array = do {
     stopped \<leftarrow> lift_io (exec_checked env (''mdadm --stop '' @ selected_array));
     if \<not> stopped then notice ''\<newline>Failed to stop RAID array.\<newline>It may be in use.\<newline>''
     else if length selected_array < 5 then lift_io (halt Terminated)
     else do {
       out \<leftarrow> lift_io (exec env (forget_array_cmd (drop 5 selected_array)) True);
       notice (''\<newline>RAID array '' @ selected_array @ '' removed successfully!\<newline>'')
     }
   }"

definition raid_remove_array :: "'m sysenv \<Rightarrow> ('m, unit) app" where
  "raid_remove_array env = do {
     arrays_raw \<leftarrow> lift_io (exec env list_arrays_cmd False);
     if arrays_raw = '''' then notice ''\<newline>No RAID arrays found.\<newline>''
     else do {
       picked \<leftarrow> pick_entry (make_multiline arrays_raw False newline_char) ''\<newline>Select RAID array to remove:\<newline>'';
       case picked of
         None \<Rightarrow> ret ()
       | Some selected_array \<Rightarrow>
           if selected_array = '''' then ret ()
           else do {
             do_remove \<leftarrow> yesno (confirm_remove selected_array);
             if \<not> do_remove then ret ()
             else if ndevenv env then stop_array env selected_array
             else notice (''\<newline>[DEV MODE] Would remove RAID array '' @ selected_array @ ''\<newline>'')
           }
     }
   }"

definition raid_menu_body :: string where
  "raid_menu_body = (''\<newline>RAID (Redundant Array of Independent Disks) allows you to combine\<newline>multiple ''
        @ ''physical disks into a single logical unit.\<newline>\<newline>RAID 0: Striping - Better performance, ''
        @ ''no redundancy\<newline>RAID 1: Mirroring - Data redundancy, half the total capacity\<newline>'')"

definition raid_choice :: "'m sysenv \<Rightarrow> nat \<Rightarrow> ('m, bool) app" where
  "raid_choice env selected =
     (if selected = 0 then do { u \<leftarrow> raid_create_array env; ret False }
      else if selected = 1 then do { u \<leftarrow> raid_list_arrays env; ret False }
      else if selected = 2 then do { u \<leftarrow> raid_remove_array env; ret False }
      else ret True)"

definition raid_menu :: "'m sysenv \<Rightarrow> ('m, unit) app" where
  "raid_menu env =
     menu_loop [''Create RAID Array'', ''List RAID Arrays'', ''Remove RAID Array'', ''Back''] raid_menu_body (raid_choice env)"

subsection \<open>The screens only advance the world\<close>

lemma advances_release_disks [advancing]: "advances id (release_disks env disks)"
proof (induction disks)
  case Nil
  show ?case unfolding release_disks.simps by (intro advancing)
next
  case (Cons disk disks)
  show ?case unfolding release_disks.simps by (intro advancing Cons)
qed

lemma advances_Tui_Raid [advancing]:
  "advances fst ask_raid_level" "advances fst (ask_raid_disks a1 a2)" "advances fst (make_array env b1 b2 b3)"
  "advances fst (name_and_create env c1 c2)" "advances fst (raid_create_array env)" "advances fst (raid_list_arrays env)"
  "advances fst (stop_array env d1)" "advances fst (raid_remove_array env)" "advances fst (raid_choice env e1)"
  "advances fst (raid_menu env)"
  unfolding ask_raid_level_def ask_raid_disks_def make_array_def name_and_create_def raid_create_array_def raid_list_arrays_def
    stop_array_def raid_remove_array_def raid_choice_def raid_menu_def
  by (intro advancing)+

interpretation raid: dialogue
  "menu_body [''Create RAID Array'', ''List RAID Arrays'', ''Remove RAID Array'', ''Back''] raid_menu_body (raid_choice env)" for env
  by (intro menu_dialogue advancing)

subsection \<open>What creating an array does\<close>

definition array_requests :: "string \<Rightarrow> string \<Rightarrow> string list \<Rightarrow> bool \<Rightarrow> event list" where
  "array_requests raid_level raid_device disks created =
     concat (map (\<lambda>disk. [System (stop_cmd disk), System (zero_superblock_cmd disk)]) disks) @
     [System (mdadm_create_cmd raid_device raid_level disks)] @ (if created then [System save_mdadm_cmd] else [])"

lemma release_disks_trace:
  "status w = Running \<Longrightarrow> \<exists>w'. run_state (release_disks env disks) w = ((), w') \<and> status w' = Running \<and>
     trace w' = trace w @ concat (map (\<lambda>disk. [System (stop_cmd disk), System (zero_superblock_cmd disk)]) disks)"
proof (induction disks arbitrary: w)
  case (Cons disk disks)
  obtain o1 w1 where w1: "run_state (exec env (stop_cmd disk) True) w = (o1, w1)" "status w1 = Running"
      "trace w1 = trace w @ [System (stop_cmd disk)]"
    using Cons.prems by (simp add: run_exec_system)
  obtain o2 w2 where w2: "run_state (exec env (zero_superblock_cmd disk) True) w1 = (o2, w2)" "status w2 = Running"
      "trace w2 = trace w1 @ [System (zero_superblock_cmd disk)]"
    using w1(2) by (simp add: run_exec_system)
  obtain w3 where "run_state (release_disks env disks) w2 = ((), w3)" "status w3 = Running"
      "trace w3 = trace w2 @ concat (map (\<lambda>disk. [System (stop_cmd disk), System (zero_superblock_cmd disk)]) disks)"
    using Cons.IH [OF w2(2)] by blast
  then show ?case using w1 w2 by simp
qed simp

text \<open>Whether the array is made: what mdadm answers when the disks have been released.\<close>

definition array_created :: "'m sysenv \<Rightarrow> string \<Rightarrow> string \<Rightarrow> string list \<Rightarrow> 'm world \<Rightarrow> bool" where
  "array_created env level dev disks w \<longleftrightarrow>
     fst (system_call env (mdadm_create_cmd dev level disks) (host (snd (run_state (release_disks env disks) w)))) = 0"

lemma make_array_requests:
  assumes "status w = Running"
  shows "\<exists>w'. run_state (make_array env level dev disks) (w, c) =
      ((), (w', if array_created env level dev disks w then c(''RAID'' \<mapsto> CInt 1) else c)) \<and>
    requests w' = requests w @ array_requests level dev disks (array_created env level dev disks w)"
proof -
  obtain w1 where w1: "run_state (release_disks env disks) w = ((), w1)" "status w1 = Running"
      "trace w1 = trace w @ concat (map (\<lambda>disk. [System (stop_cmd disk), System (zero_superblock_cmd disk)]) disks)"
    using release_disks_trace [OF assms] by blast
  obtain w2 where w2: "run_state (notice (''\<newline>Creating RAID '' @ level @ '' array...\<newline>This may take some time.\<newline>'')) (w1, c) =
      ((), (w2, c))" "status w2 = Running" "requests w2 = requests w1" "host w2 = host w1"
    using w1(2) by (simp add: run_notice requests_def)
  have "filter (\<lambda>ev. \<not> is_screen ev) (concat (map (\<lambda>disk. [System (stop_cmd disk), System (zero_superblock_cmd disk)]) disks)) =
      concat (map (\<lambda>disk. [System (stop_cmd disk), System (zero_superblock_cmd disk)]) disks)"
    by (rule filter_True) auto
  then have r2: "requests w2 = requests w @ concat (map (\<lambda>disk. [System (stop_cmd disk), System (zero_superblock_cmd disk)]) disks)"
    using w1(3) w2(3) by (simp add: requests_def)
  obtain rc h where call: "system_call env (mdadm_create_cmd dev level disks) (host w2) = (rc, h)" by force
  have made: "array_created env level dev disks w \<longleftrightarrow> rc = 0" using call w1(1) w2(4) by (simp add: array_created_def)
  obtain w' c' where run: "run_state (make_array env level dev disks) (w, c) = ((), (w', c'))" by (metis (full_types) old.unit.exhaust surj_pair)
  have "c' = (if rc = 0 then c(''RAID'' \<mapsto> CInt 1) else c) \<and> requests w' = requests w @ array_requests level dev disks (rc = 0)"
    using run w1(1) w2(1,2) r2 run_exec_checked [OF w2(2) call]
    by (cases "rc = 0") (auto simp: make_array_def run_lift_io run_exec_system run_notice run_cfg_set requests_def array_requests_def)
  with run show ?thesis unfolding made by blast
qed

text \<open>The agreement, in the state \<open>v\<close> right after it, and all that follows it.\<close>

definition agreed_array ::
  "'m sysenv \<Rightarrow> string \<Rightarrow> string \<Rightarrow> string list \<Rightarrow> 'm world \<Rightarrow> 'm world \<Rightarrow> config \<Rightarrow> 'm world \<Rightarrow> config \<Rightarrow> bool" where
  "agreed_array env level dev disks w v c w' c' \<longleftrightarrow>
     (\<exists>earlier. prefix (trace w) earlier \<and> trace v = earlier @ [Asked (confirm_raid level dev disks) [] Agree]) \<and>
     prefix (trace v) (trace w') \<and>
     requests w' = requests v @ array_requests level dev disks (array_created env level dev disks v) \<and>
     c' = (if array_created env level dev disks v then c(''RAID'' \<mapsto> CInt 1) else c)"

lemma name_and_create_requests:
  "\<exists>w' c' v listed. run_state (name_and_create env level disks) (w, c) = ((), (w', c')) \<and>
    requests v = requests w @ listed \<and> set listed \<subseteq> {Popen list_arrays_cmd} \<and>
    (w' = v \<and> c' = c \<or> (\<exists>dev. agreed_array env level dev disks w v c w' c'))"
proof -
  obtain x w1 listed where x: "run_state (lift_io (exec env list_arrays_cmd False)) (w, c) = (x, (w1, c))"
      "requests w1 = requests w @ listed" "set listed \<subseteq> {Popen list_arrays_cmd}" by (rule run_listing)
  have p1: "prefix (trace w) (trace w1)" by (rule advances_prefix [OF _ x(1)]) (intro advancing)
  show ?thesis
  proof (cases "next_raid_device x")
    case None
    then show ?thesis using x
      by (intro exI [of _ "snd (run_state (halt Terminated) w1)"] exI [of _ c] exI [of _ "snd (run_state (halt Terminated) w1)"] exI [of _ listed])
        (simp add: name_and_create_def run_lift_io halt_def requests_def)
  next
    case (Some dev)
    obtain b w2 where b: "run_state (yesno (confirm_raid level dev disks)) (w1, c) = (b, (w2, c))" "requests w2 = requests w1"
      by (rule only_asks_obtain [OF only_asks_widgets(2)])
    consider "\<not> b" | "b" "ndevenv env" | "b" "\<not> ndevenv env" by blast
    then show ?thesis
    proof cases
      case 1
      with x b Some show ?thesis
        by (intro exI [of _ w2] exI [of _ c] exI [of _ w2] exI [of _ listed]) (simp add: name_and_create_def)
    next
      case 2
      then have bt: "run_state (yesno (confirm_raid level dev disks)) (w1, c) = (True, (w2, c))" using b by simp
      let ?created = "array_created env level dev disks w2"
      obtain w' where m: "run_state (make_array env level dev disks) (w2, c) = ((), (w', if ?created then c(''RAID'' \<mapsto> CInt 1) else c))"
          "requests w' = requests w2 @ array_requests level dev disks ?created"
        using make_array_requests [OF agreed(1) [OF bt]] by blast
      have "prefix (trace w2) (trace w')" by (rule advances_prefix [OF advances_Tui_Raid(3) m(1)])
      then have "agreed_array env level dev disks w w2 c w' (if ?created then c(''RAID'' \<mapsto> CInt 1) else c)"
        using p1 agreed(2) [OF bt] m(2) unfolding agreed_array_def by blast
      then show ?thesis using x bt m(1) 2 Some b(2)
        by (intro exI [of _ w'] exI [of _ "if ?created then c(''RAID'' \<mapsto> CInt 1) else c"] exI [of _ w2] exI [of _ listed])
          (auto simp: name_and_create_def)
    next
      case 3
      obtain u w3 where n: "run_state (notice (would_create level dev disks)) (w2, c) = (u, (w3, c))" "requests w3 = requests w2"
        by (rule only_asks_obtain [OF only_asks_notice])
      with 3 x b Some show ?thesis
        by (intro exI [of _ w3] exI [of _ c] exI [of _ w3] exI [of _ listed]) (simp add: name_and_create_def)
    qed
  qed
qed

lemma asking_raid: "only_asks ask_raid_level" "only_asks (ask_raid_disks disk_list level)"
  unfolding ask_raid_level_def ask_raid_disks_def by (intro asking)+

lemma asked_level: "run_state ask_raid_level s = (level, s') \<Longrightarrow> level = '''' \<or> level \<in> {''0'', ''1''}"
  by (auto simp: ask_raid_level_def split: prod.splits option.splits if_splits)

text \<open>C30. Creating an array either only looks at the disks and the arrays there are and leaves the settings alone, or it does so up to a
  state \<open>v\<close> whose last event is the agreement of the user to a question that shows the level, 0 or 1, the name of the array and its disks, of which there
  are two at least.  What is requested from there on is exactly this: each of these disks is released, in order, then the array is made of
  them, and if mdadm succeeds, on the host that the releases leave, the configuration is saved.  The table notes the
  array exactly when mdadm succeeds.\<close>

theorem raid_destroys_only_agreed:
  "\<exists>w' c' v listed. run_state (raid_create_array env) (w, c) = ((), (w', c')) \<and>
    requests v = requests w @ listed \<and> set listed \<subseteq> {Popen list_raid_disks_cmd, Popen list_arrays_cmd} \<and>
    (w' = v \<and> c' = c \<or>
     (\<exists>level dev disks earlier created. level \<in> {''0'', ''1''} \<and> 2 \<le> length disks \<and>
        prefix (trace w) earlier \<and> trace v = earlier @ [Asked (confirm_raid level dev disks) [] Agree] \<and> prefix (trace v) (trace w') \<and>
        (created \<longleftrightarrow> fst (system_call env (mdadm_create_cmd dev level disks)
                             (host (snd (run_state (release_disks env disks) v)))) = 0) \<and>
        requests w' = requests v @ array_requests level dev disks created \<and>
        c' = (if created then c(''RAID'' \<mapsto> CInt 1) else c)))"
proof -
  let ?run = "run_state (raid_create_array env) (w, c)"
  obtain level w1 where l: "run_state ask_raid_level (w, c) = (level, (w1, c))" "requests w1 = requests w"
    by (rule only_asks_obtain [OF asking_raid(1)])
  obtain x w2 listed where x: "run_state (lift_io (exec env list_raid_disks_cmd False)) (w1, c) = (x, (w2, c))"
      "requests w2 = requests w1 @ listed" "set listed \<subseteq> {Popen list_raid_disks_cmd}" by (rule run_listing)
  let ?disks = "make_multiline x False newline_char"
  obtain disks w3 where d: "run_state (ask_raid_disks ?disks level) (w2, c) = (disks, (w3, c))" "requests w3 = requests w2"
    by (rule only_asks_obtain [OF asking_raid(2)])
  have p: "prefix (trace w) (trace w3)"
    using advances_prefix [OF advances_Tui_Raid(1) l(1)] advances_prefix [OF _ x(1)] advances_prefix [OF advances_Tui_Raid(2) d(1)]
      advances_lift_io advances_exec by (metis prefix_order.trans)
  have told: "?thesis" if "?run = ((), (v, c))" "requests v = requests w @ listed" for v
    using that x(3) by (intro exI [of _ v] exI [of _ c] exI [of _ v] exI [of _ listed]) auto
  consider "level = ''''" | "level \<noteq> ''''" "length ?disks < 2" | "level \<noteq> ''''" "\<not> length ?disks < 2" "length disks < 2"
    | "level \<noteq> ''''" "\<not> length ?disks < 2" "\<not> length disks < 2" by blast
  then show ?thesis
  proof cases
    case 1
    then show ?thesis using l by (intro exI [of _ w1] exI [of _ c] exI [of _ w1] exI [of _ "[]"]) (simp add: raid_create_array_def)
  next
    case 2
    obtain u v where "run_state (notice ''\<newline>At least 2 disks are required to create a RAID array.\<newline>'') (w2, c) = (u, (v, c))"
        "requests v = requests w2" by (rule only_asks_obtain [OF only_asks_notice])
    then show ?thesis using 2 l x by (intro told [of v]) (simp_all add: raid_create_array_def)
  next
    case 3
    obtain u v where "run_state (notice ''\<newline>At least 2 disks must be selected.\<newline>'') (w3, c) = (u, (v, c))"
        "requests v = requests w3" by (rule only_asks_obtain [OF only_asks_notice])
    then show ?thesis using 3 l x d by (intro told [of v]) (simp_all add: raid_create_array_def)
  next
    case 4
    obtain w' c' v listed' where n: "run_state (name_and_create env level disks) (w3, c) = ((), (w', c'))"
        "requests v = requests w3 @ listed'" "set listed' \<subseteq> {Popen list_arrays_cmd}"
        "w' = v \<and> c' = c \<or> (\<exists>dev. agreed_array env level dev disks w3 v c w' c')"
      using name_and_create_requests [of env level disks w3 c] by blast
    have run: "?run = ((), (w', c'))" using 4 l(1) x(1) d(1) n(1) by (simp add: raid_create_array_def)
    have looked: "requests v = requests w @ (listed @ listed')" "set (listed @ listed') \<subseteq> {Popen list_raid_disks_cmd, Popen list_arrays_cmd}"
      using l(2) x(2,3) d(2) n(2,3) by auto
    show ?thesis
    proof (cases "w' = v \<and> c' = c")
      case True
      with run looked show ?thesis by blast
    next
      case False
      then obtain dev earlier where a: "prefix (trace w3) earlier" "trace v = earlier @ [Asked (confirm_raid level dev disks) [] Agree]"
          "prefix (trace v) (trace w')" "requests w' = requests v @ array_requests level dev disks (array_created env level dev disks v)"
          "c' = (if array_created env level dev disks v then c(''RAID'' \<mapsto> CInt 1) else c)"
        using n(4) unfolding agreed_array_def by blast
      have "prefix (trace w) earlier" using p a(1) by (rule prefix_order.trans)
      moreover have "level \<in> {''0'', ''1''}" "2 \<le> length disks" using asked_level [OF l(1)] 4(1,3) by auto
      ultimately have "\<exists>level dev disks earlier created. level \<in> {''0'', ''1''} \<and> 2 \<le> length disks \<and>
          prefix (trace w) earlier \<and> trace v = earlier @ [Asked (confirm_raid level dev disks) [] Agree] \<and> prefix (trace v) (trace w') \<and>
          (created \<longleftrightarrow> fst (system_call env (mdadm_create_cmd dev level disks)
                             (host (snd (run_state (release_disks env disks) v)))) = 0) \<and>
          requests w' = requests v @ array_requests level dev disks created \<and>
          c' = (if created then c(''RAID'' \<mapsto> CInt 1) else c)"
        using a(2-5) array_created_def [of env level dev disks v] by blast
      with run looked show ?thesis by blast
    qed
  qed
qed

subsection \<open>The name of the next array\<close>

lemma digits_of_nat:
  "takeWhile is_digit (show_nat n @ rest) = show_nat n @ takeWhile is_digit rest" "digits_value (show_nat n) = int n"
proof -
  have digit: "is_digit (digit_char d)" if "d < 10" for d
    using that by (auto simp: is_digit_def digit_char_def numeral_eq_Suc less_Suc_eq)
  have "list_all is_digit (show_nat n) \<and> digits_value (show_nat n) = int n"
  proof (induction n rule: show_nat.induct)
    case (1 n)
    show ?case
    proof (cases "n < 10")
      case True
      then show ?thesis by (simp add: show_nat_digit digit digits_value_def of_char_digit)
    next
      case False
      then have "show_nat n = show_nat (n div 10) @ [digit_char (n mod 10)]" by (subst show_nat.simps) simp
      moreover have "digits_value (show_nat (n div 10) @ [digit_char (n mod 10)]) = 10 * digits_value (show_nat (n div 10)) + int (n mod 10)"
        by (simp add: digits_value_def of_char_digit)
      ultimately show ?thesis using 1 [OF False] mult_div_mod_eq [of "10 :: int" "int n"] by (simp add: digit zdiv_int zmod_int)
    qed
  qed
  then show "takeWhile is_digit (show_nat n @ rest) = show_nat n @ takeWhile is_digit rest" "digits_value (show_nat n) = int n"
    by (auto simp: list_all_iff)
qed

lemma stoi_show_nat:
  assumes "n < 2 ^ 31" "rest = [] \<or> \<not> is_digit (hd rest)"
  shows "stoi (show_nat n @ rest) = Some (int n)"
proof -
  obtain d ds where d: "show_nat n = d # ds" by (cases "show_nat n") auto
  have "48 \<le> (of_char d :: nat)" "(of_char d :: nat) < 58" using show_nat_chars [of d n] d by simp_all
  then have nice: "\<not> is_space d" "d \<noteq> CHR ''-''" "d \<noteq> CHR ''+''" by (auto simp: is_space_def)
  have "takeWhile is_digit (d # ds @ rest) = d # ds" using digits_of_nat(1) [of n rest] assms(2) by (cases rest) (auto simp: d)
  then show ?thesis using nice assms(1) digits_of_nat(2) [of n] by (simp add: stoi_def d Let_def)
qed

abbreviation raid_name :: "nat \<Rightarrow> string" where "raid_name n \<equiv> ''/dev/md'' @ show_nat n"

text \<open>The name proposed for the next array is one more than the number of the first array listed, whatever else is listed: with
  /dev/md0 and /dev/md1 there, it is /dev/md1.\<close>

theorem next_array_after_first:
  assumes "n + 1 < 2 ^ 31"
  shows "next_raid_device (join (map raid_name (n # ns)) newline_char) = Some (raid_name (n + 1))"
proof -
  obtain rest where rest: "join (map raid_name (n # ns)) newline_char = ''/dev/md'' @ show_nat n @ rest" "rest = [] \<or> \<not> is_digit (hd rest)"
    by (cases "ns = []") (auto simp: join_Cons is_digit_def)
  have "next_raid_device (''/dev/md'' @ show_nat n @ rest) = Some (raid_name (n + 1))"
    using stoi_show_nat [OF _ rest(2), of n] assms by (simp add: next_raid_device_def show_int_def nat_add_distrib)
  then show ?thesis unfolding rest(1) .
qed

theorem next_array_after_first_witness:
  "next_raid_device (join [''/dev/md0'', ''/dev/md1''] newline_char) = Some ''/dev/md1''"
  using next_array_after_first [of 0 "[1]"] by (simp add: show_nat_digit digit_char_def)

end
