(* ===== verification/Tui_Zfs.thy ===== *)
theory Tui_Zfs
  imports Advance_Installer
begin

section \<open>ZFS screens (src/tui.cpp)\<close>

text \<open>
  Creating a pool, importing one, and the operations on datasets.  Every text that is asked for is validated in a loop whose
  screen shows why the entry before was refused; what was typed is kept in the box.
\<close>

subsection \<open>Validated input\<close>

definition in_range :: "char \<Rightarrow> char \<Rightarrow> char \<Rightarrow> bool" where
  "in_range lo hi ch \<longleftrightarrow> (of_char lo :: nat) \<le> of_char ch \<and> (of_char ch :: nat) \<le> of_char hi"

definition is_alpha :: "char \<Rightarrow> bool" where
  "is_alpha ch \<longleftrightarrow> in_range (CHR ''a'') (CHR ''z'') ch \<or> in_range (CHR ''A'') (CHR ''Z'') ch"

definition is_alnum :: "char \<Rightarrow> bool" where
  "is_alnum ch \<longleftrightarrow> is_alpha ch \<or> is_digit ch"

text \<open>A round shows the text given for the entry before; the validation gives the text of an entry it refuses.\<close>

definition valid_round :: "string \<Rightarrow> (string \<Rightarrow> string option) \<Rightarrow> string \<times> string \<Rightarrow> ('m, string \<times> string + string option) app" where
  "valid_round body refused state = do {
     entered \<leftarrow> inputbox (fst state) (snd state);
     ret (case entered of
            None \<Rightarrow> Inr None
          | Some val \<Rightarrow> (case refused val of None \<Rightarrow> Inr (Some val) | Some menu_text \<Rightarrow> Inl (val, menu_text)))
   }"

definition ask_valid :: "string \<Rightarrow> string \<Rightarrow> (string \<Rightarrow> string option) \<Rightarrow> ('m, string option) app" where
  "ask_valid body val refused = repeat_dialog (valid_round body refused) None (val, body)"

subsection \<open>Pools\<close>

definition zpool_body :: string where
  "zpool_body = ''\<newline>Enter the name for the new zpool\<newline>''"

definition zpool_validation1 :: string where
  "zpool_validation1 = (''\<newline>zpool names must start with a letter and are limited to only alphanumeric characters ''
        @ ''and the special characters : . - _\<newline>'')"

definition zpool_validation2 :: string where
  "zpool_validation2 = (''\<newline>zpool names cannot start with the reserved words (log, mirror, raidz, raidz1, raidz2, ''
        @ ''raidz3, or spare)\<newline>'')"

definition reserved_words :: "string list" where
  "reserved_words = [''log'', ''mirror'', ''raidz'', ''raidz1'', ''raidz2'', ''spare'']"

definition bad_name :: "string \<Rightarrow> string \<Rightarrow> bool" where
  "bad_name special name \<longleftrightarrow> name = '''' \<or> is_digit (hd name) \<or> list_ex (\<lambda>ch. \<not> is_alnum ch \<and> ch \<notin> set special) name"

definition refused_zpool :: "string \<Rightarrow> string option" where
  "refused_zpool zfs_zpool_name =
     (if list_ex (contains zfs_zpool_name) reserved_words then Some zpool_validation2
      else if bad_name '':.-_'' zfs_zpool_name then Some zpool_validation1 else None)"

definition tui_zfs_create_zpool ::
  "'m sysenv \<Rightarrow> mtab_entry sorter \<Rightarrow> fs_partition sorter \<Rightarrow> bool \<Rightarrow> ('m, unit) app" where
  "tui_zfs_create_zpool env sort_mtab sort_parts do_create_zpool = do {
     u \<leftarrow> tui_lvm_detect env;
     u \<leftarrow> cfg_set ''INCLUDE_PART'' (CStr (''part'' @ backslash @ ''|lvm'' @ backslash @ ''|crypt''));
     u \<leftarrow> utils_umount_partitions env sort_mtab;
     u \<leftarrow> search_partitions env sort_parts;
     mounted \<leftarrow> lift_io (list_mounted env);
     devs \<leftarrow> lift_io (zfs_list_devs env);
     crypt \<leftarrow> lift_io (list_containing_crypt env);
     partitions \<leftarrow> cfg_strs ''PARTITIONS'';
     picked \<leftarrow> pick_word partitions ''\<newline>Select a partition to hold the ZFS zpool\<newline>'';
     case picked of
       None \<Rightarrow> ret ()
     | Some part \<Rightarrow> do {
         u \<leftarrow> cfg_set ''PARTITION'' (CStr part);
         named \<leftarrow> ask_valid zpool_body ''zpcachyos'' refused_zpool;
         case named of
           None \<Rightarrow> ret ()
         | Some zfs_zpool_name \<Rightarrow> do {
             u \<leftarrow> cfg_set ''ZFS_ZPOOL_NAME'' (CStr zfs_zpool_name);
             if \<not> do_create_zpool then ret ()
             else do {
               part \<leftarrow> cfg_str ''PARTITION'';
               success \<leftarrow> disk_zfs_create_zpool env part zfs_zpool_name;
               ret ()
             }
           }
       }
   }"

definition select_zpool_body :: string where
  "select_zpool_body = ''\<newline>Select a zpool from the list\<newline>''"

definition zfs_import_pool :: "'m sysenv \<Rightarrow> ('m, bool) app" where
  "zfs_import_pool env = do {
     listed \<leftarrow> lift_io (zfs_list_datasets env ''none'');
     let zlist = make_multiline listed False newline_char;
     if zlist = [] then do { u \<leftarrow> notice ''\<newline>No pools available\<newline>''; ret False }
     else do {
       picked \<leftarrow> pick_entry zlist select_zpool_body;
       case picked of
         None \<Rightarrow> ret False
       | Some zfs_zpool_name \<Rightarrow> do {
           u \<leftarrow> (if ndevenv env then do {
               mnt \<leftarrow> cfg_str ''MOUNTPOINT'';
               out \<leftarrow> lift_io (exec env (''zpool import -R '' @ mnt @ '' '' @ zfs_zpool_name @ '' 2>>/tmp/cachyos-install.log'') True);
               ret ()
             }
             else ret ());
           u \<leftarrow> cfg_set ''ZFS'' (CInt 1);
           ret True
         }
     }
   }"

subsection \<open>Datasets\<close>

definition dataset_body :: string where
  "dataset_body = (''\<newline>Enter a name and relative path for the dataset.\<newline> \<newline>For example, ''
        @ ''if you want the dataset to be placed at zpool/data/zname, enter '' @ squote @ ''data/zname''
        @ squote @ ''\<newline>'')"

definition refused_dataset :: "string \<Rightarrow> string option" where
  "refused_dataset zfs_dataset_name = (if bad_name ''/:.-_'' zfs_dataset_name then Some zpool_validation1 else None)"

definition zvol_size_body :: string where
  "zvol_size_body = ''\<newline>Enter the size of the zvol in megabytes(MB)\<newline>''"

definition refused_size :: "string \<Rightarrow> string option" where
  "refused_size zvol_size =
     (if zvol_size = '''' \<or> list_ex (\<lambda>ch. \<not> is_digit ch) zvol_size
      then Some ''\<newline>You must enter a number greater than 0\<newline>'' else None)"

definition make_dataset :: "'m sysenv \<Rightarrow> string \<Rightarrow> string \<Rightarrow> ('m, bool) app" where
  "make_dataset env zmount zfs_zpath =
     (if zmount = ''legacy'' then do { ok \<leftarrow> lift_io (zfs_create_dataset env zfs_zpath zmount); ret True }
      else if zmount = ''zvol'' then do {
        sized \<leftarrow> ask_valid zvol_size_body '''' refused_size;
        case sized of
          None \<Rightarrow> ret False
        | Some zvol_size \<Rightarrow> do { ok \<leftarrow> lift_io (zfs_create_zvol env zvol_size zfs_zpath); ret True }
      }
      else ret False)"

definition zfs_new_ds :: "'m sysenv \<Rightarrow> string \<Rightarrow> ('m, bool) app" where
  "zfs_new_ds env zmount = do {
     listed \<leftarrow> lift_io (exec env ''zpool list -H -o name'' False);
     let zlist = make_multiline listed False newline_char;
     if zlist = [] then do { u \<leftarrow> notice ''\<newline>No pools available\<newline>''; ret False }
     else do {
       picked \<leftarrow> pick_entry zlist select_zpool_body;
       case picked of
         None \<Rightarrow> ret False
       | Some zfs_zpool_name \<Rightarrow> do {
           named \<leftarrow> ask_valid dataset_body '''' refused_dataset;
           case named of
             None \<Rightarrow> ret False
           | Some zfs_dataset_name \<Rightarrow> make_dataset env zmount (zfs_zpool_name @ ''/'' @ zfs_dataset_name)
         }
     }
   }"

definition choose_dataset :: "'m sysenv \<Rightarrow> string \<Rightarrow> ('m, string option) app" where
  "choose_dataset env content = do {
     listed \<leftarrow> lift_io (zfs_list_datasets env ''none'');
     let zlist = make_multiline listed False newline_char;
     if zlist = [] then do { u \<leftarrow> notice ''\<newline>No datasets available\<newline>''; ret None }
     else pick_entry zlist content
   }"

definition property_body :: string where
  "property_body = (''\<newline>Enter the property and value you would like to\<newline>set using the format property=mountpoint\<newline>''
        @ '' \<newline>For example, you could enter:\<newline>compression=lz4\<newline>or\<newline>acltype=posixacl\<newline>''
        @ ''\<newline>'')"

text \<open>Letters, an equals sign, letters and digits.\<close>

definition is_property :: "string \<Rightarrow> bool" where
  "is_property ent \<longleftrightarrow> (case dropWhile is_alpha ent of [] \<Rightarrow> False | ch # val \<Rightarrow> ch = CHR ''='' \<and> list_all is_alnum val)"

definition refused_property :: "string \<Rightarrow> string option" where
  "refused_property ent = (if \<not> is_property ent then Some ''\<newline>Input must be the format property=mountpoint\<newline>'' else None)"

definition tui_zfs_set_property :: "'m sysenv \<Rightarrow> ('m, unit) app" where
  "tui_zfs_set_property env = do {
     chosen \<leftarrow> choose_dataset env ''\<newline>Select the dataset you would like to set a property on\<newline>'';
     case chosen of
       None \<Rightarrow> ret ()
     | Some zdataset \<Rightarrow> do {
         entered \<leftarrow> ask_valid property_body '''' refused_property;
         case entered of
           None \<Rightarrow> ret ()
         | Some zfs_property_ent \<Rightarrow> do { ok \<leftarrow> lift_io (zfs_set_property env zfs_property_ent zdataset); ret () }
       }
   }"

definition destroy_menu_body :: string where
  "destroy_menu_body = (''\<newline>Select the dataset you would like to permanently delete.\<newline>Please note that ''
        @ ''this will recursively delete any child datasets with warning\<newline>'')"

definition confirm_destroy :: "string \<Rightarrow> string" where
  "confirm_destroy zdataset = (''\<newline>Please confirm that you want to irrevocably\<newline>delete all the data on '' @ squote @ zdataset
        @ squote @ ''\<newline>and the data contained on all of it'' @ squote @ ''s children\<newline>'')"

definition tui_zfs_destroy_dataset :: "'m sysenv \<Rightarrow> ('m, unit) app" where
  "tui_zfs_destroy_dataset env = do {
     chosen \<leftarrow> choose_dataset env destroy_menu_body;
     case chosen of
       None \<Rightarrow> ret ()
     | Some zdataset \<Rightarrow> do {
         do_destroy \<leftarrow> yesno (confirm_destroy zdataset);
         if \<not> do_destroy then ret ()
         else do { ok \<leftarrow> lift_io (zfs_destroy_dataset env zdataset); ret () }
       }
   }"

subsection \<open>Automatic set up and the menu\<close>

definition zfs_auto :: "'m sysenv \<Rightarrow> ('m, unit) app" where
  "zfs_auto env = do {
     part \<leftarrow> cfg_str ''PARTITION'';
     zfs_zpool_name \<leftarrow> cfg_str ''ZFS_ZPOOL_NAME'';
     done \<leftarrow> zfs_auto_pres env part zfs_zpool_name;
     if \<not> done then notice ''\<newline>Operation failed\<newline>''
     else notice ''\<newline>Automatic zfs provisioning has been completed\<newline>''
   }"

text \<open>
  Both buttons only close this menu, and the entry that is highlighted then decides: leaving it with its first entry highlighted, as
  it is at first, creates a pool.
\<close>

definition zfs_menu :: "'m sysenv \<Rightarrow> mtab_entry sorter \<Rightarrow> fs_partition sorter \<Rightarrow> ('m, unit) app" where
  "zfs_menu env sort_mtab sort_parts = do {
     closed \<leftarrow> menu [''create zpool'', ''exit''] ''\<newline>ZFS Configuration\<newline>\<newline>'';
     let selected = (case closed of None \<Rightarrow> 0 | Some i \<Rightarrow> i);
     if selected = 0 then tui_zfs_create_zpool env sort_mtab sort_parts True else ret ()
   }"

subsection \<open>The screens only advance the world\<close>

lemma advances_Tui_Zfs [advancing]:
  "advances fst (valid_round a1 a2 a3)" "advances fst (ask_valid b1 b2 b3)" "advances fst (tui_zfs_create_zpool env c1 c2 c3)"
  "advances fst (zfs_import_pool env)" "advances fst (make_dataset env d1 d2)" "advances fst (zfs_new_ds env e1)"
  "advances fst (choose_dataset env f1)" "advances fst (tui_zfs_set_property env)" "advances fst (tui_zfs_destroy_dataset env)"
  "advances fst (zfs_auto env)" "advances fst (zfs_menu env g1 g2)"
  unfolding valid_round_def ask_valid_def tui_zfs_create_zpool_def zfs_import_pool_def make_dataset_def zfs_new_ds_def
    choose_dataset_def tui_zfs_set_property_def tui_zfs_destroy_dataset_def zfs_auto_def zfs_menu_def
  by (intro advancing)+

interpretation valid: dialogue "valid_round body refused" for body refused
proof
  fix s s' :: "string \<times> string" and w w' :: "'a world" and c c' :: config
  assume "run_state (valid_round body refused s) (w, c) = (Inl s', (w', c'))"
  then show "length (user_answers w') < length (user_answers w)"
    unfolding valid_round_def
    by (elim run_bind_obtain) (auto dest: inputbox_uses_answer split: option.splits)
qed

lemma ask_valid_result:
  assumes "run_state (ask_valid body val refused) s = (Some x, s')"
  shows "refused x = None"
proof -
  have "case Some x of None \<Rightarrow> True | Some y \<Rightarrow> refused y = None"
    using assms unfolding ask_valid_def
    by (rule repeat_dialog_result [rotated 2]) (auto simp: valid_round_def split: prod.splits option.splits)
  then show ?thesis by simp
qed

end
