(* ===== verification/Tui_Menus.thy ===== *)
theory Tui_Menus
  imports Tui_Setup Tui_Boot Tui_Edit Tui_Raid Tui_Zfs Tui_Mount
begin

section \<open>The menus of the advanced installation (src/tui.cpp)\<close>

text \<open>
  The menus that lead to all other screens.  The value of a choice says whether it closes its menu; some choices close it and go on
  all the same.  The sorts of the standard library, what is left in a string that was moved away, the growth of vectors and the TOML parser are
  parameters.
\<close>

definition mirrorlist_body :: string where
  "mirrorlist_body = (''\<newline>The pacman configuration file can be edited\<newline>to enable multilib and other ''
        @ ''repositories.\<newline>'')"

definition mirrorlist_choice :: "'m sysenv \<Rightarrow> nat \<Rightarrow> ('m, bool) app" where
  "mirrorlist_choice env selected =
     (if selected = 0 then do { u \<leftarrow> edit_pacman_conf env; ret False }
      else if selected = 1 then do { out \<leftarrow> lift_io (exec env ''cachyos-rate-mirrors'' True); ret False }
      else ret True)"

definition configure_mirrorlist :: "'m sysenv \<Rightarrow> ('m, unit) app" where
  "configure_mirrorlist env =
     menu_loop [''Edit Pacman Configuration'', ''Rank mirrors'', ''Back''] mirrorlist_body (mirrorlist_choice env)"

definition refresh_pacman_keys :: "'m sysenv \<Rightarrow> ('m, unit) app" where
  "refresh_pacman_keys env =
     (if ndevenv env
      then utils_arch_chroot env
        (''bash -c '' @ squote
        @ ''pacman-key --init;pacman-key --populate archlinux cachyos;pacman-key --refresh-keys;'' @ squote) True
      else ret ())"

subsection \<open>Guards\<close>

text \<open>A choice behind a check: without what it checks for the menu closes, at once or after the choice.\<close>

definition guarded :: "('m, bool) app \<Rightarrow> ('m, unit) app \<Rightarrow> ('m, bool) app" where
  "guarded check action = do {
     there \<leftarrow> check;
     if \<not> there then ret True else do { u \<leftarrow> action; ret False }
   }"

definition closing_after :: "('m, bool) app \<Rightarrow> ('m, unit) app \<Rightarrow> ('m, bool) app" where
  "closing_after check action = do { there \<leftarrow> check; u \<leftarrow> action; ret (\<not> there) }"

definition mount_or_base :: "'m sysenv \<Rightarrow> ('m, bool) app" where
  "mount_or_base env = do {
     mounted \<leftarrow> check_mount env;
     if mounted then ret True else check_base env
   }"

subsection \<open>Installing\<close>

definition core_entries :: "string list" where
  "core_entries =
     [''Install Base Packages'', ''Install Desktop Environment'', ''Install Bootloader'', ''Configure Base'',
      ''Install Custom Packages'', ''System Tweaks'', ''Review Configuration Files'', ''Chroot into Installation'', ''Back'']"

definition core_choice ::
  "'m sysenv \<Rightarrow> (nat \<Rightarrow> nat) \<Rightarrow> (string \<Rightarrow> (string \<times> toml) list option) \<Rightarrow> nat \<Rightarrow> ('m, bool) app" where
  "core_choice env grow toml_parse selected =
     (if selected = 0 then guarded (check_mount env) (tui_install_base env grow toml_parse)
      else if selected = 1 then guarded (check_mount env) (tui_install_desktop env toml_parse)
      else if selected = 2 then guarded (check_base env) (tui_install_bootloader env)
      else if selected = 3 then guarded (check_base env) (config_base_menu env)
      else if selected = 4 then do { u \<leftarrow> install_cust_pkgs env; ret False }
      else if selected = 5 then closing_after (check_base env) (tweaks_menu env)
      else if selected = 6 then closing_after (check_base env) (edit_configs env)
      else if selected = 7 then closing_after (check_base env) (chroot_interactive env)
      else ret True)"

definition install_core_menu ::
  "'m sysenv \<Rightarrow> (nat \<Rightarrow> nat) \<Rightarrow> (string \<Rightarrow> (string \<times> toml) list option) \<Rightarrow> ('m, unit) app" where
  "install_core_menu env grow toml_parse = menu_loop core_entries '''' (core_choice env grow toml_parse)"

subsection \<open>Rescue\<close>

definition rescue_entries :: "string list" where
  "rescue_entries =
     [''Install Hardware Drivers'', ''Install Bootloader'', ''Install Packages'', ''Remove Packages'',
      ''Review Configuration Files'', ''Chroot into Installation'', ''Data Recovery'', ''View System Logs'', ''Back'']"

text \<open>There is no case for the recovery of data.\<close>

definition rescue_choice :: "'m sysenv \<Rightarrow> nat \<Rightarrow> ('m, bool) app" where
  "rescue_choice env selected =
     (if selected = 0 then guarded (mount_or_base env) (install_drivers_menu env)
      else if selected = 1 then guarded (mount_or_base env) (tui_install_bootloader env)
      else if selected = 2 then guarded (check_mount env) (install_cust_pkgs env)
      else if selected = 3 then closing_after (check_base env) (tui_remove_pkgs env)
      else if selected = 4 then closing_after (check_base env) (edit_configs env)
      else if selected = 5 then closing_after (check_base env) (chroot_interactive env)
      else if selected = 7 then closing_after (check_base env) (logs_menu env)
      else ret True)"

definition system_rescue_menu :: "'m sysenv \<Rightarrow> ('m, unit) app" where
  "system_rescue_menu env = menu_loop rescue_entries '''' (rescue_choice env)"

subsection \<open>Preparing\<close>

definition prep_entries :: "string list" where
  "prep_entries =
     [''Set Virtual Console'', ''List Devices (optional)'', ''Partition Disk'', ''RAID (optional)'',
      ''Logical Volume Management (optional)'', ''LUKS Encryption (optional)'', ''ZFS (optional)'', ''Mount Partitions'',
      ''Configure Installer Mirrorlist'', ''Refresh Pacman Keys'', ''Choose pacman cache'', ''Enable fsck hook'', ''Back'']"

definition partition_disk :: "'m sysenv \<Rightarrow> mtab_entry sorter \<Rightarrow> fs_partition sorter \<Rightarrow> ('m, unit) app" where
  "partition_disk env sort_mtab sort_parts = do {
     u \<leftarrow> utils_umount_partitions env sort_mtab;
     selected \<leftarrow> select_device env;
     if selected then create_partitions env sort_parts else ret ()
   }"

text \<open>The scheme made by mounting belongs to the screen and is gone when it returns.\<close>

definition prep_action ::
  "'m sysenv \<Rightarrow> mtab_entry sorter \<Rightarrow> fs_partition sorter \<Rightarrow> (string \<Rightarrow> string) \<Rightarrow> nat \<Rightarrow> ('m, unit) app" where
  "prep_action env sort_mtab sort_parts moved selected =
     (if selected = 0 then do { u \<leftarrow> tui_select_keymap env; load_keymap env }
      else if selected = 1 then show_devices env
      else if selected = 2 then partition_disk env sort_mtab sort_parts
      else if selected = 3 then raid_menu env
      else if selected = 4 then lvm_menu env
      else if selected = 5 then luks_menu_advanced env sort_mtab sort_parts
      else if selected = 6 then zfs_menu env sort_mtab sort_parts
      else if selected = 7 then do { partitions \<leftarrow> mount_partitions env sort_mtab sort_parts moved; ret () }
      else if selected = 8 then configure_mirrorlist env
      else if selected = 9 then refresh_pacman_keys env
      else if selected = 10 then set_cache
      else set_fsck_hook)"

definition prep_choice ::
  "'m sysenv \<Rightarrow> mtab_entry sorter \<Rightarrow> fs_partition sorter \<Rightarrow> (string \<Rightarrow> string) \<Rightarrow> nat \<Rightarrow> ('m, bool) app" where
  "prep_choice env sort_mtab sort_parts moved selected =
     (if selected < 12 then do { u \<leftarrow> prep_action env sort_mtab sort_parts moved selected; ret False } else ret True)"

definition prep_menu ::
  "'m sysenv \<Rightarrow> mtab_entry sorter \<Rightarrow> fs_partition sorter \<Rightarrow> (string \<Rightarrow> string) \<Rightarrow> ('m, unit) app" where
  "prep_menu env sort_mtab sort_parts moved = menu_loop prep_entries '''' (prep_choice env sort_mtab sort_parts moved)"

subsection \<open>The main menu\<close>

definition advanced_choice ::
  "'m sysenv \<Rightarrow> mtab_entry sorter \<Rightarrow> fs_partition sorter \<Rightarrow> (string \<Rightarrow> string) \<Rightarrow> (nat \<Rightarrow> nat) \<Rightarrow>
   (string \<Rightarrow> (string \<times> toml) list option) \<Rightarrow> nat \<Rightarrow> ('m, bool) app" where
  "advanced_choice env sort_mtab sort_parts moved grow toml_parse selected =
     (if selected = 0 then do { u \<leftarrow> prep_menu env sort_mtab sort_parts moved; ret False }
      else if selected = 1 then guarded (check_mount env) (install_core_menu env grow toml_parse)
      else if selected = 2 then do { u \<leftarrow> system_rescue_menu env; ret False }
      else exit_done env sort_mtab)"

definition advanced_entries :: "string list" where
  "advanced_entries = [''Prepare Installation'', ''Install System'', ''System Rescue'', ''Done'']"

definition menu_advanced ::
  "'m sysenv \<Rightarrow> mtab_entry sorter \<Rightarrow> fs_partition sorter \<Rightarrow> (string \<Rightarrow> string) \<Rightarrow> (nat \<Rightarrow> nat) \<Rightarrow>
   (string \<Rightarrow> (string \<times> toml) list option) \<Rightarrow> ('m, unit) app" where
  "menu_advanced env sort_mtab sort_parts moved grow toml_parse =
     menu_loop advanced_entries '''' (advanced_choice env sort_mtab sort_parts moved grow toml_parse)"

subsection \<open>The menus only advance the world\<close>

lemma advances_guards [advancing]:
  "advances fst check \<Longrightarrow> advances fst action \<Longrightarrow> advances fst (guarded check action)"
  "advances fst check \<Longrightarrow> advances fst action \<Longrightarrow> advances fst (closing_after check action)"
  unfolding guarded_def closing_after_def by (intro advancing, assumption+)+

lemma advances_Tui_Menus [advancing]:
  "advances fst (mirrorlist_choice env a1)" "advances fst (configure_mirrorlist env)" "advances fst (refresh_pacman_keys env)"
  "advances fst (mount_or_base env)" "advances fst (core_choice env b1 b2 b3)" "advances fst (install_core_menu env c1 c2)"
  "advances fst (rescue_choice env d1)" "advances fst (system_rescue_menu env)" "advances fst (partition_disk env e1 e2)"
  "advances fst (prep_action env f1 f2 f3 f4)" "advances fst (prep_choice env g1 g2 g3 g4)" "advances fst (prep_menu env h1 h2 h3)"
  "advances fst (advanced_choice env i1 i2 i3 i4 i5 i6)" "advances fst (menu_advanced env j1 j2 j3 j4 j5)"
  unfolding mirrorlist_choice_def configure_mirrorlist_def refresh_pacman_keys_def mount_or_base_def core_choice_def
    install_core_menu_def rescue_choice_def system_rescue_menu_def partition_disk_def prep_action_def prep_choice_def prep_menu_def
    advanced_choice_def menu_advanced_def
  by (intro advancing)+

interpretation mirrorlist: dialogue
  "menu_body [''Edit Pacman Configuration'', ''Rank mirrors'', ''Back''] mirrorlist_body (mirrorlist_choice env)" for env
  by (intro menu_dialogue advancing)

interpretation core: dialogue "menu_body core_entries '''' (core_choice env grow toml_parse)" for env grow toml_parse
  by (intro menu_dialogue advancing)

interpretation rescue: dialogue "menu_body rescue_entries '''' (rescue_choice env)" for env
  by (intro menu_dialogue advancing)

interpretation prep: dialogue "menu_body prep_entries '''' (prep_choice env sort_mtab sort_parts moved)" for env sort_mtab sort_parts moved
  by (intro menu_dialogue advancing)

interpretation advanced: dialogue
  "menu_body advanced_entries '''' (advanced_choice env sort_mtab sort_parts moved grow toml_parse)"
  for env sort_mtab sort_parts moved grow toml_parse
  by (intro menu_dialogue advancing)

text \<open>The main menu, whose rounds are bounded by the answers, is the loop of the source: it goes on as long as an entry is chosen that does not
  close it, for every list of answers, and each of its screens is the one the entry names.\<close>

theorem main_menu_loop:
  "menu_advanced env sort_mtab sort_parts moved grow toml_parse = do {
     selected \<leftarrow> menu advanced_entries '''';
     case selected of
       None \<Rightarrow> ret ()
     | Some i \<Rightarrow> do {
         closed \<leftarrow> advanced_choice env sort_mtab sort_parts moved grow toml_parse i;
         if closed then ret () else menu_advanced env sort_mtab sort_parts moved grow toml_parse
       }
   }"
proof -
  have case_if: "(case (if b then Inr () else Inl () :: unit + unit) of Inl s' \<Rightarrow> f s' | Inr a \<Rightarrow> g a) = (if b then g () else f ())"
    for b and f g :: "unit \<Rightarrow> ('a world \<times> config, unit) state"
    by simp
  show ?thesis
    unfolding menu_advanced_def menu_loop_def
    by (subst advanced.repeat_dialog_step, unfold menu_body_def)
      (rule state_ext, simp split: prod.splits option.splits)
qed

subsection \<open>Screens behind a check\<close>

text \<open>C34. With nothing mounted the first four choices, which install or configure the base, only look, and close the menu; the choices of the
  system tweaks, of the configuration files and of the chroot (the entries 5 to 7) close it too, but go on to their screens all the same.\<close>

theorem screens_without_base:
  assumes "ndevenv env" "status w = Running" "c ''MOUNTPOINT'' = Some (CStr mnt)"
    "popen_call env (''findmnt -nl '' @ mnt) (host w) = (Some '''', h)"
    and "looked = w\<lparr>host := h, trace := trace w @ [Popen (''findmnt -nl '' @ mnt)]\<rparr>"
  shows "(\<forall>selected < 4. run_state (core_choice env grow toml_parse selected) (w, c) = (True, (looked, c))) \<and>
    (\<forall>selected < 3. run_state (core_choice env grow toml_parse (5 + selected)) (w, c) =
       run_state (do { u \<leftarrow> [tweaks_menu env, edit_configs env, chroot_interactive env] ! selected; ret True }) (looked, c))"
proof -
  have mount: "run_state (check_mount env) (w, c) = (False, (looked, c))"
    using assms by (simp add: check_mount_def app_simps run_exec drop_final_newline_def)
  then have base: "run_state (check_base env) (w, c) = (False, (looked, c))" using assms(1) by (simp add: check_base_def)
  have four: "selected = 0 \<or> selected = 1 \<or> selected = 2 \<or> selected = 3" if "selected < 4" for selected :: nat using that by arith
  have three: "selected = 0 \<or> selected = 1 \<or> selected = 2" if "selected < 3" for selected :: nat using that by arith
  have "run_state (core_choice env grow toml_parse selected) (w, c) = (True, (looked, c))" if "selected < 4" for selected
    using four [OF that] mount base by (auto simp: core_choice_def guarded_def)
  moreover have "run_state (core_choice env grow toml_parse (5 + selected)) (w, c) =
       run_state (do { u \<leftarrow> [tweaks_menu env, edit_configs env, chroot_interactive env] ! selected; ret True }) (looked, c)"
    if "selected < 3" for selected
    using three [OF that] base by (auto simp: core_choice_def closing_after_def)
  ultimately show ?thesis by blast
qed

theorem screens_without_base_witness:
  "run_state (core_choice quiet_env Suc (\<lambda>text. None) 0) (world_of [], initial_config False) =
     (True, ((world_of [])\<lparr>trace := [Popen ''findmnt -nl /mnt'']\<rparr>, initial_config False)) \<and>
   run_state (core_choice quiet_env Suc (\<lambda>text. None) (5 + 1)) (world_of [], initial_config False) =
     run_state (do { u \<leftarrow> edit_configs quiet_env; ret True })
       ((world_of [])\<lparr>trace := [Popen ''findmnt -nl /mnt'']\<rparr>, initial_config False)"
proof -
  have w: "(world_of [])\<lparr>trace := [Popen ''findmnt -nl /mnt'']\<rparr> =
      (world_of [])\<lparr>host := host (world_of []), trace := trace (world_of []) @ [Popen (''findmnt -nl '' @ ''/mnt'')]\<rparr>"
    by (simp add: world_of_def)
  have e: "ndevenv quiet_env" "status (world_of []) = Running" "initial_config False ''MOUNTPOINT'' = Some (CStr ''/mnt'')"
      "popen_call quiet_env (''findmnt -nl '' @ ''/mnt'') (host (world_of [])) = (Some '''', host (world_of []))"
    by (simp_all add: quiet_env_def world_of_def initial_config_def)
  note looked = screens_without_base [where c = "initial_config False" and mnt = "''/mnt''" and grow = Suc and toml_parse = "\<lambda>text. None", OF e w]
  have "run_state (core_choice quiet_env Suc (\<lambda>text. None) 0) (world_of [], initial_config False) =
      (True, ((world_of [])\<lparr>trace := [Popen ''findmnt -nl /mnt'']\<rparr>, initial_config False))"
    using conjunct1 [OF looked, rule_format, of 0] by simp
  moreover have "run_state (core_choice quiet_env Suc (\<lambda>text. None) (5 + 1)) (world_of [], initial_config False) =
      run_state (do { u \<leftarrow> edit_configs quiet_env; ret True })
       ((world_of [])\<lparr>trace := [Popen ''findmnt -nl /mnt'']\<rparr>, initial_config False)"
    using conjunct2 [OF looked, rule_format, of 1] by simp
  ultimately show ?thesis by blast
qed

end
