(* ===== verification/Simple_Tui.thy ===== *)
theory Simple_Tui
  imports Tui_Menus
begin

section \<open>The simple installation (src/simple_tui.cpp) and the start of the screens (src/tui.cpp)\<close>

text \<open>
  The simple installation gathers the settings that are missing, mounts the partitions prepared in the settings file and runs
  the whole installation.  A function that works on the partitions through a reference takes the scheme and returns it.  The summary printed at the end
  has no effect on a world and is left out.
\<close>

subsection \<open>Choices\<close>

definition simple_select_filesystem :: "('m, string) app" where
  "simple_select_filesystem = do {
     u \<leftarrow> cfg_set ''fs_opts'' (CStrs []);
     picked \<leftarrow> pick_entry [''ext4'', ''btrfs'', ''xfs''] ''\<newline>Select your filesystem\<newline>'';
     ret (case picked of None \<Rightarrow> ''btrfs'' | Some file_sys \<Rightarrow> file_sys)
   }"

definition simple_select_bootloader :: "string \<Rightarrow> ('m, string) app" where
  "simple_select_bootloader sys_info = do {
     picked \<leftarrow> pick_entry (available_bootloaders sys_info) ''\<newline>Select your bootloader\<newline>'';
     ret (case picked of
            None \<Rightarrow> if sys_info = ''UEFI'' then ''systemd-boot'' else ''grub''
          | Some selected_bootloader \<Rightarrow> selected_bootloader)
   }"

subsection \<open>Prepared partitions\<close>

definition format_esp :: "'m sysenv \<Rightarrow> string \<Rightarrow> bool \<Rightarrow> ('m, unit) io" where
  "format_esp env part reformat_part = do {
     is_fat_part \<leftarrow> exec_checked env (is_fat_cmd part);
     if \<not> is_fat_part \<and> reformat_part \<and> ndevenv env then do { out \<leftarrow> exec env (mkfs_vfat_cmd part) False; ret () } else ret ()
   }"

definition simple_make_esp ::
  "'m sysenv \<Rightarrow> fs_partition list \<Rightarrow> string \<Rightarrow> string \<Rightarrow> bool \<Rightarrow> string \<Rightarrow> ('m, fs_partition list) app" where
  "simple_make_esp env partitions esp bootloader_name reformat_part boot_part_mountpoint = do {
     sys_info \<leftarrow> cfg_str ''SYSTEM'';
     if sys_info \<noteq> ''UEFI'' then ret partitions
     else do {
       old \<leftarrow> cfg_str ''PARTITION'';
       u \<leftarrow> cfg_set ''PARTITION'' (CStr esp);
       let uefi_mount = (if boot_part_mountpoint = ''(empty)'' then bootloader_default_mount bootloader_name sys_info
             else boot_part_mountpoint);
       u \<leftarrow> cfg_set ''UEFI_MOUNT'' (CStr uefi_mount);
       u \<leftarrow> cfg_set ''UEFI_PART'' (CStr esp);
       u \<leftarrow> lift_io (format_esp env esp reformat_part);
       mountpoint_info \<leftarrow> cfg_str ''MOUNTPOINT'';
       lift_io (do {
         u \<leftarrow> mount_esp_at env esp (mountpoint_info @ uefi_mount);
         boot_part \<leftarrow> esp_entry env esp uefi_mount (mountpoint_info @ uefi_mount);
         ret (partitions @ [boot_part])
       })
     }
   }"

text \<open>The fields of a prepared partition; fewer than five are an access out of range.\<close>

record ready_part =
  rp_name :: string
  rp_mountpoint :: string
  rp_size :: string
  rp_fs :: string
  rp_type :: string

definition read_ready_part :: "string \<Rightarrow> ready_part option" where
  "read_ready_part line =
     (case make_multiline line False tab_char of
        name # mnt # psize # fs_name # ty # rest \<Rightarrow>
          Some \<lparr>rp_name = name, rp_mountpoint = mnt, rp_size = psize, rp_fs = fs_name, rp_type = ty\<rparr>
      | _ \<Rightarrow> None)"

text \<open>A root or further partition: it is mounted and described by an entry.\<close>

definition mount_ready_part :: "'m sysenv \<Rightarrow> string \<Rightarrow> ready_part \<Rightarrow> string \<Rightarrow> ('m, fs_partition) app" where
  "mount_ready_part env fs_name part mount_opts_info = do {
     u \<leftarrow> select_filesystem env fs_name;
     confirmed \<leftarrow> mount_current_partition env True;
     part_uuid \<leftarrow> lift_io (get_device_uuid env (rp_name part));
     luks_name \<leftarrow> cfg_str ''LUKS_NAME'';
     luks_uuid \<leftarrow> cfg_str ''LUKS_UUID'';
     ret (with_luks_info luks_name luks_uuid (empty_partition\<lparr>fstype := rp_fs part, mountpoint := rp_mountpoint part,
            uuid_str := part_uuid, device := rp_name part, mount_opts := mount_opts_info\<rparr>))
   }"

definition prepared_boot :: "'m sysenv \<Rightarrow> string \<Rightarrow> ready_part \<Rightarrow> fs_partition list \<Rightarrow> ('m, fs_partition list) app" where
  "prepared_boot env bootloader part partitions = do {
     u \<leftarrow> cfg_set ''UEFI_MOUNT'' (CStr (rp_mountpoint part));
     u \<leftarrow> cfg_set ''UEFI_PART'' (CStr (rp_name part));
     partitions \<leftarrow> simple_make_esp env partitions (rp_name part) bootloader True (rp_mountpoint part);
     u \<leftarrow> get_cryptroot env;
     u \<leftarrow> get_cryptboot env;
     ret partitions
   }"

definition prepared_root ::
  "'m sysenv \<Rightarrow> fs_partition sorter \<Rightarrow> string \<Rightarrow> string \<Rightarrow> string \<Rightarrow> ready_part \<Rightarrow> fs_partition list \<Rightarrow> ('m, fs_partition list) app" where
  "prepared_root env srt mountpoint_info root_fs mount_opts_info part partitions = do {
     u \<leftarrow> cfg_set ''PARTITION'' (CStr (rp_name part));
     u \<leftarrow> cfg_set ''ROOT_PART'' (CStr (rp_name part));
     u \<leftarrow> cfg_set ''MOUNT'' (CStr (rp_mountpoint part));
     part_struct \<leftarrow> mount_ready_part env root_fs part mount_opts_info;
     let partitions = partitions @ [part_struct];
     if root_fs = ''btrfs'' then do {
       subvolumes \<leftarrow> lift_io (exec env (list_subvols_cmd (mountpoint_info @ rp_mountpoint part)) False);
       if subvolumes \<noteq> '''' then mount_existing_subvols env srt partitions
       else disk_btrfs_create_subvols env srt partitions ''automatic'' True
     }
     else ret partitions
   }"

definition prepared_additional ::
  "'m sysenv \<Rightarrow> string \<Rightarrow> ready_part \<Rightarrow> fs_partition list \<Rightarrow> ('m, fs_partition list) app" where
  "prepared_additional env mount_opts_info part partitions = do {
     u \<leftarrow> cfg_set ''MOUNT'' (CStr (rp_mountpoint part));
     u \<leftarrow> cfg_set ''PARTITION'' (CStr (rp_name part));
     part_struct \<leftarrow> mount_ready_part env (rp_fs part) part mount_opts_info;
     u \<leftarrow> note_separate_boot env (rp_mountpoint part) (''lsblk -lno TYPE '' @ rp_name part @ '' | grep -q '' @ squote @ ''lvm'' @ squote);
     ret (partitions @ [part_struct])
   }"

fun mount_prepared ::
  "'m sysenv \<Rightarrow> fs_partition sorter \<Rightarrow> string \<Rightarrow> string \<Rightarrow> string \<Rightarrow> string \<Rightarrow> string list \<Rightarrow> fs_partition list \<Rightarrow>
   ('m, fs_partition list) app" where
  "mount_prepared env srt mountpoint_info bootloader root_fs mount_opts_info [] partitions = ret partitions"
| "mount_prepared env srt mountpoint_info bootloader root_fs mount_opts_info (line # lines) partitions =
     (case read_ready_part line of
        None \<Rightarrow> lift_io (terminate partitions)
      | Some part \<Rightarrow> do {
          partitions \<leftarrow>
            (if rp_type part = ''boot'' then prepared_boot env bootloader part partitions
             else if rp_type part = ''root'' then prepared_root env srt mountpoint_info root_fs mount_opts_info part partitions
             else if rp_type part = ''additional'' then prepared_additional env mount_opts_info part partitions
             else ret partitions);
          mount_prepared env srt mountpoint_info bootloader root_fs mount_opts_info lines partitions
        })"

definition make_partitions_prepared ::
  "'m sysenv \<Rightarrow> fs_partition sorter \<Rightarrow> string \<Rightarrow> string \<Rightarrow> string \<Rightarrow> string list \<Rightarrow> ('m, bool) app" where
  "make_partitions_prepared env srt bootloader root_fs mount_opts_info ready_parts =
     (if ready_parts = [] then ret False
      else do {
        mountpoint_info \<leftarrow> cfg_str ''MOUNTPOINT'';
        partitions \<leftarrow> mount_prepared env srt mountpoint_info bootloader root_fs mount_opts_info ready_parts [];
        ret True
      })"

subsection \<open>Gathering the selections\<close>

record user_selections =
  us_server_mode :: bool
  us_device :: string
  us_filesystem :: string
  us_bootloader :: string
  us_hostname :: string
  us_locale :: string
  us_xkbmap :: string
  us_timezone :: string
  us_user_name :: string
  us_user_pass :: string
  us_user_shell :: string
  us_root_pass :: string
  us_kernel :: string
  us_desktop :: string
  us_post_install :: string
  us_mount_options :: string
  us_ready_partitions :: "string list"

text \<open>The settings are first taken by reference, which enters the absent ones as empty texts, and are read later.\<close>

fun touch :: "string list \<Rightarrow> ('m, unit) app" where
  "touch [] = ret ()"
| "touch (key # keys) = do { v \<leftarrow> cfg_str key; touch keys }"

definition text_settings :: "string list" where
  "text_settings =
     [''HOSTNAME'', ''LOCALE'', ''XKBMAP'', ''TIMEZONE'', ''USER_NAME'', ''USER_PASS'', ''USER_SHELL'', ''ROOT_PASS'', ''KERNEL'',
      ''DE'', ''BOOTLOADER'', ''POST_INSTALL'']"

definition gather_device :: "'m sysenv \<Rightarrow> ('m, string) app" where
  "gather_device env = do {
     device_info \<leftarrow> cfg_str ''DEVICE'';
     if device_info = '''' then do { selected \<leftarrow> select_device env; cfg_str ''DEVICE'' } else ret device_info
   }"

definition gather_bootloader :: "('m, string) app" where
  "gather_bootloader = do {
     bootloader \<leftarrow> cfg_str ''BOOTLOADER'';
     if bootloader = '''' then do {
       sys_info \<leftarrow> cfg_str ''SYSTEM'';
       bootloader \<leftarrow> simple_select_bootloader sys_info;
       u \<leftarrow> cfg_set ''BOOTLOADER'' (CStr bootloader);
       ret bootloader
     }
     else ret bootloader
   }"

definition gather_filesystem :: "('m, string) app" where
  "gather_filesystem = do {
     fs_name \<leftarrow> cfg_str ''FILESYSTEM_NAME'';
     if fs_name = '''' then do {
       fs_name \<leftarrow> simple_select_filesystem;
       u \<leftarrow> cfg_set ''FILESYSTEM_NAME'' (CStr fs_name);
       ret fs_name
     }
     else ret fs_name
   }"

definition look_for_partitions :: "'m sysenv \<Rightarrow> mtab_entry sorter \<Rightarrow> fs_partition sorter \<Rightarrow> ('m, unit) app" where
  "look_for_partitions env sort_mtab srt = do {
     u \<leftarrow> auto_partition env srt;
     u \<leftarrow> lvm_detect env None;
     u \<leftarrow> cfg_set ''INCLUDE_PART'' (CStr (''part'' @ backslash @ ''|lvm'' @ backslash @ ''|crypt''));
     u \<leftarrow> utils_umount_partitions env sort_mtab;
     out \<leftarrow> lift_io (exec env ''zfs mount -aO &>/dev/null'' False);
     u \<leftarrow> search_partitions env srt;
     mounted \<leftarrow> lift_io (list_mounted env);
     devs \<leftarrow> lift_io (zfs_list_devs env);
     crypt \<leftarrow> lift_io (list_containing_crypt env);
     ret ()
   }"

definition gather_user_selections :: "'m sysenv \<Rightarrow> mtab_entry sorter \<Rightarrow> fs_partition sorter \<Rightarrow> ('m, user_selections) app" where
  "gather_user_selections env sort_mtab srt = do {
     u \<leftarrow> touch [''MOUNTPOINT'', ''DEVICE'', ''FILESYSTEM_NAME'', ''MOUNT_OPTS''];
     ready_parts \<leftarrow> cfg_strs ''READY_PARTITIONS'';
     u \<leftarrow> touch text_settings;
     server_mode \<leftarrow> cfg_int ''SERVER_MODE'';
     dev \<leftarrow> gather_device env;
     u \<leftarrow> look_for_partitions env sort_mtab srt;
     bootloader \<leftarrow> gather_bootloader;
     filesystem \<leftarrow> gather_filesystem;
     ready_parts \<leftarrow> cfg_strs ''READY_PARTITIONS'';
     u \<leftarrow> (if ready_parts = [] then select_filesystem env filesystem else ret ());
     hostname \<leftarrow> cfg_str ''HOSTNAME'';
     locale_name \<leftarrow> cfg_str ''LOCALE'';
     xkbmap \<leftarrow> cfg_str ''XKBMAP'';
     timezone \<leftarrow> cfg_str ''TIMEZONE'';
     user_name \<leftarrow> cfg_str ''USER_NAME'';
     user_pass \<leftarrow> cfg_str ''USER_PASS'';
     user_shell \<leftarrow> cfg_str ''USER_SHELL'';
     root_pass \<leftarrow> cfg_str ''ROOT_PASS'';
     kernel \<leftarrow> cfg_str ''KERNEL'';
     desktop \<leftarrow> cfg_str ''DE'';
     post_install \<leftarrow> cfg_str ''POST_INSTALL'';
     server_mode \<leftarrow> cfg_int ''SERVER_MODE'';
     mount_options \<leftarrow> cfg_str ''MOUNT_OPTS'';
     ret \<lparr>us_server_mode = (server_mode \<noteq> 0), us_device = dev, us_filesystem = filesystem, us_bootloader = bootloader,
          us_hostname = hostname, us_locale = locale_name, us_xkbmap = xkbmap, us_timezone = timezone,
          us_user_name = user_name, us_user_pass = user_pass, us_user_shell = user_shell, us_root_pass = root_pass,
          us_kernel = kernel, us_desktop = desktop, us_post_install = post_install, us_mount_options = mount_options,
          us_ready_partitions = ready_parts\<rparr>
   }"

subsection \<open>Applying them\<close>

definition or_ask :: "string \<Rightarrow> ('m, unit) app \<Rightarrow> (string \<Rightarrow> ('m, unit) app) \<Rightarrow> ('m, unit) app" where
  "or_ask given ask_user apply_setting = (if given = '''' then ask_user else apply_setting given)"

definition configure_system :: "'m sysenv \<Rightarrow> user_selections \<Rightarrow> ('m, unit) app" where
  "configure_system env selections = do {
     u \<leftarrow> utils_generate_fstab env;
     u \<leftarrow> or_ask (us_hostname selections) (tui_set_hostname env) (utils_set_hostname env);
     u \<leftarrow> or_ask (us_locale selections) (tui_set_locale env) (utils_set_locale env);
     u \<leftarrow> or_ask (us_xkbmap selections) (tui_set_xkbmap env) (set_xkbmap env);
     u \<leftarrow> or_ask (us_timezone selections) (do { zoned \<leftarrow> tui_set_timezone env; ret () }) (set_timezone env);
     u \<leftarrow> set_hw_clock env ''utc'';
     u \<leftarrow> or_ask (us_root_pass selections) (tui_set_root_password env) (utils_set_root_password env);
     or_ask (us_user_name selections) (tui_create_new_user env)
       (\<lambda>user. utils_create_new_user env user (us_user_pass selections) (us_user_shell selections))
   }"

definition install_system ::
  "'m sysenv \<Rightarrow> (nat \<Rightarrow> nat) \<Rightarrow> (string \<Rightarrow> (string \<times> toml) list option) \<Rightarrow> user_selections \<Rightarrow> ('m, unit) app" where
  "install_system env grow toml_parse selections = do {
     u \<leftarrow> or_ask (us_kernel selections) (tui_install_base env grow toml_parse)
       (\<lambda>kernel. do { r \<leftarrow> install_base env grow toml_parse kernel; after_profiles r });
     u \<leftarrow> (if \<not> us_server_mode selections
       then or_ask (us_desktop selections) (tui_install_desktop env toml_parse)
         (\<lambda>desktop. do { r \<leftarrow> install_desktop env toml_parse desktop; after_profiles r })
       else ret ());
     or_ask (us_bootloader selections) (tui_install_bootloader env) (install_bootloader env)
   }"

definition finish_install :: "'m sysenv \<Rightarrow> mtab_entry sorter \<Rightarrow> string \<Rightarrow> user_selections \<Rightarrow> ('m, unit) app" where
  "finish_install env sort_mtab mnt selections = do {
     u \<leftarrow> (if ndevenv env \<and> \<not> us_server_mode selections then do {
         u \<leftarrow> utils_arch_chroot env ''chwd -a'' True;
         lift_io (video_installed env mnt)
       }
       else ret ());
     u \<leftarrow> (if us_post_install selections \<noteq> '''' then do {
         out \<leftarrow> lift_io (exec env (us_post_install selections @ '' &>>/tmp/cachyos-install.log'') True);
         ret ()
       }
       else ret ());
     closed \<leftarrow> exit_done env sort_mtab;
     ret ()
   }"

definition apply_user_selections ::
  "'m sysenv \<Rightarrow> mtab_entry sorter \<Rightarrow> fs_partition sorter \<Rightarrow> (nat \<Rightarrow> nat) \<Rightarrow> (string \<Rightarrow> (string \<times> toml) list option) \<Rightarrow>
   user_selections \<Rightarrow> ('m, unit) app" where
  "apply_user_selections env sort_mtab srt grow toml_parse selections = do {
     mnt \<leftarrow> cfg_str ''MOUNTPOINT'';
     u \<leftarrow> cfg_set ''INCLUDE_PART'' (CStr (''part'' @ backslash @ ''|lvm'' @ backslash @ ''|crypt''));
     u \<leftarrow> utils_umount_partitions env sort_mtab;
     made \<leftarrow> make_partitions_prepared env srt (us_bootloader selections) (us_filesystem selections)
       (us_mount_options selections) (us_ready_partitions selections);
     if \<not> made then utils_umount_partitions env sort_mtab
     else do {
       u \<leftarrow> configure_system env selections;
       u \<leftarrow> install_system env grow toml_parse selections;
       finish_install env sort_mtab mnt selections
     }
   }"

definition menu_simple ::
  "'m sysenv \<Rightarrow> mtab_entry sorter \<Rightarrow> fs_partition sorter \<Rightarrow> (nat \<Rightarrow> nat) \<Rightarrow> (string \<Rightarrow> (string \<times> toml) list option) \<Rightarrow> ('m, unit) app" where
  "menu_simple env sort_mtab srt grow toml_parse = do {
     selections \<leftarrow> gather_user_selections env sort_mtab srt;
     apply_user_selections env sort_mtab srt grow toml_parse selections
   }"

subsection \<open>The start\<close>

definition start_advanced ::
  "'m sysenv \<Rightarrow> mtab_entry sorter \<Rightarrow> fs_partition sorter \<Rightarrow> (string \<Rightarrow> string) \<Rightarrow> (nat \<Rightarrow> nat) \<Rightarrow>
   (string \<Rightarrow> (string \<times> toml) list option) \<Rightarrow> ('m, unit) app" where
  "start_advanced env sort_mtab srt moved grow toml_parse = do {
     u \<leftarrow> cfg_set ''HEADLESS_MODE'' (CInt 0);
     menu_advanced env sort_mtab srt moved grow toml_parse
   }"

definition tui_init ::
  "'m sysenv \<Rightarrow> mtab_entry sorter \<Rightarrow> fs_partition sorter \<Rightarrow> (string \<Rightarrow> string) \<Rightarrow> (nat \<Rightarrow> nat) \<Rightarrow>
   (string \<Rightarrow> (string \<times> toml) list option) \<Rightarrow> ('m, unit) app" where
  "tui_init env sort_mtab srt moved grow toml_parse = do {
     menus \<leftarrow> cfg_int ''menus'';
     headless_mode \<leftarrow> cfg_int ''HEADLESS_MODE'';
     if menus = 1 then menu_simple env sort_mtab srt grow toml_parse
     else if menus = 2 then start_advanced env sort_mtab srt moved grow toml_parse
     else do {
       selected \<leftarrow> menu [''Simple installation'', ''Advanced installation''] '''';
       case selected of
         None \<Rightarrow> ret ()
       | Some i \<Rightarrow>
           if i = 0 then menu_simple env sort_mtab srt grow toml_parse
           else start_advanced env sort_mtab srt moved grow toml_parse
     }
   }"

subsection \<open>The installation only advances the world\<close>

lemma advances_touch [advancing]: "advances fst (touch keys)"
proof (induction keys)
  case Nil
  show ?case unfolding touch.simps by (intro advancing)
next
  case (Cons key keys)
  show ?case unfolding touch.simps by (intro advancing Cons)
qed

lemma advances_or_ask [advancing]:
  "advances fst ask_user \<Longrightarrow> (\<And>s. advances fst (apply_setting s)) \<Longrightarrow> advances fst (or_ask given ask_user apply_setting)"
  by (simp add: or_ask_def)

lemma advances_prepared [advancing]:
  "advances fst simple_select_filesystem" "advances fst (simple_select_bootloader a1)" "advances id (format_esp env b1 b2)"
  "advances fst (simple_make_esp env c1 c2 c3 c4 c5)" "advances fst (mount_ready_part env d1 d2 d3)"
  "advances fst (prepared_boot env e1 e2 e3)" "advances fst (prepared_root env f1 f2 f3 f4 f5 f6)"
  "advances fst (prepared_additional env g1 g2 g3)"
  unfolding simple_select_filesystem_def simple_select_bootloader_def format_esp_def simple_make_esp_def mount_ready_part_def
    prepared_boot_def prepared_root_def prepared_additional_def
  by (intro advancing)+

lemma advances_mount_prepared [advancing]:
  "advances fst (mount_prepared env srt mountpoint_info bootloader root_fs mount_opts_info lines partitions)"
proof (induction lines arbitrary: partitions)
  case Nil
  show ?case unfolding mount_prepared.simps by (intro advancing)
next
  case (Cons line lines)
  show ?case unfolding mount_prepared.simps by (intro advancing Cons)
qed

lemma advances_Simple_Tui [advancing]:
  "advances fst (make_partitions_prepared env a1 a2 a3 a4 a5)" "advances fst (gather_device env)" "advances fst gather_bootloader"
  "advances fst gather_filesystem" "advances fst (look_for_partitions env b1 b2)" "advances fst (gather_user_selections env c1 c2)"
  "advances fst (configure_system env d1)" "advances fst (install_system env e1 e2 e3)" "advances fst (finish_install env f1 f2 f3)"
  "advances fst (apply_user_selections env g1 g2 g3 g4 g5)" "advances fst (menu_simple env h1 h2 h3 h4)"
  "advances fst (start_advanced env i1 i2 i3 i4 i5)" "advances fst (tui_init env j1 j2 j3 j4 j5)"
  unfolding make_partitions_prepared_def gather_device_def gather_bootloader_def gather_filesystem_def look_for_partitions_def
    gather_user_selections_def configure_system_def install_system_def finish_install_def apply_user_selections_def menu_simple_def
    start_advanced_def tui_init_def
  by (intro advancing)+

text \<open>Whatever the user answers and the machine does, the screens only adds to the trace, uses up the answers from the front, and
  changes nothing any more once it has stopped.\<close>

theorem whole_installation_advances:
  "\<exists>w' c'. run_state (tui_init env sort_mtab srt moved grow toml_parse) (w, c) = ((), (w', c')) \<and>
    prefix (trace w) (trace w') \<and> suffix (user_answers w') (user_answers w) \<and> (status w = Running \<or> w' = w)"
proof -
  obtain w' c' where r: "run_state (tui_init env sort_mtab srt moved grow toml_parse) (w, c) = ((), (w', c'))" by (metis (full_types) old.unit.exhaust surj_pair)
  have "later_world w w'"
    using advances_Simple_Tui(13) [of env sort_mtab srt moved grow toml_parse] r unfolding advances_def by (metis fst_conv snd_conv)
  with r show ?thesis unfolding later_world_def by blast
qed

subsection \<open>An installation that nobody watches\<close>

lemma exit_done_needs_user [needing]: "ndevenv env \<Longrightarrow> needs_user (exit_done env sort_mtab)"
  unfolding exit_done_def if_P
  by (rule needs_user_after needing advancing needs_user_first | assumption)+

text \<open>C11. The installation by a settings file comes to its end only with a user: when partitions were prepared and no answer is
  left, the program stops before its end, because it asks at the end whether to close the installer, in headless mode too; when none were prepared it
  installs nothing and only unmounts, twice.\<close>

theorem unattended_installation_stops:
  assumes "ndevenv env" "user_answers w = []"
  shows "if us_ready_partitions selections = []
    then run_state (apply_user_selections env sort_mtab srt grow toml_parse selections) (w, c) =
      run_state (do { mnt \<leftarrow> cfg_str ''MOUNTPOINT'';
        u \<leftarrow> cfg_set ''INCLUDE_PART'' (CStr (''part'' @ backslash @ ''|lvm'' @ backslash @ ''|crypt''));
        u \<leftarrow> utils_umount_partitions env sort_mtab;
        utils_umount_partitions env sort_mtab }) (w, c)
    else status (fst (snd (run_state (apply_user_selections env sort_mtab srt grow toml_parse selections) (w, c)))) \<noteq> Running"
proof (cases "us_ready_partitions selections = []")
  case True
  then show ?thesis by (simp add: apply_user_selections_def make_partitions_prepared_def)
next
  case False
  have finish: "needs_user (finish_install env sort_mtab mnt selections)" for mnt
    unfolding finish_install_def
    by (intro needs_user_after [OF _ needs_user_after [OF _ needs_user_first]] exit_done_needs_user assms(1) advancing)
  have "needs_user (apply_user_selections env sort_mtab srt grow toml_parse selections)"
    using False unfolding apply_user_selections_def make_partitions_prepared_def
    by (simp, intro needs_user_after finish advancing)
  with assms(2) False show ?thesis by (simp add: needs_user_def)
qed

definition root_only :: user_selections where
  "root_only = \<lparr>us_server_mode = True, us_device = ''/dev/sda'', us_filesystem = ''ext4'', us_bootloader = ''grub'',
     us_hostname = ''host'', us_locale = ''C'', us_xkbmap = ''us'', us_timezone = ''UTC'', us_user_name = ''u'', us_user_pass = ''p'',
     us_user_shell = ''/bin/sh'', us_root_pass = ''r'', us_kernel = ''linux'', us_desktop = '''', us_post_install = '''',
     us_mount_options = ''defaults'', us_ready_partitions = [join [''/dev/sda1'', ''/'', ''8G'', ''ext4'', ''root''] tab_char]\<rparr>"

theorem unattended_installation_stops_witness:
  "status (fst (snd (run_state (apply_user_selections quiet_env (\<lambda>lt key es. es) (\<lambda>lt key es. es) (\<lambda>n. n) (\<lambda>content. None) root_only)
    (world_of [], [''MOUNTPOINT'' \<mapsto> CStr ''/mnt''])))) \<noteq> Running"
  using unattended_installation_stops [of quiet_env "world_of []" root_only "\<lambda>lt key es. es" "\<lambda>lt key es. es" "\<lambda>n. n" "\<lambda>content. None"]
  by (simp add: quiet_env_def world_of_def root_only_def)

end
