(* ===== verification/Program.thy ===== *)
theory Program
  imports Simple_Tui
begin

section \<open>The program (src/main.cpp)\<close>

text \<open>
  The start of the installer: it wants to be root, sets up the table of settings, looks at the machine and the network, reads the settings file
  and shows the screens.  The value is what \<^verbatim>\<open>main\<close> returns.  The loggers have no effect on a world.
\<close>

text \<open>The pattern of the terminal names, a fixed part and any number of digits, is found where the fixed part is.\<close>

definition on_linux_console :: "string \<Rightarrow> bool" where
  "on_linux_console tty \<longleftrightarrow> contains tty ''/dev/tty''"

definition keep_screen_on :: "'m sysenv \<Rightarrow> ('m, unit) io" where
  "keep_screen_on env = do {
     tty \<leftarrow> exec env ''tty'' False;
     if on_linux_console tty then do { out \<leftarrow> exec env ''setterm -blank 0 -powersave off'' False; ret () } else ret ()
   }"

text \<open>What \<^verbatim>\<open>main\<close> does once the table is there.\<close>

definition installer_session ::
  "'m sysenv \<Rightarrow> cpu \<Rightarrow> 32 word \<Rightarrow> (string \<Rightarrow> json option) \<Rightarrow> mtab_entry sorter \<Rightarrow> fs_partition sorter \<Rightarrow> (string \<Rightarrow> string) \<Rightarrow>
   (nat \<Rightarrow> nat) \<Rightarrow> (string \<Rightarrow> (string \<times> toml) list option) \<Rightarrow> ('m, int) app" where
  "installer_session env processor g_cpu_features json_parse sort_mtab srt moved grow toml_parse = do {
     u \<leftarrow> id_system env;
     connected \<leftarrow> lift_io (handle_connection env processor g_cpu_features);
     if \<not> connected then ret 0
     else do {
       parsed \<leftarrow> parse_config json_parse;
       if \<not> parsed then ret (- 1)
       else do { u \<leftarrow> tui_init env sort_mtab srt moved grow toml_parse; ret 0 }
     }
   }"

definition with_config :: "config \<Rightarrow> ('m, 'a) app \<Rightarrow> ('m, 'a) io" where
  "with_config c act = State (\<lambda>w. case run_state act (w, c) of (r, (w', c')) \<Rightarrow> (r, w'))"

definition installer_main ::
  "'m sysenv \<Rightarrow> cpu \<Rightarrow> 32 word \<Rightarrow> (string \<Rightarrow> json option) \<Rightarrow> mtab_entry sorter \<Rightarrow> fs_partition sorter \<Rightarrow> (string \<Rightarrow> string) \<Rightarrow>
   (nat \<Rightarrow> nat) \<Rightarrow> (string \<Rightarrow> (string \<times> toml) list option) \<Rightarrow> ('m, int) io" where
  "installer_main env processor g_cpu_features json_parse sort_mtab srt moved grow toml_parse = do {
     u \<leftarrow> keep_screen_on env;
     root \<leftarrow> check_root env;
     if \<not> root then ret 1
     else do {
       (initialized, s_config) \<leftarrow> initialize_config env None;
       case s_config of
         None \<Rightarrow> ret 1
       | Some c \<Rightarrow> if \<not> initialized then ret 1
           else with_config c (installer_session env processor g_cpu_features json_parse sort_mtab srt moved grow toml_parse)
     }
   }"

subsection \<open>The program only advances the world\<close>

lemma advances_with_config [advancing]: "advances fst act \<Longrightarrow> advances id (with_config c act)"
  unfolding advances_def with_config_def by (auto split: prod.splits) (metis fst_conv snd_conv)

lemma advances_Program [advancing]:
  "advances id (keep_screen_on env)" "advances fst (installer_session env a1 a2 a3 a4 a5 a6 a7 a8)"
  "advances id (initialize_config env b1)" "advances id (installer_main env c1 c2 c3 c4 c5 c6 c7 c8)"
  unfolding keep_screen_on_def installer_session_def initialize_config_def installer_main_def
  by (intro advancing)+

lemma main_codes:
  "fst (run_state (installer_main env processor g_cpu_features json_parse sort_mtab srt moved grow toml_parse) w) \<in> {0, 1, - 1}"
proof -
  have session: "fst (run_state (installer_session env processor g_cpu_features json_parse sort_mtab srt moved grow toml_parse) s) \<in> {0, - 1}" for s
    unfolding installer_session_def by (auto split: prod.splits)
  then have "fst (run_state (with_config c (installer_session env processor g_cpu_features json_parse sort_mtab srt moved grow toml_parse)) w') \<in> {0, - 1}"
    for c w'
    unfolding with_config_def by (auto split: prod.splits) (metis fst_conv insertE singletonD)
  then show ?thesis unfolding installer_main_def by (auto split: prod.splits option.splits)
qed

text \<open>Whatever the user answers and the machine does, the whole program only adds to the trace, uses up the answers from the front,
  changes nothing any more once it has stopped, and returns 0, 1 or -1.\<close>

theorem whole_program_advances:
  "\<exists>r w'. run_state (installer_main env processor g_cpu_features json_parse sort_mtab srt moved grow toml_parse) w = (r, w') \<and>
    prefix (trace w) (trace w') \<and> suffix (user_answers w') (user_answers w) \<and> (status w = Running \<or> w' = w) \<and> r \<in> {0, 1, - 1}"
proof -
  obtain r w' where r: "run_state (installer_main env processor g_cpu_features json_parse sort_mtab srt moved grow toml_parse) w = (r, w')" by force
  have "later_world w w'"
    using advances_Program(4) [of env processor g_cpu_features json_parse sort_mtab srt moved grow toml_parse] r
    unfolding advances_def by (metis id_apply snd_conv)
  moreover have "r \<in> {0, 1, - 1}"
    using main_codes [of env processor g_cpu_features json_parse sort_mtab srt moved grow toml_parse w] r by simp
  ultimately show ?thesis using r unfolding later_world_def by blast
qed

lemma drop_final_newline_root: "drop_final_newline s = ''root'' \<Longrightarrow> s \<noteq> ''root'' \<Longrightarrow> s = ''root\<newline>''"
  by (auto simp: drop_final_newline_def ends_with_def suffix_def split: if_splits)

lemma keep_screen_on_looks:
  assumes "status w = Running"
  obtains h extra where "run_state (keep_screen_on env) w = ((), w\<lparr>host := h, trace := trace w @ Popen ''tty'' # extra\<rparr>)"
    "extra = [] \<or> extra = [Popen ''setterm -blank 0 -powersave off'']"
proof -
  obtain tty h1 where "popen_call env ''tty'' (host w) = (tty, h1)" by force
  note tty = run_exec [OF assms this]
  obtain out h2 where out: "popen_call env ''setterm -blank 0 -powersave off'' h1 = (out, h2)" by force
  note setterm = run_exec [of "w\<lparr>host := h1, trace := trace w @ [Popen ''tty'']\<rparr>" env "''setterm -blank 0 -powersave off''" out h2]
  show ?thesis
  proof (cases "on_linux_console (case tty of None \<Rightarrow> ''-1'' | Some s \<Rightarrow> drop_final_newline s)")
    case True
    then show ?thesis using assms
      by (intro that [of "[Popen ''setterm -blank 0 -powersave off'']" h2]) (simp_all add: keep_screen_on_def tty setterm out)
  next
    case False
    then show ?thesis by (intro that [of "[]" h1]) (simp_all add: keep_screen_on_def tty)
  qed
qed

text \<open>C40. Without root the installer looks at the terminal and at the user and returns 1: it makes no other request but to keep a Linux console
  lit, shows no screen, asks nothing and goes on running.  The hypotheses: the development mode is off, the process is running, and \<^verbatim>\<open>whoami\<close> does not
  print root, with or without a line end, on any host.\<close>

theorem main_needs_root:
  assumes "ndevenv env" "status w = Running"
    "\<forall>h. fst (popen_call env ''whoami'' h) \<notin> {Some ''root'', Some ''root\<newline>''}"
  shows "\<exists>h extra. run_state (installer_main env processor g_cpu_features json_parse sort_mtab srt moved grow toml_parse) w =
      (1, w\<lparr>host := h, trace := trace w @ Popen ''tty'' # extra @ [Popen ''whoami'']\<rparr>) \<and>
      (extra = [] \<or> extra = [Popen ''setterm -blank 0 -powersave off''])"
proof -
  obtain h extra where on: "run_state (keep_screen_on env) w = ((), w\<lparr>host := h, trace := trace w @ Popen ''tty'' # extra\<rparr>)"
    and extra: "extra = [] \<or> extra = [Popen ''setterm -blank 0 -powersave off'']"
    using keep_screen_on_looks [OF assms(2)] by metis
  obtain out h' where user: "popen_call env ''whoami'' h = (out, h')" by force
  have "(case out of None \<Rightarrow> ''-1'' | Some s \<Rightarrow> drop_final_newline s) \<noteq> ''root''"
    using assms(3) [rule_format, of h] user by (auto split: option.splits dest: drop_final_newline_root)
  moreover have "run_state (exec env ''whoami'' False) (w\<lparr>host := h, trace := trace w @ Popen ''tty'' # extra\<rparr>) =
      (case out of None \<Rightarrow> ''-1'' | Some s \<Rightarrow> drop_final_newline s,
       w\<lparr>host := h', trace := trace w @ Popen ''tty'' # extra @ [Popen ''whoami'']\<rparr>)"
    using run_exec [of "w\<lparr>host := h, trace := trace w @ Popen ''tty'' # extra\<rparr>" env "''whoami''" out h'] assms(2) user by simp
  ultimately show ?thesis
    using extra by (intro exI [of _ h'] exI [of _ extra]) (simp add: installer_main_def check_root_def on assms(1))
qed

theorem main_needs_root_witness:
  "\<exists>h extra. run_state (installer_main quiet_env plain_cpu 0 (\<lambda>text. None) insertion_sort insertion_sort id Suc
        (\<lambda>text. None)) (world_of []) =
      (1, (world_of [])\<lparr>host := h, trace := Popen ''tty'' # extra @ [Popen ''whoami'']\<rparr>) \<and>
      (extra = [] \<or> extra = [Popen ''setterm -blank 0 -powersave off''])"
  using main_needs_root [of quiet_env "world_of []" plain_cpu 0 "\<lambda>text. None" insertion_sort insertion_sort id Suc
      "\<lambda>text. None"]
  by (simp add: quiet_env_def world_of_def)

end
