(* ===== verification/Subprocess.thy ===== *)
theory Subprocess
  imports Prelude "HOL-Library.Word"
begin

section \<open>Following a command (src/subprocess.h, exec_follow, src/follow_process_log.cpp)\<close>

text \<open>
  What stands behind the request \<open>Follow\<close> of the installer: two threads and a command.  The worker thread starts the command,
  reads what it prints into a buffer, waits for it and closes its streams; the thread of the screen shows the buffer and, when the
  user chooses \<^verbatim>\<open>Back\<close>, kills the command, closes its streams and joins the worker.  The two share a copy of the process
  record and the flag \<^verbatim>\<open>running\<close>.  A state has both threads, the streams, the pipe and the command; a move is one statement of
  one of the threads, or one step of the command.

  The kernel is modelled as far as the code relies on it.  A pipe holds a bounded number of characters, a writer waits for room and a
  reader for characters or for the end; reading none or from a closed stream gives none.  Closing or asking a stream that is not open
  is undefined in C and sets the flag \<open>broken\<close>.  The command is the shell with everything it starts: it prints its output,
  closes it and exits, and reads nothing; after it has been killed what it had started may go on printing.  Copies of a record and the
  two functions that close several streams are single moves, and a descriptor of the pipe always becomes a stream.
\<close>

unbundle bit_operations_syntax

subsection \<open>Streams and processes\<close>

datatype life = Unborn | Alive | Exited int | Signalled | Reaped

record kernel =
  opened :: "nat set"
  next_stream :: nat
  broken :: bool
  pipe :: string
  pipe_reader :: nat
  unwritten :: string
  write_open :: bool
  life :: life
  stray :: bool

record subprocess =
  stdin_file :: "nat option"
  stdout_file :: "nat option"
  stderr_file :: "nat option"
  child_pid :: nat
  return_status :: int

definition no_process :: subprocess where
  "no_process = \<lparr>stdin_file = None, stdout_file = None, stderr_file = None, child_pid = 0, return_status = 0\<rparr>"

text \<open>The command that is followed and what the kernel grants it.\<close>

record command =
  printed :: string
  exit_code :: int
  pipe_room :: nat
  start_pid :: nat
  can_start :: bool
  dirty_cmd_run :: bool

definition fclose :: "nat \<Rightarrow> kernel \<Rightarrow> kernel" where
  "fclose f k = (if f \<in> opened k then k\<lparr>opened := opened k - {f}\<rparr> else k\<lparr>broken := True\<rparr>)"

definition fclose_some :: "nat option \<Rightarrow> kernel \<Rightarrow> kernel" where
  "fclose_some file k = (case file of None \<Rightarrow> k | Some f \<Rightarrow> fclose f k)"

definition fileno :: "nat option \<Rightarrow> kernel \<Rightarrow> kernel" where
  "fileno file k = (case file of None \<Rightarrow> k\<lparr>broken := True\<rparr> | Some f \<Rightarrow> if f \<in> opened k then k else k\<lparr>broken := True\<rparr>)"

definition combined_stdout_stderr :: "32 word" where "combined_stdout_stderr = 1"
definition inherit_environment :: "32 word" where "inherit_environment = 2"
definition enable_async :: "32 word" where "enable_async = 4"

definition subprocess_create_ex ::
  "command \<Rightarrow> 32 word \<Rightarrow> bool \<Rightarrow> subprocess \<Rightarrow> kernel \<Rightarrow> int \<times> subprocess \<times> kernel" where
  "subprocess_create_ex cmd options environment out_process k =
     (if inherit_environment = options AND inherit_environment \<and> environment then (- 1, out_process, k)
      else if \<not> can_start cmd then (- 1, out_process, k)
      else
        let combined = combined_stdout_stderr = options AND combined_stdout_stderr;
            f = next_stream k;
            err = (if combined then f + 1 else f + 2)
        in (0, out_process\<lparr>stdin_file := Some f, stdout_file := Some (f + 1), stderr_file := Some err, child_pid := start_pid cmd\<rparr>,
            k\<lparr>opened := opened k \<union> {f, f + 1, err}, next_stream := f + 3, pipe := [], pipe_reader := f + 1,
              unwritten := printed cmd, write_open := True, life := Alive\<rparr>))"

text \<open>The end of a process as \<^verbatim>\<open>subprocess_join\<close> reports it, nothing as long as it has to wait.\<close>

definition close_stdin :: "subprocess \<Rightarrow> kernel \<Rightarrow> subprocess \<times> kernel" where
  "close_stdin p k = (p\<lparr>stdin_file := None\<rparr>, fclose_some (stdin_file p) k)"

definition wait_status :: "life \<Rightarrow> int option" where
  "wait_status l = (case l of Exited code \<Rightarrow> Some code | Signalled \<Rightarrow> Some 1 | _ \<Rightarrow> None)"

definition join_wait :: "subprocess \<Rightarrow> kernel \<Rightarrow> (int \<times> subprocess \<times> kernel) option" where
  "join_wait p k =
     (if child_pid p = 0 then Some (0, p, k)
      else if life k = Reaped then Some (- 1, p, k)
      else case wait_status (life k) of
             None \<Rightarrow> None
           | Some code \<Rightarrow> Some (0, p\<lparr>child_pid := 0, return_status := code\<rparr>, k\<lparr>life := Reaped\<rparr>))"

definition subprocess_destroy :: "subprocess \<Rightarrow> kernel \<Rightarrow> subprocess \<times> kernel" where
  "subprocess_destroy p k =
     (let (p, k) = close_stdin p k in
      case stdout_file p of
        None \<Rightarrow> (p, k)
      | Some out \<Rightarrow>
          (p\<lparr>stdout_file := None, stderr_file := None\<rparr>,
           if stdout_file p \<noteq> stderr_file p then fclose_some (stderr_file p) (fclose out k) else fclose out k))"

text \<open>The signal 9 to a process that has been waited for may hit another one, which has the number by now.\<close>

definition subprocess_terminate :: "kernel \<Rightarrow> kernel" where
  "subprocess_terminate k =
     (if life k = Alive then k\<lparr>life := Signalled\<rparr> else if life k = Reaped then k\<lparr>stray := True\<rparr> else k)"

text \<open>\<open>n\<close> is the number of characters that the kernel gives, \<open>None\<close> that it does not give them now.\<close>

definition subprocess_read_stdout :: "nat \<Rightarrow> subprocess \<Rightarrow> nat \<Rightarrow> kernel \<Rightarrow> (string \<times> kernel) option" where
  "subprocess_read_stdout n p room k =
     (if room = 0 then Some ([], k)
      else if n = 0
        then (if pipe k = [] \<and> \<not> write_open k \<or> the (stdout_file p) \<notin> opened k then Some ([], k) else None)
      else if n \<le> room \<and> n \<le> length (pipe k) then Some (take n (pipe k), k\<lparr>pipe := drop n (pipe k)\<rparr>)
      else None)"

subsection \<open>The moves\<close>

datatype worker_at =
    W_test | W_exec | W_share | W_fileno | W_read | W_join | W_wait | W_destroy | W_reshare | W_failed | W_stop | W_done | W_gone

datatype screen_at =
    S_loop | S_check | S_kill | S_destroy | S_flag | S_join | S_exit | S_last | S_returned | S_gone

record follow =
  worker :: worker_at
  ui :: screen_at
  running :: bool
  proc_status :: bool
  process_log :: string
  buffer :: string
  process :: subprocess
  child :: subprocess
  kernel :: kernel

definition log_size :: nat where "log_size = 1048576"

text \<open>The log is read from the buffer as a C string.\<close>

definition c_text :: "string \<Rightarrow> string" where
  "c_text = takeWhile (\<lambda>x. x \<noteq> CHR 0x00)"

text \<open>The worker: the loop around \<^verbatim>\<open>exec_follow\<close>, statement by statement.\<close>

definition worker_move :: "command \<Rightarrow> nat \<Rightarrow> follow \<Rightarrow> follow option" where
  "worker_move cmd n s =
     (case worker s of
        W_test \<Rightarrow> Some (s\<lparr>worker := (if running s then W_exec else W_done)\<rparr>)
      | W_exec \<Rightarrow>
          (if dirty_cmd_run cmd then Some (s\<lparr>worker := W_stop\<rparr>)
           else case subprocess_create_ex cmd (enable_async OR combined_stdout_stderr) True no_process (kernel s) of
                  (code, p, k) \<Rightarrow>
                    Some (if code \<noteq> 0 then s\<lparr>worker := W_failed\<rparr>
                          else s\<lparr>worker := W_share, buffer := [], process := p, kernel := k\<rparr>))
      | W_share \<Rightarrow> Some (s\<lparr>worker := W_fileno, child := process s\<rparr>)
      | W_fileno \<Rightarrow> Some (s\<lparr>worker := W_read, kernel := fileno (stdout_file (process s)) (kernel s)\<rparr>)
      | W_read \<Rightarrow>
          map_option (\<lambda>(chunk, k).
              s\<lparr>worker := (if chunk = [] then W_join else W_fileno), process_log := c_text (buffer s @ chunk),
                buffer := buffer s @ chunk, kernel := k\<rparr>)
            (subprocess_read_stdout n (process s) (log_size - length (buffer s)) (kernel s))
      | W_join \<Rightarrow> (case close_stdin (process s) (kernel s) of (p, k) \<Rightarrow> Some (s\<lparr>worker := W_wait, process := p, kernel := k\<rparr>))
      | W_wait \<Rightarrow>
          map_option (\<lambda>(code, p, k). s\<lparr>worker := (if code \<noteq> 0 then W_failed else W_destroy), process := p, kernel := k\<rparr>)
            (join_wait (process s) (kernel s))
      | W_destroy \<Rightarrow>
          (case subprocess_destroy (process s) (kernel s) of (p, k) \<Rightarrow> Some (s\<lparr>worker := W_reshare, process := p, kernel := k\<rparr>))
      | W_reshare \<Rightarrow> Some (s\<lparr>worker := W_stop, child := process s\<rparr>)
      | W_failed \<Rightarrow> Some (s\<lparr>worker := W_stop, proc_status := False\<rparr>)
      | W_stop \<Rightarrow> Some (s\<lparr>worker := W_test, running := False\<rparr>)
      | W_done \<Rightarrow> None
      | W_gone \<Rightarrow> None)"

text \<open>The screen: \<^verbatim>\<open>handle_exit\<close> and what follows the loop.  A signal to the process 0 goes to every process of the group, the
  installer among them.\<close>

definition screen_move :: "follow \<Rightarrow> follow option" where
  "screen_move s =
     (case ui s of
        S_loop \<Rightarrow> None
      | S_check \<Rightarrow> Some (s\<lparr>ui := (if child_pid (child s) \<noteq> 0 then S_kill else S_flag)\<rparr>)
      | S_kill \<Rightarrow>
          Some (if child_pid (child s) = 0 then s\<lparr>ui := S_gone, worker := W_gone\<rparr>
                else s\<lparr>ui := S_destroy, kernel := subprocess_terminate (kernel s)\<rparr>)
      | S_destroy \<Rightarrow> (case subprocess_destroy (child s) (kernel s) of (p, k) \<Rightarrow> Some (s\<lparr>ui := S_flag, child := p, kernel := k\<rparr>))
      | S_flag \<Rightarrow> Some (if running s then s\<lparr>ui := S_join, running := False\<rparr> else s\<lparr>ui := S_exit\<rparr>)
      | S_join \<Rightarrow> (if worker s = W_done then Some (s\<lparr>ui := S_exit\<rparr>) else None)
      | S_exit \<Rightarrow> Some (s\<lparr>ui := S_last, running := False\<rparr>)
      | S_last \<Rightarrow> (if worker s = W_done then Some (s\<lparr>ui := S_returned\<rparr>) else None)
      | S_returned \<Rightarrow> None
      | S_gone \<Rightarrow> None)"

text \<open>The command.  Printing to a pipe that nobody can read any more fails, and with it the rest of the output.\<close>

definition command_writes :: "command \<Rightarrow> kernel \<Rightarrow> kernel option" where
  "command_writes cmd k =
     (if \<not> write_open k then None
      else case unwritten k of
             [] \<Rightarrow> None
           | x # rest \<Rightarrow>
               (if pipe_reader k \<notin> opened k then Some (k\<lparr>unwritten := []\<rparr>)
                else if length (pipe k) < pipe_room cmd then Some (k\<lparr>pipe := pipe k @ [x], unwritten := rest\<rparr>)
                else None))"

definition command_ends_output :: "kernel \<Rightarrow> kernel option" where
  "command_ends_output k = (if write_open k \<and> (unwritten k = [] \<or> life k \<noteq> Alive) then Some (k\<lparr>write_open := False\<rparr>) else None)"

definition command_exits :: "command \<Rightarrow> kernel \<Rightarrow> kernel option" where
  "command_exits cmd k = (if life k = Alive \<and> \<not> write_open k then Some (k\<lparr>life := Exited (exit_code cmd)\<rparr>) else None)"

datatype move = Work nat | Writes | Ends_output | Exits | Back | Screen

text \<open>A patient user chooses \<^verbatim>\<open>Back\<close> only when the worker has stopped.\<close>

definition follow_move :: "command \<Rightarrow> bool \<Rightarrow> move \<Rightarrow> follow \<Rightarrow> follow option" where
  "follow_move cmd patient m s =
     (case m of
        Work n \<Rightarrow> worker_move cmd n s
      | Writes \<Rightarrow> map_option (\<lambda>k. s\<lparr>kernel := k\<rparr>) (command_writes cmd (kernel s))
      | Ends_output \<Rightarrow> map_option (\<lambda>k. s\<lparr>kernel := k\<rparr>) (command_ends_output (kernel s))
      | Exits \<Rightarrow> map_option (\<lambda>k. s\<lparr>kernel := k\<rparr>) (command_exits cmd (kernel s))
      | Back \<Rightarrow> (if ui s = S_loop \<and> (patient \<longrightarrow> \<not> running s) then Some (s\<lparr>ui := S_check\<rparr>) else None)
      | Screen \<Rightarrow> screen_move s)"

definition follow_start :: follow where
  "follow_start =
     \<lparr>worker = W_test, ui = S_loop, running = True, proc_status = True, process_log = [], buffer = [], process = no_process,
      child = no_process,
      kernel = \<lparr>opened = {}, next_stream = 0, broken = False, pipe = [], pipe_reader = 0, unwritten = [], write_open = False,
        life = Unborn, stray = False\<rparr>\<rparr>"

inductive follow_reach :: "command \<Rightarrow> bool \<Rightarrow> follow \<Rightarrow> follow \<Rightarrow> bool" for cmd patient s where
  here: "follow_reach cmd patient s s"
| step: "follow_reach cmd patient s t \<Longrightarrow> follow_move cmd patient m t = Some u \<Longrightarrow> follow_reach cmd patient s u"

text \<open>A schedule of moves, for runs that are computed.\<close>

fun follow_run :: "command \<Rightarrow> bool \<Rightarrow> move list \<Rightarrow> follow \<Rightarrow> follow option" where
  "follow_run cmd patient [] s = Some s"
| "follow_run cmd patient (m # ms) s =
     (case follow_move cmd patient m s of None \<Rightarrow> None | Some t \<Rightarrow> follow_run cmd patient ms t)"

lemma follow_reach_trans: "follow_reach cmd p s t \<Longrightarrow> follow_reach cmd p t u \<Longrightarrow> follow_reach cmd p s u"
  by (rotate_tac 1, induction rule: follow_reach.induct) (auto intro: follow_reach.intros)

lemma follow_run_reach: "follow_run cmd p ms s = Some t \<Longrightarrow> follow_reach cmd p s t"
proof (induction ms arbitrary: s)
  case (Cons m ms)
  then obtain u where "follow_move cmd p m s = Some u" "follow_run cmd p ms u = Some t" by (auto split: option.splits)
  then show ?case using Cons.IH by (meson follow_reach.intros follow_reach_trans)
qed (simp add: follow_reach.here)

subsection \<open>What holds while the user waits\<close>

abbreviation fresh_kernel :: kernel where "fresh_kernel \<equiv> kernel follow_start"

definition live_process :: "command \<Rightarrow> subprocess" where
  "live_process cmd = \<lparr>stdin_file = Some 0, stdout_file = Some 1, stderr_file = Some 1, child_pid = start_pid cmd, return_status = 0\<rparr>"

definition starts :: "command \<Rightarrow> bool" where
  "starts cmd \<longleftrightarrow> can_start cmd \<and> \<not> dirty_cmd_run cmd"

definition nothing_yet :: "follow \<Rightarrow> bool" where
  "nothing_yet s \<longleftrightarrow> kernel s = fresh_kernel \<and> child s = no_process \<and> proc_status s \<and> process_log s = []"

definition nothing_lost :: "command \<Rightarrow> follow \<Rightarrow> bool" where
  "nothing_lost cmd s \<longleftrightarrow> starts cmd \<and> proc_status s \<and> pipe_reader (kernel s) = 1 \<and>
     buffer s @ pipe (kernel s) @ unwritten (kernel s) = printed cmd \<and> process_log s = c_text (buffer s) \<and>
     (write_open (kernel s) \<or> unwritten (kernel s) = []) \<and> length (buffer s) \<le> log_size \<and>
     length (pipe (kernel s)) \<le> pipe_room cmd"

definition drained :: "follow \<Rightarrow> bool" where
  "drained s \<longleftrightarrow> length (buffer s) = log_size \<or> pipe (kernel s) = [] \<and> \<not> write_open (kernel s)"

definition not_waited :: "command \<Rightarrow> kernel \<Rightarrow> bool" where
  "not_waited cmd k \<longleftrightarrow> life k = Alive \<or> life k = Exited (exit_code cmd) \<and> \<not> write_open k"

definition waited :: "kernel \<Rightarrow> bool" where
  "waited k \<longleftrightarrow> life k = Reaped \<and> \<not> write_open k"

definition finished :: "command \<Rightarrow> follow \<Rightarrow> bool" where
  "finished cmd s \<longleftrightarrow> child_pid (child s) = 0 \<and> opened (kernel s) = {} \<and> proc_status s = (dirty_cmd_run cmd \<or> can_start cmd) \<and>
     (if starts cmd then nothing_lost cmd s \<and> drained s \<and> waited (kernel s) else kernel s = fresh_kernel \<and> process_log s = [])"

definition worker_inv :: "command \<Rightarrow> follow \<Rightarrow> bool" where
  "worker_inv cmd s =
     (case worker s of
        W_test \<Rightarrow> if running s then nothing_yet s else finished cmd s
      | W_exec \<Rightarrow> running s \<and> nothing_yet s
      | W_share \<Rightarrow> running s \<and> nothing_lost cmd s \<and> process s = live_process cmd \<and> opened (kernel s) = {0, 1} \<and> not_waited cmd (kernel s)
      | W_fileno \<Rightarrow> running s \<and> nothing_lost cmd s \<and> process s = live_process cmd \<and> opened (kernel s) = {0, 1} \<and> not_waited cmd (kernel s)
      | W_read \<Rightarrow> running s \<and> nothing_lost cmd s \<and> process s = live_process cmd \<and> opened (kernel s) = {0, 1} \<and> not_waited cmd (kernel s)
      | W_join \<Rightarrow> running s \<and> nothing_lost cmd s \<and> process s = live_process cmd \<and> opened (kernel s) = {0, 1} \<and> not_waited cmd (kernel s) \<and>
          drained s
      | W_wait \<Rightarrow> running s \<and> nothing_lost cmd s \<and> process s = (live_process cmd)\<lparr>stdin_file := None\<rparr> \<and> opened (kernel s) = {1} \<and>
          not_waited cmd (kernel s) \<and> drained s
      | W_destroy \<Rightarrow> running s \<and> nothing_lost cmd s \<and>
          process s = (live_process cmd)\<lparr>stdin_file := None, child_pid := 0, return_status := exit_code cmd\<rparr> \<and> opened (kernel s) = {1} \<and>
          waited (kernel s) \<and> drained s
      | W_reshare \<Rightarrow> running s \<and> nothing_lost cmd s \<and> process s = no_process\<lparr>return_status := exit_code cmd\<rparr> \<and> opened (kernel s) = {} \<and>
          waited (kernel s) \<and> drained s
      | W_failed \<Rightarrow> running s \<and> \<not> dirty_cmd_run cmd \<and> \<not> can_start cmd \<and> nothing_yet s
      | W_stop \<Rightarrow> running s \<and> finished cmd s
      | W_done \<Rightarrow> \<not> running s \<and> finished cmd s
      | W_gone \<Rightarrow> False)"

definition patient_inv :: "command \<Rightarrow> follow \<Rightarrow> bool" where
  "patient_inv cmd s \<longleftrightarrow> worker_inv cmd s \<and> \<not> broken (kernel s) \<and> \<not> stray (kernel s) \<and> ui s \<notin> {S_kill, S_destroy, S_join, S_gone} \<and>
     (ui s \<noteq> S_loop \<longrightarrow> \<not> running s) \<and> (ui s = S_returned \<longrightarrow> worker s = W_done)"

lemmas follow_inv_defs = worker_inv_def nothing_yet_def nothing_lost_def finished_def drained_def not_waited_def waited_def starts_def

lemma create_followed:
  "subprocess_create_ex cmd (enable_async OR combined_stdout_stderr) True no_process fresh_kernel =
     (if can_start cmd
      then (0, live_process cmd, fresh_kernel\<lparr>opened := {0, 1}, next_stream := 3, pipe_reader := 1, unwritten := printed cmd,
              write_open := True, life := Alive\<rparr>)
      else (- 1, no_process, fresh_kernel))"
proof -
  have "(enable_async OR combined_stdout_stderr) AND inherit_environment \<noteq> inherit_environment"
    "(enable_async OR combined_stdout_stderr) AND combined_stdout_stderr = combined_stdout_stderr"
    by (simp_all add: enable_async_def combined_stdout_stderr_def inherit_environment_def)
  then show ?thesis by (auto simp: subprocess_create_ex_def live_process_def no_process_def follow_start_def Let_def)
qed

text \<open>What the predicates do not look at.\<close>

lemma nothing_lost_frame [simp]:
  "nothing_lost cmd (s\<lparr>worker := w\<rparr>) = nothing_lost cmd s" "nothing_lost cmd (s\<lparr>child := p\<rparr>) = nothing_lost cmd s"
  "nothing_lost cmd (s\<lparr>process := p\<rparr>) = nothing_lost cmd s" "nothing_lost cmd (s\<lparr>running := b\<rparr>) = nothing_lost cmd s"
  "nothing_lost cmd (s\<lparr>ui := u\<rparr>) = nothing_lost cmd s"
  "nothing_lost cmd (s\<lparr>kernel := k\<lparr>opened := fs\<rparr>\<rparr>) = nothing_lost cmd (s\<lparr>kernel := k\<rparr>)"
  "nothing_lost cmd (s\<lparr>kernel := k\<lparr>life := l\<rparr>\<rparr>) = nothing_lost cmd (s\<lparr>kernel := k\<rparr>)"
  by (simp_all add: nothing_lost_def)

lemma drained_frame [simp]:
  "drained (s\<lparr>worker := w\<rparr>) = drained s" "drained (s\<lparr>child := p\<rparr>) = drained s"
  "drained (s\<lparr>process := p\<rparr>) = drained s" "drained (s\<lparr>running := b\<rparr>) = drained s" "drained (s\<lparr>ui := u\<rparr>) = drained s"
  "drained (s\<lparr>kernel := k\<lparr>opened := fs\<rparr>\<rparr>) = drained (s\<lparr>kernel := k\<rparr>)"
  "drained (s\<lparr>kernel := k\<lparr>life := l\<rparr>\<rparr>) = drained (s\<lparr>kernel := k\<rparr>)"
  by (simp_all add: drained_def)

lemma nothing_yet_frame [simp]:
  "nothing_yet (s\<lparr>worker := w\<rparr>) = nothing_yet s" "nothing_yet (s\<lparr>ui := u\<rparr>) = nothing_yet s"
  by (simp_all add: nothing_yet_def)

lemma finished_frame [simp]:
  "finished cmd (s\<lparr>worker := w\<rparr>) = finished cmd s" "finished cmd (s\<lparr>running := b\<rparr>) = finished cmd s"
  "finished cmd (s\<lparr>ui := u\<rparr>) = finished cmd s"
  by (simp_all add: finished_def)

lemma fresh_simps [simp]:
  "opened fresh_kernel = {}" "next_stream fresh_kernel = 0" "\<not> broken fresh_kernel" "pipe fresh_kernel = []" "unwritten fresh_kernel = []"
  "\<not> write_open fresh_kernel" "life fresh_kernel = Unborn" "\<not> stray fresh_kernel" "child_pid no_process = 0" "stdin_file no_process = None"
  "stdout_file no_process = None" "stderr_file no_process = None"
  by (simp_all add: follow_start_def no_process_def)

lemma start_simps [simp]:
  "worker follow_start = W_test" "ui follow_start = S_loop" "running follow_start" "proc_status follow_start" "process_log follow_start = []"
  "child follow_start = no_process" "buffer follow_start = []"
  by (simp_all add: follow_start_def)

lemma same_kernel [simp]: "s\<lparr>kernel := kernel s\<rparr> = s" by simp

lemma waited_frame [simp]:
  "waited (k\<lparr>opened := fs\<rparr>) = waited k" "not_waited cmd (k\<lparr>opened := fs\<rparr>) = not_waited cmd k"
  by (simp_all add: waited_def not_waited_def)

lemma keeps_W_test:
  assumes "start_pid cmd \<noteq> 0" "patient_inv cmd s" "worker s = W_test"
  shows "pred_option (patient_inv cmd) (worker_move cmd n s)"
  using assms by (auto simp: patient_inv_def worker_inv_def worker_move_def split: if_splits)

lemma keeps_W_exec:
  assumes "start_pid cmd \<noteq> 0" "patient_inv cmd s" "worker s = W_exec"
  shows "pred_option (patient_inv cmd) (worker_move cmd n s)"
  using assms by (auto simp: patient_inv_def worker_inv_def worker_move_def nothing_yet_def nothing_lost_def finished_def starts_def not_waited_def c_text_def create_followed split: if_splits)

lemma keeps_W_share:
  assumes "start_pid cmd \<noteq> 0" "patient_inv cmd s" "worker s = W_share"
  shows "pred_option (patient_inv cmd) (worker_move cmd n s)"
  using assms by (auto simp: patient_inv_def worker_inv_def worker_move_def)

lemma keeps_W_fileno:
  assumes "start_pid cmd \<noteq> 0" "patient_inv cmd s" "worker s = W_fileno"
  shows "pred_option (patient_inv cmd) (worker_move cmd n s)"
  using assms by (auto simp: patient_inv_def worker_inv_def worker_move_def fileno_def live_process_def)

lemma keeps_W_join:
  assumes "start_pid cmd \<noteq> 0" "patient_inv cmd s" "worker s = W_join"
  shows "pred_option (patient_inv cmd) (worker_move cmd n s)"
  using assms by (auto simp: patient_inv_def worker_inv_def worker_move_def close_stdin_def fclose_some_def fclose_def live_process_def)

lemma keeps_W_wait:
  assumes "start_pid cmd \<noteq> 0" "patient_inv cmd s" "worker s = W_wait"
  shows "pred_option (patient_inv cmd) (worker_move cmd n s)"
proof -
  have "process s = (live_process cmd)\<lparr>stdin_file := None\<rparr>" "running s" "nothing_lost cmd s" "opened (kernel s) = {1}"
    "not_waited cmd (kernel s)" "drained s" "\<not> broken (kernel s)" "\<not> stray (kernel s)" "ui s = S_loop"
    using assms(2,3) by (auto simp: patient_inv_def worker_inv_def)
  then show ?thesis using assms(1,3)
    by (cases "life (kernel s)")
      (simp_all add: patient_inv_def worker_inv_def worker_move_def join_wait_def wait_status_def live_process_def not_waited_def waited_def)
qed

lemma keeps_W_destroy:
  assumes "start_pid cmd \<noteq> 0" "patient_inv cmd s" "worker s = W_destroy"
  shows "pred_option (patient_inv cmd) (worker_move cmd n s)"
  using assms by (auto simp: patient_inv_def worker_inv_def worker_move_def subprocess_destroy_def close_stdin_def fclose_some_def fclose_def live_process_def no_process_def)

lemma keeps_W_reshare:
  assumes "start_pid cmd \<noteq> 0" "patient_inv cmd s" "worker s = W_reshare"
  shows "pred_option (patient_inv cmd) (worker_move cmd n s)"
  using assms by (auto simp: patient_inv_def worker_inv_def worker_move_def finished_def no_process_def nothing_lost_def starts_def)

lemma keeps_W_failed:
  assumes "start_pid cmd \<noteq> 0" "patient_inv cmd s" "worker s = W_failed"
  shows "pred_option (patient_inv cmd) (worker_move cmd n s)"
  using assms by (auto simp: patient_inv_def worker_inv_def worker_move_def nothing_yet_def finished_def starts_def follow_start_def no_process_def)

lemma keeps_W_stop:
  assumes "start_pid cmd \<noteq> 0" "patient_inv cmd s" "worker s = W_stop"
  shows "pred_option (patient_inv cmd) (worker_move cmd n s)"
  using assms by (auto simp: patient_inv_def worker_inv_def worker_move_def finished_def)

lemma take_drop_rest: "take n xs @ drop n xs @ ys = xs @ ys"
  by (metis append.assoc append_take_drop_id)

lemma nothing_lost_read:
  assumes "nothing_lost cmd s" "n \<le> log_size - length (buffer s)" "n \<le> length (pipe (kernel s))"
  shows "nothing_lost cmd (s\<lparr>worker := w, process_log := c_text (buffer s @ take n (pipe (kernel s))),
    buffer := buffer s @ take n (pipe (kernel s)), kernel := (kernel s)\<lparr>pipe := drop n (pipe (kernel s))\<rparr>\<rparr>)"
  using assms by (auto simp: nothing_lost_def take_drop_rest)

lemma keeps_W_read:
  assumes "start_pid cmd \<noteq> 0" "patient_inv cmd s" "worker s = W_read"
  shows "pred_option (patient_inv cmd) (worker_move cmd n s)"
proof -
  have inv: "process s = live_process cmd" "running s" "nothing_lost cmd s" "opened (kernel s) = {0, 1}"
    "not_waited cmd (kernel s)" "\<not> broken (kernel s)" "\<not> stray (kernel s)" "ui s = S_loop"
    using assms(2,3) by (auto simp: patient_inv_def worker_inv_def)
  let ?room = "log_size - length (buffer s)"
  have read: "subprocess_read_stdout n (live_process cmd) ?room (kernel s) =
      (if ?room = 0 \<or> n = 0 \<and> pipe (kernel s) = [] \<and> \<not> write_open (kernel s) then Some ([], kernel s)
       else if 0 < n \<and> n \<le> ?room \<and> n \<le> length (pipe (kernel s))
         then Some (take n (pipe (kernel s)), (kernel s)\<lparr>pipe := drop n (pipe (kernel s))\<rparr>) else None)"
    by (auto simp: subprocess_read_stdout_def inv live_process_def)
  consider "?room = 0 \<or> n = 0 \<and> pipe (kernel s) = [] \<and> \<not> write_open (kernel s)"
    | "\<not> (?room = 0 \<or> n = 0 \<and> pipe (kernel s) = [] \<and> \<not> write_open (kernel s))" "0 < n \<and> n \<le> ?room \<and> n \<le> length (pipe (kernel s))"
    | "\<not> (?room = 0 \<or> n = 0 \<and> pipe (kernel s) = [] \<and> \<not> write_open (kernel s))" "\<not> (0 < n \<and> n \<le> ?room \<and> n \<le> length (pipe (kernel s)))"
    by blast
  then show ?thesis
  proof cases
    case 1
    have "drained (s\<lparr>worker := W_join, process_log := c_text (buffer s)\<rparr>)" using 1 inv(3) by (auto simp: drained_def nothing_lost_def)
    moreover have "nothing_lost cmd (s\<lparr>worker := W_join, process_log := c_text (buffer s)\<rparr>)" using inv(3) by (simp add: nothing_lost_def)
    ultimately show ?thesis using 1 assms(1) inv
      by (simp add: worker_move_def assms(3) patient_inv_def worker_inv_def read)
  next
    case 2
    then have "take n (pipe (kernel s)) \<noteq> []" by auto
    moreover have "not_waited cmd ((kernel s)\<lparr>pipe := drop n (pipe (kernel s))\<rparr>)" using inv(5) by (simp add: not_waited_def)
    ultimately show ?thesis using 2 assms(1) inv(1,2,4-) nothing_lost_read [OF inv(3)]
      by (simp add: worker_move_def assms(3) patient_inv_def worker_inv_def read)
  next
    case 3
    then have "subprocess_read_stdout n (live_process cmd) ?room (kernel s) = None" unfolding read by (simp only: if_False)
    then show ?thesis by (simp add: worker_move_def assms(3) inv(1))
  qed
qed

lemma worker_keeps:
  assumes "start_pid cmd \<noteq> 0" "patient_inv cmd s" "worker_move cmd n s = Some t"
  shows "patient_inv cmd t"
proof -
  note keeps = keeps_W_test keeps_W_exec keeps_W_share keeps_W_fileno keeps_W_read keeps_W_join keeps_W_wait keeps_W_destroy keeps_W_reshare
      keeps_W_failed keeps_W_stop
  have "pred_option (patient_inv cmd) (worker_move cmd n s)"
    by (cases "worker s") (simp_all add: keeps [OF assms(1,2)], simp_all add: worker_move_def)
  then show ?thesis using assms(3) by simp
qed

lemma command_keeps:
  assumes "patient_inv cmd s" "k \<in> {command_writes cmd (kernel s), command_ends_output (kernel s), command_exits cmd (kernel s)}" "k = Some k'"
  shows "patient_inv cmd (s\<lparr>kernel := k'\<rparr>)"
  using assms
  by (cases "worker s")
    (auto simp: patient_inv_def follow_inv_defs command_writes_def command_ends_output_def command_exits_def follow_start_def
      split: if_splits list.splits)

lemma screen_keeps:
  assumes "patient_inv cmd s" "screen_move s = Some t"
  shows "patient_inv cmd t"
proof -
  have "child_pid (child s) = 0" if "ui s = S_check"
    using assms(1) that by (cases "worker s") (auto simp: patient_inv_def worker_inv_def finished_def)
  then have "pred_option (patient_inv cmd) (screen_move s)"
    using assms(1) by (cases "ui s"; cases "worker s") (simp_all add: patient_inv_def screen_move_def worker_inv_def)
  then show ?thesis using assms(2) by simp
qed

lemma follow_keeps:
  assumes "start_pid cmd \<noteq> 0" "patient_inv cmd s" "follow_move cmd True m s = Some t"
  shows "patient_inv cmd t"
proof (cases m)
  case (Work n)
  then show ?thesis using worker_keeps [OF assms(1,2)] assms(3) by (simp add: follow_move_def)
next
  case Back
  then have "t = s\<lparr>ui := S_check\<rparr>" "\<not> running s" using assms(3) by (auto simp: follow_move_def split: if_splits)
  then show ?thesis using assms(2) by (cases "worker s") (simp_all add: patient_inv_def worker_inv_def)
next
  case Screen
  then show ?thesis using screen_keeps [OF assms(2)] assms(3) by (simp add: follow_move_def)
qed (use assms(3) command_keeps [OF assms(2)] in \<open>auto simp: follow_move_def\<close>)

lemma patient_inv_reach:
  assumes "start_pid cmd \<noteq> 0" "follow_reach cmd True follow_start s"
  shows "patient_inv cmd s"
  using assms(2)
proof (induction rule: follow_reach.induct)
  case here
  show ?case by (simp add: patient_inv_def worker_inv_def nothing_yet_def)
next
  case (step t m u)
  then show ?case using follow_keeps [OF assms(1)] by blast
qed

lemma not_signalled:
  assumes "patient_inv cmd s"
  shows "life (kernel s) \<noteq> Signalled"
proof -
  have "nothing_yet s \<or> not_waited cmd (kernel s) \<or> waited (kernel s) \<or> finished cmd s"
    using assms by (cases "worker s") (auto simp: patient_inv_def worker_inv_def split: if_splits)
  then show ?thesis by (auto simp: nothing_yet_def not_waited_def waited_def finished_def split: if_splits)
qed

lemma drained_log:
  assumes "nothing_lost cmd s" "drained s"
  shows "process_log s = c_text (take log_size (printed cmd))"
proof -
  have "process_log s = c_text (buffer s)" using assms(1) by (simp add: nothing_lost_def)
  moreover have "printed cmd = buffer s @ pipe (kernel s) @ unwritten (kernel s)" using assms(1) by (simp add: nothing_lost_def)
  then have "buffer s = take log_size (printed cmd)" using assms by (auto simp: nothing_lost_def drained_def)
  ultimately show ?thesis by (simp only:)
qed

lemma finished_result:
  assumes "finished cmd s"
  shows "opened (kernel s) = {} \<and> proc_status s = (dirty_cmd_run cmd \<or> can_start cmd) \<and>
    (if starts cmd then life (kernel s) = Reaped \<and> process_log s = c_text (take log_size (printed cmd)) else process_log s = [])"
proof (cases "starts cmd")
  case True
  then have "nothing_lost cmd s" "drained s" using assms by (simp_all add: finished_def)
  then have "process_log s = c_text (take log_size (printed cmd))" by (rule drained_log)
  moreover have "opened (kernel s) = {}" "proc_status s = (dirty_cmd_run cmd \<or> can_start cmd)" "life (kernel s) = Reaped"
    using assms True unfolding finished_def waited_def by (simp_all only: if_True)
  ultimately show ?thesis using True by simp
next
  case False
  then show ?thesis using assms unfolding finished_def by (simp only: if_False fresh_simps)
qed

text \<open>C36. With a user who waits for the end of the command, no stream is closed or used after it has been closed, no signal is sent, and
  when the screen returns everything is closed, the command has been waited for and the log is the output, cut at the size of
  the buffer and at the first zero; the value says whether the command could be started, whatever its exit code is.\<close>

theorem patient_session:
  assumes "start_pid cmd \<noteq> 0" "follow_reach cmd True follow_start s"
  shows "\<not> broken (kernel s) \<and> \<not> stray (kernel s) \<and> life (kernel s) \<noteq> Signalled \<and> worker s \<noteq> W_gone \<and>
    (ui s = S_returned \<longrightarrow>
      opened (kernel s) = {} \<and> proc_status s = (dirty_cmd_run cmd \<or> can_start cmd) \<and>
      (if starts cmd then life (kernel s) = Reaped \<and> process_log s = c_text (take log_size (printed cmd)) else process_log s = []))"
proof -
  have inv: "patient_inv cmd s" by (rule patient_inv_reach [OF assms])
  then have "worker s \<noteq> W_gone" by (auto simp: patient_inv_def worker_inv_def)
  moreover have "life (kernel s) \<noteq> Signalled" by (rule not_signalled [OF inv])
  moreover have "\<not> broken (kernel s)" "\<not> stray (kernel s)" "ui s = S_returned \<Longrightarrow> worker s = W_done"
    using inv by (simp_all add: patient_inv_def)
  moreover have "worker s = W_done \<Longrightarrow> finished cmd s" using inv by (simp add: patient_inv_def worker_inv_def)
  ultimately show ?thesis using finished_result [of cmd s] by simp
qed

subsection \<open>Whether the command comes to an end\<close>

text \<open>The runs in which the user only watches, with the number of their moves.\<close>

inductive watched :: "command \<Rightarrow> nat \<Rightarrow> follow \<Rightarrow> bool" for cmd where
  begun: "watched cmd 0 follow_start"
| on: "watched cmd n s \<Longrightarrow> m \<noteq> Back \<Longrightarrow> follow_move cmd True m s = Some t \<Longrightarrow> watched cmd (Suc n) t"

definition worker_rank :: "command \<Rightarrow> follow \<Rightarrow> nat" where
  "worker_rank cmd s =
     (case worker s of
        W_test \<Rightarrow> if running s then 3 * length (printed cmd) + 15 else 1
      | W_exec \<Rightarrow> 3 * length (printed cmd) + 14
      | W_share \<Rightarrow> 11
      | W_fileno \<Rightarrow> 10
      | W_read \<Rightarrow> 9
      | W_join \<Rightarrow> 8
      | W_wait \<Rightarrow> 7
      | W_destroy \<Rightarrow> 6
      | W_reshare \<Rightarrow> 5
      | W_failed \<Rightarrow> 4
      | W_stop \<Rightarrow> 3
      | W_done \<Rightarrow> 0
      | W_gone \<Rightarrow> 0)"

definition kernel_rank :: "kernel \<Rightarrow> nat" where
  "kernel_rank k = 3 * length (unwritten k) + 2 * length (pipe k) + (if write_open k then 1 else 0) + (if life k = Alive then 1 else 0)"

definition work_left :: "command \<Rightarrow> follow \<Rightarrow> nat" where
  "work_left cmd s = worker_rank cmd s + kernel_rank (kernel s)"

lemma command_works: "command_writes cmd k = Some k' \<Longrightarrow> kernel_rank k' < kernel_rank k"
  "command_ends_output k = Some k' \<Longrightarrow> kernel_rank k' < kernel_rank k"
  "command_exits cmd k = Some k' \<Longrightarrow> kernel_rank k' < kernel_rank k"
  by (auto simp: command_writes_def command_ends_output_def command_exits_def kernel_rank_def split: if_splits list.splits)

lemma worker_works:
  assumes "patient_inv cmd s"
  shows "pred_option (\<lambda>t. work_left cmd t < work_left cmd s) (worker_move cmd n s)"
proof (cases "worker s")
  case W_read
  have "process s = live_process cmd" using assms W_read by (simp add: patient_inv_def worker_inv_def)
  then show ?thesis
    by (simp add: W_read worker_move_def work_left_def worker_rank_def kernel_rank_def subprocess_read_stdout_def) linarith
qed (use assms in \<open>simp_all add: patient_inv_def worker_inv_def nothing_yet_def create_followed worker_move_def work_left_def worker_rank_def
  kernel_rank_def fileno_def live_process_def close_stdin_def fclose_some_def fclose_def join_wait_def wait_status_def subprocess_destroy_def
  split: life.splits\<close>)

lemma watched_works:
  assumes "start_pid cmd \<noteq> 0" "watched cmd n s"
  shows "patient_inv cmd s \<and> ui s = S_loop \<and> n + work_left cmd s \<le> 3 * length (printed cmd) + 15"
  using assms(2)
proof (induction rule: watched.induct)
  case begun
  show ?case using patient_inv_reach [OF assms(1) follow_reach.here] by (simp add: work_left_def worker_rank_def kernel_rank_def)
next
  case (on n s m t)
  then have inv: "patient_inv cmd s" "ui s = S_loop" by simp_all
  have "ui t = S_loop \<and> work_left cmd t < work_left cmd s"
  proof (cases m)
    case (Work k)
    moreover have "ui t = ui s" if "worker_move cmd k s = Some t"
      using that by (cases "worker s") (auto simp: worker_move_def split: if_splits prod.splits option.splits)
    ultimately show ?thesis using on.hyps(3) inv worker_works [OF inv(1), of k] by (simp add: follow_move_def)
  next
    case Screen
    then show ?thesis using on.hyps(3) inv by (simp add: follow_move_def screen_move_def)
  qed (use on.hyps(2,3) inv in \<open>auto simp: follow_move_def work_left_def worker_rank_def dest: command_works\<close>)
  then show ?case using on.IH follow_keeps [OF assms(1) inv(1) on.hyps(3)] by simp
qed

text \<open>Where nothing moves any more: at the end, or where the worker waits for a command that waits for room in the pipe.\<close>

lemma follow_stuck:
  assumes "start_pid cmd \<noteq> 0" "0 < pipe_room cmd" "watched cmd n s" "\<forall>m. m \<noteq> Back \<longrightarrow> follow_move cmd True m s = None"
  shows "worker s = W_done \<or> worker s = W_wait \<and> life (kernel s) = Alive \<and> unwritten (kernel s) \<noteq> [] \<and>
    length (buffer s) = log_size \<and> length (pipe (kernel s)) = pipe_room cmd"
proof -
  have inv: "patient_inv cmd s" using watched_works [OF assms(1,3)] by simp
  have stuck: "worker_move cmd k s = None" "command_writes cmd (kernel s) = None" "command_ends_output (kernel s) = None"
    "command_exits cmd (kernel s) = None" for k
    using assms(4) by (auto simp: follow_move_def dest: spec [of _ "Work k"] spec [of _ Writes] spec [of _ Ends_output] spec [of _ Exits])
  have "worker s \<in> {W_read, W_wait, W_done, W_gone}"
    using stuck(1) [of 0] by (auto simp: worker_move_def split: worker_at.splits prod.splits if_splits)
  moreover have "worker s \<noteq> W_gone" using inv by (auto simp: patient_inv_def worker_inv_def)
  moreover have "worker s \<noteq> W_read"
  proof
    assume at: "worker s = W_read"
    then have s: "process s = live_process cmd" "nothing_lost cmd s" "opened (kernel s) = {0, 1}" "not_waited cmd (kernel s)"
      using inv by (simp_all add: patient_inv_def worker_inv_def)
    have "pipe (kernel s) = [] \<and> write_open (kernel s)"
      using stuck(1) [of 0] stuck(1) [of "Suc 0"] s(1)
      by (cases "pipe (kernel s)") (auto simp: at worker_move_def subprocess_read_stdout_def live_process_def split: if_splits)
    then show False using stuck(2,3) s(2,3,4) assms(2)
      by (auto simp: command_writes_def command_ends_output_def nothing_lost_def split: list.splits)
  qed
  moreover have "life (kernel s) = Alive \<and> unwritten (kernel s) \<noteq> [] \<and> length (buffer s) = log_size \<and> length (pipe (kernel s)) = pipe_room cmd"
    if at: "worker s = W_wait"
  proof -
    have s: "process s = (live_process cmd)\<lparr>stdin_file := None\<rparr>" "nothing_lost cmd s" "opened (kernel s) = {1}" "not_waited cmd (kernel s)" "drained s"
      using inv at by (simp_all add: patient_inv_def worker_inv_def)
    have alive: "life (kernel s) = Alive" using stuck(1) [of 0] s(1,4) assms(1)
      by (auto simp: at worker_move_def join_wait_def wait_status_def live_process_def not_waited_def)
    then have "write_open (kernel s)" using stuck(4) by (simp add: command_exits_def split: if_splits)
    moreover from this have "unwritten (kernel s) \<noteq> []" using stuck(3) by (auto simp: command_ends_output_def)
    ultimately show ?thesis using alive stuck(2) s(2,3,5)
      by (auto simp: command_writes_def nothing_lost_def drained_def split: list.splits if_splits)
  qed
  ultimately show ?thesis by blast
qed

text \<open>C37. A command whose output fits into the buffer of the log and one pipe comes to its end if it is left alone, whatever the order
  of the moves: the number of moves is bounded, and as long as the worker is not done there is a next one.\<close>

theorem short_output_ends:
  assumes "start_pid cmd \<noteq> 0" "0 < pipe_room cmd" "length (printed cmd) \<le> log_size + pipe_room cmd" "watched cmd n s"
  shows "n \<le> 3 * length (printed cmd) + 15 \<and> (worker s = W_done \<or> (\<exists>m t. m \<noteq> Back \<and> follow_move cmd True m s = Some t))"
proof -
  have "worker s = W_done" if "\<forall>m. m \<noteq> Back \<longrightarrow> follow_move cmd True m s = None"
  proof (rule ccontr)
    assume "worker s \<noteq> W_done"
    then have st: "worker s = W_wait" "unwritten (kernel s) \<noteq> []" "length (buffer s) = log_size" "length (pipe (kernel s)) = pipe_room cmd"
      using follow_stuck [OF assms(1,2,4) that] by auto
    have "nothing_lost cmd s" using watched_works [OF assms(1,4)] st(1) by (simp add: patient_inv_def worker_inv_def)
    then have "length (printed cmd) = log_size + pipe_room cmd + length (unwritten (kernel s))"
      using st by (metis add.assoc length_append nothing_lost_def)
    then show False using assms(3) st(2) by simp
  qed
  then show ?thesis using watched_works [OF assms(1,4)] by fastforce
qed

text \<open>C38. A command that prints more than that never comes to its end: after a bounded number of moves the worker waits for the command,
  which waits for room in the pipe that nobody reads, and the screen keeps showing the first part of the output.\<close>

theorem long_output_hangs:
  assumes "start_pid cmd \<noteq> 0" "0 < pipe_room cmd" "starts cmd" "log_size + pipe_room cmd < length (printed cmd)" "watched cmd n s"
  shows "n \<le> 3 * length (printed cmd) + 15 \<and> running s \<and> worker s \<noteq> W_done \<and>
    ((\<forall>m. m \<noteq> Back \<longrightarrow> follow_move cmd True m s = None) \<longrightarrow>
       worker s = W_wait \<and> life (kernel s) = Alive \<and> process_log s = c_text (take log_size (printed cmd)))"
proof -
  have inv: "patient_inv cmd s" using watched_works [OF assms(1,5)] by simp
  have no_end: "\<not> finished cmd s"
  proof
    assume "finished cmd s"
    then have s: "nothing_lost cmd s" "drained s" "\<not> write_open (kernel s)" using assms(3) by (auto simp: finished_def waited_def)
    then have "printed cmd = buffer s @ pipe (kernel s)" by (auto simp: nothing_lost_def)
    moreover have "length (buffer s) \<le> log_size" "length (pipe (kernel s)) \<le> pipe_room cmd" using s(1) by (simp_all add: nothing_lost_def)
    ultimately show False using assms(4) by simp
  qed
  then have "running s \<and> worker s \<noteq> W_done"
    using inv by (cases "worker s") (auto simp: patient_inv_def worker_inv_def split: if_splits)
  moreover have "worker s = W_wait \<and> life (kernel s) = Alive \<and> process_log s = c_text (take log_size (printed cmd))"
    if "\<forall>m. m \<noteq> Back \<longrightarrow> follow_move cmd True m s = None"
  proof -
    have at: "worker s = W_wait" "life (kernel s) = Alive" using follow_stuck [OF assms(1,2,5) that] calculation by auto
    then have "nothing_lost cmd s" "drained s" using inv by (simp_all add: patient_inv_def worker_inv_def)
    then show ?thesis using drained_log [of cmd s] at by simp
  qed
  ultimately show ?thesis using watched_works [OF assms(1,5)] by simp
qed

definition echo_command :: command where
  "echo_command = \<lparr>printed = ''ok'', exit_code = 7, pipe_room = 65536, start_pid = 42, can_start = True, dirty_cmd_run = False\<rparr>"

lemma patient_session_witness:
  "\<exists>s :: follow. ui s = S_returned \<and> life (kernel s) = Reaped \<and> process_log s = ''ok'' \<and> proc_status s"
proof -
  let ?moves = "[Work 0, Work 0, Work 0, Work 0, Writes, Writes, Ends_output, Exits, Work 2, Work 0, Work 0, Work 0, Work 0, Work 0, Work 0,
    Work 0, Work 0, Back, Screen, Screen, Screen, Screen]"
  obtain s where run: "follow_run echo_command True ?moves follow_start = Some s" and at: "ui s = S_returned"
    by (simp add: echo_command_def follow_move_def worker_move_def screen_move_def follow_start_def no_process_def subprocess_create_ex_def
      combined_stdout_stderr_def inherit_environment_def enable_async_def command_writes_def command_ends_output_def command_exits_def
      fileno_def subprocess_read_stdout_def log_size_def close_stdin_def fclose_some_def fclose_def join_wait_def wait_status_def
      subprocess_destroy_def numeral_2_eq_2)
  have "follow_reach echo_command True follow_start s" by (rule follow_run_reach [OF run])
  moreover have "start_pid echo_command \<noteq> 0" by (simp add: echo_command_def)
  ultimately have "life (kernel s) = Reaped \<and> process_log s = ''ok'' \<and> proc_status s"
    using patient_session [of echo_command s] at by (simp add: echo_command_def starts_def log_size_def c_text_def)
  then show ?thesis using at by blast
qed

lemma watched_a_while:
  assumes "starts cmd"
  obtains s where "watched cmd 3 s" "worker s = W_fileno"
proof -
  define s where "s = follow_start\<lparr>process := live_process cmd, kernel := fresh_kernel\<lparr>opened := {0, 1}, next_stream := 3, pipe_reader := 1,
    unwritten := printed cmd, write_open := True, life := Alive\<rparr>\<rparr>"
  have run: "worker_move cmd 0 follow_start = Some (follow_start\<lparr>worker := W_exec\<rparr>)"
      "worker_move cmd 0 (follow_start\<lparr>worker := W_exec\<rparr>) = Some (s\<lparr>worker := W_share\<rparr>)"
    using assms by (simp_all add: worker_move_def create_followed starts_def s_def)
  have by_worker: "watched cmd (Suc n) u" if "watched cmd n t" "worker_move cmd 0 t = Some u" for n t u
    using watched.on [OF that(1), of "Work 0" u] that(2) by (simp add: follow_move_def)
  have "watched cmd (Suc (Suc (Suc 0))) (s\<lparr>worker := W_fileno, child := process s\<rparr>)"
    by (rule by_worker [OF by_worker [OF by_worker [OF watched.begun run(1)] run(2)]]) (simp add: worker_move_def)
  then have "watched cmd 3 (s\<lparr>worker := W_fileno, child := process s\<rparr>)" unfolding numeral_3_eq_3 .
  moreover have "worker (s\<lparr>worker := W_fileno, child := process s\<rparr>) = W_fileno" by simp
  ultimately show ?thesis by (rule that)
qed

lemma short_output_ends_witness:
  "\<exists>s t :: follow. watched echo_command 3 s \<and> (\<exists>m. m \<noteq> Back \<and> follow_move echo_command True m s = Some t)"
proof -
  obtain s where s: "watched echo_command 3 s" "worker s = W_fileno"
    using watched_a_while [of echo_command] by (auto simp: echo_command_def starts_def)
  then have "\<exists>m t. m \<noteq> Back \<and> follow_move echo_command True m s = Some t"
    using short_output_ends [of echo_command 3 s] by (simp add: echo_command_def log_size_def)
  then show ?thesis using s(1) by blast
qed

definition endless_command :: command where
  "endless_command = echo_command\<lparr>printed := replicate (log_size + 65537) CHR ''y''\<rparr>"

lemma long_output_hangs_witness:
  "\<exists>s :: follow. watched endless_command 3 s \<and> running s \<and> worker s \<noteq> W_done"
proof -
  have e: "start_pid endless_command \<noteq> 0" "0 < pipe_room endless_command" "starts endless_command"
    "log_size + pipe_room endless_command < length (printed endless_command)"
    by (simp_all add: endless_command_def echo_command_def starts_def)
  obtain s where s: "watched endless_command 3 s" using watched_a_while [OF e(3)] by blast
  then show ?thesis using long_output_hangs [OF e s] by blast
qed

subsection \<open>The user does not wait\<close>

text \<open>The copy that the screen closes is that of the worker as long as the worker has not closed its own.\<close>

definition copies_agree :: "follow \<Rightarrow> bool" where
  "copies_agree s \<longleftrightarrow>
     (\<forall>f. stdin_file (child s) = Some f \<longrightarrow>
        f \<notin> opened (kernel s) \<or> worker s = W_gone \<or> worker s \<in> {W_fileno, W_read, W_join} \<and> stdin_file (process s) = Some f) \<and>
     (worker s \<in> {W_exec, W_share} \<or> worker s = W_test \<and> running s \<longrightarrow> stdin_file (child s) = None) \<and>
     (worker s \<in> {W_wait, W_destroy, W_reshare} \<longrightarrow> stdin_file (process s) = None)"

definition closed_twice :: "follow \<Rightarrow> bool" where
  "closed_twice s \<longleftrightarrow> broken (kernel s) \<or> worker s = W_gone \<or>
     worker s \<in> {W_fileno, W_read, W_join} \<and> (\<exists>f. stdin_file (process s) = Some f \<and> f \<notin> opened (kernel s))"

lemma fclose_simps [simp]:
  "opened (fclose f k) = opened k - {f}" "broken (fclose f k) = (broken k \<or> f \<notin> opened k)"
  "opened (fclose_some file k) = opened k - set_option file"
  "broken (fclose_some file k) = (broken k \<or> (\<exists>f. file = Some f \<and> f \<notin> opened k))"
  by (auto simp: fclose_def fclose_some_def split: option.splits)

lemma fileno_simps [simp]: "opened (fileno file k) = opened k" "broken k \<Longrightarrow> broken (fileno file k)"
  by (auto simp: fileno_def split: option.splits)

lemma destroy_result:
  assumes "subprocess_destroy p k = (p', k')"
  shows "stdin_file p' = None" "opened k' \<subseteq> opened k - set_option (stdin_file p)" "broken k \<Longrightarrow> broken k'"
    "stdin_file p = Some f \<Longrightarrow> f \<notin> opened k \<Longrightarrow> broken k'"
  using assms by (auto simp: subprocess_destroy_def close_stdin_def split: option.splits if_splits)

lemma destroy_opens_nothing: "subprocess_destroy p k = (p', k') \<Longrightarrow> f \<in> opened k' \<Longrightarrow> f \<in> opened k \<and> stdin_file p \<noteq> Some f"
  using destroy_result(2) [of p k p' k'] by auto

lemma move_cases [case_names Work Command Back Screen]:
  obtains n where "m = Work n" | "m \<in> {Writes, Ends_output, Exits}" | "m = Back" | "m = Screen"
  by (cases m) auto

lemma command_frame:
  assumes "m \<in> {Writes, Ends_output, Exits}" "follow_move cmd p m s = Some t"
  shows "\<exists>k. t = s\<lparr>kernel := k\<rparr> \<and> opened k = opened (kernel s) \<and> broken k = broken (kernel s)"
proof -
  have "pred_option (\<lambda>k. opened k = opened (kernel s) \<and> broken k = broken (kernel s)) (command_writes cmd (kernel s))"
    "pred_option (\<lambda>k. opened k = opened (kernel s) \<and> broken k = broken (kernel s)) (command_ends_output (kernel s))"
    "pred_option (\<lambda>k. opened k = opened (kernel s) \<and> broken k = broken (kernel s)) (command_exits cmd (kernel s))"
    by (simp_all add: command_writes_def command_ends_output_def command_exits_def split: list.split)
  then show ?thesis using assms
    by (cases "command_writes cmd (kernel s)"; cases "command_ends_output (kernel s)"; cases "command_exits cmd (kernel s)")
      (auto simp: follow_move_def)
qed

lemma copies_agree_destroy:
  assumes "copies_agree s" "subprocess_destroy p (kernel s) = (p', k')"
  shows "worker s = W_destroy \<Longrightarrow> p = process s \<Longrightarrow> copies_agree (s\<lparr>worker := W_reshare, process := p', kernel := k'\<rparr>)"
    "p = child s \<Longrightarrow> copies_agree (s\<lparr>ui := S_flag, child := p', kernel := k'\<rparr>)"
  using assms(1) destroy_result(1) [OF assms(2)] destroy_opens_nothing [OF assms(2)] by (auto simp: copies_agree_def)

lemma copies_agree_reach:
  assumes "follow_reach cmd False follow_start s"
  shows "copies_agree s"
  using assms
proof (induction rule: follow_reach.induct)
  case here
  show ?case by (simp add: copies_agree_def)
next
  case (step s m t)
  show ?case
  proof (cases m rule: move_cases)
    case (Work n)
    then have move: "worker_move cmd n s = Some t" using step.hyps(2) by (simp add: follow_move_def)
    show ?thesis
    proof (cases "worker s = W_destroy")
      case True
      then show ?thesis using move copies_agree_destroy(1) [OF step.IH] by (auto simp: worker_move_def split: prod.splits)
    next
      case False
      then show ?thesis using move step.IH
        by (cases "worker s")
          (auto simp: copies_agree_def worker_move_def subprocess_create_ex_def Let_def close_stdin_def subprocess_read_stdout_def join_wait_def
            split: if_splits prod.splits option.splits)
    qed
  next
    case Screen
    then have move: "screen_move s = Some t" using step.hyps(2) by (simp add: follow_move_def)
    show ?thesis
    proof (cases "ui s = S_destroy")
      case True
      then show ?thesis using move copies_agree_destroy(2) [OF step.IH] by (auto simp: screen_move_def split: prod.splits)
    next
      case False
      then have "pred_option copies_agree (screen_move s)" using step.IH
        by (cases "ui s") (simp_all add: copies_agree_def screen_move_def subprocess_terminate_def, auto)
      then show ?thesis using move by simp
    qed
  next
    case Back
    then have "t = s\<lparr>ui := S_check\<rparr>" using step.hyps(2) by (simp add: follow_move_def split: if_splits)
    then show ?thesis using step.IH by (simp add: copies_agree_def)
  next
    case Command
    then obtain k where "t = s\<lparr>kernel := k\<rparr>" "opened k = opened (kernel s)" using command_frame [OF _ step.hyps(2)] by blast
    then show ?thesis using step.IH by (simp add: copies_agree_def)
  qed
qed

text \<open>A stream that is closed on one side is closed on the other, or somebody has closed it twice.\<close>

lemma closed_twice_stays:
  assumes "closed_twice s" "follow_move cmd False m s = Some t"
  shows "closed_twice t"
proof (cases m rule: move_cases)
  case (Work n)
  then have "worker_move cmd n s = Some t" using assms(2) by (simp add: follow_move_def)
  then show ?thesis using assms(1)
    by (cases "worker s")
      (auto simp: closed_twice_def worker_move_def subprocess_create_ex_def Let_def close_stdin_def subprocess_read_stdout_def join_wait_def
        split: if_splits prod.splits option.splits dest: destroy_result(3))
next
  case Screen
  then have "screen_move s = Some t" using assms(2) by (simp add: follow_move_def)
  then show ?thesis using assms(1)
    by (cases "ui s")
      (auto simp: closed_twice_def screen_move_def subprocess_terminate_def split: if_splits prod.splits
        dest: destroy_result(3) destroy_opens_nothing)
next
  case Back
  then show ?thesis using assms by (auto simp: follow_move_def closed_twice_def split: if_splits)
next
  case Command
  then obtain k where "t = s\<lparr>kernel := k\<rparr>" "opened k = opened (kernel s)" "broken k = broken (kernel s)"
    using command_frame [OF _ assms(2)] by blast
  then show ?thesis using assms(1) by (simp add: closed_twice_def)
qed

text \<open>The screen has returned only after the worker.\<close>

lemma returned_done:
  assumes "follow_reach cmd False follow_start s"
  shows "ui s = S_returned \<longrightarrow> worker s = W_done"
  using assms
proof (induction rule: follow_reach.induct)
  case (step s m t)
  show ?case
  proof (cases m)
    case (Work n)
    then have "worker_move cmd n s = Some t" using step.hyps(2) by (simp add: follow_move_def)
    then show ?thesis using step.IH
      by (cases "worker s") (auto simp: worker_move_def split: if_splits prod.splits option.splits)
  next
    case Screen
    then have "screen_move s = Some t" using step.hyps(2) by (simp add: follow_move_def)
    then show ?thesis using step.IH by (cases "ui s") (auto simp: screen_move_def split: if_splits prod.splits)
  qed (use step in \<open>auto simp: follow_move_def split: if_splits\<close>)
qed simp

lemma closed_twice_reach: "follow_reach cmd False s t \<Longrightarrow> closed_twice s \<Longrightarrow> closed_twice t"
  by (induction rule: follow_reach.induct) (auto intro: closed_twice_stays)

text \<open>C39. A user who chooses Back while the command runs: once the screen has closed the streams of its copy, the session cannot return
  without one of them having been closed twice, whichever thread moves first.\<close>

theorem back_closes_twice:
  assumes "follow_reach cmd False follow_start s" "ui s = S_destroy" "stdin_file (child s) \<noteq> None"
    and "follow_move cmd False Screen s = Some u" "follow_reach cmd False u t" "ui t = S_returned"
  shows "broken (kernel t)"
proof -
  obtain f where f: "stdin_file (child s) = Some f" using assms(3) by blast
  obtain p k where d: "subprocess_destroy (child s) (kernel s) = (p, k)" by force
  then have u: "u = s\<lparr>ui := S_flag, child := p, kernel := k\<rparr>" using assms(2,4) by (simp add: follow_move_def screen_move_def)
  have "f \<notin> opened (kernel s) \<or> worker s = W_gone \<or> worker s \<in> {W_fileno, W_read, W_join} \<and> stdin_file (process s) = Some f"
    using copies_agree_reach [OF assms(1)] f by (simp add: copies_agree_def)
  moreover have "f \<notin> opened k" using destroy_opens_nothing [OF d] f by blast
  ultimately have "closed_twice u" using destroy_result(4) [OF d f] by (auto simp: closed_twice_def u)
  then have "closed_twice t" by (rule closed_twice_reach [OF assms(5)])
  moreover have "worker t = W_done"
    using returned_done [of cmd t] assms(6) follow_reach_trans [OF follow_reach.step [OF assms(1,4)] assms(5)] by blast
  ultimately show ?thesis by (simp add: closed_twice_def)
qed

lemmas follow_run_defs = echo_command_def follow_move_def worker_move_def screen_move_def follow_start_def no_process_def
  subprocess_create_ex_def combined_stdout_stderr_def inherit_environment_def enable_async_def command_writes_def command_ends_output_def
  command_exits_def fileno_def subprocess_read_stdout_def log_size_def close_stdin_def fclose_some_def fclose_def join_wait_def
  wait_status_def subprocess_destroy_def subprocess_terminate_def numeral_2_eq_2

lemma back_closes_twice_witness:
  "\<exists>t :: follow. follow_reach echo_command False follow_start t \<and> ui t = S_returned \<and> broken (kernel t)"
proof -
  obtain s where s: "follow_run echo_command False [Work 0, Work 0, Work 0, Back, Screen, Screen] follow_start = Some s"
      "ui s = S_destroy" "stdin_file (child s) \<noteq> None"
    and u: "\<exists>u. follow_move echo_command False Screen s = Some u \<and>
      (\<exists>t. follow_run echo_command False [Screen, Work 0, Ends_output, Work 0, Work 0, Work 0, Work 0, Work 0, Work 0, Work 0,
        Screen, Screen, Screen] u = Some t \<and> ui t = S_returned)"
    by (simp add: follow_run_defs)
  then obtain u t where ut: "follow_move echo_command False Screen s = Some u" "follow_reach echo_command False u t" "ui t = S_returned"
    by (meson follow_run_reach)
  have "broken (kernel t)" by (rule back_closes_twice [OF follow_run_reach [OF s(1)] s(2,3) ut])
  moreover have "follow_reach echo_command False follow_start t"
    using follow_reach_trans [OF follow_reach.step [OF follow_run_reach [OF s(1)] ut(1)] ut(2)] .
  ultimately show ?thesis using ut(3) by blast
qed

text \<open>Between the question whether there is a process and the signal the worker may give the screen a copy without one: the signal 9 then goes
  to the process 0, to the installer itself.\<close>

lemma back_kills_the_installer:
  "\<exists>t :: follow. follow_reach echo_command False follow_start t \<and> ui t = S_gone \<and> worker t = W_gone"
proof -
  have "\<exists>t. follow_run echo_command False [Work 0, Work 0, Work 0, Work 0, Writes, Writes, Ends_output, Exits, Work 2, Work 0, Work 0,
      Work 0, Work 0, Work 0, Back, Screen, Work 0, Screen] follow_start = Some t \<and> ui t = S_gone \<and> worker t = W_gone"
    by (simp add: follow_run_defs)
  then show ?thesis by (meson follow_run_reach)
qed

end
