(* ===== verification/Processes.thy ===== *)
theory Processes
  imports Subprocess
begin

section \<open>Starting a program without a shell (gucc/src/io_utils.cpp)\<close>

text \<open>
  The overload of \<^verbatim>\<open>exec\<close> that takes the words of a command forks, and the two processes go different ways: the value is what each
  process does next.  The kernel is in the arguments: whether \<^verbatim>\<open>fork\<close> made a child, whether \<^verbatim>\<open>execvp\<close> finds the program, and
  what each call of \<^verbatim>\<open>waitpid\<close> leaves, a status or an error, which leaves the status as it was.
\<close>

definition safe_getenv :: "(string \<Rightarrow> string option) \<Rightarrow> string \<Rightarrow> string" where
  "safe_getenv environ env_name = (case environ env_name of None \<Rightarrow> '''' | Some raw_val \<Rightarrow> raw_val)"

text \<open>The macros of the C library: the low seven bits are the signal that ended the child, 127 for one that is only stopped.\<close>

definition WIFEXITED :: "32 word \<Rightarrow> bool" where
  "WIFEXITED st \<longleftrightarrow> and st 0x7f = 0"

definition WIFSIGNALED :: "32 word \<Rightarrow> bool" where
  "WIFSIGNALED st \<longleftrightarrow> 0 < sint (ucast (and st 0x7f + 1) :: 8 word) div 2"

datatype whose = Caller | Child

datatype fate = Goes_on | Becomes "string list" | Waits_for_ever | Crashes

text \<open>The loop around \<^verbatim>\<open>waitpid\<close>; the list is what its calls leave, and with no further one the call does not return.\<close>

fun wait_loop :: "32 word \<Rightarrow> 32 word option list \<Rightarrow> fate" where
  "wait_loop st [] = Waits_for_ever"
| "wait_loop st (report # reports) =
     (let st = (case report of None \<Rightarrow> st | Some s \<Rightarrow> s)
      in if \<not> WIFEXITED st \<and> \<not> WIFSIGNALED st then wait_loop st reports else Goes_on)"

definition exec_words ::
  "(string \<Rightarrow> string option) \<Rightarrow> bool \<Rightarrow> (string list \<Rightarrow> bool) \<Rightarrow> 32 word option list \<Rightarrow> string list \<Rightarrow> (whose \<times> fate) list" where
  "exec_words environ forked found reports vec =
     (if safe_getenv environ ''DIRTY_CMD_RUN'' = ''1'' then [(Caller, Goes_on)]
      else
        (let args = map c_text vec;
             child = (if args = [] then Crashes else if found args then Becomes args else Goes_on);
             parent = wait_loop 0 reports
         in if forked then [(Child, child), (Caller, parent)] else [(Caller, parent)]))"

subsection \<open>Lemmas\<close>

lemma status_byte:
  assumes "k < 128"
  shows "(0 < sint (ucast (word_of_nat k + 1 :: 32 word) :: 8 word) div 2) = (k \<noteq> 0 \<and> k \<noteq> 127)"
proof -
  have "(word_of_nat k + 1 :: 32 word) = word_of_nat (Suc k)" by simp
  moreover have "take_bit 32 (Suc k) = Suc k" using assms by (intro take_bit_nat_eq_self) simp
  ultimately have b: "sint (ucast (word_of_nat k + 1 :: 32 word) :: 8 word) = signed_take_bit 7 (int (Suc k))"
    by (simp only: unsigned_of_nat signed_of_nat) simp
  show ?thesis
  proof (cases "k = 127")
    case True
    then show ?thesis by (simp add: b signed_take_bit_def mask_eq_exp_minus_1 not_int_def)
  next
    case False
    with assms have "signed_take_bit 7 (int (Suc k)) = int (Suc k)" by (intro signed_take_bit_int_eq_self) auto
    with False show ?thesis by (auto simp: b)
  qed
qed

lemma WIFSIGNALED_iff: "WIFSIGNALED st \<longleftrightarrow> and st 0x7f \<noteq> 0 \<and> and st 0x7f \<noteq> 0x7f"
proof -
  let ?n = "unat (and st 0x7f)"
  have "and st 0x7f = take_bit 7 st" by (simp add: take_bit_eq_mask mask_eq_exp_minus_1)
  then have n: "?n < 128" using take_bit_nat_less_exp [of 7 "unat st"] by (simp add: unsigned_take_bit_eq)
  have "and st 0x7f = word_of_nat ?n" by simp
  moreover have "\<forall>k<128. (0 < sint (ucast (word_of_nat k + 1 :: 32 word) :: 8 word) div 2) = (k \<noteq> 0 \<and> k \<noteq> 127)"
    using status_byte by blast
  ultimately have "WIFSIGNALED st \<longleftrightarrow> ?n \<noteq> 0 \<and> ?n \<noteq> 127" using n unfolding WIFSIGNALED_def by metis
  moreover have "unat x = 0 \<longleftrightarrow> x = 0" "unat x = 127 \<longleftrightarrow> x = 127" for x :: "32 word"
    by (simp_all add: word_unat_eq_iff)
  ultimately show ?thesis by simp
qed

text \<open>A report of \<^verbatim>\<open>waitpid\<close> without options is of a child that has ended, so the loop has one round.\<close>

lemma wait_loop_ended: "and st 0x7f \<noteq> 0x7f \<Longrightarrow> wait_loop st0 (Some st # reports) = Goes_on"
  by (simp add: WIFSIGNALED_iff WIFEXITED_def)

text \<open>The status starts as that of a child that has ended well, so the first error of \<^verbatim>\<open>waitpid\<close>, such as an interruption by a
  signal, ends the loop although the child runs on.\<close>

lemma interrupted_wait: "wait_loop 0 (None # reports) = Goes_on"
  by (simp add: WIFEXITED_def)

text \<open>When the program is not found the child returns into the installer: two processes go on with the installation.\<close>

lemma missing_program_two_installers:
  assumes "safe_getenv environ ''DIRTY_CMD_RUN'' \<noteq> ''1''" "vec \<noteq> []" "\<not> found (map c_text vec)" "and st 0x7f \<noteq> 0x7f"
  shows "exec_words environ True found (Some st # reports) vec = [(Child, Goes_on), (Caller, Goes_on)]"
  using assms wait_loop_ended [of st 0 reports] by (simp add: exec_words_def)

lemma missing_program_example:
  "exec_words (\<lambda>name. None) True (\<lambda>args. False) [Some 0] [''no-such-program''] = [(Child, Goes_on), (Caller, Goes_on)]"
  by (rule missing_program_two_installers) (simp_all add: safe_getenv_def)

end
