(* ===== verification/Widgets.thy ===== *)
theory Widgets
  imports Dialog
begin

section \<open>What the widgets are made of (src/widgets.cpp)\<close>

text \<open>
  A widget is a tree of components, which the ftxui library draws and operates.  The constructors are the functions of the library that the code
  calls; a \<^verbatim>\<open>Renderer\<close> has the element that its function gives when it is called, and \<open>Rendered\<close> is the call of
  \<^verbatim>\<open>Render\<close> in it.  Of a variable that a component works on by reference the tree has nothing; of the functions it calls
  which of the two it is.
\<close>

subsection \<open>Elements and components\<close>

datatype axis = WIDTH | HEIGHT

datatype constraint = LESS_THAN | EQUAL | GREATER_THAN

datatype decorator = Bold | HCenter | VCenter | Center | Frame | Size axis constraint int | Both decorator decorator

datatype callback = Ok_callback | ExitLoopClosure

datatype element =
    Text string
  | Filler
  | Separator
  | Vbox "element list"
  | Hbox "element list"
  | Border element
  | Decorated element decorator
  | Rendered component
and component =
    Button string callback
  | Input callback bool
  | Checkbox string nat
  | Radiobox "string list"
  | Menu "string list" callback
  | Renderer element
  | Renderer_of component element
  | Horizontal "component list"
  | Vertical "component list"

subsection \<open>The parts\<close>

abbreviation wide_controls :: "element \<Rightarrow> element" where
  "wide_controls e \<equiv> Decorated (Decorated (Decorated e HCenter) (Size HEIGHT LESS_THAN 3)) (Size WIDTH GREATER_THAN 25)"

definition centered_widget :: "component \<Rightarrow> string \<Rightarrow> element \<Rightarrow> element" where
  "centered_widget container title widget = Vbox [
     Decorated (Text title) Bold,
     Filler,
     Decorated (Hbox [
       Filler,
       Border (Vbox [widget, Separator, wide_controls (Rendered container)]),
       Filler]) Center,
     Filler]"

definition centered_widget_nocontrols :: "string \<Rightarrow> element \<Rightarrow> element" where
  "centered_widget_nocontrols title widget = Vbox [
     Decorated (Text title) Bold,
     Filler,
     Decorated (Hbox [Filler, Border (Vbox [widget]), Filler]) Center,
     Filler]"

definition controls_widget :: "string \<times> string \<Rightarrow> callback \<times> callback \<Rightarrow> component" where
  "controls_widget titles callbacks =
     (let button_ok = Button (fst titles) (fst callbacks);
          button_quit = Button (snd titles) (snd callbacks)
      in Horizontal [button_ok, Renderer (Decorated Filler (Size WIDTH GREATER_THAN 3)), button_quit])"

definition centered_interative_multi :: "string \<Rightarrow> component \<Rightarrow> element" where
  "centered_interative_multi title widgets = Vbox [
     Decorated (Text title) Bold,
     Filler,
     Decorated (Hbox [Filler, Border (Vbox [Rendered widgets]), Filler]) Center,
     Filler]"

definition multiline_text :: "string list \<Rightarrow> element" where
  "multiline_text lines = Decorated (Vbox (map Text lines)) Frame"

definition from_vector_checklist :: "string list \<Rightarrow> component list" where
  "from_vector_checklist opts = map (\<lambda>i. Checkbox (opts ! i) i) [0..<length opts]"

abbreviation content_text :: "string \<Rightarrow> element" where
  "content_text content \<equiv> multiline_text (make_multiline content False newline_char)"

record widget_box_size =
  content_size :: decorator
  text_size :: decorator

definition default_box_size :: widget_box_size where
  "default_box_size = \<lparr>content_size = Both (Size HEIGHT GREATER_THAN 10) (Size WIDTH GREATER_THAN 40),
     text_size = Size HEIGHT GREATER_THAN 5\<rparr>"

definition installer_title :: string where "installer_title = ''New CLI Installer''"

abbreviation ok_cancel :: component where
  "ok_cancel \<equiv> controls_widget (''OK'', ''Cancel'') (Ok_callback, ExitLoopClosure)"

text \<open>The two buttons with their container drawn in the middle, as every widget but the message box has them.\<close>

abbreviation ok_cancel_row :: component where
  "ok_cancel_row \<equiv> Renderer_of ok_cancel (wide_controls (Rendered ok_cancel))"

subsection \<open>The widgets\<close>

definition msgbox_root :: "string \<Rightarrow> decorator \<Rightarrow> component" where
  "msgbox_root content boxsize =
     (let button_back = Button ''OK'' ExitLoopClosure;
          container = Horizontal [button_back]
      in Renderer_of container (centered_widget container installer_title (Decorated (content_text content) boxsize)))"

definition inputbox_root :: "string \<Rightarrow> decorator \<Rightarrow> bool \<Rightarrow> component" where
  "inputbox_root content boxsize password =
     (let input_value = Input Ok_callback password;
          content_container = Renderer (Decorated (Decorated (content_text content) HCenter) boxsize);
          global = Vertical [content_container, Renderer Separator, input_value, Renderer Separator, ok_cancel_row]
      in Renderer_of global (centered_interative_multi installer_title global))"

definition infobox_element :: "string \<Rightarrow> decorator \<Rightarrow> element" where
  "infobox_element content boxsize =
     centered_widget_nocontrols installer_title (Decorated (Decorated (content_text content) VCenter) boxsize)"

definition yesno_root :: "string \<Rightarrow> decorator \<Rightarrow> component" where
  "yesno_root content boxsize =
     (let container = Horizontal [ok_cancel_row]
      in Renderer_of container
           (centered_widget container installer_title (Decorated (Decorated (content_text content) HCenter) boxsize)))"

definition yesno_container_root :: "component \<Rightarrow> decorator \<Rightarrow> component" where
  "yesno_container_root container boxsize =
     (let content = Renderer_of container (Decorated (Decorated (Rendered container) HCenter) boxsize);
          global = Vertical [content, Renderer Separator, ok_cancel_row]
      in Renderer_of global (centered_interative_multi installer_title global))"

text \<open>What a menu, a radio list and a check list have in common: the text, when there is one, above the content and the buttons.\<close>

definition list_root :: "string \<Rightarrow> string \<Rightarrow> decorator \<Rightarrow> component \<Rightarrow> component" where
  "list_root title txt tsize content =
     (let children = (if txt \<noteq> ''''
        then [Renderer (Decorated (content_text txt) tsize), Renderer Separator, content, Renderer Separator, ok_cancel_row]
        else [content, Renderer Separator, ok_cancel_row]);
          global = Vertical children
      in Renderer_of global (centered_interative_multi title global))"

definition sized_content :: "component \<Rightarrow> decorator \<Rightarrow> component" where
  "sized_content entries csize = Renderer_of entries (Decorated (Decorated (Rendered entries) Center) csize)"

definition menu_root :: "string list \<Rightarrow> string \<Rightarrow> widget_box_size \<Rightarrow> component" where
  "menu_root entries txt widget_sizes =
     list_root installer_title txt (text_size widget_sizes)
       (sized_content (Menu entries Ok_callback) (content_size widget_sizes))"

definition radiolist_root :: "string list \<Rightarrow> string \<Rightarrow> string \<Rightarrow> widget_box_size \<Rightarrow> component" where
  "radiolist_root entries txt title widget_sizes =
     list_root title txt (text_size widget_sizes)
       (sized_content (Vertical [Radiobox entries]) (content_size widget_sizes))"

definition checklist_root :: "string list \<Rightarrow> string \<Rightarrow> string \<Rightarrow> widget_box_size \<Rightarrow> component" where
  "checklist_root opts txt title widget_sizes =
     list_root title txt (text_size widget_sizes)
       (sized_content (Vertical (from_vector_checklist opts)) (content_size widget_sizes))"

subsection \<open>Operating a widget\<close>

text \<open>
  What the user can do with a component is the documented behaviour of the library: press a button, or Enter in an input and a menu, which
  calls its function; type; choose an entry; tick a box.  \<open>controls\<close> are the components that take keys, in the order of the
  containers: a \<^verbatim>\<open>Renderer\<close> over a component passes the keys on to it, one without takes none.
\<close>

fun controls :: "component \<Rightarrow> component list" where
  "controls (Renderer e) = []"
| "controls (Renderer_of c e) = controls c"
| "controls (Horizontal cs) = concat (map controls cs)"
| "controls (Vertical cs) = concat (map controls cs)"
| "controls c = [c]"

datatype operation = Press callback | Type string | Choose nat | Toggle nat

fun offers :: "component \<Rightarrow> operation \<Rightarrow> bool" where
  "offers (Button title on_click) (Press callback) = (callback = on_click)"
| "offers (Input on_enter password) (Press callback) = (callback = on_enter)"
| "offers (Input on_enter password) (Type s) = True"
| "offers (Checkbox label i) (Toggle j) = (j = i)"
| "offers (Radiobox entries) (Choose i) = (i < length entries)"
| "offers (Menu entries on_enter) (Press callback) = (callback = on_enter)"
| "offers (Menu entries on_enter) (Choose i) = (i < length entries)"
| "offers c op = False"

definition offered :: "component \<Rightarrow> operation \<Rightarrow> bool" where
  "offered root op = list_ex (\<lambda>c. offers c op) (controls root)"

text \<open>The variables that the components work on, and the flag that the OK function of an input box and of a question sets.\<close>

record variables =
  entered :: string
  success :: bool
  selected :: nat
  opts_state :: "bool list"

definition no_variables :: variables where
  "no_variables = \<lparr>entered = '''', success = False, selected = 0, opts_state = []\<rparr>"

fun operate :: "operation \<Rightarrow> variables \<Rightarrow> variables" where
  "operate (Press Ok_callback) v = v\<lparr>success := True\<rparr>"
| "operate (Press ExitLoopClosure) v = v"
| "operate (Type s) v = v\<lparr>entered := s\<rparr>"
| "operate (Choose i) v = v\<lparr>selected := i\<rparr>"
| "operate (Toggle i) v = v\<lparr>opts_state := (opts_state v)[i := \<not> opts_state v ! i]\<rparr>"

text \<open>
  \<^verbatim>\<open>screen.Loop\<close> is the library's: a function from the component to what the user does until the loop is left.  All that is
  relied on is that the user can only do what a component offers, and that the loop ends with the first function that closes the screen.
\<close>

definition closes :: "operation \<Rightarrow> bool" where
  "closes op = (case op of Press callback \<Rightarrow> True | _ \<Rightarrow> False)"

definition session :: "component \<Rightarrow> operation list \<Rightarrow> bool" where
  "session root ops \<longleftrightarrow> list_all (offered root) ops \<and> ops \<noteq> [] \<and> closes (last ops) \<and> \<not> list_ex closes (butlast ops)"

definition screen_library :: "(component \<Rightarrow> operation list) \<Rightarrow> bool" where
  "screen_library loop \<longleftrightarrow> (\<forall>root. offered root (Press ExitLoopClosure) \<longrightarrow> session root (loop root))"

definition inputbox_widget :: "(component \<Rightarrow> operation list) \<Rightarrow> string \<Rightarrow> string \<Rightarrow> decorator \<Rightarrow> bool \<Rightarrow> bool \<times> string" where
  "inputbox_widget loop val content boxsize password =
     (let v = fold operate (loop (inputbox_root content boxsize password)) (no_variables\<lparr>entered := val\<rparr>)
      in (success v, entered v))"

definition yesno_widget :: "(component \<Rightarrow> operation list) \<Rightarrow> string \<Rightarrow> decorator \<Rightarrow> bool" where
  "yesno_widget loop content boxsize = success (fold operate (loop (yesno_root content boxsize)) no_variables)"

text \<open>A list widget with the usual OK function, which remembers that it was called and closes the screen.\<close>

definition menu_widget :: "(component \<Rightarrow> operation list) \<Rightarrow> string list \<Rightarrow> nat \<Rightarrow> string \<Rightarrow> widget_box_size \<Rightarrow> bool \<times> nat" where
  "menu_widget loop entries start txt widget_sizes =
     (let v = fold operate (loop (menu_root entries txt widget_sizes)) (no_variables\<lparr>selected := start\<rparr>)
      in (success v, selected v))"

definition radiolist_widget ::
  "(component \<Rightarrow> operation list) \<Rightarrow> string list \<Rightarrow> nat \<Rightarrow> string \<Rightarrow> string \<Rightarrow> widget_box_size \<Rightarrow> bool \<times> nat" where
  "radiolist_widget loop entries start txt title widget_sizes =
     (let v = fold operate (loop (radiolist_root entries txt title widget_sizes)) (no_variables\<lparr>selected := start\<rparr>)
      in (success v, selected v))"

definition checklist_widget ::
  "(component \<Rightarrow> operation list) \<Rightarrow> string list \<Rightarrow> bool list \<Rightarrow> string \<Rightarrow> string \<Rightarrow> widget_box_size \<Rightarrow> bool \<times> bool list" where
  "checklist_widget loop opts marks txt title widget_sizes =
     (let v = fold operate (loop (checklist_root opts txt title widget_sizes)) (no_variables\<lparr>opts_state := marks\<rparr>)
      in (success v, opts_state v))"

subsection \<open>What is drawn\<close>

fun drawn_controls :: "component \<Rightarrow> component list" and drawn_in :: "element \<Rightarrow> component list" where
  "drawn_controls (Renderer e) = drawn_in e"
| "drawn_controls (Renderer_of c e) = drawn_in e"
| "drawn_controls (Horizontal cs) = concat (map drawn_controls cs)"
| "drawn_controls (Vertical cs) = concat (map drawn_controls cs)"
| "drawn_controls c = [c]"
| "drawn_in (Rendered c) = drawn_controls c"
| "drawn_in (Decorated e d) = drawn_in e"
| "drawn_in (Border e) = drawn_in e"
| "drawn_in (Vbox es) = concat (map drawn_in es)"
| "drawn_in (Hbox es) = concat (map drawn_in es)"
| "drawn_in e = []"

fun shown_texts :: "component \<Rightarrow> string list" and texts_in :: "element \<Rightarrow> string list" where
  "shown_texts (Button title cb) = [title]"
| "shown_texts (Input cb p) = []"
| "shown_texts (Checkbox label i) = [label]"
| "shown_texts (Radiobox entries) = entries"
| "shown_texts (Menu entries cb) = entries"
| "shown_texts (Renderer e) = texts_in e"
| "shown_texts (Renderer_of c e) = texts_in e"
| "shown_texts (Horizontal cs) = concat (map shown_texts cs)"
| "shown_texts (Vertical cs) = concat (map shown_texts cs)"
| "texts_in (Text s) = [s]"
| "texts_in (Rendered c) = shown_texts c"
| "texts_in (Decorated e d) = texts_in e"
| "texts_in (Border e) = texts_in e"
| "texts_in (Vbox es) = concat (map texts_in es)"
| "texts_in (Hbox es) = concat (map texts_in es)"
| "texts_in e = []"

lemmas part_defs = centered_widget_def centered_widget_nocontrols_def controls_widget_def centered_interative_multi_def
  multiline_text_def from_vector_checklist_def list_root_def sized_content_def

lemmas root_defs = msgbox_root_def inputbox_root_def yesno_root_def yesno_container_root_def menu_root_def radiolist_root_def
  checklist_root_def part_defs

lemma text_elements [simp]:
  "concat (map (\<lambda>x. drawn_in (Text x)) xs) = []" "concat (map (\<lambda>x. texts_in (Text x)) xs) = xs"
  by (induction xs) simp_all

lemma checkbox_elements [simp]:
  "concat (map (\<lambda>i. controls (Checkbox (f i) i)) xs) = map (\<lambda>i. Checkbox (f i) i) xs"
  "concat (map (\<lambda>i. drawn_controls (Checkbox (f i) i)) xs) = map (\<lambda>i. Checkbox (f i) i) xs"
  "concat (map (\<lambda>i. shown_texts (Checkbox (f i) i)) xs) = map f xs"
  by (induction xs) simp_all

text \<open>Every control is drawn once, in the order in which the keys go through them.\<close>

lemma controls_are_drawn:
  "drawn_controls (msgbox_root content b) = controls (msgbox_root content b)"
  "drawn_controls (inputbox_root content b password) = controls (inputbox_root content b password)"
  "drawn_controls (yesno_root content b) = controls (yesno_root content b)"
  "drawn_controls (menu_root entries txt s) = controls (menu_root entries txt s)"
  "drawn_controls (radiolist_root entries txt title s) = controls (radiolist_root entries txt title s)"
  "drawn_controls (checklist_root opts txt title s) = controls (checklist_root opts txt title s)"
  "drawn_controls c = controls c \<Longrightarrow> drawn_controls (yesno_container_root c b) = controls (yesno_container_root c b)"
  by (simp_all add: root_defs Let_def comp_def)

text \<open>A widget shows its title, the lines of its text without the empty ones, its entries and its buttons.\<close>

lemma texts_of_widgets:
  "shown_texts (msgbox_root content b) = installer_title # make_multiline content False newline_char @ [''OK'']"
  "shown_texts (inputbox_root content b p) = installer_title # make_multiline content False newline_char @ [''OK'', ''Cancel'']"
  "shown_texts (yesno_root content b) = installer_title # make_multiline content False newline_char @ [''OK'', ''Cancel'']"
  "shown_texts (menu_root entries txt s) = installer_title # make_multiline txt False newline_char @ entries @ [''OK'', ''Cancel'']"
  "shown_texts (radiolist_root entries txt title s) = title # make_multiline txt False newline_char @ entries @ [''OK'', ''Cancel'']"
  "shown_texts (checklist_root opts txt title s) = title # make_multiline txt False newline_char @ opts @ [''OK'', ''Cancel'']"
  "texts_in (infobox_element content b) = installer_title # make_multiline content False newline_char"
  by (simp_all add: root_defs Let_def comp_def infobox_element_def map_nth make_multiline_def make_split_view_def views_split_def)

subsection \<open>What the user settles on\<close>

lemma controls_of_widgets:
  "controls (inputbox_root content b p) = [Input Ok_callback p, Button ''OK'' Ok_callback, Button ''Cancel'' ExitLoopClosure]"
  "controls (yesno_root content b) = [Button ''OK'' Ok_callback, Button ''Cancel'' ExitLoopClosure]"
  "controls (menu_root entries txt s) = [Menu entries Ok_callback, Button ''OK'' Ok_callback, Button ''Cancel'' ExitLoopClosure]"
  "controls (radiolist_root entries txt title s) = [Radiobox entries, Button ''OK'' Ok_callback, Button ''Cancel'' ExitLoopClosure]"
  "controls (checklist_root opts txt title s) =
    from_vector_checklist opts @ [Button ''OK'' Ok_callback, Button ''Cancel'' ExitLoopClosure]"
  by (simp_all add: root_defs Let_def comp_def)

lemma session_ends:
  assumes "session root ops"
  obtains front callback where "ops = front @ [Press callback]" "list_all (offered root) front" "\<not> list_ex closes front"
proof -
  from assms have "ops = butlast ops @ [last ops]" "list_all (offered root) ops" "closes (last ops)" "\<not> list_ex closes (butlast ops)"
    by (auto simp: session_def)
  moreover from this(2) have "list_all (offered root) (butlast ops)" by (auto simp: list_all_iff dest: in_set_butlastD)
  moreover obtain callback where "last ops = Press callback"
    using \<open>closes (last ops)\<close> by (auto simp: closes_def split: operation.splits)
  ultimately show thesis by (metis that)
qed

lemma success_before_end: "\<not> list_ex closes ops \<Longrightarrow> success (fold operate ops v) = success v"
proof (induction ops arbitrary: v)
  case (Cons op ops)
  then show ?case by (cases op) (simp_all add: closes_def)
qed simp

lemma selected_in_range:
  assumes "\<And>i. offered root (Choose i) \<Longrightarrow> i < n"
  shows "list_all (offered root) ops \<Longrightarrow> selected v < n \<Longrightarrow> selected (fold operate ops v) < n"
proof (induction ops arbitrary: v)
  case (Cons op ops)
  have "selected (operate op v) < n"
    using Cons.prems assms by (cases "(op, v)" rule: operate.cases) auto
  with Cons show ?case by simp
qed simp

lemma marks_length: "length (opts_state (fold operate ops v)) = length (opts_state v)"
proof (induction ops arbitrary: v)
  case (Cons op ops)
  have "length (opts_state (operate op v)) = length (opts_state v)" by (cases "(op, v)" rule: operate.cases) auto
  with Cons show ?case by simp
qed simp

text \<open>A widget reports success exactly when the last thing the user did was to call its OK function.\<close>

lemma success_iff_ok:
  assumes "session root ops" "\<not> success v"
  shows "success (fold operate ops v) \<longleftrightarrow> last ops = Press Ok_callback"
proof -
  obtain front callback where ops: "ops = front @ [Press callback]" and "\<not> list_ex closes front"
    using assms(1) by (rule session_ends)
  then have "\<not> success (fold operate front v)" using assms(2) by (simp add: success_before_end)
  then show ?thesis unfolding ops by (cases callback) simp_all
qed

lemma session_of_loop: "screen_library loop \<Longrightarrow> offered root (Press ExitLoopClosure) \<Longrightarrow> session root (loop root)"
  by (simp add: screen_library_def)

text \<open>The entry of a menu and of a radio list is one of the list; the marks of a check list are as many as there were.\<close>

lemma list_widgets_in_range:
  assumes "screen_library loop"
  shows "start < length entries \<Longrightarrow> snd (menu_widget loop entries start txt s) < length entries"
    and "start < length entries \<Longrightarrow> snd (radiolist_widget loop entries start txt title s) < length entries"
    and "length (snd (checklist_widget loop opts marks txt title s)) = length marks"
proof -
  have offers: "offered (menu_root entries txt s) (Choose i) \<Longrightarrow> i < length entries"
    "offered (radiolist_root entries txt title s) (Choose i) \<Longrightarrow> i < length entries" for i
    by (simp_all add: offered_def controls_of_widgets)
  have "session (menu_root entries txt s) (loop (menu_root entries txt s))"
    "session (radiolist_root entries txt title s) (loop (radiolist_root entries txt title s))"
    by (auto intro: session_of_loop [OF assms] simp: offered_def controls_of_widgets)
  then have all: "list_all (offered (menu_root entries txt s)) (loop (menu_root entries txt s))"
    "list_all (offered (radiolist_root entries txt title s)) (loop (radiolist_root entries txt title s))"
    by (simp_all add: session_def)
  show "start < length entries \<Longrightarrow> snd (menu_widget loop entries start txt s) < length entries"
    using selected_in_range [OF offers(1) all(1)] by (simp add: menu_widget_def no_variables_def Let_def)
  show "start < length entries \<Longrightarrow> snd (radiolist_widget loop entries start txt title s) < length entries"
    using selected_in_range [OF offers(2) all(2)] by (simp add: radiolist_widget_def no_variables_def Let_def)
  show "length (snd (checklist_widget loop opts marks txt title s)) = length marks"
    by (simp add: checklist_widget_def no_variables_def marks_length Let_def)
qed

text \<open>
  The dialogues of the other theories are what the widgets do: whatever the user does at a widget there is an answer with which the dialogue
  gives the same result, and every answer but going back is something the user can do.
\<close>

theorem menu_is_dialogue:
  assumes "screen_library loop" "start < length entries"
  shows "\<exists>a. \<forall>w c later. status w = Running \<longrightarrow> user_answers w = a # later \<longrightarrow>
    fst (run_state (menu entries txt) (w, c)) =
      (case menu_widget loop entries start txt s of (ok, i) \<Rightarrow> if ok then Some i else None)"
proof -
  obtain ok i where r: "menu_widget loop entries start txt s = (ok, i)" by force
  with list_widgets_in_range(1) [OF assms, of "txt" s] have "i \<le> length entries - 1" by simp
  then show ?thesis
    by (intro exI [of _ "if ok then Pick i else Back"]) (auto simp: r run_menu min_def)
qed

theorem input_is_dialogue:
  "\<exists>a. \<forall>w c later. status w = Running \<longrightarrow> user_answers w = a # later \<longrightarrow>
    fst (run_state (inputbox val content) (w, c)) =
      (case inputbox_widget loop val content b password of (ok, v) \<Rightarrow> if ok then Some v else None)"
proof -
  obtain ok v where r: "inputbox_widget loop val content b password = (ok, v)" by force
  show ?thesis by (intro exI [of _ "if ok then Enter v else Back"]) (auto simp: r run_inputbox)
qed

theorem question_is_dialogue:
  "\<exists>a. \<forall>w c later. status w = Running \<longrightarrow> user_answers w = a # later \<longrightarrow>
    fst (run_state (yesno content) (w, c)) = yesno_widget loop content b"
  by (intro exI [of _ "if yesno_widget loop content b then Agree else Back"]) (auto simp: run_yesno)

theorem every_answer_possible:
  "i < length entries \<Longrightarrow> session (menu_root entries txt s) [Choose i, Press Ok_callback]"
  "session (inputbox_root content b password) [Type t, Press Ok_callback]"
  "session (yesno_root content b) [Press Ok_callback]"
  "session (yesno_root content b) [Press ExitLoopClosure]"
  by (simp_all add: session_def offered_def controls_of_widgets closes_def)

text \<open>What was typed stays in the variable of the caller when the box is cancelled.\<close>

theorem cancelled_input_stays:
  assumes "loop (inputbox_root content b password) = [Type t, Press ExitLoopClosure]"
  shows "inputbox_widget loop val content b password = (False, t)"
  using assms by (simp add: inputbox_widget_def no_variables_def Let_def)

end
