(* ===== verification/Unit_Tests.thy ===== *)
theory Unit_Tests
  imports Kernel_Params Fstab Crypttab Btrfs Bootloader Initcpio Repos System_Setup
begin

section \<open>The unit tests of the library (gucc/tests)\<close>

text \<open>
  The sections of the repository's own tests for kernel parameters, the file system table, the table of encrypted volumes,
  partition scripts, subvolumes, boot entries, the initial ram disk configuration, repositories and locales, evaluated on the
  model with the inputs and the expected texts of the tests: the model gives what the tests demand of the code.  The sorts are
  insertion sorts here.  The tests that need other files or programs are left out, and so are the two whole templates of
  \<^verbatim>\<open>unit-grub_config_gen.cpp\<close>, the long tables of \<^verbatim>\<open>unit-mtab.cpp\<close> and the file after the edit in
  \<^verbatim>\<open>unit-pacmanconf.cpp\<close>, which take too long to evaluate in the kernel.
\<close>

definition is_error :: "'e + 'a \<Rightarrow> bool" where
  "is_error r = (case r of Inl e \<Rightarrow> True | Inr x \<Rightarrow> False)"

subsection \<open>The partitions and subvolumes of the tests\<close>

definition test_subvols :: "btrfs_subvolume list" where
  "test_subvols = [\<lparr>sv_subvolume = ''/@'', sv_mountpoint = ''/''\<rparr>, \<lparr>sv_subvolume = ''/@home'', sv_mountpoint =
    ''/home''\<rparr>, \<lparr>sv_subvolume = ''/@cache'', sv_mountpoint = ''/var/cache''\<rparr>]"

definition btrfs_root_subvol :: fs_partition where
  "btrfs_root_subvol = empty_partition\<lparr>fstype := ''btrfs'', mountpoint := ''/'', uuid_str :=
    ''6bdb3301-8efb-4b84-b0b7-4caeef26fd6f'', device := ''/dev/nvme0n1p1'', mount_opts :=
    ''defaults,noatime,compress=zstd,space_cache=v2,commit=120'', subvolume := Some ''/@''\<rparr>"

definition btrfs_home_subvol :: fs_partition where
  "btrfs_home_subvol = empty_partition\<lparr>fstype := ''btrfs'', mountpoint := ''/home'', uuid_str :=
    ''6bdb3301-8efb-4b84-b0b7-4caeef26fd6f'', device := ''/dev/nvme0n1p1'', mount_opts :=
    ''defaults,noatime,compress=zstd,space_cache=v2,commit=120'', subvolume := Some ''/@home''\<rparr>"

definition btrfs_cache_subvol :: fs_partition where
  "btrfs_cache_subvol = empty_partition\<lparr>fstype := ''btrfs'', mountpoint := ''/var/cache'', uuid_str :=
    ''6bdb3301-8efb-4b84-b0b7-4caeef26fd6f'', device := ''/dev/nvme0n1p1'', mount_opts :=
    ''defaults,noatime,compress=zstd,space_cache=v2,commit=120'', subvolume := Some ''/@cache''\<rparr>"

definition fat32_boot :: fs_partition where
  "fat32_boot = empty_partition\<lparr>fstype := ''fat32'', mountpoint := ''/boot'', uuid_str := ''8EFB-4B84'', device :=
    ''/dev/nvme0n1p2'', mount_opts := ''defaults,noatime''\<rparr>"

definition xfs_root :: fs_partition where
  "xfs_root = empty_partition\<lparr>fstype := ''xfs'', mountpoint := ''/'', device := ''/dev/nvme0n1p1'', mount_opts :=
    ''defaults,lazytime,noatime,attr2,inode64,logbsize=256k,noquota''\<rparr>"

definition fat16_boot :: fs_partition where
  "fat16_boot = empty_partition\<lparr>fstype := ''fat16'', mountpoint := ''/boot'', uuid_str := ''8EFB-4B84'', device :=
    ''/dev/nvme0n1p2'', mount_opts := ''defaults,noatime''\<rparr>"

definition xfs_home :: fs_partition where
  "xfs_home = empty_partition\<lparr>fstype := ''xfs'', mountpoint := ''/home'', device := ''/dev/nvme0n1p1'', mount_opts :=
    ''defaults,lazytime,noatime,attr2,inode64,logbsize=256k,noquota''\<rparr>"

definition xfs_root_2 :: fs_partition where
  "xfs_root_2 = empty_partition\<lparr>fstype := ''xfs'', mountpoint := ''/'', uuid_str := ''6bdb3301-8efb-4b84-b0b7-4caeef26fd6f'',
    device := ''/dev/nvme0n1p1'', mount_opts := ''defaults,lazytime,noatime,attr2,inode64,logbsize=256k,noquota''\<rparr>"

definition swap_part :: fs_partition where
  "swap_part = empty_partition\<lparr>fstype := ''linuxswap'', mountpoint := '''', uuid_str := ''59848b1b-c6be-48f4-b3e1-48179ea72dec''
    , device := ''/dev/nvme0n1p3'', mount_opts := ''defaults,noatime''\<rparr>"

definition vfat_boot :: fs_partition where
  "vfat_boot = empty_partition\<lparr>fstype := ''vfat'', mountpoint := ''/boot'', uuid_str := ''8EFB-4B84'', device :=
    ''/dev/nvme0n1p2'', mount_opts := ''defaults,noatime''\<rparr>"

definition luks_xfs_root :: fs_partition where
  "luks_xfs_root = empty_partition\<lparr>fstype := ''xfs'', mountpoint := ''/'', uuid_str := ''6bdb3301-8efb-4b84-b0b7-4caeef26fd6f''
    , device := ''/dev/nvme0n1p1'', mount_opts := ''defaults,lazytime,noatime,attr2,inode64,logbsize=256k,noquota'', luks_mapper_name
    := Some ''luks_device'', luks_uuid := Some ''00e1b836-81b6-433f-83ca-0fd373e3cd50''\<rparr>"

definition swap_part_2 :: fs_partition where
  "swap_part_2 = empty_partition\<lparr>fstype := ''linuxswap'', mountpoint := '''', uuid_str := '''', device := ''/dev/nvme0n1p3'',
    mount_opts := ''defaults,noatime''\<rparr>"

definition luks_swap_part :: fs_partition where
  "luks_swap_part = empty_partition\<lparr>fstype := ''linuxswap'', mountpoint := '''', uuid_str := '''', device := ''/dev/nvme0n1p3''
    , mount_opts := ''defaults,noatime'', luks_mapper_name := Some ''luks_swap_device'', luks_uuid := Some
    ''59848b1b-c6be-48f4-b3e1-48179ea72dec''\<rparr>"

definition zfs_root :: fs_partition where
  "zfs_root = empty_partition\<lparr>fstype := ''zfs'', mountpoint := ''/'', uuid_str := ''6bdb3301-8efb-4b84-b0b7-4caeef26fd6f'',
    device := ''/dev/nvme0n1p1'', mount_opts := ''defaults,noatime,compress=zstd,space_cache=v2,commit=120''\<rparr>"

definition zfs_home :: fs_partition where
  "zfs_home = empty_partition\<lparr>fstype := ''zfs'', mountpoint := ''/home'', uuid_str := ''6bdb3301-8efb-4b84-b0b7-4caeef26fd6f'',
    device := ''/dev/nvme0n1p1'', mount_opts := ''defaults,noatime,compress=zstd,space_cache=v2,commit=120''\<rparr>"

definition zfs_cache :: fs_partition where
  "zfs_cache = empty_partition\<lparr>fstype := ''zfs'', mountpoint := ''/var/cache'', uuid_str :=
    ''6bdb3301-8efb-4b84-b0b7-4caeef26fd6f'', device := ''/dev/nvme0n1p1'', mount_opts :=
    ''defaults,noatime,compress=zstd,space_cache=v2,commit=120''\<rparr>"

definition luks_btrfs_root_subvol :: fs_partition where
  "luks_btrfs_root_subvol = empty_partition\<lparr>fstype := ''btrfs'', mountpoint := ''/'', uuid_str :=
    ''6bdb3301-8efb-4b84-b0b7-4caeef26fd6f'', device := ''/dev/nvme0n1p1'', mount_opts :=
    ''defaults,noatime,compress=zstd,space_cache=v2,commit=120'', subvolume := Some ''/@'', luks_mapper_name := Some
    ''luks-6bdb3301-8efb-4b84-b0b7-4caeef26fd6f'', luks_uuid := Some ''6bdb3301-8efb-4b84-b0b7-4caeef26fd6f''\<rparr>"

definition luks_btrfs_home_subvol :: fs_partition where
  "luks_btrfs_home_subvol = empty_partition\<lparr>fstype := ''btrfs'', mountpoint := ''/home'', uuid_str :=
    ''6bdb3301-8efb-4b84-b0b7-4caeef26fd6f'', device := ''/dev/nvme0n1p1'', mount_opts :=
    ''defaults,noatime,compress=zstd,space_cache=v2,commit=120'', subvolume := Some ''/@home'', luks_mapper_name := Some
    ''luks-6bdb3301-8efb-4b84-b0b7-4caeef26fd6f'', luks_uuid := Some ''6bdb3301-8efb-4b84-b0b7-4caeef26fd6f''\<rparr>"

definition luks_btrfs_cache_subvol :: fs_partition where
  "luks_btrfs_cache_subvol = empty_partition\<lparr>fstype := ''btrfs'', mountpoint := ''/var/cache'', uuid_str :=
    ''6bdb3301-8efb-4b84-b0b7-4caeef26fd6f'', device := ''/dev/nvme0n1p1'', mount_opts :=
    ''defaults,noatime,compress=zstd,space_cache=v2,commit=120'', subvolume := Some ''/@cache'', luks_mapper_name := Some
    ''luks-6bdb3301-8efb-4b84-b0b7-4caeef26fd6f'', luks_uuid := Some ''6bdb3301-8efb-4b84-b0b7-4caeef26fd6f''\<rparr>"

definition luks_btrfs_root_subvol_2 :: fs_partition where
  "luks_btrfs_root_subvol_2 = empty_partition\<lparr>fstype := ''btrfs'', mountpoint := ''/'', device := ''/dev/nvme0n1p1'',
    mount_opts := ''defaults,noatime,compress=zstd,space_cache=v2,commit=120'', subvolume := Some ''/@'', luks_mapper_name := Some
    ''luks-6bdb3301-8efb-4b84-b0b7-4caeef26fd6f'', luks_uuid := Some ''6bdb3301-8efb-4b84-b0b7-4caeef26fd6f''\<rparr>"

definition luks_btrfs_home_subvol_2 :: fs_partition where
  "luks_btrfs_home_subvol_2 = empty_partition\<lparr>fstype := ''btrfs'', mountpoint := ''/home'', device := ''/dev/nvme0n1p1'',
    mount_opts := ''defaults,noatime,compress=zstd,space_cache=v2,commit=120'', subvolume := Some ''/@home'', luks_mapper_name := Some
    ''luks-6bdb3301-8efb-4b84-b0b7-4caeef26fd6f'', luks_uuid := Some ''6bdb3301-8efb-4b84-b0b7-4caeef26fd6f''\<rparr>"

definition luks_btrfs_cache_subvol_2 :: fs_partition where
  "luks_btrfs_cache_subvol_2 = empty_partition\<lparr>fstype := ''btrfs'', mountpoint := ''/var/cache'', device := ''/dev/nvme0n1p1'',
    mount_opts := ''defaults,noatime,compress=zstd,space_cache=v2,commit=120'', subvolume := Some ''/@cache'', luks_mapper_name :=
    Some ''luks-6bdb3301-8efb-4b84-b0b7-4caeef26fd6f'', luks_uuid := Some ''6bdb3301-8efb-4b84-b0b7-4caeef26fd6f''\<rparr>"

definition fat32_boot_2 :: fs_partition where
  "fat32_boot_2 = empty_partition\<lparr>fstype := ''fat32'', mountpoint := ''/boot'', uuid_str := ''8EFB-4B84'', device :=
    ''/dev/nvme0n1p2'', mount_opts := ''defaults,noatime'', luks_mapper_name := Some '''', luks_uuid := Some ''''\<rparr>"

definition xfs_root_3 :: fs_partition where
  "xfs_root_3 = empty_partition\<lparr>fstype := ''xfs'', mountpoint := ''/'', uuid_str := ''6bdb3301-8efb-4b84-b0b7-4caeef26fd6f'',
    device := ''/dev/nvme0n1p1'', mount_opts := ''defaults,lazytime,noatime,attr2,inode64,logbsize=256k,noquota'', luks_mapper_name :=
    Some ''''\<rparr>"

definition fat16_boot_2 :: fs_partition where
  "fat16_boot_2 = empty_partition\<lparr>fstype := ''fat16'', mountpoint := ''/boot'', uuid_str := ''8EFB-4B84'', device :=
    ''/dev/nvme0n1p2'', mount_opts := ''defaults,noatime'', luks_uuid := Some ''''\<rparr>"

definition luks_xfs_root_2 :: fs_partition where
  "luks_xfs_root_2 = empty_partition\<lparr>fstype := ''xfs'', mountpoint := ''/'', uuid_str :=
    ''6bdb3301-8efb-4b84-b0b7-4caeef26fd6f'', device := ''/dev/nvme0n1p1'', mount_opts :=
    ''defaults,lazytime,noatime,attr2,inode64,logbsize=256k,noquota'', luks_mapper_name := Some
    ''luks-6bdb3301-8efb-4b84-b0b7-4caeef26fd6f'', luks_uuid := Some ''6bdb3301-8efb-4b84-b0b7-4caeef26fd6f''\<rparr>"

definition fat32_boot_sized :: fs_partition where
  "fat32_boot_sized = empty_partition\<lparr>fstype := ''fat32'', mountpoint := ''/boot'', uuid_str := ''8EFB-4B84'', device :=
    ''/dev/nvme0n1p2'', part_size := ''2G'', mount_opts := ''defaults,noatime''\<rparr>"

definition fat16_boot_sized :: fs_partition where
  "fat16_boot_sized = empty_partition\<lparr>fstype := ''fat16'', mountpoint := ''/boot'', uuid_str := ''8EFB-4B84'', device :=
    ''/dev/nvme0n1p2'', part_size := ''2G'', mount_opts := ''defaults,noatime''\<rparr>"

definition ext4_boot_sized :: fs_partition where
  "ext4_boot_sized = empty_partition\<lparr>fstype := ''ext4'', mountpoint := ''/boot'', uuid_str := ''8EFB-4B84'', device :=
    ''/dev/nvme0n1p2'', part_size := ''2G'', mount_opts := ''defaults,noatime''\<rparr>"

definition swap_part_sized :: fs_partition where
  "swap_part_sized = empty_partition\<lparr>fstype := ''linuxswap'', mountpoint := '''', uuid_str := '''', device := ''/dev/nvme0n1p3''
    , part_size := ''16G'', mount_opts := ''defaults,noatime''\<rparr>"

definition vfat_boot_sized :: fs_partition where
  "vfat_boot_sized = empty_partition\<lparr>fstype := ''vfat'', mountpoint := ''/boot'', uuid_str := ''8EFB-4B84'', device :=
    ''/dev/nvme0n1p2'', part_size := ''2G'', mount_opts := ''defaults,noatime''\<rparr>"

definition btrfs_root :: fs_partition where
  "btrfs_root = empty_partition\<lparr>fstype := ''btrfs'', mountpoint := ''/'', uuid_str := ''6bdb3301-8efb-4b84-b0b7-4caeef26fd6f'',
    device := ''/dev/nvme0n1p1'', mount_opts := ''defaults,noatime,compress=zstd,space_cache=v2,commit=120''\<rparr>"

subsection \<open>unit-kernel_params.cpp\<close>

lemma test_kernel_params_btrfs_with_subvolumes:
  "get_kernel_params [btrfs_root_subvol, btrfs_home_subvol, btrfs_cache_subvol, fat32_boot] ''quiet splash'' None = Inr [''quiet'',
    ''splash'', ''rw'', ''rootflags=subvol=/@'', ''root=UUID=6bdb3301-8efb-4b84-b0b7-4caeef26fd6f'']"
  by code_simp

lemma test_kernel_params_invalid_xfs_empty_uuid:
  "is_error (get_kernel_params [xfs_root, fat16_boot] ''quiet splash'' None)"
  by code_simp

lemma test_kernel_params_invalid_xfs_without_root_partition:
  "is_error (get_kernel_params [xfs_home, fat16_boot] ''quiet splash'' None)"
  by code_simp

lemma test_kernel_params_basic_xfs:
  "get_kernel_params [xfs_root_2, fat16_boot] ''quiet splash'' None = Inr [''quiet'', ''splash'', ''rw'',
    ''root=UUID=6bdb3301-8efb-4b84-b0b7-4caeef26fd6f'']"
  by code_simp

lemma test_kernel_params_swap_xfs:
  "get_kernel_params [xfs_root_2, swap_part, vfat_boot] ''quiet splash'' None = Inr [''quiet'', ''splash'', ''rw'',
    ''root=UUID=6bdb3301-8efb-4b84-b0b7-4caeef26fd6f'', ''resume=UUID=59848b1b-c6be-48f4-b3e1-48179ea72dec'']"
  by code_simp

lemma test_kernel_params_luks_xfs:
  "get_kernel_params [luks_xfs_root, swap_part_2, vfat_boot] ''quiet splash'' None = Inr [''quiet'', ''splash'', ''rw'',
    ''cryptdevice=UUID=00e1b836-81b6-433f-83ca-0fd373e3cd50:luks_device'', ''root=/dev/mapper/luks_device'']"
  by code_simp

lemma test_kernel_params_luks_swap_xfs:
  "get_kernel_params [luks_xfs_root, luks_swap_part, vfat_boot] ''quiet splash'' None = Inr [''quiet'', ''splash'', ''rw'',
    ''cryptdevice=UUID=00e1b836-81b6-433f-83ca-0fd373e3cd50:luks_device'', ''root=/dev/mapper/luks_device'',
    ''resume=/dev/mapper/luks_swap_device'']"
  by code_simp

lemma test_kernel_params_invalid_zfs:
  "is_error (get_kernel_params [zfs_root, zfs_home, zfs_cache, vfat_boot] ''quiet splash'' None)"
  by code_simp

lemma test_kernel_params_valid_zfs:
  "get_kernel_params [zfs_root, zfs_home, zfs_cache, vfat_boot] ''quiet splash'' (Some ''zpcachyos/ROOT'') = Inr [''quiet'', ''splash''
    , ''rw'', ''root=ZFS=zpcachyos/ROOT'', ''root=UUID=6bdb3301-8efb-4b84-b0b7-4caeef26fd6f'']"
  by code_simp

lemma test_kernel_params_luks_btrfs_with_subvolumes:
  "get_kernel_params [luks_btrfs_root_subvol, luks_btrfs_home_subvol, luks_btrfs_cache_subvol, fat32_boot] ''quiet splash'' None = Inr
    [''quiet'', ''splash'', ''rw'', ''rootflags=subvol=/@'',
    ''cryptdevice=UUID=6bdb3301-8efb-4b84-b0b7-4caeef26fd6f:luks-6bdb3301-8efb-4b84-b0b7-4caeef26fd6f'',
    ''root=/dev/mapper/luks-6bdb3301-8efb-4b84-b0b7-4caeef26fd6f'']"
  by code_simp


subsection \<open>unit-fstab_gen.cpp\<close>

lemma test_fstab_btrfs_with_subvolumes:
  "generate_fstab_content [btrfs_root_subvol, btrfs_home_subvol, btrfs_cache_subvol, fat32_boot] =
    ''# Static information about the filesystems.\<newline># See fstab(5) for details.\<newline>\<newline># <file system> <dir> <type> <options> <dump> <pass>\<newline># /dev/nvme0n1p1\<newline>UUID=6bdb3301-8efb-4b84-b0b7-4caeef26fd6f /              btrfs   subvol=/@,defaults,noatime,compress=zstd,space_cache=v2,commit=120 0 0\<newline>\<newline># /dev/nvme0n1p1\<newline>UUID=6bdb3301-8efb-4b84-b0b7-4caeef26fd6f /home          btrfs   subvol=/@home,defaults,noatime,compress=zstd,space_cache=v2,commit=120 0 0\<newline>\<newline># /dev/nvme0n1p1\<newline>UUID=6bdb3301-8efb-4b84-b0b7-4caeef26fd6f /var/cache     btrfs   subvol=/@cache,defaults,noatime,compress=zstd,space_cache=v2,commit=120 0 0\<newline>\<newline># /dev/nvme0n1p2\<newline>UUID=8EFB-4B84                            /boot          vfat    defaults,noatime 0 2\<newline>\<newline>''
    "
  by code_simp

lemma test_fstab_basic_xfs:
  "generate_fstab_content [xfs_root_2, fat16_boot] =
    ''# Static information about the filesystems.\<newline># See fstab(5) for details.\<newline>\<newline># <file system> <dir> <type> <options> <dump> <pass>\<newline># /dev/nvme0n1p1\<newline>UUID=6bdb3301-8efb-4b84-b0b7-4caeef26fd6f /              xfs     defaults,lazytime,noatime,attr2,inode64,logbsize=256k,noquota 0 1\<newline>\<newline># /dev/nvme0n1p2\<newline>UUID=8EFB-4B84                            /boot          vfat    defaults,noatime 0 2\<newline>\<newline>''
    "
  by code_simp

lemma test_fstab_luks_xfs:
  "generate_fstab_content [luks_xfs_root, swap_part_2, vfat_boot] =
    ''# Static information about the filesystems.\<newline># See fstab(5) for details.\<newline>\<newline># <file system> <dir> <type> <options> <dump> <pass>\<newline># /dev/nvme0n1p1\<newline>/dev/mapper/luks_device                   /              xfs     defaults,lazytime,noatime,attr2,inode64,logbsize=256k,noquota 0 1\<newline>\<newline># /dev/nvme0n1p2\<newline>UUID=8EFB-4B84                            /boot          vfat    defaults,noatime 0 2\<newline>\<newline>''
    "
  by code_simp

lemma test_fstab_zfs:
  "generate_fstab_content [zfs_root, zfs_home, zfs_cache, vfat_boot] =
    ''# Static information about the filesystems.\<newline># See fstab(5) for details.\<newline>\<newline># <file system> <dir> <type> <options> <dump> <pass>\<newline># /dev/nvme0n1p2\<newline>UUID=8EFB-4B84                            /boot          vfat    defaults,noatime 0 2\<newline>\<newline>''
    "
  by code_simp

lemma test_fstab_luks_btrfs_with_subvolumes:
  "generate_fstab_content [luks_btrfs_root_subvol_2, luks_btrfs_home_subvol_2, luks_btrfs_cache_subvol_2, fat32_boot] =
    ''# Static information about the filesystems.\<newline># See fstab(5) for details.\<newline>\<newline># <file system> <dir> <type> <options> <dump> <pass>\<newline># /dev/nvme0n1p1\<newline>/dev/mapper/luks-6bdb3301-8efb-4b84-b0b7-4caeef26fd6f /              btrfs   subvol=/@,defaults,noatime,compress=zstd,space_cache=v2,commit=120 0 0\<newline>\<newline># /dev/nvme0n1p1\<newline>/dev/mapper/luks-6bdb3301-8efb-4b84-b0b7-4caeef26fd6f /home          btrfs   subvol=/@home,defaults,noatime,compress=zstd,space_cache=v2,commit=120 0 0\<newline>\<newline># /dev/nvme0n1p1\<newline>/dev/mapper/luks-6bdb3301-8efb-4b84-b0b7-4caeef26fd6f /var/cache     btrfs   subvol=/@cache,defaults,noatime,compress=zstd,space_cache=v2,commit=120 0 0\<newline>\<newline># /dev/nvme0n1p2\<newline>UUID=8EFB-4B84                            /boot          vfat    defaults,noatime 0 2\<newline>\<newline>''
    "
  by code_simp


subsection \<open>unit-crypttab_gen.cpp\<close>

lemma test_crypttab_btrfs_with_subvolumes:
  "generate_crypttab_content insertion_sort [btrfs_root_subvol, btrfs_home_subvol, btrfs_cache_subvol, fat32_boot_2] ''luks'' =
    ''# Configuration for encrypted block devices\<newline># See crypttab(5) for details.\<newline>\<newline># NOTE: Do not list your root (/) partition here, it must be set up\<newline>#       beforehand by the initramfs (/etc/mkinitcpio.conf).\<newline>\<newline># <name>       <device>                                     <password>              <options>\<newline>''
    "
  by code_simp

lemma test_crypttab_basic_xfs:
  "generate_crypttab_content insertion_sort [xfs_root_3, fat16_boot_2] ''luks'' =
    ''# Configuration for encrypted block devices\<newline># See crypttab(5) for details.\<newline>\<newline># NOTE: Do not list your root (/) partition here, it must be set up\<newline>#       beforehand by the initramfs (/etc/mkinitcpio.conf).\<newline>\<newline># <name>       <device>                                     <password>              <options>\<newline>''
    "
  by code_simp

lemma test_crypttab_luks_xfs:
  "generate_crypttab_content insertion_sort [luks_xfs_root_2, swap_part_2, vfat_boot] ''luks'' =
    ''# Configuration for encrypted block devices\<newline># See crypttab(5) for details.\<newline>\<newline># NOTE: Do not list your root (/) partition here, it must be set up\<newline>#       beforehand by the initramfs (/etc/mkinitcpio.conf).\<newline>\<newline># <name>       <device>                                     <password>              <options>\<newline>luks-6bdb3301-8efb-4b84-b0b7-4caeef26fd6f UUID=6bdb3301-8efb-4b84-b0b7-4caeef26fd6f     none\<newline>''
    "
  by code_simp

lemma test_crypttab_zfs:
  "generate_crypttab_content insertion_sort [zfs_root, zfs_home, zfs_cache, vfat_boot] ''luks'' =
    ''# Configuration for encrypted block devices\<newline># See crypttab(5) for details.\<newline>\<newline># NOTE: Do not list your root (/) partition here, it must be set up\<newline>#       beforehand by the initramfs (/etc/mkinitcpio.conf).\<newline>\<newline># <name>       <device>                                     <password>              <options>\<newline>''
    "
  by code_simp

lemma test_crypttab_luks_btrfs_with_subvolumes:
  "generate_crypttab_content insertion_sort [luks_btrfs_root_subvol_2, luks_btrfs_home_subvol_2, luks_btrfs_cache_subvol_2,
    fat32_boot] ''luks'' =
    ''# Configuration for encrypted block devices\<newline># See crypttab(5) for details.\<newline>\<newline># NOTE: Do not list your root (/) partition here, it must be set up\<newline>#       beforehand by the initramfs (/etc/mkinitcpio.conf).\<newline>\<newline># <name>       <device>                                     <password>              <options>\<newline>luks-6bdb3301-8efb-4b84-b0b7-4caeef26fd6f UUID=6bdb3301-8efb-4b84-b0b7-4caeef26fd6f     none\<newline>''
    "
  by code_simp

lemma test_crypttab_luks_btrfs_with_subvolumes_shuffled:
  "generate_crypttab_content insertion_sort [luks_btrfs_home_subvol_2, luks_btrfs_root_subvol_2, fat32_boot,
    luks_btrfs_cache_subvol_2] ''luks'' =
    ''# Configuration for encrypted block devices\<newline># See crypttab(5) for details.\<newline>\<newline># NOTE: Do not list your root (/) partition here, it must be set up\<newline>#       beforehand by the initramfs (/etc/mkinitcpio.conf).\<newline>\<newline># <name>       <device>                                     <password>              <options>\<newline>luks-6bdb3301-8efb-4b84-b0b7-4caeef26fd6f UUID=6bdb3301-8efb-4b84-b0b7-4caeef26fd6f     none\<newline>''
    "
  by code_simp


subsection \<open>unit-partitioning_gen.cpp\<close>

lemma test_partitioning_btrfs_with_subvolumes:
  "gen_sfdisk_command insertion_sort [btrfs_root_subvol, btrfs_home_subvol, btrfs_cache_subvol, fat32_boot_sized] True =
    ''label: gpt\<newline>type=U,size=2G,bootable\<newline>type=L\<newline>''"
  by code_simp

lemma test_partitioning_basic_xfs:
  "gen_sfdisk_command insertion_sort [xfs_root_2, fat16_boot_sized] True =
    ''label: gpt\<newline>type=U,size=2G,bootable\<newline>type=L\<newline>''"
  by code_simp

lemma test_partitioning_basic_xfs_bios:
  "gen_sfdisk_command insertion_sort [xfs_root_2, ext4_boot_sized] False =
    ''label: dos\<newline>type=L,size=2G\<newline>type=L\<newline>''"
  by code_simp

lemma test_partitioning_swap_xfs:
  "gen_sfdisk_command insertion_sort [luks_xfs_root, swap_part_sized, vfat_boot_sized] True =
    ''label: gpt\<newline>type=U,size=2G,bootable\<newline>type=S,size=16G\<newline>type=L\<newline>''"
  by code_simp

lemma test_partitioning_zfs:
  "gen_sfdisk_command insertion_sort [zfs_root, zfs_home, zfs_cache, vfat_boot_sized] True =
    ''label: gpt\<newline>type=U,size=2G,bootable\<newline>type=L\<newline>''"
  by code_simp

lemma test_partitioning_default_partition_schema:
  "gen_sfdisk_command insertion_sort (generate_default_partition_schema ''/dev/nvme0n1p'' ''/boot'' True) True =
    ''label: gpt\<newline>type=U,size=2GiB,bootable\<newline>type=L\<newline>''"
  by code_simp

lemma test_partitioning_default_partition_schema_bios:
  "gen_sfdisk_command insertion_sort (generate_default_partition_schema ''/dev/nvme0n1p'' ''/boot'' False) False =
    ''label: dos\<newline>type=L\<newline>''"
  by code_simp


subsection \<open>unit-btrfs.cpp\<close>

lemma test_btrfs_btrfs_with_subvolumes:
  "btrfs_append_subvolumes insertion_sort [btrfs_root, fat32_boot] test_subvols = Inr [btrfs_root_subvol, btrfs_home_subvol,
    btrfs_cache_subvol, fat32_boot]"
  by code_simp

lemma test_btrfs_invalid_btrfs_with_subvolumes:
  "is_error (btrfs_append_subvolumes insertion_sort [btrfs_home_subvol, btrfs_cache_subvol, fat32_boot] test_subvols)"
  by code_simp

lemma test_btrfs_invalid_without_root_part_btrfs_with_subvolumes:
  "is_error (btrfs_append_subvolumes insertion_sort [btrfs_home_subvol, btrfs_cache_subvol, fat32_boot] test_subvols)"
  by code_simp

lemma test_btrfs_btrfs_without_subvolumes:
  "btrfs_append_subvolumes insertion_sort [btrfs_root, fat32_boot] [] = Inr [btrfs_root, fat32_boot]"
  by code_simp

lemma test_btrfs_luks_xfs:
  "is_error (btrfs_append_subvolumes insertion_sort [luks_xfs_root, swap_part_2, vfat_boot] test_subvols)"
  by code_simp

lemma test_btrfs_valid_zfs:
  "is_error (btrfs_append_subvolumes insertion_sort [zfs_root, zfs_home, zfs_cache, vfat_boot] test_subvols)"
  by code_simp

lemma test_btrfs_luks_btrfs_with_subvolumes:
  "btrfs_append_subvolumes insertion_sort [luks_btrfs_root_subvol, fat32_boot] test_subvols = Inr [luks_btrfs_root_subvol,
    luks_btrfs_home_subvol, luks_btrfs_cache_subvol, fat32_boot]"
  by code_simp


subsection \<open>unit-refind_config_gen.cpp\<close>

lemma test_refind_btrfs_with_subvolumes:
  "gen_refind_config [''quiet'', ''splash'', ''rw'', ''rootflags=subvol=/@'', ''root=UUID=6bdb3301-8efb-4b84-b0b7-4caeef26fd6f''] =
    ''\"Boot with standard options\"    \"quiet splash rw rootflags=subvol=/@ root=UUID=6bdb3301-8efb-4b84-b0b7-4caeef26fd6f\"\<newline>\"Boot to single-user mode\"    \"quiet splash rw rootflags=subvol=/@ root=UUID=6bdb3301-8efb-4b84-b0b7-4caeef26fd6f\" single\<newline>''
    "
  by code_simp

lemma test_refind_basic_xfs:
  "gen_refind_config [''quiet'', ''splash'', ''rw'', ''root=UUID=6bdb3301-8efb-4b84-b0b7-4caeef26fd6f''] =
    ''\"Boot with standard options\"    \"quiet splash rw root=UUID=6bdb3301-8efb-4b84-b0b7-4caeef26fd6f\"\<newline>\"Boot to single-user mode\"    \"quiet splash rw root=UUID=6bdb3301-8efb-4b84-b0b7-4caeef26fd6f\" single\<newline>''
    "
  by code_simp

lemma test_refind_swap_xfs:
  "gen_refind_config [''quiet'', ''splash'', ''rw'', ''root=UUID=6bdb3301-8efb-4b84-b0b7-4caeef26fd6f'',
    ''resume=UUID=59848b1b-c6be-48f4-b3e1-48179ea72dec''] =
    ''\"Boot with standard options\"    \"quiet splash rw root=UUID=6bdb3301-8efb-4b84-b0b7-4caeef26fd6f resume=UUID=59848b1b-c6be-48f4-b3e1-48179ea72dec\"\<newline>\"Boot to single-user mode\"    \"quiet splash rw root=UUID=6bdb3301-8efb-4b84-b0b7-4caeef26fd6f resume=UUID=59848b1b-c6be-48f4-b3e1-48179ea72dec\" single\<newline>''
    "
  by code_simp

lemma test_refind_luks_xfs:
  "gen_refind_config [''quiet'', ''splash'', ''rw'', ''cryptdevice=UUID=00e1b836-81b6-433f-83ca-0fd373e3cd50:luks_device'',
    ''root=/dev/mapper/luks_device''] =
    ''\"Boot with standard options\"    \"quiet splash rw cryptdevice=UUID=00e1b836-81b6-433f-83ca-0fd373e3cd50:luks_device root=/dev/mapper/luks_device\"\<newline>\"Boot to single-user mode\"    \"quiet splash rw cryptdevice=UUID=00e1b836-81b6-433f-83ca-0fd373e3cd50:luks_device root=/dev/mapper/luks_device\" single\<newline>''
    "
  by code_simp

lemma test_refind_luks_swap_xfs:
  "gen_refind_config [''quiet'', ''splash'', ''rw'', ''cryptdevice=UUID=00e1b836-81b6-433f-83ca-0fd373e3cd50:luks_device'',
    ''root=/dev/mapper/luks_device'', ''resume=/dev/mapper/luks_swap_device''] =
    ''\"Boot with standard options\"    \"quiet splash rw cryptdevice=UUID=00e1b836-81b6-433f-83ca-0fd373e3cd50:luks_device root=/dev/mapper/luks_device resume=/dev/mapper/luks_swap_device\"\<newline>\"Boot to single-user mode\"    \"quiet splash rw cryptdevice=UUID=00e1b836-81b6-433f-83ca-0fd373e3cd50:luks_device root=/dev/mapper/luks_device resume=/dev/mapper/luks_swap_device\" single\<newline>''
    "
  by code_simp

lemma test_refind_valid_zfs:
  "gen_refind_config [''quiet'', ''splash'', ''rw'', ''root=ZFS=zpcachyos/ROOT'', ''root=UUID=6bdb3301-8efb-4b84-b0b7-4caeef26fd6f'']
    =
    ''\"Boot with standard options\"    \"quiet splash rw root=ZFS=zpcachyos/ROOT root=UUID=6bdb3301-8efb-4b84-b0b7-4caeef26fd6f\"\<newline>\"Boot to single-user mode\"    \"quiet splash rw root=ZFS=zpcachyos/ROOT root=UUID=6bdb3301-8efb-4b84-b0b7-4caeef26fd6f\" single\<newline>''
    "
  by code_simp

lemma test_refind_luks_btrfs_with_subvolumes:
  "gen_refind_config [''quiet'', ''splash'', ''rw'', ''rootflags=subvol=/@'',
    ''cryptdevice=UUID=6bdb3301-8efb-4b84-b0b7-4caeef26fd6f:luks-6bdb3301-8efb-4b84-b0b7-4caeef26fd6f'',
    ''root=/dev/mapper/luks-6bdb3301-8efb-4b84-b0b7-4caeef26fd6f''] =
    ''\"Boot with standard options\"    \"quiet splash rw rootflags=subvol=/@ cryptdevice=UUID=6bdb3301-8efb-4b84-b0b7-4caeef26fd6f:luks-6bdb3301-8efb-4b84-b0b7-4caeef26fd6f root=/dev/mapper/luks-6bdb3301-8efb-4b84-b0b7-4caeef26fd6f\"\<newline>\"Boot to single-user mode\"    \"quiet splash rw rootflags=subvol=/@ cryptdevice=UUID=6bdb3301-8efb-4b84-b0b7-4caeef26fd6f:luks-6bdb3301-8efb-4b84-b0b7-4caeef26fd6f root=/dev/mapper/luks-6bdb3301-8efb-4b84-b0b7-4caeef26fd6f\" single\<newline>''
    "
  by code_simp


subsection \<open>unit-limine_config_gen.cpp\<close>

lemma test_limine_btrfs_with_subvolumes:
  "gen_limine_config [''quiet'', ''splash'', ''rw'', ''rootflags=subvol=/@'', ''root=UUID=6bdb3301-8efb-4b84-b0b7-4caeef26fd6f''] =
    ''KERNEL_CMDLINE[default]=\"quiet splash rw rootflags=subvol=/@ root=UUID=6bdb3301-8efb-4b84-b0b7-4caeef26fd6f\"\<newline>''"
  by code_simp

lemma test_limine_basic_xfs:
  "gen_limine_config [''quiet'', ''splash'', ''rw'', ''root=UUID=6bdb3301-8efb-4b84-b0b7-4caeef26fd6f''] =
    ''KERNEL_CMDLINE[default]=\"quiet splash rw root=UUID=6bdb3301-8efb-4b84-b0b7-4caeef26fd6f\"\<newline>''"
  by code_simp

lemma test_limine_swap_xfs:
  "gen_limine_config [''quiet'', ''splash'', ''rw'', ''root=UUID=6bdb3301-8efb-4b84-b0b7-4caeef26fd6f'',
    ''resume=UUID=59848b1b-c6be-48f4-b3e1-48179ea72dec''] =
    ''KERNEL_CMDLINE[default]=\"quiet splash rw root=UUID=6bdb3301-8efb-4b84-b0b7-4caeef26fd6f resume=UUID=59848b1b-c6be-48f4-b3e1-48179ea72dec\"\<newline>''
    "
  by code_simp

lemma test_limine_luks_xfs:
  "gen_limine_config [''quiet'', ''splash'', ''rw'', ''cryptdevice=UUID=00e1b836-81b6-433f-83ca-0fd373e3cd50:luks_device'',
    ''root=/dev/mapper/luks_device''] =
    ''KERNEL_CMDLINE[default]=\"quiet splash rw cryptdevice=UUID=00e1b836-81b6-433f-83ca-0fd373e3cd50:luks_device root=/dev/mapper/luks_device\"\<newline>''
    "
  by code_simp

lemma test_limine_luks_swap_xfs:
  "gen_limine_config [''quiet'', ''splash'', ''rw'', ''cryptdevice=UUID=00e1b836-81b6-433f-83ca-0fd373e3cd50:luks_device'',
    ''root=/dev/mapper/luks_device'', ''resume=/dev/mapper/luks_swap_device''] =
    ''KERNEL_CMDLINE[default]=\"quiet splash rw cryptdevice=UUID=00e1b836-81b6-433f-83ca-0fd373e3cd50:luks_device root=/dev/mapper/luks_device resume=/dev/mapper/luks_swap_device\"\<newline>''
    "
  by code_simp

lemma test_limine_valid_zfs:
  "gen_limine_config [''quiet'', ''splash'', ''rw'', ''root=ZFS=zpcachyos/ROOT'', ''root=UUID=6bdb3301-8efb-4b84-b0b7-4caeef26fd6f'']
    = ''KERNEL_CMDLINE[default]=\"quiet splash rw root=ZFS=zpcachyos/ROOT root=UUID=6bdb3301-8efb-4b84-b0b7-4caeef26fd6f\"\<newline>''"
  by code_simp

lemma test_limine_luks_btrfs_with_subvolumes:
  "gen_limine_config [''quiet'', ''splash'', ''rw'', ''rootflags=subvol=/@'',
    ''cryptdevice=UUID=6bdb3301-8efb-4b84-b0b7-4caeef26fd6f:luks-6bdb3301-8efb-4b84-b0b7-4caeef26fd6f'',
    ''root=/dev/mapper/luks-6bdb3301-8efb-4b84-b0b7-4caeef26fd6f''] =
    ''KERNEL_CMDLINE[default]=\"quiet splash rw rootflags=subvol=/@ cryptdevice=UUID=6bdb3301-8efb-4b84-b0b7-4caeef26fd6f:luks-6bdb3301-8efb-4b84-b0b7-4caeef26fd6f root=/dev/mapper/luks-6bdb3301-8efb-4b84-b0b7-4caeef26fd6f\"\<newline>''
    "
  by code_simp

subsection \<open>unit-initcpio.cpp, unit-pacmanconf.cpp, unit-locale.cpp\<close>

definition MKINITCPIO_STR :: string where
  "MKINITCPIO_STR =
     ''\<newline>'' @
     ''# MODULES\<newline>'' @
     ''MODULES=()\<newline>'' @
     ''\<newline>'' @
     ''# BINARIES\<newline>'' @
     ''BINARIES=()\<newline>'' @
     ''\<newline>'' @
     ''# FILES\<newline>'' @
     ''FILES=()\<newline>'' @
     ''\<newline>'' @
     ''# HOOKS\<newline>'' @
     ''HOOKS=(base udev autodetect modconf block filesystems keyboard fsck)\<newline>''"

definition MKINITCPIO_TEST :: string where
  "MKINITCPIO_TEST =
     ''\<newline>'' @
     ''# MODULES\<newline>'' @
     ''MODULES=(radeon crc32c-intel)\<newline>'' @
     ''\<newline>'' @
     ''# BINARIES\<newline>'' @
     ''BINARIES=()\<newline>'' @
     ''\<newline>'' @
     ''# FILES\<newline>'' @
     ''FILES=()\<newline>'' @
     ''\<newline>'' @
     ''# HOOKS\<newline>'' @
     ''HOOKS=(base udev autodetect modconf block filesystems keyboard fsck btrfs usr lvm2 zfs)\<newline>''"

definition MKINITCPIO_INVALID_TEST :: string where
  "MKINITCPIO_INVALID_TEST =
     ''\<newline>'' @
     ''# MODULES\<newline>'' @
     ''MODULES=()\<newline>'' @
     ''\<newline>'' @
     '' (\<newline>'' @
     ''# BINARIES\<newline>'' @
     ''BINARIES=()\<newline>'' @
     '')\<newline>'' @
     ''# FILES\<newline>'' @
     ''FILES=()\<newline>'' @
     ''()\<newline>'' @
     ''# HOOKS\<newline>'' @
     ''HOOKS=(base udev autodetect modconf block filesystems keyboard fsck\<newline>'' @
     ''\<newline>''"

definition PACMANCONF_STR :: string where
  "PACMANCONF_STR =
     ''\<newline>'' @
     ''[options]\<newline>'' @
     ''HoldPkg     = pacman glibc\<newline>'' @
     ''Architecture = auto\<newline>'' @
     ''\<newline>'' @
     ''# Misc options\<newline>'' @
     ''Color\<newline>'' @
     ''CheckSpace\<newline>'' @
     ''VerbosePkgLists\<newline>'' @
     ''ParallelDownloads = 10\<newline>'' @
     ''\<newline>'' @
     ''# Repository entries are of the format:\<newline>'' @
     ''#       [repo-name]\<newline>'' @
     ''#       Server = ServerName\<newline>'' @
     ''#       Include = IncludePath\<newline>'' @
     ''#\<newline>'' @
     ''# The header [repo-name] is crucial - it must be present and\<newline>'' @
     ''# uncommented to enable the repo.\<newline>'' @
     ''#\<newline>'' @
     ''\<newline>'' @
     ''# The testing repositories are disabled by default. To enable, uncomment the\<newline>'' @
     ''# repo name header and Include lines. You can add preferred servers immediately\<newline>'' @
     ''# after the header, and they will be used before the default mirrors.\<newline>'' @
     ''\<newline>'' @
     ''#[testing]\<newline>'' @
     ''#Include = /etc/pacman.d/mirrorlist\<newline>'' @
     ''\<newline>'' @
     ''#[core-debug]\<newline>'' @
     ''#Include = /etc/pacman.d/mirrorlist\<newline>'' @
     ''\<newline>'' @
     ''#[extra-debug]\<newline>'' @
     ''#Include = /etc/pacman.d/mirrorlist\<newline>'' @
     ''\<newline>'' @
     ''[core]\<newline>'' @
     ''Include = /etc/pacman.d/mirrorlist\<newline>'' @
     ''\<newline>'' @
     ''[extra]\<newline>'' @
     ''Include = /etc/pacman.d/mirrorlist\<newline>'' @
     ''\<newline>'' @
     ''#[community-testing]\<newline>'' @
     ''#Include = /etc/pacman.d/mirrorlist\<newline>'' @
     ''\<newline>'' @
     ''[community]\<newline>'' @
     ''Include = /etc/pacman.d/mirrorlist\<newline>'' @
     ''\<newline>'' @
     ''#[multilib-testing]\<newline>'' @
     ''#Include = /etc/pacman.d/mirrorlist\<newline>'' @
     ''\<newline>'' @
     ''[multilib]\<newline>'' @
     ''Include = /etc/pacman.d/mirrorlist\<newline>''"

lemma test_initcpio_parse:
  "(case fst (run_state (parse_file quiet_env (new_initcpio ''/tmp/mkinitcpio.conf'')) (world_of [(''/tmp/mkinitcpio.conf'',
    MKINITCPIO_STR)])) of (b, i) \<Rightarrow> b \<and> ic_hooks i = [''base'', ''udev'', ''autodetect'', ''modconf'', ''block'',
    ''filesystems'', ''keyboard'', ''fsck''] \<and> ic_modules i = [] \<and> ic_files i = [])"
  by code_simp

lemma test_initcpio_insert:
  "(case run_state (do { (a, i) \<leftarrow> append_module quiet_env ''radeon'' (new_initcpio ''/tmp/mkinitcpio.conf''); (b, i)
    \<leftarrow> append_hook quiet_env ''btrfs'' i; (c, i) \<leftarrow> append_module quiet_env ''crc32c-intel'' i; (d, i)
    \<leftarrow> append_hooks quiet_env [''usr'', ''lvm2'', ''zfs''] i; e \<leftarrow> write_initcpio quiet_env i; ret (a \<and> b
    \<and> c \<and> d \<and> e) }) (world_of [(''/tmp/mkinitcpio.conf'', MKINITCPIO_STR)]) of (ok, w) \<Rightarrow> ok \<and> files
    (host w) ''/tmp/mkinitcpio.conf'' = Some MKINITCPIO_TEST)"
  by code_simp

lemma test_initcpio_invalid:
  "(case fst (run_state (parse_file quiet_env (new_initcpio ''/tmp/mkinitcpio.conf'')) (world_of [(''/tmp/mkinitcpio.conf'',
    MKINITCPIO_INVALID_TEST)])) of (b, i) \<Rightarrow> b \<and> ic_hooks i = [] \<and> ic_modules i = [] \<and> ic_files i = [])"
  by code_simp

lemma test_initcpio_empty:
  "\<not> fst (fst (run_state (parse_file quiet_env (new_initcpio ''/tmp/mkinitcpio.conf'')) (world_of [(''/tmp/mkinitcpio.conf'', ''''
    )])))"
  by code_simp

lemma test_initcpio_equal_items:
  "fst (run_state (do { (p, i) \<leftarrow> parse_file quiet_env (new_initcpio ''/tmp/mkinitcpio.conf''); (a, i) \<leftarrow>
    append_module quiet_env ''radeon'' i; (b, i) \<leftarrow> append_hook quiet_env ''btrfs'' i; (c, i) \<leftarrow> append_module
    quiet_env ''crc32c-intel'' i; (d, i) \<leftarrow> insert_hooks quiet_env ''btrfs'' [''usr'', ''lvm2'', ''zfs''] i; e \<leftarrow>
    write_initcpio quiet_env i; ret (p, a, b, c, d, e) }) (world_of [(''/tmp/mkinitcpio.conf'', MKINITCPIO_TEST)])) = (True, False,
    False, False, False, True)"
  by code_simp

lemma test_pacmanconf_repos:
  "fst (run_state (get_repo_list ''/tmp/pacman.conf'') (world_of [(''/tmp/pacman.conf'', PACMANCONF_STR)])) = [''[core]'', ''[extra]''
    , ''[community]'', ''[multilib]'']"
  by code_simp

lemma test_locale_conf:
  "locale_config_text ''ru_RU.UTF-8'' =
    ''LANG=\"ru_RU.UTF-8\"\<newline>LC_NUMERIC=\"ru_RU.UTF-8\"\<newline>LC_TIME=\"ru_RU.UTF-8\"\<newline>LC_MONETARY=\"ru_RU.UTF-8\"\<newline>LC_PAPER=\"ru_RU.UTF-8\"\<newline>LC_NAME=\"ru_RU.UTF-8\"\<newline>LC_ADDRESS=\"ru_RU.UTF-8\"\<newline>LC_TELEPHONE=\"ru_RU.UTF-8\"\<newline>LC_MEASUREMENT=\"ru_RU.UTF-8\"\<newline>LC_IDENTIFICATION=\"ru_RU.UTF-8\"\<newline>LC_MESSAGES=\"ru_RU.UTF-8\"\<newline>''
    "
  by code_simp

end
