(* ===== verification/Spec2Isabelle.thy ===== *)
theory Spec2Isabelle
  imports
    Partitioning Mtab Fstab Crypttab Initcpio Kernel_Params Bootloader Btrfs Shell_Words Zfs Luks Accounts
    System_Setup Cpu Repos Packages Block_Devices Config Installer Settings Install_Base Boot_Setup
    Dialog Advance Advance_Library Advance_Installer Disk Tui_Disks Crypto Tui_Mount
    Tui_Setup Tui_Boot Tui_Edit Tui_Raid Tui_Zfs Tui_Menus Simple_Tui Program Subprocess Processes Widgets
    Unit_Tests
begin

text \<open>
  A verification development for the CachyOS command line installer.

  The program.  The directory \<^verbatim>\<open>gucc\<close> is a library of operations on the machine that is being
  installed; \<^verbatim>\<open>src\<close> is the installer on top of it, which keeps its settings in one table, asks the user or reads
  \<^verbatim>\<open>settings.json\<close>, and calls the library.  Nearly every operation builds the text of a shell command or of a
  configuration file, runs or writes it and reports whether that succeeded.  The development is about these texts, about the order of
  the requests, about when an operation stops, and about the parsers that read such texts back.

  The world (\<open>World\<close>).  Foreign programs and the kernel are the parameter \<open>sysenv\<close>: one function per kind of request.  A
  \<open>world\<close> has the host (its files, and the rest of the machine at an arbitrary type), the answers the user is going to give, the
  trace of the requests made and of the screens shown, and whether the process still runs; an exception that leaves a
  \<^verbatim>\<open>noexcept\<close> function, a dereferenced end iterator and an access out of range end it, and a process that asks when there is no
  answer left waits.
  A process that has stopped does nothing, so the properties of a run are about a process that is running at its start.
  Operations are values of the state monad over worlds, those of the installer over worlds and the table of settings (\<open>Config\<close>).
  The field \<open>ndevenv\<close> of the environment is the preprocessor symbol \<^verbatim>\<open>NDEVENV\<close>, which separates the real
  installer from the one that only logs.

  The theories, in the order of their imports.
    \<open>Prelude\<close>: searches in lists and strings, number texts, and the contracts of sorting as locales.
    \<open>String_Utils\<close>: \<^verbatim>\<open>string_utils.cpp\<close> and \<^verbatim>\<open>string_utils.hpp\<close>.
    \<open>World\<close>: \<^verbatim>\<open>io_utils.cpp\<close>, \<^verbatim>\<open>file_utils.cpp\<close> and the effects on the host.
    \<open>Plan\<close>: the contract that most operations share, a fixed sequence of requests that stops at the first failure; a
      \<open>plan\<close> is the abstract specification, the locale \<open>planned_op\<close> says that an operation implements one.
    \<open>Partitioning\<close>, \<open>Mtab\<close>, \<open>Fstab\<close>, \<open>Crypttab\<close>, \<open>Initcpio\<close>,
    \<open>Kernel_Params\<close>, \<open>Bootloader\<close>, \<open>Btrfs\<close>, \<open>Zfs\<close>, \<open>Luks\<close>,
    \<open>Accounts\<close>, \<open>System_Setup\<close>, \<open>Cpu\<close>, \<open>Repos\<close>, \<open>Packages\<close>,
    \<open>Block_Devices\<close>: the files of \<^verbatim>\<open>gucc/src\<close> with these names.
    \<open>Conf_Refinement\<close>: the edits of the initial ram disk configuration as a refinement of edits of its lists.
    \<open>Shell_Words\<close>: how a shell splits a command into words, for the properties about glued words.
    \<open>Config\<close>: \<^verbatim>\<open>src/config.cpp\<close> and the helpers of \<^verbatim>\<open>src/utils.hpp\<close>.
    \<open>Installer\<close>, \<open>Settings\<close>, \<open>Storage_Hooks\<close>, \<open>Install_Base\<close>, \<open>Boot_Setup\<close>:
      \<^verbatim>\<open>src/utils.cpp\<close>, and \<^verbatim>\<open>src/kernel_params.cpp\<close>.
    \<open>Dialog\<close>: \<^verbatim>\<open>src/widgets.cpp\<close>, as what a widget gives back, and the loops that ask until the answer will do.
    \<open>Advance\<close>: the invariant of all operations, and the operations that only ask; \<open>Advance_Library\<close> and
      \<open>Advance_Installer\<close> prove it for the operations of the theories before them.
    \<open>Disk\<close>: \<^verbatim>\<open>src/disk.cpp\<close>; \<open>Crypto\<close>: \<^verbatim>\<open>src/crypto.cpp\<close>;
    \<open>Tui_Edit\<close>: \<^verbatim>\<open>src/misc.cpp\<close> and \<^verbatim>\<open>src/drivers.cpp\<close>.
    \<open>Tui_Disks\<close>, \<open>Tui_Mount\<close>, \<open>Tui_Setup\<close>, \<open>Tui_Boot\<close>, \<open>Tui_Raid\<close>,
    \<open>Tui_Zfs\<close>, \<open>Tui_Menus\<close>: the screens of \<^verbatim>\<open>src/tui.cpp\<close>.
    \<open>Simple_Tui\<close>: \<^verbatim>\<open>src/simple_tui.cpp\<close>, and the start of the screens.
    \<open>Program\<close>: \<^verbatim>\<open>src/main.cpp\<close>, the composition of everything above, and what the whole program keeps.
    \<open>Subprocess\<close>: \<^verbatim>\<open>src/subprocess.h\<close>, \<^verbatim>\<open>exec_follow\<close> and the screen that follows a command, as a machine of
      two threads and a command with all their interleavings; what is behind the request \<open>Follow\<close>.
    \<open>Processes\<close>: the overload of \<^verbatim>\<open>exec\<close> in \<^verbatim>\<open>io_utils.cpp\<close> that forks, as what each process does next.
    \<open>Widgets\<close>: \<^verbatim>\<open>src/widgets.cpp\<close>, the components of every widget, what they draw and offer, and that the dialogues
      of \<open>Dialog\<close> are what they give back.
    \<open>Unit_Tests\<close>: the sections of \<^verbatim>\<open>gucc/tests\<close> evaluated on the model.

  The lemmas.  For an operation that is a sequence of requests there is its plan, and from the interpretation of \<open>planned_op\<close>
  follows which requests have been made after success and after failure, in which order: a plan of commands succeeds exactly when all
  its steps do, and the last request after a failure is the step that failed (\<open>failed_at\<close>, \<open>commands_outcome\<close>).  For an editing operation of the
  initial ram disk configuration the locale \<open>initcpio_edit\<close> gives what the file holds afterwards.  The parsers have round trips
  with the printers.  Every operation only advances the world: the trace grows, the answers are used up from the front, and a process
  that has stopped changes nothing.  An operation that \<open>needs_user\<close> does not come to its end when no answer is left.  Where the code is wrong the property says what it does do, with a concrete run as witness.

  Bounds and termination.  Sizes of block devices are taken modulo 2 to the 64 and the registers of the processor are 32 bit words.
  The loop that replaces a text is a partial function, whose domain is stated; the loop that waits for the network has a measure.
  A loop that asks the user has as many rounds as there are answers, and one more: each round uses an answer, which is the law of
  the locale \<open>dialogue\<close>, and \<open>repeat_dialog_step\<close> in it shows that the bound is never met and the loop is the one of the
  source.  The same holds for the function that calls itself to ask for the root password again (\<open>root_password_recursion\<close>).

  Parameters.  The order in which \<^verbatim>\<open>std::ranges::sort\<close> leaves equal elements is open: a property holds for every function
  that satisfies \<open>sort_contract\<close>, or, where it says so, for every stable one.  The parsers of JSON and TOML, the HTTP client, the
  growth of a vector, what is left in a string that was moved away and the loop of a screen are parameters too.

  Not modelled.  How ftxui draws and handles keys; logging and the summary printed at the end; the parts of the process library that nothing
  calls; helpers that compute with floating point numbers, and the two functions of the simple
  installation that use them, which nothing calls.
\<close>

end
